(* ===== verification/Flake_Prelude.thy ===== *)
theory Flake_Prelude
  imports Complex_Main "HOL-Library.Word"
begin

text \<open>
  Shared vocabulary of the development: the theorem collections, the C++ integer and
  container idioms the components use (\<open>std::clamp\<close>, truncating division,
  \<open>std::find_if\<close>, \<open>std::erase_if\<close>, \<open>vector::erase\<close> of one iterator), and the generic
  lemmas about them.
\<close>

unbundle bit_operations_syntax

named_theorems frame_simps \<open>which fields an operation leaves alone\<close>
named_theorems op_defs \<open>definitions of the operations of a component\<close>

section \<open>Integers\<close>

text \<open>C++ integer division truncates towards zero.\<close>

definition cdiv :: "int \<Rightarrow> int \<Rightarrow> int" where
  "cdiv a b = (if 0 \<le> a then a div b else - ((- a) div b))"

text \<open>\<open>std::clamp\<close>: the upper bound is tested after the lower one.\<close>

definition cclamp :: "'a::linorder \<Rightarrow> 'a \<Rightarrow> 'a \<Rightarrow> 'a" where
  "cclamp v lo hi = (if v < lo then lo else if hi < v then hi else v)"

text \<open>Conversion of a \<open>double\<close> to \<open>int\<close> drops the fraction (towards zero).\<close>

definition ctrunc :: "real \<Rightarrow> int" where
  "ctrunc r = (if 0 \<le> r then \<lfloor>r\<rfloor> else \<lceil>r\<rceil>)"

text \<open>\<open>std::lround\<close> rounds halves away from zero.\<close>

definition clround :: "real \<Rightarrow> int" where
  "clround r = (if 0 \<le> r then \<lfloor>r + 1 / 2\<rfloor> else \<lceil>r - 1 / 2\<rceil>)"

section \<open>Containers\<close>

text \<open>\<open>vector::erase\<close> of the iterator that \<open>std::find_if\<close> returned.\<close>

fun erase_first :: "('a \<Rightarrow> bool) \<Rightarrow> 'a list \<Rightarrow> 'a list" where
  "erase_first P [] = []"
| "erase_first P (x # xs) = (if P x then xs else x # erase_first P xs)"

text \<open>\<open>std::erase_if\<close>.\<close>

definition erase_if :: "('a \<Rightarrow> bool) \<Rightarrow> 'a list \<Rightarrow> 'a list" where
  "erase_if P xs = filter (\<lambda>x. \<not> P x) xs"

text \<open>\<open>std::any_of\<close> over a vector.\<close>

definition any_of :: "('a \<Rightarrow> bool) \<Rightarrow> 'a list \<Rightarrow> bool" where
  "any_of P xs = list_ex P xs"

text \<open>Assignment through the iterator that \<open>std::find_if\<close> returned.\<close>

fun update_first :: "('a \<Rightarrow> bool) \<Rightarrow> ('a \<Rightarrow> 'a) \<Rightarrow> 'a list \<Rightarrow> 'a list" where
  "update_first P f [] = []"
| "update_first P f (y # ys) = (if P y then f y # ys else y # update_first P f ys)"

section \<open>Lemmas\<close>

lemma cdiv_half_bounds: "0 \<le> a \<Longrightarrow> 0 \<le> cdiv a 2 \<and> cdiv a 2 \<le> a"
  by (simp add: cdiv_def)

lemma cdiv_half_le: "0 \<le> a \<Longrightarrow> 2 * cdiv a 2 \<le> a"
  unfolding cdiv_def by presburger

lemma cclamp_bounds [intro]: "lo \<le> hi \<Longrightarrow> lo \<le> cclamp v lo hi \<and> cclamp v lo hi \<le> hi"
  by (auto simp: cclamp_def)

lemma cclamp_id [simp]: "lo \<le> v \<Longrightarrow> v \<le> hi \<Longrightarrow> cclamp v lo hi = v"
  by (auto simp: cclamp_def)

lemma cclamp_max_min: "lo \<le> hi \<Longrightarrow> cclamp v lo hi = max lo (min v hi)"
  by (auto simp: cclamp_def max_def min_def)

lemma ctrunc_of_int [simp]: "ctrunc (of_int n) = n"
  by (simp add: ctrunc_def)

lemma clround_of_int [simp]: "clround (of_int n) = n"
  by (simp add: clround_def) linarith

lemma clround_mono: "a \<le> b \<Longrightarrow> clround a \<le> clround b"
  by (auto simp: clround_def floor_mono ceiling_mono) linarith

lemma dropWhile_Cons_shorter:
  "y # ys = dropWhile P xs \<Longrightarrow> length ys < length xs"
  using length_dropWhile_le [of P xs] by (metis Suc_le_eq length_Cons)

lemma set_erase_first_subset: "set (erase_first P xs) \<subseteq> set xs"
  by (induction xs) auto

lemma distinct_erase_first: "distinct (map f xs) \<Longrightarrow> distinct (map f (erase_first P xs))"
  by (induction xs) (auto dest: subsetD [OF set_erase_first_subset])

lemma erase_first_append_fresh:
  "\<forall>x \<in> set xs. \<not> P x \<Longrightarrow> P y \<Longrightarrow> erase_first P (xs @ [y]) = xs"
  by (induction xs) auto

lemma erase_first_filter:
  "distinct (map f xs) \<Longrightarrow> erase_first (\<lambda>x. f x = k) xs = filter (\<lambda>x. f x \<noteq> k) xs"
proof (induction xs)
  case (Cons a xs)
  have "f a = k \<Longrightarrow> filter (\<lambda>x. f x \<noteq> k) xs = xs"
    using Cons.prems by (intro filter_True) (auto simp: image_iff)
  with Cons show ?case by auto
qed simp

lemma set_erase_if [simp]: "set (erase_if P xs) = {x \<in> set xs. \<not> P x}"
  by (simp add: erase_if_def)

lemma distinct_erase_if: "distinct (map f xs) \<Longrightarrow> distinct (map f (erase_if P xs))"
  by (simp add: erase_if_def distinct_map_filter)

lemma any_of_iff [simp]: "any_of P xs \<longleftrightarrow> (\<exists>x \<in> set xs. P x)"
  by (simp add: any_of_def list_ex_iff)

lemma find_SomeD: "find P xs = Some x \<Longrightarrow> x \<in> set xs \<and> P x"
  by (auto simp: find_Some_iff)

lemma find_NoneD: "find P xs = None \<Longrightarrow> x \<in> set xs \<Longrightarrow> \<not> P x"
  by (auto simp: find_None_iff)

lemma find_cong_on: "(\<And>x. x \<in> set xs \<Longrightarrow> P x = Q x) \<Longrightarrow> find P xs = find Q xs"
  by (induction xs) auto

lemma find_unique:
  assumes "x \<in> set xs" "P x" "\<And>y. y \<in> set xs \<Longrightarrow> P y \<Longrightarrow> y = x"
  shows "find P xs = Some x"
proof (cases "find P xs")
  case None
  with assms(1,2) show ?thesis using find_NoneD by fast
next
  case (Some y)
  then have "y \<in> set xs" "P y" using find_SomeD by fast+
  then have "y = x" by (rule assms(3))
  with Some show ?thesis by simp
qed

end
