(* ===== verification/Key_Bindings.thy ===== *)
theory Key_Bindings
  imports Flake_Prelude
begin

text \<open>
  The keyboard shortcut table of the compositor: \<open>src/src/input/key_binding_manager.{h,cc}\<close>.
  The theory models the textual shortcut format (\<open>ParseShortcut\<close>, \<open>BuildShortcut\<close>), the
  table (\<open>Register\<close>, \<open>Update\<close>, \<open>Unregister\<close>, the block counters) and the key event
  handler with its pairing of presses and releases and its key grab.

  The xkbcommon lookups the code calls are the parameter \<open>xkb\<close>. A \<open>std::function\<close> is an
  identifier, \<open>None\<close> the empty one; what the manager calls back is returned as a list of
  effects, in order. The callbacks are taken not to re-enter the manager.
\<close>

section \<open>Data\<close>

type_synonym keysym = "32 word"
type_synonym binding_id = "64 word"

datatype KeyBindingType =
    kCustom | kWindowSwitch | kWindowMinimize | kWindowMaximize | kWindowClose
  | kWindowMenu | kCount

fun type_index :: "KeyBindingType \<Rightarrow> nat" where
  "type_index kCustom = 0"
| "type_index kWindowSwitch = 1"
| "type_index kWindowMinimize = 2"
| "type_index kWindowMaximize = 3"
| "type_index kWindowClose = 4"
| "type_index kWindowMenu = 5"
| "type_index kCount = 6"

text \<open>xkbcommon: names to keysyms, lower-casing, keysyms to names (\<open>None\<close>: no name).\<close>

record xkb =
  keysym_from_name :: "string \<Rightarrow> keysym"
  keysym_to_lower :: "keysym \<Rightarrow> keysym"
  keysym_get_name :: "keysym \<Rightarrow> string option"

record ParsedShortcut =
  ps_modifiers :: "32 word"
  ps_keysym :: keysym
  ps_no_repeat :: bool

record Binding =
  b_id :: binding_id
  b_parsed :: ParsedShortcut
  b_type :: KeyBindingType
  b_action :: nat
  b_shortcut :: string
  b_description :: string

record BindingInfo =
  bi_id :: binding_id
  bi_type :: KeyBindingType
  bi_shortcut :: string
  bi_description :: string

record ActiveKey =
  ak_keyboard :: nat
  ak_keycode :: "32 word"
  ak_binding_id :: binding_id

record KeyBindingManager =
  bindings :: "Binding list"
  active_keys :: "ActiveKey list"
  type_block_counts :: "64 word list"
  next_id :: binding_id
  block_count :: "64 word"
  capture_callback :: "nat option"
  captured_keyboard :: "nat option"
  captured_keycode :: "32 word"
  captured_shortcut :: string

definition empty_manager :: KeyBindingManager where
  "empty_manager = \<lparr>bindings = [], active_keys = [], type_block_counts = replicate 6 0,
     next_id = 1, block_count = 0, capture_callback = None, captured_keyboard = None,
     captured_keycode = 0, captured_shortcut = []\<rparr>"

text \<open>A keyboard as the handler reads it: its identity, whether it has an xkb state, the
  keysyms the state gives for an xkb key code, and the active modifier mask.\<close>

record keyboard =
  kbd_id :: nat
  kbd_has_state :: bool
  kbd_syms :: "32 word \<Rightarrow> keysym list"
  kbd_modifiers :: "32 word"

datatype key_state = KeyReleased | KeyPressed | KeyRepeated

record key_event =
  ev_keycode :: "32 word"
  ev_state :: key_state

datatype kb_effect = RunAction nat | CaptureCallback nat bool string

section \<open>Modifiers, keysyms and strings\<close>

definition WLR_MODIFIER_SHIFT :: "32 word" where "WLR_MODIFIER_SHIFT = 1"
definition WLR_MODIFIER_CAPS :: "32 word" where "WLR_MODIFIER_CAPS = 2"
definition WLR_MODIFIER_CTRL :: "32 word" where "WLR_MODIFIER_CTRL = 4"
definition WLR_MODIFIER_ALT :: "32 word" where "WLR_MODIFIER_ALT = 8"
definition WLR_MODIFIER_MOD2 :: "32 word" where "WLR_MODIFIER_MOD2 = 16"
definition WLR_MODIFIER_MOD3 :: "32 word" where "WLR_MODIFIER_MOD3 = 32"
definition WLR_MODIFIER_LOGO :: "32 word" where "WLR_MODIFIER_LOGO = 64"
definition WLR_MODIFIER_MOD5 :: "32 word" where "WLR_MODIFIER_MOD5 = 128"

lemmas modifier_defs =
  WLR_MODIFIER_SHIFT_def WLR_MODIFIER_CAPS_def WLR_MODIFIER_CTRL_def WLR_MODIFIER_ALT_def
  WLR_MODIFIER_MOD2_def WLR_MODIFIER_MOD3_def WLR_MODIFIER_LOGO_def WLR_MODIFIER_MOD5_def

definition XKB_KEY_NoSymbol :: keysym where "XKB_KEY_NoSymbol = 0"
definition XKB_KEY_Tab :: keysym where "XKB_KEY_Tab = 0xff09"
definition XKB_KEY_ISO_Left_Tab :: keysym where "XKB_KEY_ISO_Left_Tab = 0xfe20"

text \<open>\<open>std::isspace\<close> and \<open>std::tolower\<close> on a byte.\<close>

definition is_space :: "char \<Rightarrow> bool" where
  "is_space c = (let n = (of_char c :: nat) in n = 32 \<or> (9 \<le> n \<and> n \<le> 13))"

definition to_lower :: "char \<Rightarrow> nat" where
  "to_lower c = (let n = of_char c in if 65 \<le> n \<and> n \<le> 90 then n + 32 else n)"

definition Trim :: "string \<Rightarrow> string" where
  "Trim value = rev (dropWhile is_space (rev (dropWhile is_space value)))"

definition EqualsIgnoringCase :: "string \<Rightarrow> string \<Rightarrow> bool" where
  "EqualsIgnoringCase left right =
     (length left = length right \<and> list_all2 (\<lambda>l r. to_lower l = to_lower r) left right)"

definition kModifiers :: "(string \<times> 32 word) list" where
  "kModifiers =
     [(''shift'', WLR_MODIFIER_SHIFT), (''caps'', WLR_MODIFIER_CAPS),
      (''lock'', WLR_MODIFIER_CAPS), (''ctrl'', WLR_MODIFIER_CTRL),
      (''control'', WLR_MODIFIER_CTRL), (''alt'', WLR_MODIFIER_ALT),
      (''mod1'', WLR_MODIFIER_ALT), (''num'', WLR_MODIFIER_MOD2),
      (''mod2'', WLR_MODIFIER_MOD2), (''mod3'', WLR_MODIFIER_MOD3),
      (''win'', WLR_MODIFIER_LOGO), (''logo'', WLR_MODIFIER_LOGO),
      (''super'', WLR_MODIFIER_LOGO), (''meta'', WLR_MODIFIER_LOGO),
      (''mod4'', WLR_MODIFIER_LOGO), (''mod5'', WLR_MODIFIER_MOD5),
      (''iso_level3_shift'', WLR_MODIFIER_MOD5)]"

definition ModifierForName :: "string \<Rightarrow> (32 word) option" where
  "ModifierForName name =
     map_option snd (find (\<lambda>m. EqualsIgnoringCase name (fst m)) kModifiers)"

text \<open>\<open>string_view::rfind\<close> of one character.\<close>

fun rfind_char :: "char \<Rightarrow> string \<Rightarrow> nat option" where
  "rfind_char c [] = None"
| "rfind_char c (x # xs) =
     (case rfind_char c xs of
        Some i \<Rightarrow> Some (Suc i)
      | None \<Rightarrow> if x = c then Some 0 else None)"

section \<open>Parsing and printing shortcuts\<close>

text \<open>One non-empty part: a modifier name, or the name of the key.\<close>

definition parse_part :: "xkb \<Rightarrow> string \<Rightarrow> ParsedShortcut \<Rightarrow> ParsedShortcut option" where
  "parse_part x part parsed =
     (case ModifierForName part of
        Some modifier \<Rightarrow>
          if ps_modifiers parsed AND modifier \<noteq> 0 then None
          else Some (parsed\<lparr>ps_modifiers := ps_modifiers parsed OR modifier\<rparr>)
      | None \<Rightarrow>
          if ps_keysym parsed \<noteq> XKB_KEY_NoSymbol then None
          else (let k = keysym_to_lower x (keysym_from_name x part)
                in if k = XKB_KEY_NoSymbol then None else Some (parsed\<lparr>ps_keysym := k\<rparr>)))"

text \<open>
  The loop of \<open>ParseShortcut\<close> over the parts between \<open>'+'\<close> signs. \<open>rest\<close> is
  \<open>binding.substr(start)\<close>; the part ends at the next \<open>'+'\<close> or at the end (\<open>npos\<close>).
\<close>

function parse_parts :: "xkb \<Rightarrow> string \<Rightarrow> ParsedShortcut \<Rightarrow> ParsedShortcut option" where
  "parse_parts x rest parsed =
     (let part = Trim (takeWhile (\<lambda>c. c \<noteq> CHR ''+'') rest);
          separator = dropWhile (\<lambda>c. c \<noteq> CHR ''+'') rest
      in if part = [] then
           (case separator of [] \<Rightarrow> None | _ # rest' \<Rightarrow> parse_parts x rest' parsed)
         else
           (case parse_part x part parsed of
              None \<Rightarrow> None
            | Some parsed' \<Rightarrow>
                (case separator of [] \<Rightarrow> Some parsed'
                 | _ # rest' \<Rightarrow> parse_parts x rest' parsed')))"
  by pat_completeness auto
termination
  by (relation "measure (\<lambda>(x, rest, parsed). length rest)") (auto dest: dropWhile_Cons_shorter)

declare parse_parts.simps [simp del]

definition ParseShortcut :: "xkb \<Rightarrow> string \<Rightarrow> ParsedShortcut option" where
  "ParseShortcut x shortcut =
     (let binding0 = Trim shortcut;
          suffix = rfind_char (CHR '':'') binding0
      in case (case suffix of
                 None \<Rightarrow> Some (False, binding0)
               | Some i \<Rightarrow>
                   if \<not> EqualsIgnoringCase (Trim (drop (Suc i) binding0)) ''no'' then None
                   else Some (True, Trim (take i binding0))) of
           None \<Rightarrow> None
         | Some (no_repeat, binding) \<Rightarrow>
             if binding = [] then None
             else (case parse_parts x binding
                     \<lparr>ps_modifiers = 0, ps_keysym = XKB_KEY_NoSymbol, ps_no_repeat = no_repeat\<rparr> of
                     None \<Rightarrow> None
                   | Some parsed \<Rightarrow>
                       if ps_keysym parsed = XKB_KEY_NoSymbol then None else Some parsed))"

definition IsModifierKeysym :: "keysym \<Rightarrow> bool" where
  "IsModifierKeysym keysym = (keysym \<in>
     {0xffe1, 0xffe2, 0xffe3, 0xffe4, 0xffe9, 0xffea, 0xffeb, 0xffec, 0xffe7, 0xffe8,
      0xffe5, 0xff7f})"

definition kModifierNames :: "(32 word \<times> string) list" where
  "kModifierNames =
     [(WLR_MODIFIER_SHIFT, ''Shift''), (WLR_MODIFIER_CAPS, ''Caps''),
      (WLR_MODIFIER_CTRL, ''Ctrl''), (WLR_MODIFIER_ALT, ''Alt''),
      (WLR_MODIFIER_MOD2, ''Mod2''), (WLR_MODIFIER_MOD3, ''Mod3''),
      (WLR_MODIFIER_LOGO, ''Win''), (WLR_MODIFIER_MOD5, ''Mod5'')]"

text \<open>The loop of \<open>BuildShortcut\<close> over the modifier table.\<close>

fun build_modifiers :: "32 word \<Rightarrow> (32 word \<times> string) list \<Rightarrow> string \<Rightarrow> string" where
  "build_modifiers mods [] shortcut = shortcut"
| "build_modifiers mods ((modifier, name) # rest) shortcut =
     (if mods AND modifier = 0 then build_modifiers mods rest shortcut
      else build_modifiers mods rest
             ((if shortcut \<noteq> [] then shortcut @ ''+'' else shortcut) @ name))"

definition BuildShortcut :: "xkb \<Rightarrow> ParsedShortcut \<Rightarrow> string" where
  "BuildShortcut x captured =
     (let shortcut = build_modifiers (ps_modifiers captured) kModifierNames []
      in case keysym_get_name x (keysym_to_lower x (ps_keysym captured)) of
           None \<Rightarrow> []
         | Some keysym_name \<Rightarrow>
             (if shortcut \<noteq> [] then shortcut @ ''+'' else shortcut) @ keysym_name)"

section \<open>The table\<close>

definition same_keys :: "ParsedShortcut \<Rightarrow> ParsedShortcut \<Rightarrow> bool" where
  "same_keys p q = (ps_keysym p = ps_keysym q \<and> ps_modifiers p = ps_modifiers q)"

definition Register ::
  "xkb \<Rightarrow> KeyBindingManager \<Rightarrow> string \<Rightarrow> KeyBindingType \<Rightarrow> nat option \<Rightarrow> string \<Rightarrow>
     binding_id option \<times> KeyBindingManager" where
  "Register x m shortcut type action description =
     (case (ParseShortcut x shortcut, action) of
        (Some parsed, Some act) \<Rightarrow>
          if length (type_block_counts m) \<le> type_index type then (None, m)
          else if any_of (\<lambda>binding. same_keys (b_parsed binding) parsed) (bindings m)
          then (None, m)
          else (Some (next_id m),
                m\<lparr>next_id := next_id m + 1,
                  bindings := bindings m @
                    [\<lparr>b_id = next_id m, b_parsed = parsed, b_type = type, b_action = act,
                      b_shortcut = shortcut, b_description = description\<rparr>]\<rparr>)
      | _ \<Rightarrow> (None, m))"

definition Update ::
  "xkb \<Rightarrow> KeyBindingManager \<Rightarrow> binding_id \<Rightarrow> string \<Rightarrow> string \<Rightarrow> bool \<times> KeyBindingManager" where
  "Update x m bid shortcut description =
     (case ParseShortcut x shortcut of
        None \<Rightarrow> (False, m)
      | Some parsed \<Rightarrow>
          if find (\<lambda>item. b_id item = bid) (bindings m) = None then (False, m)
          else if any_of (\<lambda>item. b_id item \<noteq> bid \<and> same_keys (b_parsed item) parsed) (bindings m)
          then (False, m)
          else (True, m\<lparr>bindings := update_first (\<lambda>item. b_id item = bid)
                  (\<lambda>b. b\<lparr>b_parsed := parsed, b_shortcut := shortcut,
                         b_description := description\<rparr>) (bindings m)\<rparr>))"

definition Unregister :: "KeyBindingManager \<Rightarrow> binding_id \<Rightarrow> bool \<times> KeyBindingManager" where
  "Unregister m bid =
     (let rest = erase_if (\<lambda>binding. b_id binding = bid) (bindings m)
      in (length rest \<noteq> length (bindings m), m\<lparr>bindings := rest\<rparr>))"

definition Bindings :: "KeyBindingManager \<Rightarrow> BindingInfo list" where
  "Bindings m = map (\<lambda>b. \<lparr>bi_id = b_id b, bi_type = b_type b, bi_shortcut = b_shortcut b,
                          bi_description = b_description b\<rparr>) (bindings m)"

fun TypeName :: "KeyBindingType \<Rightarrow> string option" where
  "TypeName kCustom = Some ''WLCOM_CUSTOM_DEF''"
| "TypeName kWindowSwitch = Some ''WLCOM_WINDOW_SWITCHER''"
| "TypeName kWindowMinimize = Some ''WLCOM_WINDOW_ACTION_MINIMIZE''"
| "TypeName kWindowMaximize = Some ''WLCOM_WINDOW_ACTION_MAXIMIZE''"
| "TypeName kWindowClose = Some ''WLCOM_WINDOW_ACTION_CLOSE''"
| "TypeName kWindowMenu = Some ''WLCOM_WINDOW_ACTION_MENU''"
| "TypeName kCount = None"

definition GrabNextKey :: "KeyBindingManager \<Rightarrow> nat option \<Rightarrow> KeyBindingManager" where
  "GrabNextKey m callback = m\<lparr>capture_callback := callback, captured_keyboard := None,
     captured_keycode := 0, captured_shortcut := []\<rparr>"

definition CancelGrab :: "KeyBindingManager \<Rightarrow> KeyBindingManager" where
  "CancelGrab m = m\<lparr>capture_callback := None, captured_keyboard := None,
     captured_keycode := 0, captured_shortcut := []\<rparr>"

definition IsGrabbingKey :: "KeyBindingManager \<Rightarrow> bool" where
  "IsGrabbingKey m = (capture_callback m \<noteq> None)"

definition BlockAll :: "KeyBindingManager \<Rightarrow> bool \<Rightarrow> KeyBindingManager" where
  "BlockAll m blocked =
     (if blocked then m\<lparr>block_count := block_count m + 1\<rparr>
      else if block_count m > 0 then m\<lparr>block_count := block_count m - 1\<rparr>
      else m)"

definition BlockType :: "KeyBindingManager \<Rightarrow> KeyBindingType \<Rightarrow> bool \<Rightarrow> KeyBindingManager" where
  "BlockType m type blocked =
     (let index = type_index type; counts = type_block_counts m
      in if length counts \<le> index then m
         else if blocked then m\<lparr>type_block_counts := counts[index := counts ! index + 1]\<rparr>
         else if counts ! index > 0
         then m\<lparr>type_block_counts := counts[index := counts ! index - 1]\<rparr>
         else m)"

definition IsTypeBlocked :: "KeyBindingManager \<Rightarrow> KeyBindingType \<Rightarrow> bool" where
  "IsTypeBlocked m type =
     (length (type_block_counts m) \<le> type_index type \<or>
      type_block_counts m ! type_index type > 0)"

definition ModifiersMatch :: "32 word \<Rightarrow> 32 word \<Rightarrow> bool" where
  "ModifiersMatch active required =
     (let ignored = (WLR_MODIFIER_CAPS OR WLR_MODIFIER_MOD2) AND NOT required
      in active AND NOT ignored = required)"

section \<open>Key events\<close>

definition HandleCapturedKey ::
  "xkb \<Rightarrow> KeyBindingManager \<Rightarrow> keyboard \<Rightarrow> key_event \<Rightarrow>
     bool \<times> KeyBindingManager \<times> kb_effect list" where
  "HandleCapturedKey x m kb event =
     (case kbd_syms kb (ev_keycode event + 8) of
        [] \<Rightarrow> (True, m, [])
      | ks # _ \<Rightarrow>
          let keysym = keysym_to_lower x ks
          in if ev_state event = KeyPressed then
               (if IsModifierKeysym keysym \<or> captured_keyboard m \<noteq> None then (True, m, [])
                else let shortcut = BuildShortcut x \<lparr>ps_modifiers = kbd_modifiers kb,
                                      ps_keysym = keysym, ps_no_repeat = False\<rparr>
                     in if shortcut = [] then (True, m, [])
                        else (True,
                              m\<lparr>captured_keyboard := Some (kbd_id kb),
                                captured_keycode := ev_keycode event,
                                captured_shortcut := shortcut\<rparr>,
                              (case capture_callback m of
                                 None \<Rightarrow> [] | Some cb \<Rightarrow> [CaptureCallback cb True shortcut])))
             else if ev_state event = KeyReleased \<and> captured_keyboard m = Some (kbd_id kb) \<and>
                     captured_keycode m = ev_keycode event
             then (True, CancelGrab m,
                   (case capture_callback m of
                      None \<Rightarrow> []
                    | Some cb \<Rightarrow> [CaptureCallback cb False (captured_shortcut m)]))
             else (True, m, []))"

definition is_active_key :: "keyboard \<Rightarrow> key_event \<Rightarrow> ActiveKey \<Rightarrow> bool" where
  "is_active_key kb event key =
     (ak_keyboard key = kbd_id kb \<and> ak_keycode key = ev_keycode event)"

text \<open>The keysym a pressed key is looked up with, and the lookup in the table.\<close>

definition lookup_keysym :: "xkb \<Rightarrow> keysym \<Rightarrow> keysym" where
  "lookup_keysym x ks =
     (if ks = XKB_KEY_ISO_Left_Tab then XKB_KEY_Tab else keysym_to_lower x ks)"

definition find_binding ::
  "KeyBindingManager \<Rightarrow> 32 word \<Rightarrow> keysym \<Rightarrow> Binding option" where
  "find_binding m modifiers keysym =
     find (\<lambda>item. \<not> IsTypeBlocked m (b_type item) \<and> ps_keysym (b_parsed item) = keysym \<and>
                  ModifiersMatch modifiers (ps_modifiers (b_parsed item))) (bindings m)"

fun press_syms ::
  "xkb \<Rightarrow> KeyBindingManager \<Rightarrow> keyboard \<Rightarrow> key_event \<Rightarrow> keysym list \<Rightarrow>
     bool \<times> KeyBindingManager \<times> kb_effect list" where
  "press_syms x m kb event [] = (False, m, [])"
| "press_syms x m kb event (ks # kss) =
     (case find_binding m (kbd_modifiers kb) (lookup_keysym x ks) of
        None \<Rightarrow> press_syms x m kb event kss
      | Some binding \<Rightarrow>
          (True,
           m\<lparr>active_keys := active_keys m @
               [\<lparr>ak_keyboard = kbd_id kb, ak_keycode = ev_keycode event,
                 ak_binding_id = b_id binding\<rparr>]\<rparr>,
           [RunAction (b_action binding)]))"

definition HandleKey ::
  "xkb \<Rightarrow> KeyBindingManager \<Rightarrow> keyboard option \<Rightarrow> key_event \<Rightarrow> bool \<Rightarrow>
     bool \<times> KeyBindingManager \<times> kb_effect list" where
  "HandleKey x m keyboard event inhibited =
     (case keyboard of
        None \<Rightarrow> (False, m, [])
      | Some kb \<Rightarrow>
          if \<not> kbd_has_state kb then (False, m, [])
          else let active = find (is_active_key kb event) (active_keys m)
          in case ev_state event of
               KeyReleased \<Rightarrow>
                 (case active of
                    Some _ \<Rightarrow>
                      (True, m\<lparr>active_keys :=
                                 erase_first (is_active_key kb event) (active_keys m)\<rparr>, [])
                  | None \<Rightarrow>
                      if IsGrabbingKey m then HandleCapturedKey x m kb event
                      else (False, m, []))
             | KeyRepeated \<Rightarrow> (False, m, [])
             | KeyPressed \<Rightarrow>
                 if IsGrabbingKey m then HandleCapturedKey x m kb event
                 else (case active of
                    Some key \<Rightarrow>
                      (True, m,
                       (case find (\<lambda>item. b_id item = ak_binding_id key) (bindings m) of
                          Some binding \<Rightarrow>
                            if \<not> ps_no_repeat (b_parsed binding) \<and> \<not> inhibited \<and>
                               block_count m = 0 \<and> \<not> IsTypeBlocked m (b_type binding)
                            then [RunAction (b_action binding)] else []
                        | None \<Rightarrow> []))
                  | None \<Rightarrow>
                      if inhibited \<or> block_count m > 0 then (False, m, [])
                      else press_syms x m kb event (kbd_syms kb (ev_keycode event + 8))))"

definition ForgetKeyboard :: "KeyBindingManager \<Rightarrow> nat option \<Rightarrow> KeyBindingManager" where
  "ForgetKeyboard m keyboard =
     (let m' = m\<lparr>active_keys := erase_if (\<lambda>key. Some (ak_keyboard key) = keyboard) (active_keys m)\<rparr>
      in if captured_keyboard m' = keyboard then CancelGrab m' else m')"

end
