(* ===== verification/Shortcut_Syntax.thy ===== *)
theory Shortcut_Syntax
  imports Key_Bindings
begin

text \<open>
  The concrete syntax of shortcuts: the character-level loop of \<open>ParseShortcut\<close> agrees with a
  part-by-part reading (\<open>parse_list\<close>) of a string that was joined with \<open>'+'\<close>, the printer
  \<open>BuildShortcut\<close> produces such strings, and therefore parsing what was printed gives back the
  captured chord.
\<close>

section \<open>Parse / build\<close>

fun join_plus :: "string list \<Rightarrow> string" where
  "join_plus [] = []"
| "join_plus [p] = p"
| "join_plus (p # q # ps) = p @ CHR ''+'' # join_plus (q # ps)"

fun parse_list :: "xkb \<Rightarrow> string list \<Rightarrow> ParsedShortcut \<Rightarrow> ParsedShortcut option" where
  "parse_list x [] p = Some p"
| "parse_list x (s # ss) p = (case parse_part x s p of None \<Rightarrow> None | Some p' \<Rightarrow> parse_list x ss p')"

definition plain_part :: "string \<Rightarrow> bool" where
  "plain_part s \<longleftrightarrow> s \<noteq> [] \<and> (\<forall>c \<in> set s. c \<noteq> CHR ''+'' \<and> c \<noteq> CHR '':'' \<and> \<not> is_space c)"

lemma dropWhile_none: "\<forall>c \<in> set s. \<not> P c \<Longrightarrow> dropWhile P s = s"
  by (cases s) auto

lemma Trim_no_space: "\<forall>c \<in> set s. \<not> is_space c \<Longrightarrow> Trim s = s"
  by (simp add: Trim_def dropWhile_none)

lemma parse_parts_join:
  "ps \<noteq> [] \<Longrightarrow> \<forall>s \<in> set ps. plain_part s \<Longrightarrow> parse_parts x (join_plus ps) p = parse_list x ps p"
proof (induction ps arbitrary: p rule: join_plus.induct)
  case (2 q)
  then have tw: "takeWhile (\<lambda>c. c \<noteq> CHR ''+'') q = q"
    and dw: "dropWhile (\<lambda>c. c \<noteq> CHR ''+'') q = []" and tr: "Trim q = q" "q \<noteq> []"
    by (auto simp: plain_part_def Trim_no_space takeWhile_eq_all_conv)
  show ?case by (subst parse_parts.simps) (simp add: Let_def tw dw tr split: option.split)
next
  case (3 q r qs)
  have tw: "takeWhile (\<lambda>c. c \<noteq> CHR ''+'') (q @ CHR ''+'' # w) = q" for w
    using 3 by (subst takeWhile_append2) (auto simp: plain_part_def)
  have dw: "dropWhile (\<lambda>c. c \<noteq> CHR ''+'') (q @ CHR ''+'' # w) = CHR ''+'' # w" for w
    using 3 by (subst dropWhile_append2) (auto simp: plain_part_def)
  have "Trim q = q" "q \<noteq> []" using 3 by (auto simp: plain_part_def Trim_no_space)
  then show ?case using 3 tw dw by (subst parse_parts.simps) (simp add: Let_def split: option.split)
qed simp

definition selected_names :: "32 word \<Rightarrow> (32 word \<times> string) list \<Rightarrow> string list" where
  "selected_names mods tab = map snd (filter (\<lambda>e. mods AND fst e \<noteq> 0) tab)"

lemma join_plus_append: 
  "join_plus (ps @ qs) = (if ps = [] then join_plus qs else if qs = [] then join_plus ps 
     else join_plus ps @ CHR ''+'' # join_plus qs)"
  by (induction ps rule: join_plus.induct) (auto simp: neq_Nil_conv)

lemma join_plus_nonempty: "ps \<noteq> [] \<Longrightarrow> \<forall>s \<in> set ps. s \<noteq> [] \<Longrightarrow> join_plus ps \<noteq> []"
  by (induction ps rule: join_plus.induct) auto

lemma build_modifiers_join:
  "\<forall>s \<in> set ss. s \<noteq> [] \<Longrightarrow> \<forall>e \<in> set tab. snd e \<noteq> [] \<Longrightarrow>
   build_modifiers mods tab (join_plus ss) = join_plus (ss @ selected_names mods tab)"
proof (induction tab arbitrary: ss)
  case (Cons e tab)
  obtain m n where e: "e = (m, n)" by fastforce
  have step: "(if join_plus ss \<noteq> [] then join_plus ss @ ''+'' else join_plus ss) @ n = join_plus (ss @ [n])"
    using Cons.prems join_plus_nonempty [of ss] by (auto simp: join_plus_append)
  have "build_modifiers mods tab (join_plus (ss @ [n])) = join_plus ((ss @ [n]) @ selected_names mods tab)"
    using Cons.prems e by (intro Cons.IH) auto
  then show ?case using Cons step by (auto simp: e selected_names_def)
qed (simp add: selected_names_def)

fun or_all :: "(32 word) list \<Rightarrow> 32 word" where
  "or_all [] = 0"
| "or_all (m # ms) = m OR or_all ms"

lemma parse_list_append: 
  "parse_list x (ss @ ts) p = Option.bind (parse_list x ss p) (parse_list x ts)"
  by (induction ss arbitrary: p) (auto split: option.split)

fun disjoint_masks :: "32 word \<Rightarrow> (32 word) list \<Rightarrow> bool" where
  "disjoint_masks acc [] = True"
| "disjoint_masks acc (m # ms) = (acc AND m = 0 \<and> disjoint_masks (acc OR m) ms)"

lemma parse_list_modifiers:
  "\<forall>e \<in> set tab. ModifierForName (snd e) = Some (fst e) \<Longrightarrow> disjoint_masks (ps_modifiers p) (map fst tab) \<Longrightarrow>
   parse_list x (map snd tab) p = Some (p\<lparr>ps_modifiers := ps_modifiers p OR or_all (map fst tab)\<rparr>)"
  by (induction tab arbitrary: p) (auto simp: parse_part_def or.assoc)

lemma single_bit_and: "(mods::32 word) AND (2^i) = (if mods AND (2^i) = 0 then 0 else 2^i)"
  by (rule bit_word_eqI) (auto simp: and_exp_eq_0_iff_not_bit bit_simps)

lemma masks_bits: "(1::32 word) = 2^0" "(2::32 word) = 2^1" "(4::32 word) = 2^2" "(8::32 word) = 2^3" 
  "(16::32 word) = 2^4" "(32::32 word) = 2^5" "(64::32 word) = 2^6" "(128::32 word) = 2^7"
  by simp_all

lemma or_all_append: "or_all (ms @ ns) = or_all ms OR or_all ns"
  by (induction ms) (auto simp: or.assoc)

lemma or_all_selected: 
  "\<forall>m \<in> set ms. \<exists>i. m = 2^i \<Longrightarrow> or_all (filter (\<lambda>m. mods AND m \<noteq> 0) ms) = mods AND or_all ms"
proof (induction ms)
  case (Cons m ms)
  then obtain i where "m = 2^i" by auto
  then show ?case using Cons single_bit_and [of mods i] by (auto simp: bit.conj_disj_distrib)
qed simp

lemma kModifierNames_ok: "\<forall>e \<in> set kModifierNames. ModifierForName (snd e) = Some (fst e) \<and> plain_part (snd e)"
  by (simp add: kModifierNames_def) code_simp

lemma kModifierNames_masks: "or_all (map fst kModifierNames) = 255"
  by (simp add: kModifierNames_def modifier_defs)

lemma kModifierNames_bits: "\<forall>m \<in> set (map fst kModifierNames). \<exists>i. m = 2^i"
  by (simp add: kModifierNames_def modifier_defs) (metis masks_bits)

lemma mask_sub_and: "acc' AND acc = acc' \<Longrightarrow> acc AND m = 0 \<Longrightarrow> acc' AND m = (0::32 word)"
  by (metis and.assoc and_zero_eq)

lemma mask_sub_or: "acc' AND acc = acc' \<Longrightarrow> (acc' OR m) AND (acc OR m) = acc' OR (m::32 word)"
  by (auto simp: bit_eq_iff bit_simps)

lemma mask_sub_or2: "acc' AND acc = acc' \<Longrightarrow> acc' AND (acc OR m) = (acc'::32 word)"
  by (auto simp: bit_eq_iff bit_simps)

lemma disjoint_masks_filter:
  "disjoint_masks acc ms \<Longrightarrow> acc' AND acc = acc' \<Longrightarrow> disjoint_masks acc' (filter P ms)"
  by (induction ms arbitrary: acc acc') (auto simp: mask_sub_and mask_sub_or mask_sub_or2)

lemma kModifierNames_disjoint: "disjoint_masks 0 (map fst kModifierNames)"
  by (simp add: kModifierNames_def modifier_defs)

lemma rfind_char_None: "c \<notin> set s \<Longrightarrow> rfind_char c s = None"
  by (induction s) auto

lemma set_join_plus: "set (join_plus ps) \<subseteq> insert (CHR ''+'') (\<Union> (set ` set ps))"
  by (induction ps rule: join_plus.induct) auto

lemma join_plus_plain:
  assumes "\<forall>s \<in> set ps. plain_part s" "c \<in> set (join_plus ps)"
  shows "c \<noteq> CHR '':'' \<and> \<not> is_space c"
proof -
  have "\<not> is_space (CHR ''+'')" by code_simp
  moreover have "c = CHR ''+'' \<or> (\<exists>s \<in> set ps. c \<in> set s)"
    using set_join_plus [of ps] assms(2) by blast
  ultimately show ?thesis using assms(1) by (auto simp: plain_part_def)
qed

lemma ParseShortcut_join:
  assumes "ps \<noteq> []" "\<forall>s \<in> set ps. plain_part s"
  shows "ParseShortcut x (join_plus ps) =
     (case parse_list x ps \<lparr>ps_modifiers = 0, ps_keysym = XKB_KEY_NoSymbol, ps_no_repeat = False\<rparr> of
        None \<Rightarrow> None | Some p \<Rightarrow> if ps_keysym p = XKB_KEY_NoSymbol then None else Some p)"
proof -
  have "Trim (join_plus ps) = join_plus ps" using join_plus_plain [OF assms(2)] by (simp add: Trim_no_space)
  moreover have "rfind_char (CHR '':'') (join_plus ps) = None" 
    using join_plus_plain [OF assms(2)] by (intro rfind_char_None) blast
  moreover have "join_plus ps \<noteq> []" using assms by (intro join_plus_nonempty) (auto simp: plain_part_def)
  ultimately show ?thesis by (simp add: ParseShortcut_def parse_parts_join [OF assms])
qed

definition printable_key :: "xkb \<Rightarrow> keysym \<Rightarrow> string \<Rightarrow> bool" where
  "printable_key x k name \<longleftrightarrow> keysym_get_name x k = Some name \<and> plain_part name \<and>
     ModifierForName name = None \<and> keysym_to_lower x (keysym_from_name x name) = k \<and>
     k \<noteq> XKB_KEY_NoSymbol"

lemma parse_build:
  assumes "printable_key x (keysym_to_lower x (ps_keysym p)) name"
  shows "ParseShortcut x (BuildShortcut x p) = 
    Some \<lparr>ps_modifiers = ps_modifiers p AND 255, ps_keysym = keysym_to_lower x (ps_keysym p), ps_no_repeat = False\<rparr>"
proof -
  let ?tab = "filter (\<lambda>e. ps_modifiers p AND fst e \<noteq> 0) kModifierNames"
  let ?p0 = "\<lparr>ps_modifiers = 0, ps_keysym = XKB_KEY_NoSymbol, ps_no_repeat = False\<rparr>"
  have names: "selected_names (ps_modifiers p) kModifierNames = map snd ?tab" by (simp add: selected_names_def)
  have "build_modifiers (ps_modifiers p) kModifierNames [] = join_plus (map snd ?tab)"
    using build_modifiers_join [of "[]" kModifierNames] kModifierNames_ok names by (auto simp: plain_part_def)
  then have build: "BuildShortcut x p = join_plus (map snd ?tab @ [name])"
    using assms kModifierNames_ok join_plus_nonempty [of "map snd ?tab"]
    by (auto simp: BuildShortcut_def printable_key_def join_plus_append plain_part_def)
  have plain: "\<forall>s \<in> set (map snd ?tab @ [name]). plain_part s"
    using kModifierNames_ok assms by (auto simp: printable_key_def)
  have "map fst ?tab = filter (\<lambda>m. ps_modifiers p AND m \<noteq> 0) (map fst kModifierNames)"
    by (simp add: filter_map o_def)
  then have "or_all (map fst ?tab) = ps_modifiers p AND 255" "disjoint_masks 0 (map fst ?tab)"
    using or_all_selected [OF kModifierNames_bits] kModifierNames_masks
      disjoint_masks_filter [OF kModifierNames_disjoint] by auto
  then have "parse_list x (map snd ?tab) ?p0 = Some (?p0\<lparr>ps_modifiers := ps_modifiers p AND 255\<rparr>)"
    using parse_list_modifiers [of ?tab ?p0 x] kModifierNames_ok by auto
  moreover have "parse_part x name (?p0\<lparr>ps_modifiers := ps_modifiers p AND 255\<rparr>) = 
     Some \<lparr>ps_modifiers = ps_modifiers p AND 255, ps_keysym = keysym_to_lower x (ps_keysym p), ps_no_repeat = False\<rparr>"
    using assms by (auto simp: parse_part_def printable_key_def Let_def)
  ultimately show ?thesis
    using assms ParseShortcut_join [OF _ plain] by (simp add: build parse_list_append printable_key_def)
qed

lemma rfind_char_snoc: "c \<notin> set ys \<Longrightarrow> rfind_char c (xs @ c # ys) = Some (length xs)"
proof -
  assume "c \<notin> set ys"
  then have "rfind_char c (c # ys) = Some 0" using rfind_char_None by auto
  then show ?thesis by (induction xs) auto
qed

lemma ParseShortcut_no_repeat:
  assumes "ps \<noteq> []" "\<forall>s \<in> set ps. plain_part s"
  shows "ParseShortcut x (join_plus ps @ '':no'') =
     (case parse_list x ps \<lparr>ps_modifiers = 0, ps_keysym = XKB_KEY_NoSymbol, ps_no_repeat = True\<rparr> of
        None \<Rightarrow> None | Some p \<Rightarrow> if ps_keysym p = XKB_KEY_NoSymbol then None else Some p)"
proof -
  have nosp: "\<not> is_space (CHR '':'')" "\<not> is_space (CHR ''n'')" "\<not> is_space (CHR ''o'')" by code_simp+
  have "Trim (join_plus ps @ '':no'') = join_plus ps @ '':no''" "Trim (join_plus ps) = join_plus ps"
    using join_plus_plain [OF assms(2)] nosp by (auto intro!: Trim_no_space)
  moreover have "rfind_char (CHR '':'') (join_plus ps @ '':no'') = Some (length (join_plus ps))"
    by (rule rfind_char_snoc) simp
  moreover have "join_plus ps \<noteq> []" using assms by (intro join_plus_nonempty) (auto simp: plain_part_def)
  moreover have "Trim ''no'' = ''no''" "EqualsIgnoringCase ''no'' ''no''" by code_simp+
  ultimately show ?thesis by (simp add: ParseShortcut_def parse_parts_join [OF assms])
qed

section \<open>A sample keysym database\<close>

text \<open>A concrete instance of the xkb parameter: the few keysyms the sample runs use, with the
  values and names libxkbcommon gives them.\<close>

definition sample_names :: "(string \<times> keysym) list" where
  "sample_names = [(''Tab'', 0xff09), (''ISO_Left_Tab'', 0xfe20), (''S'', 0x53), (''A'', 0x41),
     (''s'', 0x73), (''a'', 0x61), (''F3'', 0xffc0), (''F4'', 0xffc1), (''F9'', 0xffc6),
     (''F10'', 0xffc7)]"

definition sample_xkb :: xkb where
  "sample_xkb = \<lparr>keysym_from_name = (\<lambda>name. case map_of sample_names name of None \<Rightarrow> 0 | Some k \<Rightarrow> k),
     keysym_to_lower = (\<lambda>k. if 0x41 \<le> k \<and> k \<le> 0x5a then k + 0x20 else k),
     keysym_get_name = (\<lambda>k. map_option fst (find (\<lambda>e. snd e = k) sample_names))\<rparr>"

section \<open>The round trip\<close>



end
