(* ===== verification/Key_Binding_Laws.thy ===== *)
theory Key_Binding_Laws
  imports Shortcut_Syntax
begin

text \<open>
  What the key binding manager promises: its table and session invariant under every sequence of
  operations, which key events reach the clients, when an action runs, and how the capture of one
  chord proceeds. The interface \<open>shortcut_registry\<close> states what a client that registers a list of
  shortcuts relies on; it is interpreted on the manager itself.
\<close>

definition key_of :: "Binding \<Rightarrow> keysym \<times> 32 word" where
  "key_of b = (ps_keysym (b_parsed b), ps_modifiers (b_parsed b))"

definition active_id :: "ActiveKey \<Rightarrow> nat \<times> 32 word" where
  "active_id k = (ak_keyboard k, ak_keycode k)"

definition kb_inv :: "xkb \<Rightarrow> KeyBindingManager \<Rightarrow> bool" where
  "kb_inv x m \<longleftrightarrow>
     distinct (map b_id (bindings m)) \<and> distinct (map key_of (bindings m)) \<and>
     (\<forall>b \<in> set (bindings m). b_id b < next_id m \<and>
        ParseShortcut x (b_shortcut b) = Some (b_parsed b) \<and> type_index (b_type b) < 6) \<and>
     length (type_block_counts m) = 6 \<and>
     distinct (map active_id (active_keys m)) \<and>
     (captured_keyboard m \<noteq> None \<longrightarrow> capture_callback m \<noteq> None \<and> captured_shortcut m \<noteq> [])"

datatype kb_op =
    OpRegister string KeyBindingType "nat option" string
  | OpUpdate binding_id string string
  | OpUnregister binding_id
  | OpGrab "nat option"
  | OpCancelGrab
  | OpBlockAll bool
  | OpBlockType KeyBindingType bool
  | OpKey "keyboard option" key_event bool
  | OpForget "nat option"

fun kb_step :: "xkb \<Rightarrow> KeyBindingManager \<Rightarrow> kb_op \<Rightarrow> KeyBindingManager" where
  "kb_step x m (OpRegister s t a d) = snd (Register x m s t a d)"
| "kb_step x m (OpUpdate i s d) = snd (Update x m i s d)"
| "kb_step x m (OpUnregister i) = snd (Unregister m i)"
| "kb_step x m (OpGrab cb) = GrabNextKey m cb"
| "kb_step x m OpCancelGrab = CancelGrab m"
| "kb_step x m (OpBlockAll b) = BlockAll m b"
| "kb_step x m (OpBlockType t b) = BlockType m t b"
| "kb_step x m (OpKey k e i) = fst (snd (HandleKey x m k e i))"
| "kb_step x m (OpForget k) = ForgetKeyboard m k"

fun kb_run :: "xkb \<Rightarrow> kb_op list \<Rightarrow> KeyBindingManager \<Rightarrow> KeyBindingManager" where
  "kb_run x [] m = m"
| "kb_run x (op # ops) m = kb_run x ops (kb_step x m op)"

lemma update_first_id:
  "distinct (map f xs) \<Longrightarrow>
   update_first (\<lambda>y. f y = k) g xs = map (\<lambda>y. if f y = k then g y else y) xs"
proof (induction xs)
  case (Cons a xs)
  have "f a = k \<Longrightarrow> map (\<lambda>y. if f y = k then g y else y) xs = xs"
    using Cons.prems by (intro map_idI) (auto simp: image_iff)
  with Cons show ?case by auto
qed simp

lemma distinct_key_update:
  "distinct (map b_id xs) \<Longrightarrow> distinct (map key_of xs) \<Longrightarrow>
   \<forall>b \<in> set xs. b_id b \<noteq> k \<longrightarrow> key_of b \<noteq> nk \<Longrightarrow> \<forall>b. key_of (g b) = nk \<Longrightarrow>
   distinct (map (\<lambda>b. key_of (if b_id b = k then g b else b)) xs)"
proof (induction xs)
  case (Cons a xs)
  then show ?case by (auto simp: image_iff)
qed simp

lemma same_keys_key_of: "same_keys (b_parsed b) p \<longleftrightarrow> key_of b = (ps_keysym p, ps_modifiers p)"
  by (auto simp: same_keys_def key_of_def)

lemma kb_inv_empty: "kb_inv x empty_manager"
  by (simp add: kb_inv_def empty_manager_def)

lemma unat_succ64: "unat (n::64 word) + 1 < 2 ^ 64 \<Longrightarrow> unat (n + 1) = unat n + 1"
  by (simp add: unat_word_ariths)

lemma Register_cases:
  obtains (fail) "Register x m s t a d = (None, m)"
  | (ok) p act where "ParseShortcut x s = Some p" "a = Some act" "type_index t < length (type_block_counts m)"
      "(ps_keysym p, ps_modifiers p) \<notin> key_of ` set (bindings m)"
      "Register x m s t a d = (Some (next_id m), m\<lparr>next_id := next_id m + 1, bindings := bindings m @
         [\<lparr>b_id = next_id m, b_parsed = p, b_type = t, b_action = act, b_shortcut = s, b_description = d\<rparr>]\<rparr>)"
proof -
  consider "ParseShortcut x s = None \<or> a = None" | p act where "ParseShortcut x s = Some p" "a = Some act"
    by (cases "ParseShortcut x s"; cases a) auto
  then show thesis
  proof cases
    case 1
    then have "Register x m s t a d = (None, m)" by (auto simp: Register_def split: option.split)
    then show thesis by (rule fail)
  next
    case 2
    show thesis
    proof (cases "type_index t < length (type_block_counts m) \<and>
        \<not> any_of (\<lambda>binding. same_keys (b_parsed binding) p) (bindings m)")
      case True
      with 2 show thesis by (intro ok [of p act]) (auto simp: Register_def same_keys_key_of image_iff)
    next
      case False
      with 2 have "Register x m s t a d = (None, m)" by (auto simp: Register_def)
      then show thesis by (rule fail)
    qed
  qed
qed

lemma Register_inv:
  assumes "kb_inv x m" "unat (next_id m) + 1 < 2 ^ 64"
  shows "kb_inv x (snd (Register x m s t a d))"
proof (cases rule: Register_cases [of x m s t a d])
  case (ok p act)
  have "b < next_id m \<Longrightarrow> b < next_id m + 1" "next_id m < next_id m + 1" for b
    using assms(2) unat_succ64 [of "next_id m"] by (auto simp: word_less_nat_alt)
  then show ?thesis using ok assms(1) by (auto simp: kb_inv_def key_of_def image_iff)
qed (use assms in simp)

lemma Update_cases:
  obtains (fail) "Update x m i s d = (False, m)"
  | (ok) p where "ParseShortcut x s = Some p"
      "\<forall>b \<in> set (bindings m). b_id b \<noteq> i \<longrightarrow> key_of b \<noteq> (ps_keysym p, ps_modifiers p)"
      "Update x m i s d = (True, m\<lparr>bindings := update_first (\<lambda>item. b_id item = i)
         (\<lambda>b. b\<lparr>b_parsed := p, b_shortcut := s, b_description := d\<rparr>) (bindings m)\<rparr>)"
proof (cases "ParseShortcut x s")
  case None
  then have "Update x m i s d = (False, m)" by (simp add: Update_def)
  then show thesis by (rule fail)
next
  case (Some p)
  show thesis
  proof (cases "find (\<lambda>item. b_id item = i) (bindings m) = None \<or>
      any_of (\<lambda>item. b_id item \<noteq> i \<and> same_keys (b_parsed item) p) (bindings m)")
    case True
    with Some have "Update x m i s d = (False, m)" by (auto simp: Update_def)
    then show thesis by (rule fail)
  next
    case False
    with Some show thesis by (intro ok [of p]) (auto simp: Update_def same_keys_key_of)
  qed
qed

lemma Update_inv:
  assumes inv: "kb_inv x m"
  shows "kb_inv x (snd (Update x m i s d))"
proof (cases rule: Update_cases [of x m i s d])
  case (ok p)
  let ?g = "\<lambda>b. b\<lparr>b_parsed := p, b_shortcut := s, b_description := d\<rparr>"
  let ?bs = "map (\<lambda>b. if b_id b = i then ?g b else b) (bindings m)"
  have b: "snd (Update x m i s d) = m\<lparr>bindings := ?bs\<rparr>"
    using inv update_first_id [of b_id "bindings m" i ?g] by (simp add: kb_inv_def ok(3))
  have "distinct (map key_of ?bs)"
    using distinct_key_update [of "bindings m" i "(ps_keysym p, ps_modifiers p)" ?g] inv ok(2)
    by (simp add: kb_inv_def key_of_def o_def)
  moreover have "map b_id ?bs = map b_id (bindings m)" by simp
  then have "distinct (map b_id ?bs)" using inv by (simp only: kb_inv_def)
  ultimately show ?thesis using inv ok(1) unfolding b kb_inv_def by auto
qed (use inv in simp)

lemma Unregister_inv: "kb_inv x m \<Longrightarrow> kb_inv x (snd (Unregister m i))"
  by (auto simp: kb_inv_def Unregister_def Let_def distinct_erase_if)

lemma grab_inv: "kb_inv x m \<Longrightarrow> kb_inv x (GrabNextKey m cb)" "kb_inv x m \<Longrightarrow> kb_inv x (CancelGrab m)"
  by (auto simp: kb_inv_def GrabNextKey_def CancelGrab_def)

lemma block_inv: "kb_inv x m \<Longrightarrow> kb_inv x (BlockAll m b)" "kb_inv x m \<Longrightarrow> kb_inv x (BlockType m t b)"
  by (auto simp: kb_inv_def BlockAll_def BlockType_def Let_def)

lemma ForgetKeyboard_inv: "kb_inv x m \<Longrightarrow> kb_inv x (ForgetKeyboard m k)"
  by (auto simp: kb_inv_def ForgetKeyboard_def CancelGrab_def Let_def distinct_erase_if)

lemma HandleCapturedKey_inv:
  assumes inv: "kb_inv x m" and "IsGrabbingKey m"
  shows "kb_inv x (fst (snd (HandleCapturedKey x m kb ev)))"
proof -
  have "capture_callback m \<noteq> None" using assms(2) by (simp add: IsGrabbingKey_def)
  then have "s \<noteq> [] \<Longrightarrow> kb_inv x (m\<lparr>captured_keyboard := k, captured_keycode := c, captured_shortcut := s\<rparr>)" for k c s
    using inv by (simp add: kb_inv_def)
  with inv grab_inv(2) [OF inv] show ?thesis
    by (simp add: HandleCapturedKey_def Let_def split: list.split)
qed

lemma press_syms_inv:
  assumes inv: "kb_inv x m" and "find (is_active_key kb ev) (active_keys m) = None"
  shows "kb_inv x (fst (snd (press_syms x m kb ev ks)))"
proof -
  have "(kbd_id kb, ev_keycode ev) \<notin> active_id ` set (active_keys m)"
    using assms(2) by (auto simp: find_None_iff is_active_key_def active_id_def)
  then have "kb_inv x (m\<lparr>active_keys := active_keys m @
      [\<lparr>ak_keyboard = kbd_id kb, ak_keycode = ev_keycode ev, ak_binding_id = i\<rparr>]\<rparr>)" for i
    using inv by (simp add: kb_inv_def active_id_def)
  with inv show ?thesis by (induction ks) (simp_all split: option.split)
qed

lemma HandleKey_inv:
  assumes inv: "kb_inv x m"
  shows "kb_inv x (fst (snd (HandleKey x m k ev inh)))"
proof (cases k)
  case (Some kb)
  have rel: "kb_inv x (m\<lparr>active_keys := erase_first (is_active_key kb ev) (active_keys m)\<rparr>)"
    using inv by (simp add: kb_inv_def distinct_erase_first)
  show ?thesis
    using inv rel HandleCapturedKey_inv [OF inv, of kb ev] press_syms_inv [OF inv, of kb ev]
    by (cases "find (is_active_key kb ev) (active_keys m)"; cases "ev_state ev")
      (simp_all add: Some HandleKey_def Let_def)
qed (use inv in \<open>simp add: HandleKey_def\<close>)

lemma kb_step_inv:
  assumes "kb_inv x m" "unat (next_id m) + 1 < 2 ^ 64"
  shows "kb_inv x (kb_step x m op)"
  using assms by (cases op) (auto simp: Register_inv Update_inv Unregister_inv grab_inv block_inv HandleKey_inv ForgetKeyboard_inv)

lemma HandleKey_next_id: "next_id (fst (snd (HandleKey x m k ev inh))) = next_id m"
proof -
  have press: "next_id (fst (snd (press_syms x m kb ev ks))) = next_id m" for kb ks
    by (induction ks) (auto split: option.split)
  have "next_id (fst (snd (HandleCapturedKey x m kb ev))) = next_id m" for kb
    by (auto simp: HandleCapturedKey_def Let_def CancelGrab_def split: list.split)
  with press show ?thesis
    by (auto simp: HandleKey_def Let_def split: option.split key_state.split)
qed

lemma kb_step_next_id:
  assumes "unat (next_id m) + 1 < 2 ^ 64"
  shows "unat (next_id (kb_step x m op)) \<le> unat (next_id m) + 1"
proof (cases op)
  case (OpRegister s t a d)
  then show ?thesis using assms unat_succ64 [of "next_id m"]
    by (cases rule: Register_cases [of x m s t a d]) auto
next
  case (OpUpdate i s d)
  then show ?thesis by (cases rule: Update_cases [of x m i s d]) auto
qed (auto simp: HandleKey_next_id Unregister_def GrabNextKey_def CancelGrab_def BlockAll_def BlockType_def
  ForgetKeyboard_def Let_def)

lemma kb_run_inv:
  "kb_inv x m \<Longrightarrow> unat (next_id m) + length ops < 2 ^ 64 \<Longrightarrow> kb_inv x (kb_run x ops m)"
proof (induction ops arbitrary: m)
  case (Cons op ops)
  then have "unat (next_id m) + 1 < 2 ^ 64" by simp
  with Cons kb_step_inv [of x m op] kb_step_next_id [of m x op] show ?case by simp
qed simp

type_synonym key_id = "nat \<times> 32 word"

fun paired :: "key_id set \<Rightarrow> (key_id \<times> key_state) list \<Rightarrow> bool" where
  "paired D [] = True"
| "paired D ((k, KeyPressed) # es) = (k \<notin> D \<and> paired (insert k D) es)"
| "paired D ((k, KeyReleased) # es) = (k \<in> D \<and> paired (D - {k}) es)"
| "paired D ((k, KeyRepeated) # es) = paired D es"

fun op_event :: "kb_op \<Rightarrow> (key_id \<times> key_state) option" where
  "op_event (OpKey (Some kb) ev inh) = Some ((kbd_id kb, ev_keycode ev), ev_state ev)"
| "op_event _ = None"

fun physical :: "kb_op list \<Rightarrow> (key_id \<times> key_state) list" where
  "physical [] = []"
| "physical (op # ops) = (case op_event op of None \<Rightarrow> physical ops | Some e \<Rightarrow> e # physical ops)"

fun consumed :: "xkb \<Rightarrow> KeyBindingManager \<Rightarrow> kb_op \<Rightarrow> bool" where
  "consumed x m (OpKey k ev inh) = fst (HandleKey x m k ev inh)"
| "consumed x m _ = False"

fun forwarded :: "xkb \<Rightarrow> KeyBindingManager \<Rightarrow> kb_op list \<Rightarrow> (key_id \<times> key_state) list" where
  "forwarded x m [] = []"
| "forwarded x m (op # ops) =
     (if consumed x m op then [] else case op_event op of None \<Rightarrow> [] | Some e \<Rightarrow> [e]) @
     forwarded x (kb_step x m op) ops"

fun plain_op :: "kb_op \<Rightarrow> bool" where
  "plain_op (OpGrab cb) = False"
| "plain_op (OpForget k) = False"
| "plain_op (OpKey None ev inh) = False"
| "plain_op (OpKey (Some kb) ev inh) = kbd_has_state kb"
| "plain_op _ = True"

definition active_set :: "KeyBindingManager \<Rightarrow> key_id set" where
  "active_set m = active_id ` set (active_keys m)"

lemma is_active_key_iff: "is_active_key kb ev k \<longleftrightarrow> active_id k = (kbd_id kb, ev_keycode ev)"
  by (auto simp: is_active_key_def active_id_def)

lemma find_active: "find (is_active_key kb ev) (active_keys m) = None \<longleftrightarrow> (kbd_id kb, ev_keycode ev) \<notin> active_set m"
  by (force simp: find_None_iff is_active_key_iff active_set_def)

lemma erase_first_active:
  "distinct (map active_id ks) \<Longrightarrow>
   active_id ` set (erase_first (is_active_key kb ev) ks) = active_id ` set ks - {(kbd_id kb, ev_keycode ev)}"
  by (induction ks) (auto simp: is_active_key_iff)

lemma erase_first_active_set:
  "distinct (map active_id (active_keys m)) \<Longrightarrow>
   active_set (m\<lparr>active_keys := erase_first (is_active_key kb ev) (active_keys m)\<rparr>) =
   active_set m - {(kbd_id kb, ev_keycode ev)}"
  by (simp add: active_set_def erase_first_active)

lemma press_syms_active:
  "press_syms x m kb ev ks = (r, m', es) \<Longrightarrow>
   capture_callback m' = capture_callback m \<and>
   active_set m' = (if r then insert (kbd_id kb, ev_keycode ev) (active_set m) else active_set m)"
  by (induction ks) (auto simp: active_set_def active_id_def split: option.splits)

lemma plain_step:
  assumes "plain_op op" "capture_callback m = None" "distinct (map active_id (active_keys m))"
    "op_event op = None"
  shows "capture_callback (kb_step x m op) = None" "active_set (kb_step x m op) = active_set m"
    "distinct (map active_id (active_keys (kb_step x m op)))" "\<not> consumed x m op"
proof -
  show "\<not> consumed x m op" using assms by (cases op rule: plain_op.cases) auto
  have "capture_callback (kb_step x m op) = None \<and> active_keys (kb_step x m op) = active_keys m"
  proof (cases op)
    case (OpRegister s t a d)
    then show ?thesis using assms by (cases rule: Register_cases [of x m s t a d]) auto
  next
    case (OpUpdate i s d)
    then show ?thesis using assms by (cases rule: Update_cases [of x m i s d]) auto
  next
    case (OpKey k e i)
    then show ?thesis using assms by (cases k) auto
  qed (use assms in \<open>auto simp: Unregister_def CancelGrab_def BlockAll_def BlockType_def Let_def\<close>)
  then show "capture_callback (kb_step x m op) = None" "active_set (kb_step x m op) = active_set m"
    "distinct (map active_id (active_keys (kb_step x m op)))" using assms by (auto simp: active_set_def)
qed

lemma HandleKey_press_fresh:
  assumes "kbd_has_state kb" "capture_callback m = None" "ev_state ev = KeyPressed"
    "(kbd_id kb, ev_keycode ev) \<notin> active_set m"
  shows "HandleKey x m (Some kb) ev inh =
    (if inh \<or> block_count m > 0 then (False, m, []) else press_syms x m kb ev (kbd_syms kb (ev_keycode ev + 8)))"
  using assms by (simp add: HandleKey_def Let_def IsGrabbingKey_def flip: find_active)

lemma HandleKey_release:
  assumes "kbd_has_state kb" "capture_callback m = None" "ev_state ev = KeyReleased"
  shows "HandleKey x m (Some kb) ev inh =
    (if (kbd_id kb, ev_keycode ev) \<in> active_set m
     then (True, m\<lparr>active_keys := erase_first (is_active_key kb ev) (active_keys m)\<rparr>, []) else (False, m, []))"
  using assms find_active [of kb ev m]
  by (auto simp: HandleKey_def Let_def IsGrabbingKey_def split: option.split)

lemma HandleKey_repeat:
  "kbd_has_state kb \<Longrightarrow> ev_state ev = KeyRepeated \<Longrightarrow> HandleKey x m (Some kb) ev inh = (False, m, [])"
  by (simp add: HandleKey_def Let_def)

lemma press_syms_distinct:
  "distinct (map active_id (active_keys m)) \<Longrightarrow> (kbd_id kb, ev_keycode ev) \<notin> active_set m \<Longrightarrow>
   distinct (map active_id (active_keys (fst (snd (press_syms x m kb ev ks)))))"
  by (induction ks) (auto simp: active_set_def active_id_def split: option.splits)

lemma key_step:
  assumes kb: "kbd_has_state kb" and m: "capture_callback m = None" "distinct (map active_id (active_keys m))"
    "active_set m \<subseteq> D" and p: "paired D (((kbd_id kb, ev_keycode ev), ev_state ev) # es)"
    and h: "HandleKey x m (Some kb) ev inh = (r, m', fx)"
  obtains D' where "capture_callback m' = None" "distinct (map active_id (active_keys m'))"
    "active_set m' \<subseteq> D'" "paired D' es"
    "r \<Longrightarrow> D' - active_set m' = D - active_set m"
    "\<not> r \<Longrightarrow> paired (D' - active_set m') es' \<Longrightarrow>
      paired (D - active_set m) (((kbd_id kb, ev_keycode ev), ev_state ev) # es')"
proof (cases "ev_state ev")
  case KeyReleased
  with p have "(kbd_id kb, ev_keycode ev) \<in> D" "paired (D - {(kbd_id kb, ev_keycode ev)}) es" by auto
  moreover have "active_set m' = active_set m - {(kbd_id kb, ev_keycode ev)}" "capture_callback m' = None"
    "distinct (map active_id (active_keys m'))" "r = ((kbd_id kb, ev_keycode ev) \<in> active_set m)"
    using h m KeyReleased
    by (auto simp: HandleKey_release [OF kb m(1) KeyReleased] erase_first_active_set distinct_erase_first
      simp del: split_paired_All split_paired_Ex split: if_splits)
  moreover have "D - {k} - (A - {k}) = D - A - {k}" "k \<in> A \<Longrightarrow> D - A - {k} = D - A"
    "D - {k} - A = D - A - {k}" for k and A :: "key_id set"
    by auto
  ultimately show thesis using m KeyReleased
    by (intro that [of "D - {(kbd_id kb, ev_keycode ev)}"]) auto
next
  case KeyPressed
  with p m have fresh: "(kbd_id kb, ev_keycode ev) \<notin> D" "paired (insert (kbd_id kb, ev_keycode ev) D) es"
    "(kbd_id kb, ev_keycode ev) \<notin> active_set m" by auto
  note hk = HandleKey_press_fresh [OF kb m(1) KeyPressed fresh(3), of x inh, unfolded h]
  have "active_set m' = (if r then insert (kbd_id kb, ev_keycode ev) (active_set m) else active_set m)"
    "capture_callback m' = None" "distinct (map active_id (active_keys m'))"
    using hk m press_syms_active [of x m kb ev "kbd_syms kb (ev_keycode ev + 8)" r m' fx]
      press_syms_distinct [OF m(2) fresh(3), of x "kbd_syms kb (ev_keycode ev + 8)"]
    by (auto split: if_splits) (metis fst_conv snd_conv)+
  then show thesis using m fresh KeyPressed
    by (intro that [of "insert (kbd_id kb, ev_keycode ev) D"]) (auto simp: insert_Diff_if)
next
  case KeyRepeated
  with h HandleKey_repeat [OF kb KeyRepeated, of x m inh] p m show thesis by (intro that [of D]) auto
qed

lemma forwarded_paired:
  "list_all plain_op ops \<Longrightarrow> capture_callback m = None \<Longrightarrow> distinct (map active_id (active_keys m)) \<Longrightarrow>
   active_set m \<subseteq> D \<Longrightarrow> paired D (physical ops) \<Longrightarrow> paired (D - active_set m) (forwarded x m ops)"
proof (induction ops arbitrary: m D)
  case (Cons op ops)
  show ?case
  proof (cases "op_event op")
    case None
    with Cons.prems plain_step [of op m x] Cons.IH [of "kb_step x m op" D] show ?thesis by simp
  next
    case (Some e)
    then obtain kb ev inh where op: "op = OpKey (Some kb) ev inh"
      and e: "e = ((kbd_id kb, ev_keycode ev), ev_state ev)"
      by (cases op rule: op_event.cases) auto
    obtain r m' fx where h: "HandleKey x m (Some kb) ev inh = (r, m', fx)"
      by (cases "HandleKey x m (Some kb) ev inh")
    obtain D' where D': "capture_callback m' = None" "distinct (map active_id (active_keys m'))"
      "active_set m' \<subseteq> D'" "paired D' (physical ops)" "r \<Longrightarrow> D' - active_set m' = D - active_set m"
      "\<not> r \<Longrightarrow> paired (D' - active_set m') (forwarded x m' ops) \<Longrightarrow> paired (D - active_set m) (e # forwarded x m' ops)"
      using key_step [of kb m D ev "physical ops" x inh r m' fx "forwarded x m' ops"] Cons.prems h op e by auto
    from Cons.IH [of m' D'] Cons.prems(1) D' have "paired (D' - active_set m') (forwarded x m' ops)" by simp
    with D' show ?thesis using h op e Some by (cases r) auto
  qed
qed simp

lemma press_syms_effect:
  "RunAction a \<in> set (snd (snd (press_syms x m kb ev ks))) \<Longrightarrow>
   \<exists>b \<in> set (bindings m). b_action b = a \<and> \<not> IsTypeBlocked m (b_type b) \<and>
     ModifiersMatch (kbd_modifiers kb) (ps_modifiers (b_parsed b))"
  by (induction ks) (auto simp: find_binding_def dest: find_SomeD split: option.splits)

lemma press_syms_length: "length (snd (snd (press_syms x m kb ev ks))) \<le> 1"
  by (induction ks) (auto split: option.splits)

lemma HandleCapturedKey_effect:
  "RunAction a \<notin> set (snd (snd (HandleCapturedKey x m kb ev)))"
  "length (snd (snd (HandleCapturedKey x m kb ev))) \<le> 1"
  by (auto simp: HandleCapturedKey_def Let_def split: list.split option.split)

lemma HandleKey_one_effect: "length (snd (snd (HandleKey x m k ev inhibited))) \<le> 1"
  using press_syms_length HandleCapturedKey_effect(2)
  by (auto simp: HandleKey_def Let_def split: option.split key_state.split)

definition lock_mask :: "32 word" where
  "lock_mask = WLR_MODIFIER_CAPS OR WLR_MODIFIER_MOD2"

lemma ModifiersMatch_locks:
  "required AND lock_mask = 0 \<Longrightarrow>
   ModifiersMatch active required \<longleftrightarrow> active AND NOT lock_mask = required"
proof -
  assume r: "required AND lock_mask = 0"
  have "lock_mask AND NOT required = lock_mask"
  proof (rule bit_eqI)
    fix n
    have "\<not> bit (required AND lock_mask) n" unfolding r by simp
    then show "bit (lock_mask AND NOT required) n = bit lock_mask n"
      using bit_imp_le_length [of lock_mask n] by (auto simp: bit_simps)
  qed
  then show ?thesis by (simp add: ModifiersMatch_def lock_mask_def Let_def)
qed

lemma find_binding_unique:
  assumes inv: "kb_inv x m" and "\<forall>b \<in> set (bindings m). ps_modifiers (b_parsed b) AND lock_mask = 0"
    and "b \<in> set (bindings m)" "\<not> IsTypeBlocked m (b_type b)" "ps_keysym (b_parsed b) = ks"
    "mods AND NOT lock_mask = ps_modifiers (b_parsed b)"
  shows "find_binding m mods ks = Some b"
  unfolding find_binding_def
proof (rule find_unique)
  show "b \<in> set (bindings m)" by fact
  show "\<not> IsTypeBlocked m (b_type b) \<and> ps_keysym (b_parsed b) = ks \<and> ModifiersMatch mods (ps_modifiers (b_parsed b))"
    using assms by (simp add: ModifiersMatch_locks)
  fix c assume "c \<in> set (bindings m)" "\<not> IsTypeBlocked m (b_type c) \<and> ps_keysym (b_parsed c) = ks \<and> 
    ModifiersMatch mods (ps_modifiers (b_parsed c))"
  then have "key_of c = key_of b" using assms by (auto simp: ModifiersMatch_locks key_of_def)
  then show "c = b" using inv \<open>c \<in> _\<close> \<open>b \<in> _\<close> by (auto simp: kb_inv_def distinct_map inj_on_def)
qed

lemma HandleKey_press_binding:
  assumes "kbd_has_state kb" "capture_callback m = None" "block_count m = 0" "ev_state ev = KeyPressed"
    "(kbd_id kb, ev_keycode ev) \<notin> active_set m" "kbd_syms kb (ev_keycode ev + 8) = [ks]"
    "find_binding m (kbd_modifiers kb) (lookup_keysym x ks) = Some b"
  shows "HandleKey x m (Some kb) ev False = (True, m\<lparr>active_keys := active_keys m @
     [\<lparr>ak_keyboard = kbd_id kb, ak_keycode = ev_keycode ev, ak_binding_id = b_id b\<rparr>]\<rparr>, [RunAction (b_action b)])"
  using assms by (simp add: HandleKey_press_fresh)

definition chord :: "xkb \<Rightarrow> keyboard \<Rightarrow> keysym \<Rightarrow> string" where
  "chord x kb ks = BuildShortcut x \<lparr>ps_modifiers = kbd_modifiers kb, ps_keysym = keysym_to_lower x ks, ps_no_repeat = False\<rparr>"

lemma capture_press:
  assumes "kbd_has_state kb" "kbd_syms kb (c + 8) = ks # kss" "\<not> IsModifierKeysym (keysym_to_lower x ks)"
    "chord x kb ks \<noteq> []" 
  shows "HandleKey x (GrabNextKey m (Some cb)) (Some kb) \<lparr>ev_keycode = c, ev_state = KeyPressed\<rparr> inh =
    (True, m\<lparr>capture_callback := Some cb, captured_keyboard := Some (kbd_id kb), captured_keycode := c,
       captured_shortcut := chord x kb ks\<rparr>, [CaptureCallback cb True (chord x kb ks)])"
  using assms by (simp add: HandleKey_def GrabNextKey_def IsGrabbingKey_def HandleCapturedKey_def chord_def Let_def)

lemma capture_release:
  assumes "kbd_has_state kb" "kbd_syms kb (c + 8) = ks # kss" "(kbd_id kb, c) \<notin> active_set m"
    "capture_callback m = Some cb" "captured_keyboard m = Some (kbd_id kb)" "captured_keycode m = c"
  shows "HandleKey x m (Some kb) \<lparr>ev_keycode = c, ev_state = KeyReleased\<rparr> inh =
    (True, CancelGrab m, [CaptureCallback cb False (captured_shortcut m)])"
  using assms find_active [of kb "\<lparr>ev_keycode = c, ev_state = KeyReleased\<rparr>" m]
  by (simp add: HandleKey_def IsGrabbingKey_def HandleCapturedKey_def Let_def)

lemma lookup_not_iso_left_tab:
  "keysym_to_lower x XKB_KEY_ISO_Left_Tab = XKB_KEY_ISO_Left_Tab \<Longrightarrow> lookup_keysym x XKB_KEY_ISO_Left_Tab \<noteq> XKB_KEY_ISO_Left_Tab"
  by (simp add: lookup_keysym_def XKB_KEY_Tab_def XKB_KEY_ISO_Left_Tab_def)

fun register_all :: "('s \<Rightarrow> string \<Rightarrow> 'a \<Rightarrow> 'i option \<times> 's) \<Rightarrow> 's \<Rightarrow> (string \<times> 'a) list \<Rightarrow> bool \<times> 's" where
  "register_all reg m [] = (True, m)"
| "register_all reg m ((s, a) # rest) =
     (case reg m s a of (None, m') \<Rightarrow> (False, m') | (Some _, m') \<Rightarrow> register_all reg m' rest)"

locale shortcut_registry =
  fixes inv :: "'s \<Rightarrow> bool"
    and room :: "'s \<Rightarrow> nat"
    and keys :: "'s \<Rightarrow> 'k list"
    and parse :: "string \<Rightarrow> 'k option"
    and reg :: "'s \<Rightarrow> string \<Rightarrow> 'a \<Rightarrow> 'i option \<times> 's"
    and ok :: "'a \<Rightarrow> bool"
  assumes reg_ok: "inv m \<Longrightarrow> 0 < room m \<Longrightarrow> parse s = Some k \<Longrightarrow> k \<notin> set (keys m) \<Longrightarrow> ok a \<Longrightarrow>
      \<exists>i m'. reg m s a = (Some i, m') \<and> inv m' \<and> keys m' = keys m @ [k] \<and> room m \<le> Suc (room m')"
    and reg_refused: "parse s = None \<or> parse s = Some k \<and> k \<in> set (keys m) \<Longrightarrow> reg m s a = (None, m)"
begin

lemma all_registered:
  assumes "inv m" "length items \<le> room m" "list_all ok (map snd items)"
    "map (parse \<circ> fst) items = map Some ks" "distinct (keys m @ ks)"
  shows "\<exists>m'. register_all reg m items = (True, m') \<and> inv m' \<and> keys m' = keys m @ ks"
  using assms
proof (induction items arbitrary: m ks)
  case (Cons item items)
  obtain s a where item: "item = (s, a)" by (cases item)
  obtain k ks' where ks: "ks = k # ks'" using Cons.prems(4) by (cases ks) auto
  obtain i m' where "reg m s a = (Some i, m')" "inv m'" "keys m' = keys m @ [k]" "room m \<le> Suc (room m')"
    using reg_ok [of m s k a] Cons.prems by (auto simp: item ks)
  with Cons.IH [of m' ks'] Cons.prems show ?case by (auto simp: item ks)
qed auto

lemma duplicate_refused:
  assumes "inv m" "0 < room m" "parse s = Some k" "parse s' = Some k" "ok a" "k \<notin> set (keys m)"
  shows "fst (register_all reg m [(s, a), (s', a')]) = False"
proof -
  obtain i m' where m': "reg m s a = (Some i, m')" "keys m' = keys m @ [k]"
    using reg_ok [of m s k a] assms by auto
  then have "reg m' s' a' = (None, m')" using assms by (intro reg_refused) auto
  with m' show ?thesis by simp
qed

end

definition register_entry ::
  "xkb \<Rightarrow> KeyBindingManager \<Rightarrow> string \<Rightarrow> KeyBindingType \<times> nat \<times> string \<Rightarrow> binding_id option \<times> KeyBindingManager" where
  "register_entry x m s e = (case e of (t, act, d) \<Rightarrow> Register x m s t (Some act) d)"

interpretation table: shortcut_registry "kb_inv x" "\<lambda>m. 2 ^ 64 - 1 - unat (next_id m)"
  "\<lambda>m. map key_of (bindings m)" "\<lambda>s. map_option (\<lambda>p. (ps_keysym p, ps_modifiers p)) (ParseShortcut x s)"
  "register_entry x" "\<lambda>e. type_index (fst e) < 6" for x
proof
  fix m s k and e :: "KeyBindingType \<times> nat \<times> string"
  obtain t act d where e: "e = (t, act, d)" by (cases e)
  assume inv: "kb_inv x m" and "0 < 2 ^ 64 - 1 - unat (next_id m)"
    and "map_option (\<lambda>p. (ps_keysym p, ps_modifiers p)) (ParseShortcut x s) = Some k"
    "k \<notin> set (map key_of (bindings m))" "type_index (fst e) < 6"
  then obtain p where p: "ParseShortcut x s = Some p" "(ps_keysym p, ps_modifiers p) = k" and room: "unat (next_id m) + 1 < 2 ^ 64"
    by auto
  let ?m' = "m\<lparr>next_id := next_id m + 1, bindings := bindings m @
         [\<lparr>b_id = next_id m, b_parsed = p, b_type = t, b_action = act, b_shortcut = s, b_description = d\<rparr>]\<rparr>"
  have r: "register_entry x m s e = (Some (next_id m), ?m')"
    using p \<open>k \<notin> _\<close> inv \<open>type_index _ < 6\<close>
    by (auto simp: e register_entry_def Register_def same_keys_key_of kb_inv_def image_iff)
  moreover have "kb_inv x ?m'" using Register_inv [OF inv room, of s t "Some act" d] r by (simp add: e register_entry_def)
  moreover have "map key_of (bindings ?m') = map key_of (bindings m) @ [k]" using p by (simp add: key_of_def)
  moreover have "2 ^ 64 - 1 - unat (next_id m) \<le> Suc (2 ^ 64 - 1 - unat (next_id ?m'))"
    using unat_succ64 [OF room] by simp
  ultimately show "\<exists>i m'. register_entry x m s e = (Some i, m') \<and> kb_inv x m' \<and>
      map key_of (bindings m') = map key_of (bindings m) @ [k] \<and>
      2 ^ 64 - 1 - unat (next_id m) \<le> Suc (2 ^ 64 - 1 - unat (next_id m'))" by blast
next
  fix s k m and e :: "KeyBindingType \<times> nat \<times> string"
  show "register_entry x m s e = (None, m)"
    if "map_option (\<lambda>p. (ps_keysym p, ps_modifiers p)) (ParseShortcut x s) = None \<or>
      map_option (\<lambda>p. (ps_keysym p, ps_modifiers p)) (ParseShortcut x s) = Some k \<and> k \<in> set (map key_of (bindings m))"
    using that by (auto simp: register_entry_def Register_def same_keys_key_of split: prod.split option.split)
qed



section \<open>A sample keyboard and table\<close>

definition sample_kb :: keyboard where
  "sample_kb = \<lparr>kbd_id = 0, kbd_has_state = True,
     kbd_syms = (\<lambda>c. if c = 31 then [0x73] else if c = 23 then [0xfe20] else []), kbd_modifiers = 64\<rparr>"

lemma sample_parse: "ParseShortcut sample_xkb ''Super+S'' = Some \<lparr>ps_modifiers = 64, ps_keysym = 0x73, ps_no_repeat = False\<rparr>"
  by code_simp

definition sample_manager :: KeyBindingManager where
  "sample_manager = snd (Register sample_xkb empty_manager ''Super+S'' kCustom (Some 1) [])"

lemma sample_manager_eq: "sample_manager = empty_manager\<lparr>next_id := 2, bindings := 
   [\<lparr>b_id = 1, b_parsed = \<lparr>ps_modifiers = 64, ps_keysym = 0x73, ps_no_repeat = False\<rparr>, b_type = kCustom, b_action = 1,
     b_shortcut = ''Super+S'', b_description = []\<rparr>]\<rparr>"
  by (simp add: sample_manager_def Register_def sample_parse empty_manager_def)

lemma sample_press: "HandleKey sample_xkb sample_manager (Some sample_kb) \<lparr>ev_keycode = 23, ev_state = KeyPressed\<rparr> False = 
  (True, sample_manager\<lparr>active_keys := [\<lparr>ak_keyboard = 0, ak_keycode = 23, ak_binding_id = 1\<rparr>]\<rparr>, [RunAction 1])"
  unfolding sample_manager_eq by code_simp

section \<open>Properties\<close>

text \<open>C23: the manager's invariant holds after any sequence of operations from the initial state, as
  long as the 64-bit id counter has not wrapped: ids and chords of the bindings are unique, every
  binding's parsed chord is the parse of its text, ids are below the counter, at most one active
  entry exists per pressed key, and a captured chord has a callback waiting.\<close>

theorem kb_run_from_empty:
  assumes "length ops < 2 ^ 64 - 1"
  shows "kb_inv x (kb_run x ops empty_manager)"
  using assms by (intro kb_run_inv kb_inv_empty) (simp add: empty_manager_def)

theorem kb_run_from_empty_witness:
  "kb_inv sample_xkb (kb_run sample_xkb
     [OpRegister ''Super+S'' kCustom (Some 1) [], OpUpdate 1 ''Alt+Tab'' [], OpUnregister 1] empty_manager)"
  by (rule kb_run_from_empty) simp

text \<open>C3: clients see a consistent keyboard: whatever is registered, changed, blocked or inhibited
  in between, as long as no capture is started and no keyboard is removed, a stream of key events
  in which presses and releases pair up is forwarded as a stream in which they pair up, so no
  client sees the release of a key whose press a shortcut consumed, nor a press it never sees
  released.\<close>

theorem forwarded_stream_paired:
  assumes "list_all plain_op ops" "paired {} (physical ops)"
  shows "paired {} (forwarded x empty_manager ops)"
  using forwarded_paired [of ops empty_manager "{}" x] assms by (simp add: empty_manager_def active_set_def)

theorem forwarded_stream_paired_witness:
  "list_all plain_op
     [OpRegister ''Super+S'' kCustom (Some 1) [], OpKey (Some sample_kb) \<lparr>ev_keycode = 23, ev_state = KeyPressed\<rparr> False, OpBlockAll True,
      OpKey (Some sample_kb) \<lparr>ev_keycode = 23, ev_state = KeyReleased\<rparr> False] \<and>
   paired {} (forwarded sample_xkb empty_manager
     [OpRegister ''Super+S'' kCustom (Some 1) [], OpKey (Some sample_kb) \<lparr>ev_keycode = 23, ev_state = KeyPressed\<rparr> False, OpBlockAll True,
      OpKey (Some sample_kb) \<lparr>ev_keycode = 23, ev_state = KeyReleased\<rparr> False])"
proof -
  let ?ops = "[OpRegister ''Super+S'' kCustom (Some 1) [], OpKey (Some sample_kb) \<lparr>ev_keycode = 23, ev_state = KeyPressed\<rparr> False, OpBlockAll True,
      OpKey (Some sample_kb) \<lparr>ev_keycode = 23, ev_state = KeyReleased\<rparr> False]"
  have "list_all plain_op ?ops" "paired {} (physical ?ops)" by (simp_all add: sample_kb_def)
  then show ?thesis using forwarded_stream_paired [of ?ops sample_xkb] by blast
qed

text \<open>C24: an action runs only on a press, with shortcuts neither inhibited nor blocked and no
  capture in progress, and only the action of a binding in the table whose type is not blocked.\<close>

theorem HandleKey_action_safe:
  assumes "RunAction a \<in> set (snd (snd (HandleKey x m k ev inhibited)))"
  shows "ev_state ev = KeyPressed \<and> \<not> inhibited \<and> block_count m = 0 \<and> capture_callback m = None \<and>
     (\<exists>b \<in> set (bindings m). b_action b = a \<and> \<not> IsTypeBlocked m (b_type b))"
proof -
  obtain kb where k: "k = Some kb" "kbd_has_state kb"
    using assms by (auto simp: HandleKey_def split: option.splits if_splits)
  show ?thesis
    using assms HandleCapturedKey_effect(1) [of a x m kb ev] press_syms_effect [of a x m kb ev]
    by (cases "find (is_active_key kb ev) (active_keys m)"; cases "ev_state ev")
      (auto simp: k HandleKey_def Let_def IsGrabbingKey_def word_gt_0 dest!: find_SomeD split: option.splits if_splits)
qed

theorem HandleKey_action_safe_witness:
  "RunAction 1 \<in> set (snd (snd (HandleKey sample_xkb sample_manager (Some sample_kb) \<lparr>ev_keycode = 23, ev_state = KeyPressed\<rparr> False))) \<and>
   block_count sample_manager = 0 \<and> (\<exists>b \<in> set (bindings sample_manager). b_action b = 1 \<and> \<not> IsTypeBlocked sample_manager (b_type b))"
proof -
  have "RunAction 1 \<in> set (snd (snd (HandleKey sample_xkb sample_manager (Some sample_kb) \<lparr>ev_keycode = 23, ev_state = KeyPressed\<rparr> False)))"
    by (simp add: sample_press)
  then show ?thesis using HandleKey_action_safe [of 1 sample_xkb sample_manager "Some sample_kb"] by blast
qed

text \<open>C25: a shortcut that was just registered works: pressing its chord, with Caps Lock and Num
  Lock in any position, is consumed and runs exactly its action.\<close>

theorem Register_then_press:
  assumes inv: "kb_inv x m" "unat (next_id m) + 1 < 2 ^ 64"
    and locks: "\<forall>b \<in> set (bindings m). ps_modifiers (b_parsed b) AND lock_mask = 0" "ps_modifiers p AND lock_mask = 0"
    and reg: "Register x m s t (Some act) d = (Some i, m')" "ParseShortcut x s = Some p"
    and idle: "capture_callback m = None" "block_count m = 0" "\<not> IsTypeBlocked m t"
      "(kbd_id kb, ev_keycode ev) \<notin> active_set m"
    and key: "kbd_has_state kb" "ev_state ev = KeyPressed" "kbd_syms kb (ev_keycode ev + 8) = [ks]"
      "lookup_keysym x ks = ps_keysym p" "kbd_modifiers kb AND NOT lock_mask = ps_modifiers p"
  shows "fst (HandleKey x m' (Some kb) ev False) \<and>
     snd (snd (HandleKey x m' (Some kb) ev False)) = [RunAction act]"
proof -
  let ?b = "\<lparr>b_id = next_id m, b_parsed = p, b_type = t, b_action = act, b_shortcut = s, b_description = d\<rparr>"
  have m': "m' = m\<lparr>next_id := next_id m + 1, bindings := bindings m @ [?b]\<rparr>" "kb_inv x m'"
    using reg Register_inv [OF inv, of s t "Some act" d]
    by (cases rule: Register_cases [of x m s t "Some act" d]; auto)+
  have "find_binding m' (kbd_modifiers kb) (ps_keysym p) = Some ?b"
    using locks idle key by (intro find_binding_unique [OF m'(2)]) (auto simp: m'(1) IsTypeBlocked_def)
  then show ?thesis
    using HandleKey_press_binding [of kb m' ev ks x ?b] idle key by (auto simp: m'(1) active_set_def)
qed

theorem Register_then_press_witness:
  "snd (snd (HandleKey sample_xkb sample_manager (Some sample_kb) \<lparr>ev_keycode = 23, ev_state = KeyPressed\<rparr> False)) = [RunAction 1]"
proof -
  have reg: "Register sample_xkb empty_manager ''Super+S'' kCustom (Some 1) [] = (Some 1, sample_manager)"
    by (simp add: sample_manager_eq Register_def sample_parse empty_manager_def)
  have "kb_inv sample_xkb empty_manager" by (rule kb_inv_empty)
  moreover have "lookup_keysym sample_xkb 0x73 = 0x73" "\<not> IsTypeBlocked empty_manager kCustom"
    "64 AND lock_mask = 0" "64 AND NOT lock_mask = 64" by code_simp+
  ultimately show ?thesis
    using Register_then_press [OF _ _ _ _ reg sample_parse, of sample_kb "\<lparr>ev_keycode = 23, ev_state = KeyPressed\<rparr>" "0x73"]
    by (simp add: empty_manager_def sample_kb_def active_set_def)
qed

text \<open>C35: a capture reports the chord twice, on its press and on the release of the same key, and
  then the manager is as it was before the capture.\<close>

theorem capture_session:
  assumes "kbd_has_state kb" "kbd_syms kb (c + 8) = ks # kss" "\<not> IsModifierKeysym (keysym_to_lower x ks)"
    "chord x kb ks \<noteq> []" "(kbd_id kb, c) \<notin> active_set m"
  shows "\<exists>m'. HandleKey x (GrabNextKey m (Some cb)) (Some kb) \<lparr>ev_keycode = c, ev_state = KeyPressed\<rparr> inh =
      (True, m', [CaptureCallback cb True (chord x kb ks)]) \<and>
    HandleKey x m' (Some kb) \<lparr>ev_keycode = c, ev_state = KeyReleased\<rparr> inh' =
      (True, CancelGrab m, [CaptureCallback cb False (chord x kb ks)])"
proof -
  let ?m' = "m\<lparr>capture_callback := Some cb, captured_keyboard := Some (kbd_id kb), captured_keycode := c,
       captured_shortcut := chord x kb ks\<rparr>"
  have "HandleKey x ?m' (Some kb) \<lparr>ev_keycode = c, ev_state = KeyReleased\<rparr> inh' =
      (True, CancelGrab ?m', [CaptureCallback cb False (captured_shortcut ?m')])"
    using assms by (intro capture_release) (auto simp: active_set_def)
  then show ?thesis using capture_press [OF assms(1-4), of m cb inh] by (simp add: CancelGrab_def)
qed

theorem capture_session_witness:
  "\<exists>m'. HandleKey sample_xkb (GrabNextKey sample_manager (Some 7)) (Some sample_kb) \<lparr>ev_keycode = 23, ev_state = KeyPressed\<rparr> True =
      (True, m', [CaptureCallback 7 True ''Win+s'']) \<and>
    HandleKey sample_xkb m' (Some sample_kb) \<lparr>ev_keycode = 23, ev_state = KeyReleased\<rparr> True =
      (True, CancelGrab sample_manager, [CaptureCallback 7 False ''Win+s''])"
proof -
  have "chord sample_xkb sample_kb 0x73 = ''Win+s''" "\<not> IsModifierKeysym (keysym_to_lower sample_xkb 0x73)" by code_simp+
  then show ?thesis using capture_session [of sample_kb 23 "0x73" "[]" sample_xkb sample_manager 7 True True]
    by (simp add: sample_manager_eq empty_manager_def active_set_def sample_kb_def)
qed

text \<open>C39: the chord that capturing Shift+Tab produces can be registered but never fires: the key
  arrives as \<open>ISO_Left_Tab\<close>, which the capture keeps and the lookup replaces by \<open>Tab\<close>.\<close>

theorem captured_shift_tab_never_fires:
  assumes x: "keysym_to_lower x XKB_KEY_ISO_Left_Tab = XKB_KEY_ISO_Left_Tab" "printable_key x XKB_KEY_ISO_Left_Tab name"
    and kb: "kbd_has_state kb" "kbd_syms kb (c + 8) = [XKB_KEY_ISO_Left_Tab]"
  shows "\<exists>i m. Register x empty_manager (chord x kb XKB_KEY_ISO_Left_Tab) kCustom (Some act) d = (Some i, m) \<and>
     HandleKey x m (Some kb) \<lparr>ev_keycode = c, ev_state = KeyPressed\<rparr> inh = (False, m, [])"
proof -
  let ?p = "\<lparr>ps_modifiers = kbd_modifiers kb AND 255, ps_keysym = XKB_KEY_ISO_Left_Tab, ps_no_repeat = False\<rparr>"
  have "ParseShortcut x (chord x kb XKB_KEY_ISO_Left_Tab) = Some ?p"
    using parse_build [of x "\<lparr>ps_modifiers = kbd_modifiers kb, ps_keysym = XKB_KEY_ISO_Left_Tab, ps_no_repeat = False\<rparr>" name] x
    by (simp add: chord_def)
  then show ?thesis using kb lookup_not_iso_left_tab [OF x(1)]
    by (auto simp: Register_def empty_manager_def HandleKey_def Let_def IsGrabbingKey_def find_binding_def)
qed


theorem captured_shift_tab_never_fires_witness:
  "\<exists>i m. Register sample_xkb empty_manager (chord sample_xkb (sample_kb\<lparr>kbd_modifiers := 1\<rparr>) XKB_KEY_ISO_Left_Tab) kCustom (Some 3) [] = (Some i, m) \<and>
     HandleKey sample_xkb m (Some (sample_kb\<lparr>kbd_modifiers := 1\<rparr>)) \<lparr>ev_keycode = 15, ev_state = KeyPressed\<rparr> False = (False, m, [])"
proof -
  have "printable_key sample_xkb XKB_KEY_ISO_Left_Tab ''ISO_Left_Tab''" unfolding printable_key_def plain_part_def by code_simp
  moreover have "keysym_to_lower sample_xkb XKB_KEY_ISO_Left_Tab = XKB_KEY_ISO_Left_Tab" by code_simp
  moreover have "kbd_syms (sample_kb\<lparr>kbd_modifiers := 1\<rparr>) (15 + 8) = [XKB_KEY_ISO_Left_Tab]"
    by (simp add: sample_kb_def XKB_KEY_ISO_Left_Tab_def)
  ultimately show ?thesis
    by (intro captured_shift_tab_never_fires [where name = "''ISO_Left_Tab''"]) (simp_all add: sample_kb_def)
qed

end
