(* ===== verification/Default_Bindings.thy ===== *)
theory Default_Bindings
  imports Key_Binding_Laws
begin

text \<open>
  The bindings the compositor registers at start-up (\<open>RegisterDefaultKeyBindings\<close>). The nine
  actions are numbered in the order of the source.
\<close>

definition default_key_bindings :: "(string \<times> KeyBindingType \<times> nat \<times> string) list" where
  "default_key_bindings =
     [(''Alt+Tab:no'', kWindowSwitch, 0, ''Switch to next window''),
      (''Alt+Shift+Tab:no'', kWindowSwitch, 1, ''Switch to previous window''),
      (''Super+S:no'', kWindowSwitch, 2, ''Show multitasking and workspace overview''),
      (''Super+Tab:no'', kWindowSwitch, 3, ''Show multitasking and workspace overview''),
      (''Super+A:no'', kWindowSwitch, 4, ''Show windows from all workspaces''),
      (''Alt+F3:no'', kWindowMenu, 5, ''Show the active window menu''),
      (''Alt+F4:no'', kWindowClose, 6, ''Close the active window''),
      (''Alt+F9:no'', kWindowMinimize, 7, ''Minimize the active window''),
      (''Alt+F10:no'', kWindowMaximize, 8, ''Toggle the active window maximized state'')]"

definition RegisterDefaultKeyBindings :: "xkb \<Rightarrow> bool \<times> KeyBindingManager" where
  "RegisterDefaultKeyBindings x = register_all (register_entry x) empty_manager default_key_bindings"

definition key_named :: "xkb \<Rightarrow> string \<Rightarrow> keysym" where
  "key_named x name = keysym_to_lower x (keysym_from_name x name)"

definition default_keys :: "string list" where
  "default_keys = [''Tab'', ''S'', ''A'', ''F3'', ''F4'', ''F9'', ''F10'']"

lemma default_keys_plain:
  "list_all (\<lambda>k. plain_part k \<and> ModifierForName k = None) default_keys"
  "list_all plain_part [''Alt'', ''Shift'', ''Super'']"
  "ModifierForName ''Alt'' = Some WLR_MODIFIER_ALT" "ModifierForName ''Shift'' = Some WLR_MODIFIER_SHIFT"
  "ModifierForName ''Super'' = Some WLR_MODIFIER_LOGO"
  unfolding plain_part_def by code_simp+

lemma parse_default:
  assumes "k \<in> set default_keys" "key_named x k \<noteq> XKB_KEY_NoSymbol"
  shows "ParseShortcut x (''Alt+'' @ k @ '':no'') = Some \<lparr>ps_modifiers = WLR_MODIFIER_ALT, ps_keysym = key_named x k, ps_no_repeat = True\<rparr>"
    "ParseShortcut x (''Super+'' @ k @ '':no'') = Some \<lparr>ps_modifiers = WLR_MODIFIER_LOGO, ps_keysym = key_named x k, ps_no_repeat = True\<rparr>"
    "ParseShortcut x (''Alt+Shift+'' @ k @ '':no'') =
       Some \<lparr>ps_modifiers = WLR_MODIFIER_ALT OR WLR_MODIFIER_SHIFT, ps_keysym = key_named x k, ps_no_repeat = True\<rparr>"
proof -
  have k: "plain_part k" "ModifierForName k = None" using default_keys_plain(1) assms(1) by (auto simp: list_all_iff)
  have ne: "key_named x k \<noteq> XKB_KEY_NoSymbol" by fact
  have "WLR_MODIFIER_ALT AND WLR_MODIFIER_SHIFT = 0" by code_simp
  then show "ParseShortcut x (''Alt+'' @ k @ '':no'') = Some \<lparr>ps_modifiers = WLR_MODIFIER_ALT, ps_keysym = key_named x k, ps_no_repeat = True\<rparr>"
    "ParseShortcut x (''Super+'' @ k @ '':no'') = Some \<lparr>ps_modifiers = WLR_MODIFIER_LOGO, ps_keysym = key_named x k, ps_no_repeat = True\<rparr>"
    "ParseShortcut x (''Alt+Shift+'' @ k @ '':no'') =
       Some \<lparr>ps_modifiers = WLR_MODIFIER_ALT OR WLR_MODIFIER_SHIFT, ps_keysym = key_named x k, ps_no_repeat = True\<rparr>"
    using ParseShortcut_no_repeat [of "[''Alt'', k]" x] ParseShortcut_no_repeat [of "[''Super'', k]" x]
      ParseShortcut_no_repeat [of "[''Alt'', ''Shift'', k]" x] k default_keys_plain(2-) ne
    by (simp_all add: parse_part_def key_named_def Let_def)
qed


definition default_chords :: "xkb \<Rightarrow> (keysym \<times> 32 word) list" where
  "default_chords x =
     [(key_named x ''Tab'', WLR_MODIFIER_ALT), (key_named x ''Tab'', WLR_MODIFIER_ALT OR WLR_MODIFIER_SHIFT),
      (key_named x ''S'', WLR_MODIFIER_LOGO), (key_named x ''Tab'', WLR_MODIFIER_LOGO),
      (key_named x ''A'', WLR_MODIFIER_LOGO), (key_named x ''F3'', WLR_MODIFIER_ALT),
      (key_named x ''F4'', WLR_MODIFIER_ALT), (key_named x ''F9'', WLR_MODIFIER_ALT),
      (key_named x ''F10'', WLR_MODIFIER_ALT)]"

lemma parse_defaults:
  assumes "\<forall>k \<in> set default_keys. key_named x k \<noteq> XKB_KEY_NoSymbol"
  shows "map ((\<lambda>s. map_option (\<lambda>p. (ps_keysym p, ps_modifiers p)) (ParseShortcut x s)) \<circ> fst) default_key_bindings =
    map Some (default_chords x)"
  using assms parse_default [of "''Tab''" x] parse_default [of "''S''" x] parse_default [of "''A''" x]
    parse_default [of "''F3''" x] parse_default [of "''F4''" x] parse_default [of "''F9''" x] parse_default [of "''F10''" x]
  by (simp add: default_keys_def default_key_bindings_def default_chords_def)

lemma default_chords_distinct:
  assumes "distinct (map (key_named x) default_keys)"
  shows "distinct (default_chords x)"
proof -
  have "WLR_MODIFIER_ALT \<noteq> WLR_MODIFIER_ALT OR WLR_MODIFIER_SHIFT" "WLR_MODIFIER_ALT \<noteq> WLR_MODIFIER_LOGO"
    "WLR_MODIFIER_ALT OR WLR_MODIFIER_SHIFT \<noteq> WLR_MODIFIER_LOGO" by code_simp+
  with assms show ?thesis by (auto simp: default_chords_def default_keys_def)
qed

lemma default_chords_length: "length (default_chords x) = 9"
  by (simp add: default_chords_def)

text \<open>start-up registers all nine default shortcuts, whenever xkbcommon knows the seven key
  names they use and maps them to different keysyms: no two of them collide, and the table then
  holds exactly these chords in order.\<close>

lemma RegisterDefaultKeyBindings_ok:
  assumes "\<forall>k \<in> set default_keys. key_named x k \<noteq> XKB_KEY_NoSymbol" "distinct (map (key_named x) default_keys)"
  shows "\<exists>m. RegisterDefaultKeyBindings x = (True, m) \<and> kb_inv x m \<and> map key_of (bindings m) = default_chords x"
proof -
  have "list_all (\<lambda>e. type_index (fst e) < 6) (map snd default_key_bindings)" "length default_key_bindings = 9"
    by (simp_all add: default_key_bindings_def)
  moreover have "bindings empty_manager = []" "unat (next_id empty_manager) = 1" by (simp_all add: empty_manager_def)
  ultimately show ?thesis
    using table.all_registered [OF kb_inv_empty _ _ parse_defaults [OF assms(1)]] default_chords_distinct [OF assms(2)]
    by (simp add: RegisterDefaultKeyBindings_def)
qed

end
