(* ===== verification/Wlr_Geometry.thy ===== *)
theory Wlr_Geometry
  imports Flake_Prelude
begin

text \<open>
  The wlroots geometry the compositor computes with: \<open>util/box.c\<close> and the queries and the
  automatic arrangement of \<open>types/wlr_output_layout.c\<close>. A \<open>NULL\<close> box is \<open>None\<close>; the not-a-number
  coordinates of an empty box are \<open>None\<close> as well. Outputs are named by numbers; their modes, scales and
  transforms are a field of the layout.
\<close>

section \<open>Boxes\<close>

record wlr_box =
  box_x :: int
  box_y :: int
  box_width :: int
  box_height :: int

definition zero_box :: wlr_box where
  "zero_box = \<lparr>box_x = 0, box_y = 0, box_width = 0, box_height = 0\<rparr>"

definition wlr_box_empty :: "wlr_box option \<Rightarrow> bool" where
  "wlr_box_empty box =
     (case box of None \<Rightarrow> True | Some b \<Rightarrow> box_width b \<le> 0 \<or> box_height b \<le> 0)"

text \<open>The nearest coordinate of one axis: the far edge is exclusive by a 256th of a pixel.\<close>

definition closest_coord :: "int \<Rightarrow> int \<Rightarrow> real \<Rightarrow> real" where
  "closest_coord start extent v =
     (if v < of_int start then of_int start
      else if v > of_int start + of_int extent - 1 / 256 then of_int start + of_int extent - 1 / 256
      else v)"

definition wlr_box_closest_point :: "wlr_box option \<Rightarrow> real \<Rightarrow> real \<Rightarrow> (real \<times> real) option" where
  "wlr_box_closest_point box x y =
     (case box of
        None \<Rightarrow> None
      | Some b \<Rightarrow>
          if wlr_box_empty box then None
          else Some (closest_coord (box_x b) (box_width b) x, closest_coord (box_y b) (box_height b) y))"

definition wlr_box_intersection :: "wlr_box \<Rightarrow> wlr_box \<Rightarrow> bool \<times> wlr_box" where
  "wlr_box_intersection a b =
     (if wlr_box_empty (Some a) \<or> wlr_box_empty (Some b) then (False, zero_box)
      else let x1 = max (box_x a) (box_x b);
               y1 = max (box_y a) (box_y b);
               x2 = min (box_x a + box_width a) (box_x b + box_width b);
               y2 = min (box_y a + box_height a) (box_y b + box_height b);
               dest = \<lparr>box_x = x1, box_y = y1, box_width = x2 - x1, box_height = y2 - y1\<rparr>
           in if wlr_box_empty (Some dest) then (False, zero_box) else (True, dest))"

definition wlr_box_contains_point :: "wlr_box \<Rightarrow> real \<Rightarrow> real \<Rightarrow> bool" where
  "wlr_box_contains_point b x y =
     (\<not> wlr_box_empty (Some b) \<and>
      x \<ge> of_int (box_x b) \<and> x < of_int (box_x b + box_width b) \<and>
      y \<ge> of_int (box_y b) \<and> y < of_int (box_y b + box_height b))"

definition wlr_box_contains_box :: "wlr_box \<Rightarrow> wlr_box \<Rightarrow> bool" where
  "wlr_box_contains_box bigger smaller =
     (\<not> (wlr_box_empty (Some bigger) \<or> wlr_box_empty (Some smaller)) \<and>
      box_x smaller \<ge> box_x bigger \<and>
      box_x smaller + box_width smaller \<le> box_x bigger + box_width bigger \<and>
      box_y smaller \<ge> box_y bigger \<and>
      box_y smaller + box_height smaller \<le> box_y bigger + box_height bigger)"

definition wlr_box_equal :: "wlr_box option \<Rightarrow> wlr_box option \<Rightarrow> bool" where
  "wlr_box_equal a b =
     (let a' = (if wlr_box_empty a then None else a);
          b' = (if wlr_box_empty b then None else b)
      in case (a', b') of
           (Some p, Some q) \<Rightarrow>
             box_x p = box_x q \<and> box_y p = box_y q \<and>
             box_width p = box_width q \<and> box_height p = box_height q
         | _ \<Rightarrow> a' = None \<and> b' = None)"

section \<open>Output transforms\<close>

datatype wl_output_transform =
    TRANSFORM_NORMAL | TRANSFORM_90 | TRANSFORM_180 | TRANSFORM_270
  | TRANSFORM_FLIPPED | TRANSFORM_FLIPPED_90 | TRANSFORM_FLIPPED_180 | TRANSFORM_FLIPPED_270

fun transform_index :: "wl_output_transform \<Rightarrow> nat" where
  "transform_index TRANSFORM_NORMAL = 0"
| "transform_index TRANSFORM_90 = 1"
| "transform_index TRANSFORM_180 = 2"
| "transform_index TRANSFORM_270 = 3"
| "transform_index TRANSFORM_FLIPPED = 4"
| "transform_index TRANSFORM_FLIPPED_90 = 5"
| "transform_index TRANSFORM_FLIPPED_180 = 6"
| "transform_index TRANSFORM_FLIPPED_270 = 7"

text \<open>The position part, over any ordered ring: \<open>wlr_box_transform\<close> and \<open>wlr_fbox_transform\<close>
  repeat it for \<open>int\<close> and \<open>double\<close>. Arguments: source x, y, width, height, then the size of the
  container.\<close>

fun transform_pos ::
  "wl_output_transform \<Rightarrow> 'a::ab_group_add \<Rightarrow> 'a \<Rightarrow> 'a \<Rightarrow> 'a \<Rightarrow> 'a \<Rightarrow> 'a \<Rightarrow> 'a \<times> 'a" where
  "transform_pos TRANSFORM_NORMAL x y w h width height = (x, y)"
| "transform_pos TRANSFORM_90 x y w h width height = (height - y - h, x)"
| "transform_pos TRANSFORM_180 x y w h width height = (width - x - w, height - y - h)"
| "transform_pos TRANSFORM_270 x y w h width height = (y, width - x - w)"
| "transform_pos TRANSFORM_FLIPPED x y w h width height = (width - x - w, y)"
| "transform_pos TRANSFORM_FLIPPED_90 x y w h width height = (y, x)"
| "transform_pos TRANSFORM_FLIPPED_180 x y w h width height = (x, height - y - h)"
| "transform_pos TRANSFORM_FLIPPED_270 x y w h width height = (height - y - h, width - x - w)"

definition wlr_box_transform ::
  "wlr_box option \<Rightarrow> wl_output_transform \<Rightarrow> int \<Rightarrow> int \<Rightarrow> wlr_box" where
  "wlr_box_transform box transform width height =
     (let src = (case box of None \<Rightarrow> zero_box | Some b \<Rightarrow> b);
          (w, h) = (if transform_index transform mod 2 = 0 then (box_width src, box_height src)
                    else (box_height src, box_width src));
          (x, y) = transform_pos transform (box_x src) (box_y src) (box_width src) (box_height src)
                     width height
      in \<lparr>box_x = x, box_y = y, box_width = w, box_height = h\<rparr>)"

record wlr_fbox =
  fbox_x :: real
  fbox_y :: real
  fbox_width :: real
  fbox_height :: real

definition wlr_fbox_empty :: "wlr_fbox option \<Rightarrow> bool" where
  "wlr_fbox_empty box =
     (case box of None \<Rightarrow> True | Some b \<Rightarrow> fbox_width b \<le> 0 \<or> fbox_height b \<le> 0)"

definition wlr_fbox_transform ::
  "wlr_fbox option \<Rightarrow> wl_output_transform \<Rightarrow> real \<Rightarrow> real \<Rightarrow> wlr_fbox" where
  "wlr_fbox_transform box transform width height =
     (let src = (case box of None \<Rightarrow> \<lparr>fbox_x = 0, fbox_y = 0, fbox_width = 0, fbox_height = 0\<rparr>
                           | Some b \<Rightarrow> b);
          (w, h) = (if transform_index transform mod 2 = 0 then (fbox_width src, fbox_height src)
                    else (fbox_height src, fbox_width src));
          (x, y) = transform_pos transform (fbox_x src) (fbox_y src) (fbox_width src)
                     (fbox_height src) width height
      in \<lparr>fbox_x = x, fbox_y = y, fbox_width = w, fbox_height = h\<rparr>)"

definition wlr_fbox_equal :: "wlr_fbox option \<Rightarrow> wlr_fbox option \<Rightarrow> bool" where
  "wlr_fbox_equal a b =
     (let a' = (if wlr_fbox_empty a then None else a);
          b' = (if wlr_fbox_empty b then None else b)
      in case (a', b') of
           (Some p, Some q) \<Rightarrow>
             fbox_x p = fbox_x q \<and> fbox_y p = fbox_y q \<and>
             fbox_width p = fbox_width q \<and> fbox_height p = fbox_height q
         | _ \<Rightarrow> a' = None \<and> b' = None)"

text \<open>\<open>util/transform.c\<close>: bit 0 is the quarter turn, bit 1 the half turn, bit 2 the flip.\<close>

fun transform_of :: "nat \<Rightarrow> wl_output_transform" where
  "transform_of n = (if n = 0 then TRANSFORM_NORMAL else if n = 1 then TRANSFORM_90 else if n = 2 then TRANSFORM_180
     else if n = 3 then TRANSFORM_270 else if n = 4 then TRANSFORM_FLIPPED else if n = 5 then TRANSFORM_FLIPPED_90
     else if n = 6 then TRANSFORM_FLIPPED_180 else TRANSFORM_FLIPPED_270)"

definition transform_bits :: "wl_output_transform \<Rightarrow> 32 word" where
  "transform_bits tr = of_nat (transform_index tr)"

definition wlr_output_transform_invert :: "wl_output_transform \<Rightarrow> wl_output_transform" where
  "wlr_output_transform_invert tr =
     (if transform_bits tr AND 1 \<noteq> 0 \<and> transform_bits tr AND 4 = 0
      then transform_of (unat (transform_bits tr XOR 2)) else tr)"

definition wlr_output_transform_compose :: "wl_output_transform \<Rightarrow> wl_output_transform \<Rightarrow> wl_output_transform" where
  "wlr_output_transform_compose tr_a tr_b =
     (let a = transform_bits tr_a; b = transform_bits tr_b;
          flipped = (a XOR b) AND 4;
          rotated = (if b AND 4 \<noteq> 0 then (b - a) AND (1 OR 2) else (a + b) AND (1 OR 2))
      in transform_of (unat (flipped OR rotated)))"

section \<open>The output layout\<close>

record wlr_output =
  wo_width :: int
  wo_height :: int
  wo_scale :: real
  wo_transform :: wl_output_transform
  wo_enabled :: bool
  wo_refresh :: int

definition wlr_output_transformed_resolution :: "wlr_output \<Rightarrow> int \<times> int" where
  "wlr_output_transformed_resolution output =
     (if transform_index (wo_transform output) mod 2 = 0 then (wo_width output, wo_height output)
      else (wo_height output, wo_width output))"

definition wlr_output_effective_resolution :: "wlr_output \<Rightarrow> int \<times> int" where
  "wlr_output_effective_resolution output =
     (let (width, height) = wlr_output_transformed_resolution output
      in (ctrunc (of_int width / wo_scale output), ctrunc (of_int height / wo_scale output)))"

record layout_output =
  lo_output :: nat
  lo_x :: int
  lo_y :: int
  lo_auto_configured :: bool

record wlr_output_layout =
  lo_outputs :: "layout_output list"
  output_state :: "nat \<Rightarrow> wlr_output"

definition output_layout_output_get_box :: "wlr_output_layout \<Rightarrow> layout_output \<Rightarrow> wlr_box" where
  "output_layout_output_get_box layout l =
     (let (width, height) = wlr_output_effective_resolution (output_state layout (lo_output l))
      in \<lparr>box_x = lo_x l, box_y = lo_y l, box_width = width, box_height = height\<rparr>)"

definition INT_MIN :: int where "INT_MIN = - 2147483648"
definition INT_MAX :: int where "INT_MAX = 2147483647"

text \<open>The two loops of \<open>output_layout_reconfigure\<close>: the right edge of the manually placed outputs,
  then the automatic ones in a row from there.\<close>

fun rightmost_manual :: "wlr_output_layout \<Rightarrow> layout_output list \<Rightarrow> int \<times> int \<Rightarrow> int \<times> int" where
  "rightmost_manual layout [] acc = acc"
| "rightmost_manual layout (l # ls) (max_x, max_x_y) =
     (if lo_auto_configured l then rightmost_manual layout ls (max_x, max_x_y)
      else let b = output_layout_output_get_box layout l
           in if box_x b + box_width b > max_x
              then rightmost_manual layout ls (box_x b + box_width b, box_y b)
              else rightmost_manual layout ls (max_x, max_x_y))"

fun place_auto :: "wlr_output_layout \<Rightarrow> int \<Rightarrow> int \<Rightarrow> layout_output list \<Rightarrow> layout_output list" where
  "place_auto layout max_x max_x_y [] = []"
| "place_auto layout max_x max_x_y (l # ls) =
     (if \<not> lo_auto_configured l then l # place_auto layout max_x max_x_y ls
      else l\<lparr>lo_x := max_x, lo_y := max_x_y\<rparr> #
           place_auto layout (max_x + box_width (output_layout_output_get_box layout l)) max_x_y ls)"

definition output_layout_reconfigure :: "wlr_output_layout \<Rightarrow> wlr_output_layout" where
  "output_layout_reconfigure layout =
     (let (max_x, max_x_y) = rightmost_manual layout (lo_outputs layout) (INT_MIN, INT_MIN);
          (start_x, start_y) = (if max_x = INT_MIN then (0, 0) else (max_x, max_x_y))
      in layout\<lparr>lo_outputs := place_auto layout start_x start_y (lo_outputs layout)\<rparr>)"

definition wlr_output_layout_get :: "wlr_output_layout \<Rightarrow> nat \<Rightarrow> layout_output option" where
  "wlr_output_layout_get layout reference = find (\<lambda>l. lo_output l = reference) (lo_outputs layout)"

definition output_layout_add ::
  "wlr_output_layout \<Rightarrow> nat \<Rightarrow> int \<Rightarrow> int \<Rightarrow> bool \<Rightarrow> wlr_output_layout" where
  "output_layout_add layout output lx ly auto_configured =
     (let entry = \<lparr>lo_output = output, lo_x = lx, lo_y = ly, lo_auto_configured = auto_configured\<rparr>;
          outputs = (if wlr_output_layout_get layout output = None then lo_outputs layout @ [entry]
                     else map (\<lambda>l. if lo_output l = output then entry else l) (lo_outputs layout))
      in output_layout_reconfigure (layout\<lparr>lo_outputs := outputs\<rparr>))"

definition wlr_output_layout_add :: "wlr_output_layout \<Rightarrow> nat \<Rightarrow> int \<Rightarrow> int \<Rightarrow> wlr_output_layout" where
  "wlr_output_layout_add layout output lx ly = output_layout_add layout output lx ly False"

definition wlr_output_layout_add_auto :: "wlr_output_layout \<Rightarrow> nat \<Rightarrow> wlr_output_layout" where
  "wlr_output_layout_add_auto layout output = output_layout_add layout output 0 0 True"

definition wlr_output_layout_remove :: "wlr_output_layout \<Rightarrow> nat \<Rightarrow> wlr_output_layout" where
  "wlr_output_layout_remove layout output =
     (case wlr_output_layout_get layout output of
        None \<Rightarrow> layout
      | Some _ \<Rightarrow> output_layout_reconfigure
                    (layout\<lparr>lo_outputs := erase_if (\<lambda>l. lo_output l = output) (lo_outputs layout)\<rparr>))"

definition wlr_output_layout_output_at :: "wlr_output_layout \<Rightarrow> real \<Rightarrow> real \<Rightarrow> nat option" where
  "wlr_output_layout_output_at layout lx ly =
     map_option lo_output
       (find (\<lambda>l. wlr_box_contains_point (output_layout_output_get_box layout l) lx ly)
             (lo_outputs layout))"

text \<open>The search loop of \<open>wlr_output_layout_closest_point\<close>; \<open>None\<close> is the initial \<open>DBL_MAX\<close>, which
  the infinite distance to an empty output does not improve on.\<close>

fun closest_point_loop ::
  "wlr_output_layout \<Rightarrow> nat option \<Rightarrow> real \<Rightarrow> real \<Rightarrow> layout_output list \<Rightarrow>
     real \<times> real \<times> real option \<Rightarrow> real \<times> real \<times> real option" where
  "closest_point_loop layout reference lx ly [] acc = acc"
| "closest_point_loop layout reference lx ly (l # ls) (min_x, min_y, min_distance) =
     (if reference \<noteq> None \<and> reference \<noteq> Some (lo_output l)
      then closest_point_loop layout reference lx ly ls (min_x, min_y, min_distance)
      else (case wlr_box_closest_point (Some (output_layout_output_get_box layout l)) lx ly of
              None \<Rightarrow> closest_point_loop layout reference lx ly ls (min_x, min_y, min_distance)
            | Some (ox, oy) \<Rightarrow>
                let distance = (lx - ox) * (lx - ox) + (ly - oy) * (ly - oy)
                in if (case min_distance of None \<Rightarrow> True | Some d \<Rightarrow> distance < d)
                   then closest_point_loop layout reference lx ly ls (ox, oy, Some distance)
                   else closest_point_loop layout reference lx ly ls (min_x, min_y, min_distance)))"

definition wlr_output_layout_closest_point ::
  "wlr_output_layout \<Rightarrow> nat option \<Rightarrow> real \<Rightarrow> real \<Rightarrow> real \<times> real" where
  "wlr_output_layout_closest_point layout reference lx ly =
     (let (min_x, min_y, _) = closest_point_loop layout reference lx ly (lo_outputs layout) (lx, ly, None)
      in (min_x, min_y))"

fun layout_extents ::
  "wlr_output_layout \<Rightarrow> layout_output list \<Rightarrow> int \<times> int \<times> int \<times> int \<Rightarrow> int \<times> int \<times> int \<times> int" where
  "layout_extents layout [] acc = acc"
| "layout_extents layout (l # ls) (min_x, min_y, max_x, max_y) =
     (let b = output_layout_output_get_box layout l
      in layout_extents layout ls
           (if box_x b < min_x then box_x b else min_x,
            if box_y b < min_y then box_y b else min_y,
            if box_x b + box_width b > max_x then box_x b + box_width b else max_x,
            if box_y b + box_height b > max_y then box_y b + box_height b else max_y))"

definition wlr_output_layout_get_box :: "wlr_output_layout \<Rightarrow> nat option \<Rightarrow> wlr_box" where
  "wlr_output_layout_get_box layout reference =
     (case reference of
        Some output \<Rightarrow>
          (case wlr_output_layout_get layout output of
             None \<Rightarrow> zero_box
           | Some l \<Rightarrow> output_layout_output_get_box layout l)
      | None \<Rightarrow>
          (let (min_x, min_y, max_x, max_y) =
                 (if lo_outputs layout = [] then (0, 0, 0, 0)
                  else layout_extents layout (lo_outputs layout) (INT_MAX, INT_MAX, INT_MIN, INT_MIN))
           in \<lparr>box_x = min_x, box_y = min_y, box_width = max_x - min_x, box_height = max_y - min_y\<rparr>))"

definition wlr_output_layout_get_center_output :: "wlr_output_layout \<Rightarrow> nat option" where
  "wlr_output_layout_get_center_output layout =
     (if lo_outputs layout = [] then None
      else let extents = wlr_output_layout_get_box layout None;
               center_x = of_int (box_width extents) / 2 + of_int (box_x extents);
               center_y = of_int (box_height extents) / 2 + of_int (box_y extents);
               (dest_x, dest_y) = wlr_output_layout_closest_point layout None center_x center_y
           in wlr_output_layout_output_at layout dest_x dest_y)"

end
