(* ===== verification/Geometry_Laws.thy ===== *)
theory Geometry_Laws
  imports Wlr_Geometry
begin

text \<open>
  Facts about boxes, transforms and the output layout: the intersection is the intersection of the
  point sets, transforms invert and compose, the closest point lies inside, a layout with a
  non-empty output has a centre output, and automatically placed outputs overlap nothing.
\<close>

lemma intersection_points:
  "wlr_box_contains_point (snd (wlr_box_intersection a b)) x y \<longleftrightarrow>
     wlr_box_contains_point a x y \<and> wlr_box_contains_point b x y"
  by (auto simp: wlr_box_intersection_def wlr_box_contains_point_def wlr_box_empty_def zero_box_def Let_def max_def min_def)

lemma intersection_fst: "fst (wlr_box_intersection a b) \<longleftrightarrow> \<not> wlr_box_empty (Some (snd (wlr_box_intersection a b)))"
  by (auto simp: wlr_box_intersection_def wlr_box_empty_def zero_box_def Let_def)

lemma transform_invert:
  "wlr_box_transform (Some (wlr_box_transform (Some b) t w h)) (wlr_output_transform_invert t)
     (if transform_index t mod 2 = 0 then w else h) (if transform_index t mod 2 = 0 then h else w) = b"
  by (cases t) (simp_all add: wlr_box_transform_def wlr_output_transform_invert_def transform_bits_def)

lemma closest_coord_bounds:
  "0 < extent \<Longrightarrow> of_int start \<le> closest_coord start extent v \<and> closest_coord start extent v < of_int (start + extent)"
  by (auto simp: closest_coord_def)

lemma closest_coord_nearest:
  "0 < extent \<Longrightarrow> of_int start \<le> u \<Longrightarrow> u \<le> of_int start + of_int extent - 1/256 \<Longrightarrow>
   \<bar>v - closest_coord start extent v\<bar> \<le> \<bar>v - u\<bar>"
  by (auto simp: closest_coord_def)

lemma closest_point_inside:
  "wlr_box_closest_point (Some b) x y = Some (px, py) \<Longrightarrow> wlr_box_contains_point b px py"
  using closest_coord_bounds [of "box_width b" "box_x b" x] closest_coord_bounds [of "box_height b" "box_y b" y]
  by (auto simp: wlr_box_closest_point_def wlr_box_contains_point_def wlr_box_empty_def split: if_splits)

lemma closest_point_nonempty: "\<not> wlr_box_empty (Some b) \<Longrightarrow> \<exists>p. wlr_box_closest_point (Some b) x y = Some p"
  by (simp add: wlr_box_closest_point_def)

lemma closest_loop_inside:
  "closest_point_loop layout reference lx ly ls (mx, my, md) = (rx, ry, rd) \<Longrightarrow>
   (md \<noteq> None \<longrightarrow> (\<exists>l \<in> ls0. wlr_box_contains_point (output_layout_output_get_box layout l) mx my)) \<Longrightarrow> set ls \<subseteq> ls0 \<Longrightarrow>
   rd \<noteq> None \<Longrightarrow> (\<exists>l \<in> ls0. wlr_box_contains_point (output_layout_output_get_box layout l) rx ry)"
proof (induction ls arbitrary: mx my md)
  case (Cons l ls)
  show ?case
  proof (cases "wlr_box_closest_point (Some (output_layout_output_get_box layout l)) lx ly")
    case None
    with Cons show ?thesis by (auto split: if_splits)
  next
    case (Some p)
    with Cons closest_point_inside show ?thesis by (cases p) (fastforce simp: Let_def split: if_splits)
  qed
qed simp

lemma closest_loop_some:
  "closest_point_loop layout None lx ly ls (mx, my, md) = (rx, ry, rd) \<Longrightarrow>
   md \<noteq> None \<or> (\<exists>l \<in> set ls. \<not> wlr_box_empty (Some (output_layout_output_get_box layout l))) \<Longrightarrow> rd \<noteq> None"
proof (induction ls arbitrary: mx my md)
  case (Cons l ls)
  show ?case
  proof (cases "wlr_box_closest_point (Some (output_layout_output_get_box layout l)) lx ly")
    case None
    then have "wlr_box_empty (Some (output_layout_output_get_box layout l))" by (simp add: wlr_box_closest_point_def split: if_splits)
    with Cons None show ?thesis by (auto split: if_splits)
  next
    case (Some p)
    with Cons show ?thesis by (cases p) (auto simp: Let_def split: if_splits option.splits)
  qed
qed simp

lemma output_at_member:
  assumes "l \<in> set (lo_outputs layout)" "wlr_box_contains_point (output_layout_output_get_box layout l) x y"
  shows "\<exists>k. wlr_output_layout_output_at layout x y = Some k"
  using assms by (cases "find (\<lambda>l. wlr_box_contains_point (output_layout_output_get_box layout l) x y) (lo_outputs layout)")
    (auto simp: wlr_output_layout_output_at_def dest: find_NoneD)

lemma center_output_exists:
  assumes "l \<in> set (lo_outputs layout)" "\<not> wlr_box_empty (Some (output_layout_output_get_box layout l))"
  shows "\<exists>k. wlr_output_layout_get_center_output layout = Some k"
proof -
  define e where "e = wlr_output_layout_get_box layout None"
  define cx where "cx = of_int (box_width e) / 2 + (of_int (box_x e) :: real)"
  define cy where "cy = of_int (box_height e) / 2 + (of_int (box_y e) :: real)"
  obtain rx ry rd where r: "closest_point_loop layout None cx cy (lo_outputs layout) (cx, cy, None) = (rx, ry, rd)"
    by (cases "closest_point_loop layout None cx cy (lo_outputs layout) (cx, cy, None)") auto
  have "rd \<noteq> None" using closest_loop_some [OF r] assms by blast
  then obtain l' where "l' \<in> set (lo_outputs layout)" "wlr_box_contains_point (output_layout_output_get_box layout l') rx ry"
    using closest_loop_inside [OF r] by auto
  from output_at_member [OF this] have "\<exists>k. wlr_output_layout_output_at layout rx ry = Some k" .
  then show ?thesis using assms(1) r
    by (auto simp: wlr_output_layout_get_center_output_def wlr_output_layout_closest_point_def Let_def cx_def cy_def e_def)
qed


lemma transform_compose:
  "wlr_box_transform (Some (wlr_box_transform (Some b) t w h)) t'
     (if transform_index t mod 2 = 0 then w else h) (if transform_index t mod 2 = 0 then h else w) =
   wlr_box_transform (Some b) (wlr_output_transform_compose t' t) w h"
  by (cases t; cases t'; simp add: wlr_box_transform_def wlr_output_transform_compose_def transform_bits_def Let_def)

definition out_width :: "wlr_output_layout \<Rightarrow> layout_output \<Rightarrow> int" where
  "out_width layout l = box_width (output_layout_output_get_box layout l)"

lemma get_box_fields [simp]:
  "box_x (output_layout_output_get_box layout l) = lo_x l"
  "box_width (output_layout_output_get_box layout l) = out_width layout l"
  "output_layout_output_get_box (layout\<lparr>lo_outputs := ls\<rparr>) l = output_layout_output_get_box layout l"
  by (simp_all add: out_width_def output_layout_output_get_box_def split: prod.split)

lemma out_width_moved [simp]: "out_width layout (l\<lparr>lo_x := x, lo_y := y\<rparr>) = out_width layout l"
  by (simp add: out_width_def output_layout_output_get_box_def split: prod.split)

lemma place_auto_right:
  "\<forall>l \<in> set ls. 0 \<le> out_width layout l \<Longrightarrow> l \<in> set (place_auto layout x y ls) \<Longrightarrow> lo_auto_configured l \<Longrightarrow> x \<le> lo_x l"
  by (induction ls arbitrary: x) (fastforce split: if_splits)+

lemma place_auto_sorted:
  "\<forall>l \<in> set ls. 0 \<le> out_width layout l \<Longrightarrow>
   sorted_wrt (\<lambda>l k. lo_auto_configured l \<longrightarrow> lo_auto_configured k \<longrightarrow> lo_x l + out_width layout l \<le> lo_x k) (place_auto layout x y ls)"
  by (induction ls arbitrary: x) (auto dest: place_auto_right)

lemma place_auto_manual:
  "l \<in> set (place_auto layout x y ls) \<Longrightarrow> \<not> lo_auto_configured l \<Longrightarrow> l \<in> set ls"
  by (induction ls arbitrary: x) (auto split: if_splits)

lemma rightmost_manual_mono: "fst acc \<le> fst (rightmost_manual layout ls acc)"
proof (induction ls arbitrary: acc)
  case (Cons l ls)
  obtain mx my where "acc = (mx, my)" by (cases acc)
  with Cons.IH [of acc] Cons.IH [of "(lo_x l + out_width layout l, box_y (output_layout_output_get_box layout l))"]
  show ?case by (auto simp: Let_def)
qed simp

lemma rightmost_manual_ge:
  "l \<in> set ls \<Longrightarrow> \<not> lo_auto_configured l \<Longrightarrow> lo_x l + out_width layout l \<le> fst (rightmost_manual layout ls acc)"
proof (induction ls arbitrary: acc)
  case (Cons k ls)
  obtain mx my where acc: "acc = (mx, my)" by (cases acc)
  show ?case
  proof (cases "l = k")
    case True
    with Cons.prems rightmost_manual_mono [of acc layout ls]
      rightmost_manual_mono [of "(lo_x l + out_width layout l, box_y (output_layout_output_get_box layout l))" layout ls]
    show ?thesis by (auto simp: Let_def acc)
  qed (use Cons in \<open>auto simp: Let_def acc\<close>)
qed simp

lemma disjoint_intervals:
  "box_x a + box_width a \<le> box_x b \<or> box_x b + box_width b \<le> box_x a \<Longrightarrow> \<not> fst (wlr_box_intersection a b)"
  by (auto simp: wlr_box_intersection_def wlr_box_empty_def Let_def max_def min_def)

lemma sorted_wrt_pair:
  "sorted_wrt P xs \<Longrightarrow> a \<in> set xs \<Longrightarrow> b \<in> set xs \<Longrightarrow> a \<noteq> b \<Longrightarrow> P a b \<or> P b a"
  by (induction xs) auto

theorem auto_outputs_disjoint:
  assumes "\<forall>l \<in> set (lo_outputs layout). 0 \<le> out_width layout l \<and> INT_MIN < lo_x l"
    and "l \<in> set (lo_outputs (output_layout_reconfigure layout))" "k \<in> set (lo_outputs (output_layout_reconfigure layout))" "l \<noteq> k"
    and "lo_auto_configured l"
  shows "\<not> fst (wlr_box_intersection (output_layout_output_get_box layout l) (output_layout_output_get_box layout k))"
proof (rule disjoint_intervals, simp)
  obtain mx my where r: "rightmost_manual layout (lo_outputs layout) (INT_MIN, INT_MIN) = (mx, my)"
    by (cases "rightmost_manual layout (lo_outputs layout) (INT_MIN, INT_MIN)")
  define x where "x = (if mx = INT_MIN then 0 else mx)"
  define y where "y = (if mx = INT_MIN then 0 else my)"
  have out: "lo_outputs (output_layout_reconfigure layout) = place_auto layout x y (lo_outputs layout)"
    by (simp add: output_layout_reconfigure_def r x_def y_def)
  have w: "\<forall>l \<in> set (lo_outputs layout). 0 \<le> out_width layout l" using assms(1) by blast
  show "lo_x l + out_width layout l \<le> lo_x k \<or> lo_x k + out_width layout k \<le> lo_x l"
  proof (cases "lo_auto_configured k")
    case True
    with sorted_wrt_pair [OF place_auto_sorted [OF w] assms(2-4) [unfolded out]] assms(5) show ?thesis by blast
  next
    case False
    with assms(3) have k: "k \<in> set (lo_outputs layout)" unfolding out by (rule place_auto_manual)
    then have "lo_x k + out_width layout k \<le> mx" "INT_MIN < lo_x k" "0 \<le> out_width layout k"
      using rightmost_manual_ge [OF k False, of layout "(INT_MIN, INT_MIN)"] r assms(1) by auto
    then show ?thesis using place_auto_right [OF w, of l x y] assms(2,5) by (auto simp: out x_def)
  qed
qed

end
