(* ===== verification/Ssd.thy ===== *)
theory Ssd
  imports Geometry_Laws
begin

text \<open>
  The server-side decoration of a window (\<open>view/ssd/ssd/ssd.cc\<close>): the frame around the client
  area, the hit test of its titlebar, buttons and resize borders, and the setters that keep the
  scene nodes arranged. The QtQuick painter behind \<open>SsdRenderer\<close> is a parameter: whether a
  \<open>Resize\<close> succeeds (\<open>renderer_resize\<close>); the shadow is the last \<open>Update\<close> it received.
\<close>

definition kTitlebarHeight :: int where "kTitlebarHeight = 40"
definition kBorderWidth :: int where "kBorderWidth = 1"
definition kButtonWidth :: int where "kButtonWidth = 40"

definition WLR_EDGE_NONE :: "32 word" where "WLR_EDGE_NONE = 0"
definition WLR_EDGE_TOP :: "32 word" where "WLR_EDGE_TOP = 1"
definition WLR_EDGE_BOTTOM :: "32 word" where "WLR_EDGE_BOTTOM = 2"
definition WLR_EDGE_LEFT :: "32 word" where "WLR_EDGE_LEFT = 4"
definition WLR_EDGE_RIGHT :: "32 word" where "WLR_EDGE_RIGHT = 8"

lemmas edge_defs = WLR_EDGE_NONE_def WLR_EDGE_TOP_def WLR_EDGE_BOTTOM_def WLR_EDGE_LEFT_def
  WLR_EDGE_RIGHT_def

datatype Part = kNone | kTitlebar | kMinimize | kMaximize | kClose | kResize

record HitTarget =
  ht_part :: Part
  ht_edges :: "32 word"

definition no_target :: HitTarget where
  "no_target = \<lparr>ht_part = kNone, ht_edges = 0\<rparr>"

definition hit_part :: "Part \<Rightarrow> HitTarget" where
  "hit_part p = \<lparr>ht_part = p, ht_edges = 0\<rparr>"

record Ssd =
  ssd_tree :: bool
  ssd_tree_enabled :: bool
  titlebar_x :: int
  titlebar_y :: int
  client_geometry :: wlr_box
  ssd_shadow :: "(wlr_box \<times> bool \<times> bool \<times> bool) option"
  ssd_active :: bool
  ssd_maximized :: bool
  ssd_tiled :: bool
  ssd_dialog :: bool
  can_minimize :: bool
  can_maximize :: bool
  ssd_title :: string
  ssd_app_id :: string
  hovered_part :: Part
  pressed_part :: Part
  renderer_resize :: "int \<Rightarrow> int \<Rightarrow> bool"

text \<open>\<open>Ssd::Create\<close> of a live parent tree with a working renderer; the fields start as the class
  declares them.\<close>

definition Ssd_Create :: "(int \<Rightarrow> int \<Rightarrow> bool) \<Rightarrow> Ssd option" where
  "Ssd_Create resize =
     (if \<not> resize 1 (kTitlebarHeight + kBorderWidth) then None
      else Some \<lparr>ssd_tree = True, ssd_tree_enabled = True, titlebar_x = 0, titlebar_y = 0,
                 client_geometry = zero_box, ssd_shadow = None, ssd_active = False,
                 ssd_maximized = False, ssd_tiled = False, ssd_dialog = False,
                 can_minimize = True, can_maximize = True, ssd_title = [], ssd_app_id = [],
                 hovered_part = kNone, pressed_part = kNone, renderer_resize = resize\<rparr>)"

definition BorderWidth :: "Ssd \<Rightarrow> int" where
  "BorderWidth s = (if ssd_maximized s \<or> ssd_tiled s then 0 else kBorderWidth)"

definition Ssd_FrameGeometry :: "Ssd \<Rightarrow> wlr_box \<Rightarrow> wlr_box" where
  "Ssd_FrameGeometry s client =
     (let border = BorderWidth s
      in \<lparr>box_x = box_x client - border,
          box_y = box_y client - kTitlebarHeight - border,
          box_width = box_width client + border * 2,
          box_height = box_height client + kTitlebarHeight + border * 2\<rparr>)"

definition ContentGeometry :: "Ssd \<Rightarrow> wlr_box \<Rightarrow> wlr_box" where
  "ContentGeometry s frame =
     (let border = BorderWidth s
      in \<lparr>box_x = box_x frame + border,
          box_y = box_y frame + kTitlebarHeight + border,
          box_width = max 1 (box_width frame - border * 2),
          box_height = max 1 (box_height frame - kTitlebarHeight - border * 2)\<rparr>)"

definition TitlebarHeight :: "Ssd \<Rightarrow> int" where
  "TitlebarHeight s = kTitlebarHeight"

text \<open>The edges a point within \<open>margin\<close> of a border selects.\<close>

definition border_edges :: "wlr_box \<Rightarrow> int \<Rightarrow> real \<Rightarrow> real \<Rightarrow> 32 word" where
  "border_edges frame border x y =
     (if x < of_int (box_x frame + border) then WLR_EDGE_LEFT
      else if x \<ge> of_int (box_x frame + box_width frame - border) then WLR_EDGE_RIGHT else 0) OR
     (if y < of_int (box_y frame + border) then WLR_EDGE_TOP
      else if y \<ge> of_int (box_y frame + box_height frame - border) then WLR_EDGE_BOTTOM else 0)"

definition HitTest :: "Ssd \<Rightarrow> real \<Rightarrow> real \<Rightarrow> HitTarget" where
  "HitTest s x y =
     (let frame = Ssd_FrameGeometry s (client_geometry s); border = BorderWidth s
      in if x < of_int (box_x frame) \<or> y < of_int (box_y frame) \<or>
            x \<ge> of_int (box_x frame + box_width frame) \<or> y \<ge> of_int (box_y frame + box_height frame)
         then no_target
         else if border > 0 \<and> border_edges frame border x y \<noteq> 0
         then \<lparr>ht_part = kResize, ht_edges = border_edges frame border x y\<rparr>
         else if y \<ge> of_int (box_y (client_geometry s)) then no_target
         else let close_x = of_int (box_x frame + box_width frame - border - kButtonWidth) :: real;
                  max_x = (if can_maximize s then close_x - of_int kButtonWidth else close_x);
                  min_x = (if can_minimize s then max_x - of_int kButtonWidth else max_x)
              in if x \<ge> close_x then hit_part kClose
                 else if can_maximize s \<and> x \<ge> max_x then hit_part kMaximize
                 else if can_minimize s \<and> x \<ge> min_x then hit_part kMinimize
                 else hit_part kTitlebar)"

definition Arrange :: "Ssd \<Rightarrow> Ssd" where
  "Arrange s =
     (if \<not> ssd_tree s \<or> box_width (client_geometry s) \<le> 0 \<or> box_height (client_geometry s) \<le> 0
      then (if ssd_tree s then s\<lparr>ssd_tree_enabled := False\<rparr> else s)
      else s\<lparr>ssd_shadow := Some (Ssd_FrameGeometry s (client_geometry s), ssd_active s, ssd_dialog s,
                               ssd_maximized s \<or> ssd_tiled s),
             titlebar_x := box_x (client_geometry s),
             titlebar_y := box_y (client_geometry s) - kTitlebarHeight,
             ssd_tree_enabled := renderer_resize s (box_width (client_geometry s)) kTitlebarHeight\<rparr>)"

definition SetGeometry :: "Ssd \<Rightarrow> wlr_box \<Rightarrow> Ssd" where
  "SetGeometry s geometry =
     (if client_geometry s = geometry then s else Arrange (s\<lparr>client_geometry := geometry\<rparr>))"

definition SetActive :: "Ssd \<Rightarrow> bool \<Rightarrow> Ssd" where
  "SetActive s active =
     (if ssd_active s = active then s
      else let s' = s\<lparr>ssd_active := active\<rparr>
           in s'\<lparr>ssd_shadow := Some (Ssd_FrameGeometry s' (client_geometry s'), ssd_active s',
                                   ssd_dialog s', ssd_maximized s' \<or> ssd_tiled s')\<rparr>)"

definition Ssd_SetMaximized :: "Ssd \<Rightarrow> bool \<Rightarrow> Ssd" where
  "Ssd_SetMaximized s maximized =
     (if ssd_maximized s = maximized then s else Arrange (s\<lparr>ssd_maximized := maximized\<rparr>))"

definition SetTiled :: "Ssd \<Rightarrow> bool \<Rightarrow> Ssd" where
  "SetTiled s tiled = (if ssd_tiled s = tiled then s else Arrange (s\<lparr>ssd_tiled := tiled\<rparr>))"

definition SetDialog :: "Ssd \<Rightarrow> bool \<Rightarrow> Ssd" where
  "SetDialog s dialog = (if ssd_dialog s = dialog then s else Arrange (s\<lparr>ssd_dialog := dialog\<rparr>))"

definition SetCapabilities :: "Ssd \<Rightarrow> bool \<Rightarrow> bool \<Rightarrow> Ssd" where
  "SetCapabilities s minimize maximize = s\<lparr>can_minimize := minimize, can_maximize := maximize\<rparr>"

definition SetTitle :: "Ssd \<Rightarrow> string \<Rightarrow> Ssd" where
  "SetTitle s title = s\<lparr>ssd_title := title\<rparr>"

definition SetAppId :: "Ssd \<Rightarrow> string \<Rightarrow> Ssd" where
  "SetAppId s app_id = s\<lparr>ssd_app_id := app_id\<rparr>"

definition SetHovered :: "Ssd \<Rightarrow> HitTarget \<Rightarrow> Ssd" where
  "SetHovered s t = s\<lparr>hovered_part := ht_part t\<rparr>"

definition SetPressed :: "Ssd \<Rightarrow> HitTarget \<Rightarrow> Ssd" where
  "SetPressed s t = s\<lparr>pressed_part := ht_part t\<rparr>"

definition OnTreeDestroy :: "Ssd \<Rightarrow> Ssd" where
  "OnTreeDestroy s = s\<lparr>ssd_tree := False\<rparr>"

end
