(* ===== verification/Toplevels.thy ===== *)
theory Toplevels
  imports Ssd
begin

text \<open>
  A window as the compositor keeps it (\<open>CompositorPrivate::Toplevel\<close>) and its virtual methods, with
  the overrides of \<open>xwayland::XSurface\<close>: \<open>tl_xwayland\<close> is the dynamic class. The protocol object
  behind a window, a \<open>wlr_xdg_toplevel\<close> or a \<open>wlr_xwayland_surface\<close>, is the record \<open>client\<close>: what
  the client said (\<open>cl_\<close> fields) and what the compositor last sent to it (\<open>sent_\<close> fields).
  The base class's own \<open>handle\<close> is null for an \<open>XSurface\<close>; see \<open>xdg_handle\<close>.
\<close>

section \<open>Data\<close>

datatype Tile = kLeft | kRight | kTopLeft | kBottomLeft | kTopRight | kBottomRight

record client =
  cl_surface :: "nat option"
  cl_initialized :: bool
  cl_initial_commit :: bool
  cl_geometry :: wlr_box
  cl_parent :: "nat option option"
  cl_modal :: bool
  cl_min_width :: int
  cl_max_width :: int
  cl_min_height :: int
  cl_max_height :: int
  cl_requested_maximized :: bool
  cl_requested_fullscreen :: bool
  cl_title :: "string option"
  cl_app_id :: "string option"
  cl_version :: nat
  cl_override_redirect :: bool
  cl_or_wants_focus :: bool
  cl_us_position :: bool
  cl_p_position :: bool
  sent_size :: "(int \<times> int) option"
  sent_box :: "wlr_box option"
  sent_activated :: bool
  sent_maximized :: bool
  sent_fullscreen :: bool
  sent_resizing :: bool
  sent_minimized :: bool
  sent_tiled :: "32 word"
  sent_capabilities :: "(32 word) option"
  sent_close :: nat
  sent_restack :: nat

record node =
  nd_x :: int
  nd_y :: int
  nd_enabled :: bool
  nd_in_toplevel_tree :: bool

record PendingConfigure =
  pc_size :: "wlr_box option"
  pc_activated :: "bool option"
  pc_maximized :: "bool option"
  pc_fullscreen :: "bool option"
  pc_tiled :: "(32 word) option"

definition no_pending :: PendingConfigure where
  "no_pending = \<lparr>pc_size = None, pc_activated = None, pc_maximized = None, pc_fullscreen = None,
     pc_tiled = None\<rparr>"

record Toplevel =
  tl_id :: nat
  tl_xwayland :: bool
  tl_handle :: "client option"
  tl_scene_tree :: "node option"
  tl_mapped :: bool
  tl_placed :: bool
  tl_position_requested :: bool
  tl_keep_centered :: bool
  tl_centered_frame :: wlr_box
  tl_maximized :: bool
  tl_minimized :: bool
  tl_kept_above :: bool
  tl_all_workspaces :: bool
  tl_workspace :: int
  tl_has_restore_box :: bool
  tl_restore_position_pending :: bool
  tl_tiled :: bool
  tl_tile_position_pending :: bool
  tl_capabilities_advertised :: bool
  tl_advertised_capabilities :: "32 word"
  tl_pending_configure :: PendingConfigure
  tl_restore_box :: wlr_box
  tl_maximized_box :: wlr_box
  tl_tiled_box :: wlr_box
  tl_maximized_output :: "nat option"
  tl_tile :: Tile
  tl_tiled_output :: "nat option"
  tl_corner_radius :: int
  tl_ssd :: "Ssd option"
  tl_ssd_initial_position_pending :: bool
  tl_csd_shadow :: "(wlr_box \<times> bool \<times> bool \<times> bool) option"
  tl_csd_shadow_set :: bool
  tl_csd_shadow_enabled :: bool

text \<open>The constructors: an XDG window, and the base part of an \<open>XSurface\<close>.\<close>

definition new_Toplevel :: "nat \<Rightarrow> bool \<Rightarrow> client \<Rightarrow> int \<Rightarrow> Toplevel" where
  "new_Toplevel i xwayland cl workspace =
     \<lparr>tl_id = i, tl_xwayland = xwayland, tl_handle = Some cl, tl_scene_tree = None, tl_mapped = False,
      tl_placed = False, tl_position_requested = False, tl_keep_centered = False,
      tl_centered_frame = zero_box, tl_maximized = False, tl_minimized = False,
      tl_kept_above = False, tl_all_workspaces = False, tl_workspace = workspace,
      tl_has_restore_box = False, tl_restore_position_pending = False, tl_tiled = False,
      tl_tile_position_pending = False, tl_capabilities_advertised = False,
      tl_advertised_capabilities = 0, tl_pending_configure = no_pending, tl_restore_box = zero_box,
      tl_maximized_box = zero_box, tl_tiled_box = zero_box, tl_maximized_output = None,
      tl_tile = kLeft, tl_tiled_output = None, tl_corner_radius = 8, tl_ssd = None,
      tl_ssd_initial_position_pending = False, tl_csd_shadow = None, tl_csd_shadow_set = False,
      tl_csd_shadow_enabled = False\<rparr>"

section \<open>Queries\<close>

text \<open>\<open>std::lround\<close>: to the nearest integer, halves away from zero; X pixels are layout units times
  the XWayland scale.\<close>

definition lround :: "real \<Rightarrow> int" where
  "lround r = (if 0 \<le> r then \<lfloor>r + 1 / 2\<rfloor> else - \<lfloor>1 / 2 - r\<rfloor>)"

definition ToX :: "real \<Rightarrow> int \<Rightarrow> int" where
  "ToX scale logical = lround (of_int logical * scale)"

definition FromX :: "real \<Rightarrow> int \<Rightarrow> int" where
  "FromX scale x = lround (of_int x / scale)"

definition xdg_handle :: "Toplevel \<Rightarrow> client option" where
  "xdg_handle t = (if tl_xwayland t then None else tl_handle t)"

definition IsAlive :: "Toplevel \<Rightarrow> bool" where
  "IsAlive t = (tl_handle t \<noteq> None)"

definition IsXWayland :: "Toplevel \<Rightarrow> bool" where
  "IsXWayland t = tl_xwayland t"

definition WantsFocus :: "Toplevel \<Rightarrow> bool" where
  "WantsFocus t =
     (if \<not> tl_xwayland t then True
      else case tl_handle t of
             None \<Rightarrow> False
           | Some h \<Rightarrow> \<not> cl_override_redirect h \<or> cl_or_wants_focus h)"

definition CanManage :: "Toplevel \<Rightarrow> bool" where
  "CanManage t =
     (if \<not> tl_xwayland t then True
      else case tl_handle t of None \<Rightarrow> False | Some h \<Rightarrow> \<not> cl_override_redirect h)"

definition CanMinimize :: "Toplevel \<Rightarrow> bool" where
  "CanMinimize t =
     (case tl_handle t of
        None \<Rightarrow> False
      | Some h \<Rightarrow> if \<not> tl_xwayland t then True
                  else CanManage t \<and> cl_parent h = None \<and> \<not> cl_modal h)"

definition fixed_width :: "client \<Rightarrow> bool" where
  "fixed_width h = (cl_min_width h > 0 \<and> cl_max_width h > 0 \<and> cl_min_width h = cl_max_width h)"

definition fixed_height :: "client \<Rightarrow> bool" where
  "fixed_height h = (cl_min_height h > 0 \<and> cl_max_height h > 0 \<and> cl_min_height h = cl_max_height h)"

definition CanMaximize :: "Toplevel \<Rightarrow> bool" where
  "CanMaximize t =
     (case tl_handle t of
        None \<Rightarrow> False
      | Some h \<Rightarrow>
          if tl_xwayland t then CanManage t \<and> cl_parent h = None \<and> \<not> cl_modal h
          else cl_parent h = None \<and> \<not> cl_modal h \<and> \<not> fixed_width h \<and> \<not> fixed_height h)"

definition RequestedMaximized :: "Toplevel \<Rightarrow> bool" where
  "RequestedMaximized t =
     (case tl_handle t of None \<Rightarrow> False | Some h \<Rightarrow> cl_requested_maximized h)"

definition RequestedFullscreen :: "Toplevel \<Rightarrow> bool" where
  "RequestedFullscreen t =
     (case tl_handle t of None \<Rightarrow> False | Some h \<Rightarrow> cl_requested_fullscreen h)"

definition Title :: "Toplevel \<Rightarrow> string option" where
  "Title t = Option.bind (tl_handle t) cl_title"

definition AppId :: "Toplevel \<Rightarrow> string option" where
  "AppId t = Option.bind (tl_handle t) cl_app_id"

definition Surface :: "Toplevel \<Rightarrow> nat option" where
  "Surface t = Option.bind (tl_handle t) cl_surface"

definition ParentSurface :: "Toplevel \<Rightarrow> nat option" where
  "ParentSurface t =
     (case tl_handle t of
        None \<Rightarrow> None
      | Some h \<Rightarrow> (case cl_parent h of None \<Rightarrow> None | Some s \<Rightarrow> s))"

definition RequestedPosition :: "Toplevel \<Rightarrow> bool" where
  "RequestedPosition t =
     (tl_position_requested t \<or>
      (tl_xwayland t \<and>
       (case tl_handle t of
          None \<Rightarrow> False
        | Some h \<Rightarrow> cl_us_position h \<or>
                    (cl_p_position h \<and> (box_x (cl_geometry h) \<noteq> 0 \<or> box_y (cl_geometry h) \<noteq> 0)))))"

definition Geometry :: "real \<Rightarrow> Toplevel \<Rightarrow> wlr_box" where
  "Geometry scale t =
     (case tl_handle t of
        None \<Rightarrow> zero_box
      | Some h \<Rightarrow>
          if tl_xwayland t
          then \<lparr>box_x = 0, box_y = 0, box_width = FromX scale (box_width (cl_geometry h)),
                box_height = FromX scale (box_height (cl_geometry h))\<rparr>
          else cl_geometry h)"

definition FrameGeometry :: "real \<Rightarrow> Toplevel \<Rightarrow> wlr_box" where
  "FrameGeometry scale t =
     (case tl_ssd t of
        None \<Rightarrow> Geometry scale t
      | Some s \<Rightarrow> Ssd_FrameGeometry s (Geometry scale t))"

definition LayoutFrame :: "real \<Rightarrow> Toplevel \<Rightarrow> wlr_box" where
  "LayoutFrame scale t =
     (case tl_scene_tree t of
        None \<Rightarrow> zero_box
      | Some n \<Rightarrow>
          let geometry = Geometry scale t; frame = FrameGeometry scale t
          in frame\<lparr>box_x := box_x frame + (nd_x n - box_x geometry),
                   box_y := box_y frame + (nd_y n - box_y geometry)\<rparr>)"

definition CanConfigure :: "Toplevel \<Rightarrow> bool" where
  "CanConfigure t = (case xdg_handle t of None \<Rightarrow> False | Some h \<Rightarrow> cl_initialized h)"

section \<open>Requests to the client\<close>

text \<open>Applying a function to the live protocol object, and to the pending record that stands in for
  it until the client's initial commit.\<close>

definition on_handle :: "(client \<Rightarrow> client) \<Rightarrow> Toplevel \<Rightarrow> Toplevel" where
  "on_handle f t = t\<lparr>tl_handle := map_option f (tl_handle t)\<rparr>"

definition on_pending :: "(PendingConfigure \<Rightarrow> PendingConfigure) \<Rightarrow> Toplevel \<Rightarrow> Toplevel" where
  "on_pending f t = t\<lparr>tl_pending_configure := f (tl_pending_configure t)\<rparr>"

text \<open>The shape of every XDG setter: the protocol call when \<open>CanConfigure()\<close>, otherwise the pending
  record while there is a handle at all.\<close>

definition configure_or_defer ::
  "(client \<Rightarrow> client) \<Rightarrow> (PendingConfigure \<Rightarrow> PendingConfigure) \<Rightarrow> Toplevel \<Rightarrow> Toplevel" where
  "configure_or_defer call defer_call t =
     (if CanConfigure t then on_handle call t
      else if xdg_handle t \<noteq> None then on_pending defer_call t
      else t)"

definition set_position :: "int \<Rightarrow> int \<Rightarrow> Toplevel \<Rightarrow> Toplevel" where
  "set_position x y t = t\<lparr>tl_scene_tree := map_option (\<lambda>n. n\<lparr>nd_x := x, nd_y := y\<rparr>) (tl_scene_tree t)\<rparr>"

definition set_enabled :: "bool \<Rightarrow> Toplevel \<Rightarrow> Toplevel" where
  "set_enabled e t = t\<lparr>tl_scene_tree := map_option (\<lambda>n. n\<lparr>nd_enabled := e\<rparr>) (tl_scene_tree t)\<rparr>"

definition x_clamp :: "real \<Rightarrow> wlr_box \<Rightarrow> wlr_box" where
  "x_clamp scale b =
     \<lparr>box_x = cclamp (ToX scale (box_x b)) (- 32768) 32767,
      box_y = cclamp (ToX scale (box_y b)) (- 32768) 32767,
      box_width = cclamp (ToX scale (box_width b)) 1 65535,
      box_height = cclamp (ToX scale (box_height b)) 1 65535\<rparr>"

definition Configure :: "real \<Rightarrow> wlr_box \<Rightarrow> Toplevel \<Rightarrow> Toplevel" where
  "Configure scale b t =
     (if tl_xwayland t then
        (if tl_handle t = None \<or> tl_scene_tree t = None \<or> box_width b \<le> 0 \<or> box_height b \<le> 0 then t
         else on_handle (\<lambda>h. h\<lparr>cl_geometry := x_clamp scale b, sent_box := Some (x_clamp scale b)\<rparr>)
                (set_position (box_x b) (box_y b) t))
      else if tl_scene_tree t = None \<or> box_width b \<le> 0 \<or> box_height b \<le> 0 then t
      else let geometry = Geometry scale t;
               content = (case tl_ssd t of None \<Rightarrow> b | Some s \<Rightarrow> ContentGeometry s b)
           in configure_or_defer
                (\<lambda>h. h\<lparr>sent_size := Some (box_width content, box_height content)\<rparr>)
                (\<lambda>p. p\<lparr>pc_size := Some content\<rparr>)
                (set_position (box_x content - box_x geometry) (box_y content - box_y geometry) t))"

text \<open>The XDG half of \<open>SetActivated\<close>; the XWayland half goes through the XWayland manager.\<close>

definition xdg_SetActivated :: "bool \<Rightarrow> Toplevel \<Rightarrow> Toplevel" where
  "xdg_SetActivated activated =
     configure_or_defer (\<lambda>h. h\<lparr>sent_activated := activated\<rparr>) (\<lambda>p. p\<lparr>pc_activated := Some activated\<rparr>)"

definition SetMaximizedState :: "bool \<Rightarrow> Toplevel \<Rightarrow> Toplevel" where
  "SetMaximizedState m t =
     (if tl_xwayland t then on_handle (\<lambda>h. h\<lparr>cl_requested_maximized := m, sent_maximized := m\<rparr>) t
      else configure_or_defer (\<lambda>h. h\<lparr>sent_maximized := m\<rparr>) (\<lambda>p. p\<lparr>pc_maximized := Some m\<rparr>) t)"

definition SetResizingState :: "bool \<Rightarrow> Toplevel \<Rightarrow> Toplevel" where
  "SetResizingState resizing t =
     (if CanConfigure t then on_handle (\<lambda>h. h\<lparr>sent_resizing := resizing\<rparr>) t else t)"

definition SetMinimizedState :: "bool \<Rightarrow> Toplevel \<Rightarrow> Toplevel" where
  "SetMinimizedState m t =
     (if tl_xwayland t then on_handle (\<lambda>h. h\<lparr>sent_minimized := m\<rparr>) t else t)"

definition SetFullscreenState :: "bool \<Rightarrow> Toplevel \<Rightarrow> Toplevel" where
  "SetFullscreenState f t =
     (if tl_xwayland t then on_handle (\<lambda>h. h\<lparr>cl_requested_fullscreen := f, sent_fullscreen := f\<rparr>) t
      else configure_or_defer (\<lambda>h. h\<lparr>sent_fullscreen := f\<rparr>) (\<lambda>p. p\<lparr>pc_fullscreen := Some f\<rparr>) t)"

definition SetTiledState :: "32 word \<Rightarrow> Toplevel \<Rightarrow> Toplevel" where
  "SetTiledState tiled_edges =
     configure_or_defer (\<lambda>h. h\<lparr>sent_tiled := tiled_edges\<rparr>) (\<lambda>p. p\<lparr>pc_tiled := Some tiled_edges\<rparr>)"

text \<open>A present option is applied, an absent one changes nothing.\<close>

definition apply_opt :: "'a option \<Rightarrow> ('a \<Rightarrow> 'b \<Rightarrow> 'b) \<Rightarrow> 'b \<Rightarrow> 'b" where
  "apply_opt v f b = (case v of None \<Rightarrow> b | Some a \<Rightarrow> f a b)"

definition SendInitialConfigure :: "Toplevel \<Rightarrow> Toplevel" where
  "SendInitialConfigure t =
     (let pending = tl_pending_configure t;
          b = (case pc_size pending of None \<Rightarrow> zero_box | Some b \<Rightarrow> b)
      in on_handle (\<lambda>h.
           (apply_opt (pc_activated pending) (\<lambda>a h. h\<lparr>sent_activated := a\<rparr>)
             (apply_opt (pc_fullscreen pending) (\<lambda>f h. h\<lparr>sent_fullscreen := f\<rparr>)
               (apply_opt (pc_maximized pending) (\<lambda>m h. h\<lparr>sent_maximized := m\<rparr>)
                 (apply_opt (pc_tiled pending) (\<lambda>e h. h\<lparr>sent_tiled := e\<rparr>) h))))
           \<lparr>sent_size := Some (box_width b, box_height b)\<rparr>)
         (t\<lparr>tl_pending_configure := no_pending\<rparr>))"

definition Restack :: "Toplevel \<Rightarrow> Toplevel" where
  "Restack t = (if tl_xwayland t \<and> CanManage t
                then on_handle (\<lambda>h. h\<lparr>sent_restack := Suc (sent_restack h)\<rparr>) t else t)"

definition Close :: "Toplevel \<Rightarrow> Toplevel" where
  "Close t = on_handle (\<lambda>h. h\<lparr>sent_close := Suc (sent_close h)\<rparr>) t"

definition CAP_WINDOW_MENU :: "32 word" where "CAP_WINDOW_MENU = 1"
definition CAP_MAXIMIZE :: "32 word" where "CAP_MAXIMIZE = 2"
definition CAP_FULLSCREEN :: "32 word" where "CAP_FULLSCREEN = 4"
definition CAP_MINIMIZE :: "32 word" where "CAP_MINIMIZE = 8"
definition kXdgShellVersion :: nat where "kXdgShellVersion = 5"

definition capabilities_of :: "Toplevel \<Rightarrow> 32 word" where
  "capabilities_of t =
     CAP_FULLSCREEN OR CAP_WINDOW_MENU OR
     (if CanMaximize t then CAP_MAXIMIZE else 0) OR (if CanMinimize t then CAP_MINIMIZE else 0)"

definition on_ssd :: "(Ssd \<Rightarrow> Ssd) \<Rightarrow> Toplevel \<Rightarrow> Toplevel" where
  "on_ssd f t = t\<lparr>tl_ssd := map_option f (tl_ssd t)\<rparr>"

definition UpdateCapabilities :: "Toplevel \<Rightarrow> Toplevel" where
  "UpdateCapabilities t =
     (let capabilities = capabilities_of t;
          t' = on_ssd (\<lambda>s. SetCapabilities s (CanMinimize t) (CanMaximize t)) t
      in case xdg_handle t of
           None \<Rightarrow> t'
         | Some h \<Rightarrow>
             if \<not> cl_initialized h \<or> cl_version h < kXdgShellVersion \<or>
                (tl_capabilities_advertised t \<and> tl_advertised_capabilities t = capabilities)
             then t'
             else on_handle (\<lambda>h. h\<lparr>sent_capabilities := Some capabilities\<rparr>)
                    (t'\<lparr>tl_advertised_capabilities := capabilities, tl_capabilities_advertised := True\<rparr>))"

end
