(* ===== verification/Layer_Shell.thy ===== *)
theory Layer_Shell
  imports Ssd
begin

text \<open>
  Layer-shell surfaces (panels, docks, backgrounds): the state of a \<open>wlr_layer_surface_v1\<close> and
  wlroots' placement of it inside an output, with the space an exclusive zone takes away from the
  usable area (\<open>types/scene/layer_shell_v1.c\<close>).
\<close>

datatype keyboard_interactivity = InteractiveNone | InteractiveExclusive | InteractiveOnDemand

record layer_client =
  lc_surface :: nat
  lc_surface_mapped :: bool
  lc_keyboard_interactive :: keyboard_interactivity
  lc_layer :: nat
  lc_output :: "nat option"
  lc_initialized :: bool
  lc_initial_commit :: bool
  lc_committed :: bool
  lc_committed_layer :: bool
  lc_exclusive_zone :: int
  lc_exclusive_edge :: "32 word"
  lc_anchor :: "32 word"
  lc_margin_top :: int
  lc_margin_bottom :: int
  lc_margin_left :: int
  lc_margin_right :: int
  lc_desired_width :: int
  lc_desired_height :: int
  lc_sent_size :: "(int \<times> int) option"

text \<open>\<open>ly_tree\<close> is the parent of the scene tree: the output and the layer whose tree holds it.\<close>

record LayerSurface =
  ly_id :: nat
  ly_mapped :: bool
  ly_handle :: "layer_client option"
  ly_tree :: "(nat \<times> nat) option"
  ly_x :: int
  ly_y :: int

definition ANCHOR_TOP :: "32 word" where "ANCHOR_TOP = 1"
definition ANCHOR_BOTTOM :: "32 word" where "ANCHOR_BOTTOM = 2"
definition ANCHOR_LEFT :: "32 word" where "ANCHOR_LEFT = 4"
definition ANCHOR_RIGHT :: "32 word" where "ANCHOR_RIGHT = 8"

lemmas anchor_defs = ANCHOR_TOP_def ANCHOR_BOTTOM_def ANCHOR_LEFT_def ANCHOR_RIGHT_def

definition wlr_layer_surface_v1_get_exclusive_edge :: "layer_client \<Rightarrow> 32 word" where
  "wlr_layer_surface_v1_get_exclusive_edge h =
     (if lc_exclusive_zone h \<le> 0 then WLR_EDGE_NONE
      else let anchor = (if lc_exclusive_edge h \<noteq> 0 then lc_exclusive_edge h else lc_anchor h)
           in if anchor = ANCHOR_TOP \<or> anchor = (ANCHOR_LEFT OR ANCHOR_RIGHT OR ANCHOR_TOP)
              then WLR_EDGE_TOP
              else if anchor = ANCHOR_BOTTOM \<or> anchor = (ANCHOR_LEFT OR ANCHOR_RIGHT OR ANCHOR_BOTTOM)
              then WLR_EDGE_BOTTOM
              else if anchor = ANCHOR_LEFT \<or> anchor = (ANCHOR_TOP OR ANCHOR_BOTTOM OR ANCHOR_LEFT)
              then WLR_EDGE_LEFT
              else if anchor = ANCHOR_RIGHT \<or> anchor = (ANCHOR_TOP OR ANCHOR_BOTTOM OR ANCHOR_RIGHT)
              then WLR_EDGE_RIGHT
              else WLR_EDGE_NONE)"

definition layer_surface_exclusive_zone :: "layer_client \<Rightarrow> 32 word \<Rightarrow> wlr_box \<Rightarrow> wlr_box" where
  "layer_surface_exclusive_zone h edge usable =
     (if edge = WLR_EDGE_NONE then usable
      else let u = (if edge = WLR_EDGE_TOP then
                      usable\<lparr>box_y := box_y usable + (lc_exclusive_zone h + lc_margin_top h),
                             box_height := box_height usable - (lc_exclusive_zone h + lc_margin_top h)\<rparr>
                    else if edge = WLR_EDGE_BOTTOM then
                      usable\<lparr>box_height := box_height usable - (lc_exclusive_zone h + lc_margin_bottom h)\<rparr>
                    else if edge = WLR_EDGE_LEFT then
                      usable\<lparr>box_x := box_x usable + (lc_exclusive_zone h + lc_margin_left h),
                             box_width := box_width usable - (lc_exclusive_zone h + lc_margin_left h)\<rparr>
                    else if edge = WLR_EDGE_RIGHT then
                      usable\<lparr>box_width := box_width usable - (lc_exclusive_zone h + lc_margin_right h)\<rparr>
                    else usable)
           in u\<lparr>box_width := (if box_width u < 0 then 0 else box_width u),
                box_height := (if box_height u < 0 then 0 else box_height u)\<rparr>)"

text \<open>Position and extent along one axis: the bounds, the two margins, the desired extent and
  whether the surface is anchored at the near and at the far edge.\<close>

definition layer_axis :: "int \<Rightarrow> int \<Rightarrow> int \<Rightarrow> int \<Rightarrow> int \<Rightarrow> bool \<Rightarrow> bool \<Rightarrow> int \<times> int" where
  "layer_axis start extent margin_near margin_far desired near far =
     (if desired = 0 then (start + margin_near, extent - (margin_near + margin_far))
      else if near \<and> far then (start + cdiv extent 2 - cdiv desired 2, desired)
      else if near then (start + margin_near, desired)
      else if far then (start + extent - desired - margin_far, desired)
      else (start + cdiv extent 2 - cdiv desired 2, desired))"

definition wlr_scene_layer_surface_v1_configure ::
  "LayerSurface \<Rightarrow> layer_client \<Rightarrow> wlr_box \<Rightarrow> wlr_box \<Rightarrow> LayerSurface \<times> wlr_box" where
  "wlr_scene_layer_surface_v1_configure l h full usable =
     (let bounds = (if lc_exclusive_zone h = - 1 then full else usable);
          (x, width) = layer_axis (box_x bounds) (box_width bounds) (lc_margin_left h)
            (lc_margin_right h) (lc_desired_width h)
            (lc_anchor h AND ANCHOR_LEFT \<noteq> 0) (lc_anchor h AND ANCHOR_RIGHT \<noteq> 0);
          (y, height) = layer_axis (box_y bounds) (box_height bounds) (lc_margin_top h)
            (lc_margin_bottom h) (lc_desired_height h)
            (lc_anchor h AND ANCHOR_TOP \<noteq> 0) (lc_anchor h AND ANCHOR_BOTTOM \<noteq> 0)
      in (l\<lparr>ly_x := x, ly_y := y, ly_handle := Some (h\<lparr>lc_sent_size := Some (width, height)\<rparr>)\<rparr>,
          if lc_surface_mapped h \<and> lc_exclusive_zone h > 0
          then layer_surface_exclusive_zone h (wlr_layer_surface_v1_get_exclusive_edge h) usable
          else usable))"

end
