(* ===== verification/Cursor_Image.thy ===== *)
theory Cursor_Image
  imports Flake_Prelude
begin

text \<open>
  The cursor image (\<open>SetCursorName\<close>, \<open>SetCursorSurface\<close>, \<open>UnsetCursorImage\<close>, \<open>LockCursorImage\<close> and
  \<open>ApplyCursorImage\<close> of \<open>compositor_private.cc\<close>): every request is remembered, an effect can hold
  the image hidden, and the latest request is applied when the lock is released. \<open>ci_shown\<close> is
  what \<open>wlr_cursor\<close> displays; \<open>ci_listener\<close> is the surface whose destruction is watched.
\<close>

datatype CursorImage = ImgName string | ImgSurface nat int int | ImgNone

record CursorState =
  ci_image :: CursorImage
  ci_locked :: bool
  ci_shown :: CursorImage
  ci_listener :: "nat option"

definition initial_cursor :: CursorState where
  "initial_cursor = \<lparr>ci_image = ImgName ''default'', ci_locked = False, ci_shown = ImgName ''default'',
     ci_listener = None\<rparr>"

definition ApplyCursorImage :: "CursorState \<Rightarrow> CursorState" where
  "ApplyCursorImage s = s\<lparr>ci_shown := ci_image s\<rparr>"

definition apply_unless_locked :: "CursorState \<Rightarrow> CursorState" where
  "apply_unless_locked s = (if \<not> ci_locked s then ApplyCursorImage s else s)"

definition SetCursorName :: "string \<Rightarrow> CursorState \<Rightarrow> CursorState" where
  "SetCursorName name s = apply_unless_locked (s\<lparr>ci_listener := None, ci_image := ImgName name\<rparr>)"

definition SetCursorSurface :: "nat option \<Rightarrow> int \<Rightarrow> int \<Rightarrow> CursorState \<Rightarrow> CursorState" where
  "SetCursorSurface surface hotspot_x hotspot_y s =
     apply_unless_locked
       (case surface of
          None \<Rightarrow> s\<lparr>ci_listener := None, ci_image := ImgNone\<rparr>
        | Some i \<Rightarrow> s\<lparr>ci_listener := Some i, ci_image := ImgSurface i hotspot_x hotspot_y\<rparr>)"

definition UnsetCursorImage :: "CursorState \<Rightarrow> CursorState" where
  "UnsetCursorImage s = apply_unless_locked (s\<lparr>ci_listener := None, ci_image := ImgNone\<rparr>)"

definition LockCursorImage :: "bool \<Rightarrow> CursorState \<Rightarrow> CursorState" where
  "LockCursorImage locked s =
     (if ci_locked s = locked then s
      else let s' = s\<lparr>ci_locked := locked\<rparr>
           in if locked then s'\<lparr>ci_shown := ImgNone\<rparr> else ApplyCursorImage s')"

text \<open>A surface is destroyed: \<open>wlr_cursor\<close> drops it by itself, and if its destruction is watched,
  \<open>OnCursorSurfaceDestroy\<close> forgets it.\<close>

definition drop_shown :: "nat \<Rightarrow> CursorState \<Rightarrow> CursorState" where
  "drop_shown i s =
     (case ci_shown s of
        ImgSurface j x y \<Rightarrow> if j = i then s\<lparr>ci_shown := ImgNone\<rparr> else s
      | _ \<Rightarrow> s)"

definition OnCursorSurfaceDestroy :: "CursorState \<Rightarrow> CursorState" where
  "OnCursorSurfaceDestroy s = s\<lparr>ci_listener := None, ci_image := ImgNone\<rparr>"

definition surface_destroyed :: "nat \<Rightarrow> CursorState \<Rightarrow> CursorState" where
  "surface_destroyed i s =
     (let s' = drop_shown i s in if ci_listener s = Some i then OnCursorSurfaceDestroy s' else s')"

section \<open>The lock and the latest request\<close>

datatype cursor_op = OpName string | OpSurface "nat option" int int | OpUnset | OpLock bool | OpDestroyed nat

fun cursor_step :: "cursor_op \<Rightarrow> CursorState \<Rightarrow> CursorState" where
  "cursor_step (OpName n) s = SetCursorName n s"
| "cursor_step (OpSurface i x y) s = SetCursorSurface i x y s"
| "cursor_step OpUnset s = UnsetCursorImage s"
| "cursor_step (OpLock l) s = LockCursorImage l s"
| "cursor_step (OpDestroyed i) s = surface_destroyed i s"

definition cursor_inv :: "CursorState \<Rightarrow> bool" where
  "cursor_inv s \<longleftrightarrow>
     ci_shown s = (if ci_locked s then ImgNone else ci_image s) \<and>
     (case ci_image s of ImgSurface i x y \<Rightarrow> ci_listener s = Some i | _ \<Rightarrow> ci_listener s = None)"

lemmas cursor_defs = SetCursorName_def SetCursorSurface_def UnsetCursorImage_def LockCursorImage_def
  surface_destroyed_def drop_shown_def OnCursorSurfaceDestroy_def apply_unless_locked_def
  ApplyCursorImage_def

lemma cursor_step_inv: "cursor_inv s \<Longrightarrow> cursor_inv (cursor_step op s)"
  by (cases op) (auto simp: cursor_inv_def cursor_defs Let_def split: option.splits CursorImage.splits if_splits)

text \<open>The image the latest request asked for, with a destroyed surface forgotten.\<close>

fun requested :: "cursor_op list \<Rightarrow> CursorImage \<Rightarrow> CursorImage" where
  "requested [] img = img"
| "requested (OpName n # ops) img = requested ops (ImgName n)"
| "requested (OpSurface i x y # ops) img =
     requested ops (case i of None \<Rightarrow> ImgNone | Some j \<Rightarrow> ImgSurface j x y)"
| "requested (OpUnset # ops) img = requested ops ImgNone"
| "requested (OpLock l # ops) img = requested ops img"
| "requested (OpDestroyed j # ops) img =
     requested ops (case img of ImgSurface k x y \<Rightarrow> if k = j then ImgNone else img | _ \<Rightarrow> img)"

fun locked_after :: "cursor_op list \<Rightarrow> bool \<Rightarrow> bool" where
  "locked_after [] l = l"
| "locked_after (OpLock b # ops) l = locked_after ops b"
| "locked_after (_ # ops) l = locked_after ops l"

lemma cursor_run:
  "cursor_inv s \<Longrightarrow>
   ci_image (fold cursor_step ops s) = requested ops (ci_image s) \<and>
   ci_locked (fold cursor_step ops s) = locked_after ops (ci_locked s) \<and>
   cursor_inv (fold cursor_step ops s)"
proof (induction ops arbitrary: s)
  case (Cons op ops)
  have inv: "cursor_inv (cursor_step op s)" using Cons.prems by (rule cursor_step_inv)
  show ?case
  proof (cases op)
    case (OpDestroyed i)
    then have "ci_image (cursor_step op s) =
        (case ci_image s of ImgSurface k x y \<Rightarrow> if k = i then ImgNone else ci_image s | _ \<Rightarrow> ci_image s)"
      "ci_locked (cursor_step op s) = ci_locked s"
      using Cons.prems by (auto simp: cursor_inv_def cursor_defs Let_def split: CursorImage.splits)
    with Cons.IH [OF inv] OpDestroyed show ?thesis by simp
  qed (use Cons.IH [OF inv] in \<open>auto simp: cursor_defs Let_def split: option.splits\<close>)
qed simp

text \<open>C37: whatever requests, locks and surface destructions happen, the cursor shows nothing while
  it is locked and otherwise the image of the latest request, with a destroyed cursor surface
  forgotten.\<close>

theorem cursor_shows_latest_request:
  "ci_shown (fold cursor_step ops initial_cursor) =
     (if locked_after ops False then ImgNone else requested ops (ImgName ''default''))"
proof -
  have "cursor_inv initial_cursor" by (simp add: cursor_inv_def initial_cursor_def)
  from cursor_run [OF this, of ops] show ?thesis by (simp add: cursor_inv_def initial_cursor_def)
qed

end
