(* ===== verification/Compositor.thy ===== *)
theory Compositor
  imports Toplevels Layer_Shell Cursor_Image
begin

text \<open>
  The compositor's state (\<open>CompositorPrivate\<close>) and its basic operations: looking up windows,
  decorations and rounded corners, keyboard focus, visibility and workspaces. Windows are the
  list \<open>toplevels\<close> in creation order, as the vector \<open>toplevels_\<close>; a pointer to a window is its
  \<open>tl_id\<close>; \<open>tl_stack\<close> lists the children of \<open>toplevel_tree_\<close> from bottom to top. Surfaces are
  numbers. Components that are only told about events (the protocol manager, the overlays, D-Bus)
  receive their calls in \<open>call_log\<close>, if \<open>has_component\<close> says that the pointer to them is not null.
\<close>

section \<open>Data\<close>

datatype component =
    CProtocol | CDbus | CAppSwitcher | CMultitasking | CWindowPreviews | CWindowMenu | CTooltip
  | CSplitScreen | CTileAnimation | CSelector | CInputMethod | CShakeCursor | CTouchFeedback

datatype call =
    Cancel component
  | SurfaceUnavailable component "nat option"
  | SurfaceUpdated component "nat option"
  | SourceUnavailable nat
  | SurfaceActivated "nat option"
  | StartAnimation nat wlr_box wlr_box
  | UpdateKeyboardFocus "nat option"
  | UpdateToplevel "nat option"
  | UpdateToplevelParent "nat option" "nat option"
  | MapToplevel "nat option" "string option" "string option"
  | UnmapToplevel "nat option"
  | UpdateWorkspaces
  | UpdateOutputUsableAreas
  | MoveDrag
  | NotifyToplevelActivated "string option" "string option"
  | ShowMenu "nat option" real real
  | LeaveMaximize
  | HoverMaximize "nat option" real real int
  | TooltipHover "nat option" Part real real
  | NotifyPointer "32 word"
  | NotifyTouch "nat option" "32 word"
  | NotifyKeyboard "32 word"
  | SendRelativeMotion "32 word"
  | ShakeMotion
  | TouchGesture nat int
  | OverlayMotion component
  | OverlayButton component bool
  | FeedbackDown nat int
  | FeedbackMotion nat int
  | FeedbackUp nat int
  | FeedbackCancel nat int
  | FeedbackCancelDevice nat
  | Cycle bool
  | Toggle component
  | OutputAdded nat
  | OutputRemoved "nat option"
  | InputAdded nat

datatype CursorMode = kPassthrough | kMove | kResizeMode

record Output =
  out_handle :: "nat option"
  out_usable_box :: wlr_box
  out_layer_pos :: "(int \<times> int) list"
  out_scene_output :: bool
  out_in_frame :: bool
  out_has_deferred_mode :: bool
  out_deferred_width :: int
  out_deferred_height :: int

record XWaylandManager =
  xw_scale :: real
  xw_focused :: "nat option"
  xw_park_surface :: "nat option"
  xw_xwm_focus :: "nat option"

record BlurRenderer =
  br_surfaces :: "nat list"
  br_textures :: "nat list"
  br_changed :: bool
  round_corners :: "(nat option \<times> int list) list"

record compositor =
  toplevels :: "Toplevel list"
  tl_stack :: "nat list"
  layer_surfaces :: "LayerSurface list"
  outputs :: "Output list"
  output_layout :: wlr_output_layout
  workspace_count :: int
  current_workspace :: int
  multitasking_sources_hidden :: bool
  window_previews_sources_hidden :: bool
  session_locked :: bool
  focused_surface :: "nat option"
  pointer_focus :: "nat option"
  seat_keyboard :: bool
  root_surface :: "nat \<Rightarrow> nat"
  no_titlebar_surfaces :: "nat list"
  xwayland :: "XWaylandManager option"
  blur_renderer :: "BlurRenderer option"
  scene_blur_active :: bool
  scene_rounded_corners_active :: bool
  scene_direct_scanout :: bool
  scene_calculate_visibility :: bool
  scene_direct_scanout_default :: bool
  scene_calculate_visibility_default :: bool
  cursor_x :: real
  cursor_y :: real
  cursor_mode :: CursorMode
  grabbed_toplevel :: "nat option"
  grab_x :: real
  grab_y :: real
  grab_box :: wlr_box
  resize_edges :: "32 word"
  maximize_on_release :: bool
  pending_window_menu :: "nat option"
  cursor_state :: CursorState
  qt_frame_interval_ms :: int
  ssd_resize :: "int \<Rightarrow> int \<Rightarrow> bool"
  has_component :: "component \<Rightarrow> bool"
  call_log :: "call list"

definition kInitialWorkspaceCount :: int where "kInitialWorkspaceCount = 4"
definition kMaximumWorkspaceCount :: int where "kMaximumWorkspaceCount = 6"

text \<open>The member initialisers of \<open>CompositorPrivate\<close>. \<open>present\<close> says which of the optional components
  \<open>Initialize\<close> created; \<open>resize\<close> is the outcome of allocating a titlebar of a given size.\<close>

definition new_compositor :: "(component \<Rightarrow> bool) \<Rightarrow> (int \<Rightarrow> int \<Rightarrow> bool) \<Rightarrow> compositor" where
  "new_compositor present resize =
     \<lparr>toplevels = [], tl_stack = [], layer_surfaces = [], outputs = [],
      output_layout = \<lparr>lo_outputs = [], output_state = (\<lambda>_. \<lparr>wo_width = 0, wo_height = 0, wo_scale = 1,
        wo_transform = transform_of 0, wo_enabled = False, wo_refresh = 0\<rparr>)\<rparr>,
      workspace_count = kInitialWorkspaceCount, current_workspace = 0,
      multitasking_sources_hidden = False, window_previews_sources_hidden = False,
      session_locked = False, focused_surface = None, pointer_focus = None, seat_keyboard = False,
      root_surface = id, no_titlebar_surfaces = [], xwayland = None, blur_renderer = None,
      scene_blur_active = False, scene_rounded_corners_active = False, scene_direct_scanout = True,
      scene_calculate_visibility = True, scene_direct_scanout_default = True,
      scene_calculate_visibility_default = True, cursor_x = 0, cursor_y = 0,
      cursor_mode = kPassthrough, grabbed_toplevel = None, grab_x = 0, grab_y = 0, grab_box = zero_box,
      resize_edges = 0, maximize_on_release = False, pending_window_menu = None,
      cursor_state = initial_cursor, qt_frame_interval_ms = 16, ssd_resize = resize,
      has_component = present, call_log = []\<rparr>"

section \<open>Access\<close>

text \<open>\<open>if (component_ != nullptr) component_->call(...)\<close>.\<close>

definition notify :: "component \<Rightarrow> call \<Rightarrow> compositor \<Rightarrow> compositor" where
  "notify cp cl c = (if has_component c cp then c\<lparr>call_log := call_log c @ [cl]\<rparr> else c)"

definition SessionLocked :: "compositor \<Rightarrow> bool" where
  "SessionLocked c = (has_component c CProtocol \<and> session_locked c)"

definition find_tl :: "compositor \<Rightarrow> nat \<Rightarrow> Toplevel option" where
  "find_tl c i = find (\<lambda>t. tl_id t = i) (toplevels c)"

definition upd_tl :: "nat \<Rightarrow> (Toplevel \<Rightarrow> Toplevel) \<Rightarrow> compositor \<Rightarrow> compositor" where
  "upd_tl i f c = c\<lparr>toplevels := map (\<lambda>t. if tl_id t = i then f t else t) (toplevels c)\<rparr>"

definition scale_of :: "compositor \<Rightarrow> real" where
  "scale_of c = (case xwayland c of None \<Rightarrow> 1 | Some x \<Rightarrow> xw_scale x)"

text \<open>\<open>wlr_scene_node_raise_to_top\<close> among the children of \<open>toplevel_tree_\<close>.\<close>

definition raise_to_top :: "nat \<Rightarrow> compositor \<Rightarrow> compositor" where
  "raise_to_top i c =
     (if i \<in> set (tl_stack c) then c\<lparr>tl_stack := erase_if (\<lambda>j. j = i) (tl_stack c) @ [i]\<rparr> else c)"

definition ToplevelForSurface :: "compositor \<Rightarrow> nat option \<Rightarrow> Toplevel option" where
  "ToplevelForSurface c surface =
     (case surface of
        None \<Rightarrow> None
      | Some s \<Rightarrow>
          find (\<lambda>t. case Surface t of None \<Rightarrow> False
                    | Some s' \<Rightarrow> root_surface c s' = root_surface c s) (toplevels c))"

definition HasNoTitlebarSurface :: "compositor \<Rightarrow> nat option \<Rightarrow> bool" where
  "HasNoTitlebarSurface c surface =
     (case surface of None \<Rightarrow> False | Some s \<Rightarrow> s \<in> set (no_titlebar_surfaces c))"

definition SetNoTitlebarSurface :: "compositor \<Rightarrow> nat option \<Rightarrow> bool \<Rightarrow> compositor" where
  "SetNoTitlebarSurface c surface no_titlebar =
     (case surface of
        None \<Rightarrow> c
      | Some s \<Rightarrow>
          c\<lparr>no_titlebar_surfaces :=
              (if no_titlebar then List.insert s (no_titlebar_surfaces c)
               else erase_if (\<lambda>s'. s' = s) (no_titlebar_surfaces c))\<rparr>)"

definition SsdEnabledForSurface :: "compositor \<Rightarrow> nat option \<Rightarrow> bool" where
  "SsdEnabledForSurface c surface =
     (case ToplevelForSurface c surface of None \<Rightarrow> False | Some t \<Rightarrow> tl_ssd t \<noteq> None)"

section \<open>XWayland focus\<close>

text \<open>\<open>wlr_xwayland_surface_activate\<close>, and the manager's \<open>Activate\<close>, \<open>Deactivate\<close> and \<open>Park\<close>. An X
  window is named by its \<open>tl_id\<close>.\<close>

definition xsurface_activate :: "nat \<Rightarrow> bool \<Rightarrow> XWaylandManager \<Rightarrow> XWaylandManager" where
  "xsurface_activate i activated x =
     (if activated then x\<lparr>xw_xwm_focus := Some i\<rparr>
      else if xw_xwm_focus x = Some i then x\<lparr>xw_xwm_focus := None\<rparr> else x)"

definition Park :: "XWaylandManager \<Rightarrow> XWaylandManager" where
  "Park x =
     (let previous = xw_focused x; x' = x\<lparr>xw_focused := None\<rparr>
      in case xw_park_surface x of
           Some p \<Rightarrow> xsurface_activate p True x'
         | None \<Rightarrow> (case previous of None \<Rightarrow> x' | Some q \<Rightarrow> xsurface_activate q False x'))"

definition Activate :: "nat \<Rightarrow> bool \<Rightarrow> XWaylandManager \<Rightarrow> XWaylandManager" where
  "Activate i override_redirect x =
     (if override_redirect then
        (case xw_park_surface x of
           Some p \<Rightarrow> if xw_focused x = None then xsurface_activate p False x else x
         | None \<Rightarrow> x)
      else xsurface_activate i True (x\<lparr>xw_focused := Some i\<rparr>))"

definition Deactivate :: "nat \<Rightarrow> XWaylandManager \<Rightarrow> XWaylandManager" where
  "Deactivate i x = (if xw_focused x = Some i then Park x else x)"

definition ParkXWaylandFocus :: "compositor \<Rightarrow> compositor" where
  "ParkXWaylandFocus c = c\<lparr>xwayland := map_option Park (xwayland c)\<rparr>"

definition SetActivated :: "nat \<Rightarrow> bool \<Rightarrow> compositor \<Rightarrow> compositor" where
  "SetActivated i activated c =
     (case find_tl c i of
        None \<Rightarrow> c
      | Some t \<Rightarrow>
          if \<not> tl_xwayland t then upd_tl i (xdg_SetActivated activated) c
          else case tl_handle t of
                 None \<Rightarrow> c
               | Some h \<Rightarrow>
                   c\<lparr>xwayland := map_option
                       (if activated then Activate i (cl_override_redirect h) else Deactivate i)
                       (xwayland c)\<rparr>)"

section \<open>Rounded corners and shadows\<close>

definition UpdateBackdropBlurState :: "compositor \<Rightarrow> compositor" where
  "UpdateBackdropBlurState c =
     (let active = (case blur_renderer c of None \<Rightarrow> False
                    | Some r \<Rightarrow> br_surfaces r \<noteq> [] \<or> br_textures r \<noteq> []);
          rounded = (case blur_renderer c of None \<Rightarrow> False | Some r \<Rightarrow> round_corners r \<noteq> []);
          changed = (case blur_renderer c of None \<Rightarrow> False | Some r \<Rightarrow> br_changed r);
          c' = c\<lparr>blur_renderer := map_option (\<lambda>r. r\<lparr>br_changed := False\<rparr>) (blur_renderer c)\<rparr>
      in if \<not> changed \<and> active = scene_blur_active c \<and> rounded = scene_rounded_corners_active c
         then c'
         else c'\<lparr>scene_blur_active := active, scene_rounded_corners_active := rounded,
                 scene_direct_scanout := (if active then False else scene_direct_scanout_default c),
                 scene_calculate_visibility :=
                   (if active \<or> rounded then False else scene_calculate_visibility_default c)\<rparr>)"

definition RefreshRoundedCornerState :: "compositor \<Rightarrow> compositor" where
  "RefreshRoundedCornerState c =
     (case blur_renderer c of
        None \<Rightarrow> c
      | Some r \<Rightarrow> if (round_corners r \<noteq> []) = scene_rounded_corners_active c then c
                  else UpdateBackdropBlurState c)"

definition renderer_SetSurfaceRoundCorner :: "nat \<Rightarrow> int list \<Rightarrow> BlurRenderer \<Rightarrow> BlurRenderer" where
  "renderer_SetSurfaceRoundCorner surface radii r =
     (let corners = erase_if (\<lambda>item. fst item = None) (round_corners r);
          is_it = (\<lambda>item. fst item = Some surface)
      in r\<lparr>round_corners :=
             (if list_all (\<lambda>radius. radius \<le> 0) radii then erase_first is_it corners
              else if find is_it corners = None then corners @ [(Some surface, radii)]
              else update_first is_it (\<lambda>item. (fst item, radii)) corners)\<rparr>)"

definition renderer_ClearSurfaceRoundCorner :: "nat \<Rightarrow> BlurRenderer \<Rightarrow> BlurRenderer" where
  "renderer_ClearSurfaceRoundCorner surface r =
     r\<lparr>round_corners := erase_if (\<lambda>item. fst item = None \<or> fst item = Some surface) (round_corners r)\<rparr>"

definition SetSurfaceRoundCorner :: "compositor \<Rightarrow> nat option \<Rightarrow> int \<Rightarrow> compositor" where
  "SetSurfaceRoundCorner c surface radius =
     (case (surface, blur_renderer c) of
        (Some s, Some r) \<Rightarrow>
          let radius' = cclamp radius 0 64
          in RefreshRoundedCornerState
               (c\<lparr>blur_renderer := Some (renderer_SetSurfaceRoundCorner s
                     [radius', radius', radius', radius'] r)\<rparr>)
      | _ \<Rightarrow> c)"

definition ClearSurfaceRoundCorner :: "compositor \<Rightarrow> nat option \<Rightarrow> compositor" where
  "ClearSurfaceRoundCorner c surface =
     (case (surface, blur_renderer c) of
        (Some s, Some r) \<Rightarrow>
          RefreshRoundedCornerState
            (c\<lparr>blur_renderer := Some (renderer_ClearSurfaceRoundCorner s r)\<rparr>)
      | _ \<Rightarrow> c)"

definition RebuildSurfaceClip :: "nat \<Rightarrow> compositor \<Rightarrow> compositor" where
  "RebuildSurfaceClip i c =
     (case find_tl c i of
        None \<Rightarrow> c
      | Some t \<Rightarrow>
          (case (Surface t, blur_renderer c) of
             (Some s, Some r) \<Rightarrow>
               let rounded = (tl_corner_radius t > 0 \<and> \<not> tl_maximized t \<and> \<not> tl_tiled t \<and>
                              \<not> RequestedFullscreen t);
                   radius = (if rounded then tl_corner_radius t else 0);
                   top = (if tl_ssd t = None then radius else 0)
               in RefreshRoundedCornerState
                    (c\<lparr>blur_renderer := Some (renderer_SetSurfaceRoundCorner s
                          [top, top, radius, radius] r)\<rparr>)
           | _ \<Rightarrow> c))"

text \<open>\<open>UpdateCsdShadow\<close> changes only the window it is called for; it reads the keyboard focus.\<close>

definition csd_shadow_wanted :: "compositor \<Rightarrow> Toplevel \<Rightarrow> bool" where
  "csd_shadow_wanted c t =
     ((if tl_csd_shadow_set t then tl_csd_shadow_enabled t else HasNoTitlebarSurface c (Surface t)) \<and>
      tl_mapped t \<and> tl_ssd t = None \<and> \<not> tl_maximized t \<and> \<not> tl_tiled t \<and> \<not> RequestedFullscreen t)"

definition update_csd_shadow :: "compositor \<Rightarrow> Toplevel \<Rightarrow> Toplevel" where
  "update_csd_shadow c t =
     (if \<not> csd_shadow_wanted c t \<or> tl_scene_tree t = None then t\<lparr>tl_csd_shadow := None\<rparr>
      else let active = (Surface t \<noteq> None \<and> focused_surface c = Surface t);
               geometry = Geometry (scale_of c) t;
               dialog = (case xdg_handle t of None \<Rightarrow> False | Some h \<Rightarrow> cl_parent h \<noteq> None);
               frame = \<lparr>box_x = 0, box_y = 0, box_width = box_width geometry,
                        box_height = box_height geometry\<rparr>
           in t\<lparr>tl_csd_shadow := Some (frame, active, dialog, False)\<rparr>)"

definition UpdateCsdShadow :: "nat \<Rightarrow> compositor \<Rightarrow> compositor" where
  "UpdateCsdShadow i c = upd_tl i (update_csd_shadow c) c"

definition SetCsdShadow :: "nat \<Rightarrow> bool \<Rightarrow> compositor \<Rightarrow> compositor" where
  "SetCsdShadow i enabled c =
     (case find_tl c i of
        None \<Rightarrow> c
      | Some t \<Rightarrow>
          if tl_csd_shadow_set t \<and> tl_csd_shadow_enabled t = enabled then c
          else UpdateCsdShadow i
                 (upd_tl i (\<lambda>t. t\<lparr>tl_csd_shadow_set := True, tl_csd_shadow_enabled := enabled\<rparr>) c))"

definition SetRoundCorner :: "nat \<Rightarrow> int \<Rightarrow> compositor \<Rightarrow> compositor" where
  "SetRoundCorner i radius c =
     RebuildSurfaceClip i (upd_tl i (\<lambda>t. t\<lparr>tl_corner_radius := cclamp radius 0 64\<rparr>) c)"

section \<open>Server-side decorations\<close>

text \<open>\<open>AttachSsd\<close> reads \<open>toplevel->handle\<close> of the base class, so it is only called for XDG windows.\<close>

definition decorate :: "compositor \<Rightarrow> client \<Rightarrow> Toplevel \<Rightarrow> Ssd \<Rightarrow> Ssd" where
  "decorate c h t s =
     SetAppId
       (SetTitle
         (SetGeometry
           (SetCapabilities
             (SetDialog (Ssd_SetMaximized s (tl_maximized t)) (cl_parent h \<noteq> None))
             (CanMinimize t) (CanMaximize t))
           (Geometry (scale_of c) t))
         (case cl_title h of None \<Rightarrow> [] | Some title \<Rightarrow> title))
       (case cl_app_id h of None \<Rightarrow> [] | Some app_id \<Rightarrow> app_id)"

definition AttachSsd :: "nat \<Rightarrow> compositor \<Rightarrow> compositor" where
  "AttachSsd i c =
     (case find_tl c i of
        None \<Rightarrow> c
      | Some t \<Rightarrow>
          if tl_scene_tree t = None \<or> tl_ssd t \<noteq> None then c
          else (case (Ssd_Create (ssd_resize c), xdg_handle t) of
                  (Some s, Some h) \<Rightarrow>
                    upd_tl i (\<lambda>t. t\<lparr>tl_ssd_initial_position_pending := True\<rparr>)
                      (RebuildSurfaceClip i (upd_tl i (\<lambda>t. t\<lparr>tl_ssd := Some (decorate c h t s)\<rparr>) c))
                | _ \<Rightarrow> RebuildSurfaceClip i c))"

definition SetSsdEnabled :: "nat \<Rightarrow> bool \<Rightarrow> compositor \<Rightarrow> compositor" where
  "SetSsdEnabled i enabled c =
     (if enabled then AttachSsd i (upd_tl i (\<lambda>t. t\<lparr>tl_csd_shadow := None\<rparr>) c)
      else UpdateCsdShadow i
             (RebuildSurfaceClip i
               (upd_tl i (\<lambda>t. t\<lparr>tl_ssd := None, tl_ssd_initial_position_pending := False\<rparr>) c)))"

definition SsdHitAt :: "compositor \<Rightarrow> nat option \<Rightarrow> HitTarget" where
  "SsdHitAt c i =
     (case Option.bind i (find_tl c) of
        None \<Rightarrow> no_target
      | Some t \<Rightarrow>
          (case (tl_ssd t, tl_scene_tree t) of
             (Some s, Some n) \<Rightarrow> HitTest s (cursor_x c - of_int (nd_x n)) (cursor_y c - of_int (nd_y n))
           | _ \<Rightarrow> no_target))"

section \<open>Keyboard focus\<close>

definition keyboard_enter :: "nat \<Rightarrow> compositor \<Rightarrow> compositor" where
  "keyboard_enter surface c = (if seat_keyboard c then c\<lparr>focused_surface := Some surface\<rparr> else c)"

text \<open>Deactivation of the XDG window that owns the previously focused surface.\<close>

definition deactivate_previous :: "nat option \<Rightarrow> compositor \<Rightarrow> compositor" where
  "deactivate_previous previous c =
     c\<lparr>toplevels := map (\<lambda>t. case xdg_handle t of
          None \<Rightarrow> t
        | Some h \<Rightarrow> if previous \<noteq> None \<and> cl_surface h = previous \<and> cl_initialized h
                    then on_handle (\<lambda>h. h\<lparr>sent_activated := False\<rparr>) t else t) (toplevels c)\<rparr>"

definition FocusLayerSurface :: "LayerSurface \<Rightarrow> compositor \<Rightarrow> compositor" where
  "FocusLayerSurface l c =
     (case ly_handle l of
        None \<Rightarrow> c
      | Some h \<Rightarrow>
          if SessionLocked c \<or> \<not> ly_mapped l \<or> lc_keyboard_interactive h = InteractiveNone then c
          else let c1 = c\<lparr>toplevels := map (\<lambda>t. update_csd_shadow c (on_ssd (\<lambda>s. SetActive s False) t))
                                       (toplevels c)\<rparr>;
                   previous = focused_surface c
               in if previous = Some (lc_surface h) then c1
                  else notify CProtocol (UpdateToplevel previous)
                         (notify CProtocol (UpdateKeyboardFocus (Some (lc_surface h)))
                           (keyboard_enter (lc_surface h)
                             (ParkXWaylandFocus (deactivate_previous previous c1)))))"

definition exclusive_layer :: "compositor \<Rightarrow> LayerSurface option" where
  "exclusive_layer c =
     find (\<lambda>l. ly_mapped l \<and>
               (case ly_handle l of None \<Rightarrow> False
                | Some h \<Rightarrow> lc_keyboard_interactive h = InteractiveExclusive))
          (rev (layer_surfaces c))"

definition on_current :: "compositor \<Rightarrow> Toplevel \<Rightarrow> bool" where
  "on_current c t = (tl_all_workspaces t \<or> tl_workspace t = current_workspace c)"

definition IsToplevelVisible :: "compositor \<Rightarrow> Toplevel \<Rightarrow> bool" where
  "IsToplevelVisible c t =
     (tl_mapped t \<and> \<not> tl_minimized t \<and> on_current c t \<and>
      \<not> multitasking_sources_hidden c \<and> \<not> window_previews_sources_hidden c)"

definition focusable :: "compositor \<Rightarrow> Toplevel \<Rightarrow> bool" where
  "focusable c t =
     (\<not> SessionLocked c \<and> tl_mapped t \<and> IsAlive t \<and> Surface t \<noteq> None \<and> WantsFocus t \<and>
      on_current c t \<and> \<not> tl_minimized t)"

text \<open>Raising a window: to the top of the stack, and then the visible kept-above windows over it.\<close>

definition raise_focused :: "Toplevel \<Rightarrow> compositor \<Rightarrow> compositor" where
  "raise_focused t c =
     (let c1 = upd_tl (tl_id t) Restack (raise_to_top (tl_id t) c);
          c2 = fold (\<lambda>k c'. if tl_id k \<noteq> tl_id t \<and> tl_kept_above k \<and> tl_scene_tree k \<noteq> None \<and>
                            IsToplevelVisible c' k then raise_to_top (tl_id k) c' else c')
                 (toplevels c1) c1
      in if tl_kept_above t then raise_to_top (tl_id t) c2 else c2)"

definition activate_toplevel :: "Toplevel \<Rightarrow> nat \<Rightarrow> compositor \<Rightarrow> compositor" where
  "activate_toplevel t surface c =
     (let previous = focused_surface c;
          c1 = deactivate_previous previous c;
          c2 = (if IsXWayland t then c1 else ParkXWaylandFocus c1);
          c3 = SetActivated (tl_id t) True (raise_focused t c2);
          c4 = notify CDbus (NotifyToplevelActivated (AppId t) (Title t)) c3;
          c5 = keyboard_enter surface c4
      in notify CProtocol (UpdateToplevel (Some surface))
           (notify CProtocol (UpdateToplevel previous)
             (notify CProtocol (UpdateKeyboardFocus (Some surface)) c5)))"

definition FocusToplevel :: "nat option \<Rightarrow> compositor \<Rightarrow> compositor" where
  "FocusToplevel i c =
     (case Option.bind i (find_tl c) of
        None \<Rightarrow> c
      | Some t \<Rightarrow>
          if \<not> focusable c t then c
          else (case (exclusive_layer c, Surface t) of
                  (Some l, _) \<Rightarrow> FocusLayerSurface l c
                | (None, None) \<Rightarrow> c
                | (None, Some surface) \<Rightarrow>
                    let c1 = c\<lparr>toplevels := map (\<lambda>k. update_csd_shadow c
                                (on_ssd (\<lambda>s. SetActive s (tl_id k = tl_id t)) k)) (toplevels c)\<rparr>;
                        c2 = notify CAppSwitcher (SurfaceActivated (Some surface)) c1
                    in if focused_surface c = Some surface
                       then notify CProtocol (UpdateToplevel (Some surface))
                              (notify CProtocol (UpdateKeyboardFocus (Some surface)) c2)
                       else activate_toplevel t surface c2))"

definition FocusNextToplevel :: "nat option \<Rightarrow> compositor \<Rightarrow> compositor" where
  "FocusNextToplevel excluding c =
     (if SessionLocked c then c
      else case exclusive_layer c of
        Some l \<Rightarrow> FocusLayerSurface l c
      | None \<Rightarrow>
          (case find (\<lambda>k. Some (tl_id k) \<noteq> excluding \<and> tl_mapped k \<and> \<not> tl_minimized k \<and> IsAlive k \<and>
                          on_current c k) (rev (toplevels c)) of
             Some k \<Rightarrow> FocusToplevel (Some (tl_id k)) c
           | None \<Rightarrow> notify CProtocol (UpdateKeyboardFocus None)
                       ((ParkXWaylandFocus c)\<lparr>focused_surface := None\<rparr>)))"

end
