(* ===== verification/Workspaces.thy ===== *)
theory Workspaces
  imports Compositor
begin

text \<open>
  Workspaces and the visibility of windows: switching, adding, removing and reordering
  workspaces, moving windows between them, keeping windows above or on all workspaces, and
  hiding all windows behind the overviews.
\<close>

section \<open>Operations\<close>

definition ResetCursorMode :: "compositor \<Rightarrow> compositor" where
  "ResetCursorMode c =
     (let c1 = (case grabbed_toplevel c of
                  Some i \<Rightarrow> if cursor_mode c = kResizeMode then upd_tl i (SetResizingState False) c else c
                | None \<Rightarrow> c)
      in c1\<lparr>cursor_mode := kPassthrough, grabbed_toplevel := None, maximize_on_release := False\<rparr>)"

text \<open>\<open>wlr_scene_node_set_enabled(&t->scene_tree->node, IsToplevelVisible(t))\<close>, where there is a
  scene tree.\<close>

definition refresh_enabled :: "compositor \<Rightarrow> Toplevel \<Rightarrow> Toplevel" where
  "refresh_enabled c t = set_enabled (IsToplevelVisible c t) t"

definition refresh_all :: "compositor \<Rightarrow> compositor" where
  "refresh_all c = c\<lparr>toplevels := map (refresh_enabled c) (toplevels c)\<rparr>"

definition update_mapped_toplevels :: "compositor \<Rightarrow> compositor" where
  "update_mapped_toplevels c =
     fold (\<lambda>t. if tl_mapped t then notify CProtocol (UpdateToplevel (Surface t)) else id) (toplevels c) c"

definition SwitchWorkspace :: "int \<Rightarrow> compositor \<Rightarrow> compositor" where
  "SwitchWorkspace workspace c =
     (if workspace < 0 \<or> workspace \<ge> workspace_count c \<or> workspace = current_workspace c \<or>
         SessionLocked c
      then c
      else let c1 = ResetCursorMode (notify CWindowMenu (Cancel CWindowMenu)
                       (notify CAppSwitcher (Cancel CAppSwitcher) c));
               previous = ToplevelForSurface c1 (focused_surface c1);
               c2 = c1\<lparr>current_workspace := workspace\<rparr>;
               c3 = c2\<lparr>toplevels := map (\<lambda>t. update_csd_shadow c2
                         (let t' = refresh_enabled c2 t
                          in if \<not> on_current c2 t then on_ssd (\<lambda>s. SetActive s False) t' else t'))
                       (toplevels c2)\<rparr>;
               c4 = (case previous of
                       Some p \<Rightarrow> if \<not> on_current c3 p
                                 then (SetActivated (tl_id p) False c3)\<lparr>focused_surface := None\<rparr> else c3
                     | None \<Rightarrow> c3);
               c5 = FocusNextToplevel None (c4\<lparr>pointer_focus := None\<rparr>)
           in if has_component c5 CProtocol
              then update_mapped_toplevels
                     (notify CProtocol (UpdateKeyboardFocus (focused_surface c5))
                       (notify CProtocol UpdateWorkspaces c5))
              else c5)"

definition MoveToplevelToWorkspace :: "nat \<Rightarrow> int \<Rightarrow> compositor \<Rightarrow> bool \<times> compositor" where
  "MoveToplevelToWorkspace i workspace c =
     (case find_tl c i of
        None \<Rightarrow> (False, c)
      | Some t \<Rightarrow>
          if workspace < 0 \<or> workspace \<ge> workspace_count c \<or> tl_workspace t = workspace then (False, c)
          else let had_focus = (focused_surface c = Surface t);
                   c1 = upd_tl i (\<lambda>t. refresh_enabled c (t\<lparr>tl_workspace := workspace\<rparr>)) c;
                   c2 = (if had_focus \<and> workspace \<noteq> current_workspace c1
                         then FocusNextToplevel (Some i) (SetActivated i False c1) else c1)
               in (True, notify CProtocol (UpdateToplevel (Surface t)) c2))"

definition AddWorkspace :: "compositor \<Rightarrow> bool \<times> compositor" where
  "AddWorkspace c =
     (if workspace_count c \<ge> kMaximumWorkspaceCount then (False, c)
      else (True, notify CProtocol UpdateWorkspaces (c\<lparr>workspace_count := workspace_count c + 1\<rparr>)))"

text \<open>The index of a workspace after workspace \<open>w\<close> was removed, with \<open>n\<close> workspaces left.\<close>

definition removed_index :: "int \<Rightarrow> int \<Rightarrow> int \<Rightarrow> int" where
  "removed_index w n index =
     (if index = w then min w (n - 1) else if index > w then index - 1 else index)"

definition RemoveWorkspace :: "int \<Rightarrow> compositor \<Rightarrow> bool \<times> compositor" where
  "RemoveWorkspace workspace c =
     (if workspace_count c \<le> 1 \<or> workspace < 0 \<or> workspace \<ge> workspace_count c then (False, c)
      else let n = workspace_count c - 1;
               c1 = c\<lparr>workspace_count := n,
                      toplevels := map (\<lambda>t. t\<lparr>tl_workspace := removed_index workspace n (tl_workspace t)\<rparr>)
                                     (toplevels c),
                      current_workspace := removed_index workspace n (current_workspace c)\<rparr>;
               c2 = refresh_all c1
           in (True, if has_component c2 CProtocol
                     then update_mapped_toplevels (notify CProtocol UpdateWorkspaces c2) else c2))"

definition remap :: "int \<Rightarrow> int \<Rightarrow> int \<Rightarrow> int" where
  "remap from_index to_index index =
     (if index = from_index then to_index
      else if from_index < to_index \<and> index > from_index \<and> index \<le> to_index then index - 1
      else if from_index > to_index \<and> index \<ge> to_index \<and> index < from_index then index + 1
      else index)"

definition ReorderWorkspace :: "int \<Rightarrow> int \<Rightarrow> compositor \<Rightarrow> bool \<times> compositor" where
  "ReorderWorkspace from_index to_index c =
     (if from_index < 0 \<or> to_index < 0 \<or> from_index \<ge> workspace_count c \<or>
         to_index \<ge> workspace_count c \<or> from_index = to_index
      then (False, c)
      else let c1 = c\<lparr>current_workspace := remap from_index to_index (current_workspace c),
                      toplevels := map (\<lambda>t. t\<lparr>tl_workspace := remap from_index to_index (tl_workspace t)\<rparr>)
                                     (toplevels c)\<rparr>
           in (True, if has_component c1 CProtocol
                     then update_mapped_toplevels (notify CProtocol UpdateWorkspaces c1) else c1))"

definition SetKeptAbove :: "nat \<Rightarrow> bool \<Rightarrow> compositor \<Rightarrow> compositor" where
  "SetKeptAbove i kept_above c =
     (case find_tl c i of
        None \<Rightarrow> c
      | Some t \<Rightarrow>
          if tl_kept_above t = kept_above then c
          else let c1 = upd_tl i (\<lambda>t. t\<lparr>tl_kept_above := kept_above\<rparr>) c;
                   c2 = (if tl_scene_tree t \<noteq> None \<and> kept_above then raise_to_top i c1 else c1)
               in notify CProtocol (UpdateToplevel (Surface t)) c2)"

definition SetAllWorkspaces :: "nat \<Rightarrow> bool \<Rightarrow> compositor \<Rightarrow> compositor" where
  "SetAllWorkspaces i all_workspaces c =
     (case find_tl c i of
        None \<Rightarrow> c
      | Some t \<Rightarrow>
          if tl_all_workspaces t = all_workspaces then c
          else let f = (\<lambda>t. t\<lparr>tl_all_workspaces := all_workspaces,
                              tl_workspace := (if all_workspaces then tl_workspace t
                                               else current_workspace c)\<rparr>)
               in notify CProtocol (UpdateToplevel (Surface t))
                    (upd_tl i (\<lambda>t. refresh_enabled c (f t)) c))"

definition SetMultitaskingSourcesHidden :: "bool \<Rightarrow> compositor \<Rightarrow> compositor" where
  "SetMultitaskingSourcesHidden hidden c =
     refresh_all (c\<lparr>multitasking_sources_hidden := hidden\<rparr>)"

definition SetWindowPreviewsSourcesHidden :: "bool \<Rightarrow> compositor \<Rightarrow> compositor" where
  "SetWindowPreviewsSourcesHidden hidden c =
     refresh_all (c\<lparr>window_previews_sources_hidden := hidden\<rparr>)"

end
