(* ===== verification/Placement.thy ===== *)
theory Placement
  imports Workspaces
begin

text \<open>
  Where windows go: the usable area of outputs after the layer surfaces took their share, keeping
  floating windows inside it, centring new windows, and the maximised, tiled, minimised and
  restored states. An output is named by its \<open>wlr_output\<close>; the entry of a removed output stays in
  the list with a null handle, as in \<open>outputs_\<close>.
\<close>

section \<open>Outputs and layers\<close>

definition FindOutput :: "compositor \<Rightarrow> nat option \<Rightarrow> Output option" where
  "FindOutput c output = find (\<lambda>state. out_handle state = output) (outputs c)"

definition output_under :: "compositor \<Rightarrow> real \<Rightarrow> real \<Rightarrow> nat option" where
  "output_under c x y =
     (case wlr_output_layout_output_at (output_layout c) x y of
        None \<Rightarrow> wlr_output_layout_get_center_output (output_layout c)
      | Some k \<Rightarrow> Some k)"

definition OutputBoxAt :: "compositor \<Rightarrow> real \<Rightarrow> real \<Rightarrow> wlr_box" where
  "OutputBoxAt c x y = wlr_output_layout_get_box (output_layout c) (output_under c x y)"

definition UsableOutputBox :: "compositor \<Rightarrow> nat option \<Rightarrow> wlr_box" where
  "UsableOutputBox c output =
     (case FindOutput c output of
        Some state \<Rightarrow>
          if box_width (out_usable_box state) > 0 \<and> box_height (out_usable_box state) > 0
          then out_usable_box state
          else wlr_output_layout_get_box (output_layout c) output
      | None \<Rightarrow> wlr_output_layout_get_box (output_layout c) output)"

definition LAYER_TOP :: nat where "LAYER_TOP = 2"

definition kLayerOrder :: "nat list" where "kLayerOrder = [3, 2, 1, 0]"

text \<open>\<open>Output::LayerTree\<close>: an unknown layer goes to the top layer's tree.\<close>

definition LayerTree :: "nat \<Rightarrow> nat \<Rightarrow> nat \<times> nat" where
  "LayerTree k layer = (k, if layer \<ge> 4 then LAYER_TOP else layer)"

text \<open>One pass over the layer surfaces of a layer, exclusive or not.\<close>

fun arrange_pass ::
  "nat \<Rightarrow> wlr_box \<Rightarrow> bool \<Rightarrow> nat \<Rightarrow> LayerSurface list \<Rightarrow> wlr_box \<Rightarrow> LayerSurface list \<times> wlr_box" where
  "arrange_pass k full exclusive layer [] usable = ([], usable)"
| "arrange_pass k full exclusive layer (l # ls) usable =
     (let (l', usable') =
            (case ly_handle l of
               None \<Rightarrow> (l, usable)
             | Some h \<Rightarrow>
                 if \<not> lc_initialized h \<or> lc_output h \<noteq> Some k \<or> lc_layer h \<noteq> layer \<or>
                    ly_tree l \<noteq> Some (LayerTree k layer) \<or> (lc_exclusive_zone h > 0) \<noteq> exclusive
                 then (l, usable)
                 else wlr_scene_layer_surface_v1_configure l h full usable);
          (ls', usable'') = arrange_pass k full exclusive layer ls usable'
      in (l' # ls', usable''))"

definition arrange_surfaces ::
  "nat \<Rightarrow> wlr_box \<Rightarrow> LayerSurface list \<Rightarrow> LayerSurface list \<times> wlr_box" where
  "arrange_surfaces k full ls =
     fold (\<lambda>(exclusive, layer) (ls, usable). arrange_pass k full exclusive layer ls usable)
       (List.product [True, False] kLayerOrder) (ls, full)"

section \<open>Moving windows into the usable area\<close>

definition MoveToplevelFrame :: "nat \<Rightarrow> int \<Rightarrow> int \<Rightarrow> compositor \<Rightarrow> compositor" where
  "MoveToplevelFrame i x y c =
     (case find_tl c i of
        None \<Rightarrow> c
      | Some t \<Rightarrow>
          let frame = LayoutFrame (scale_of c) t;
              c1 = (if IsXWayland t
                    then upd_tl i (Configure (scale_of c)
                           \<lparr>box_x = x, box_y = y, box_width = box_width frame,
                            box_height = box_height frame\<rparr>) c
                    else (case tl_scene_tree t of
                            None \<Rightarrow> c
                          | Some n \<Rightarrow> upd_tl i (set_position (nd_x n + x - box_x frame)
                                                  (nd_y n + y - box_y frame)) c))
          in notify CProtocol (UpdateToplevel (Surface t)) c1)"

text \<open>The new position along one axis when the usable interval shrank from
  \<open>[old, old + old_extent)\<close> to \<open>[start, start + extent)\<close>.\<close>

definition fit_axis :: "int \<Rightarrow> int \<Rightarrow> int \<Rightarrow> int \<Rightarrow> int \<Rightarrow> int \<Rightarrow> int" where
  "fit_axis pos len start extent old old_extent =
     (let p = (if pos + len > start + extent \<and> pos + len \<le> old + old_extent
               then max (start + extent - len) start else pos)
      in if pos < start \<and> pos \<ge> old then start else p)"

definition TileBox :: "wlr_box \<Rightarrow> Tile \<Rightarrow> wlr_box" where
  "TileBox usable tile =
     (let left_width = cdiv (box_width usable) 2;
          right_width = box_width usable - left_width;
          top_height = cdiv (box_height usable) 2;
          bottom_height = box_height usable - top_height
      in case tile of
           kLeft \<Rightarrow> usable\<lparr>box_width := left_width\<rparr>
         | kRight \<Rightarrow> usable\<lparr>box_x := box_x usable + left_width, box_width := right_width\<rparr>
         | kTopLeft \<Rightarrow> usable\<lparr>box_width := left_width, box_height := top_height\<rparr>
         | kBottomLeft \<Rightarrow> usable\<lparr>box_y := box_y usable + top_height, box_width := left_width,
                                 box_height := bottom_height\<rparr>
         | kTopRight \<Rightarrow> usable\<lparr>box_x := box_x usable + left_width, box_width := right_width,
                               box_height := top_height\<rparr>
         | kBottomRight \<Rightarrow> usable\<lparr>box_x := box_x usable + left_width,
                                  box_y := box_y usable + top_height, box_width := right_width,
                                  box_height := bottom_height\<rparr>)"

definition fit_toplevel :: "nat \<Rightarrow> wlr_box \<Rightarrow> wlr_box \<Rightarrow> nat \<Rightarrow> compositor \<Rightarrow> compositor" where
  "fit_toplevel k usable old_usable i c =
     (let changed = (\<not> wlr_box_equal (Some old_usable) (Some usable))
      in case find_tl c i of
        None \<Rightarrow> c
      | Some t \<Rightarrow>
          if \<not> IsAlive t \<or> tl_scene_tree t = None then c
          else if tl_maximized t then
            (if tl_maximized_output t = Some k
             then upd_tl i (\<lambda>t. Configure (scale_of c) usable (t\<lparr>tl_maximized_box := usable\<rparr>)) c else c)
          else if tl_tiled t then
            (if tl_tiled_output t = Some k \<and> changed
             then upd_tl i (\<lambda>t. Configure (scale_of c) (TileBox usable (tl_tile t))
                    (t\<lparr>tl_tiled_box := TileBox usable (tl_tile t), tl_tile_position_pending := True\<rparr>)) c
             else c)
          else if \<not> changed \<or> box_width old_usable \<le> 0 \<or> box_height old_usable \<le> 0 \<or> \<not> tl_mapped t \<or>
                  tl_minimized t \<or> \<not> CanManage t \<or> RequestedFullscreen t
          then c
          else let b = LayoutFrame (scale_of c) t
               in if box_width b \<le> 0 \<or> box_height b \<le> 0 \<or> \<not> fst (wlr_box_intersection b old_usable) then c
                  else let x = fit_axis (box_x b) (box_width b) (box_x usable) (box_width usable)
                                 (box_x old_usable) (box_width old_usable);
                           y = fit_axis (box_y b) (box_height b) (box_y usable) (box_height usable)
                                 (box_y old_usable) (box_height old_usable)
                       in if x = box_x b \<and> y = box_y b then c else MoveToplevelFrame i x y c)"

definition FitToplevelsToUsableArea :: "nat \<Rightarrow> wlr_box \<Rightarrow> compositor \<Rightarrow> compositor" where
  "FitToplevelsToUsableArea k old_usable c =
     (case FindOutput c (Some k) of
        None \<Rightarrow> c
      | Some state \<Rightarrow>
          let usable = out_usable_box state
          in if box_width usable \<le> 0 \<or> box_height usable \<le> 0 then c
             else fold (fit_toplevel k usable old_usable) (map tl_id (toplevels c)) c)"

definition ArrangeLayers :: "nat option \<Rightarrow> compositor \<Rightarrow> compositor" where
  "ArrangeLayers output c =
     (case output of
        None \<Rightarrow> c
      | Some k \<Rightarrow>
          (case FindOutput c output of
             None \<Rightarrow> c
           | Some state \<Rightarrow>
               let output_box = wlr_output_layout_get_box (output_layout c) output;
                   (width, height) = wlr_output_effective_resolution (output_state (output_layout c) k);
                   full = \<lparr>box_x = 0, box_y = 0, box_width = width, box_height = height\<rparr>
               in if width \<le> 0 \<or> height \<le> 0 then c
                  else let (ls, usable) = arrange_surfaces k full (layer_surfaces c);
                           old_usable = out_usable_box state;
                           new_usable = usable\<lparr>box_x := box_x usable + box_x output_box,
                                               box_y := box_y usable + box_y output_box\<rparr>;
                           state' = (\<lambda>s. s\<lparr>out_usable_box := new_usable,
                                       out_layer_pos := replicate 4 (box_x output_box, box_y output_box)\<rparr>);
                           c1 = c\<lparr>layer_surfaces := ls,
                                  outputs := update_first (\<lambda>s. out_handle s = output) state' (outputs c)\<rparr>
                       in FitToplevelsToUsableArea k old_usable
                            (notify CProtocol UpdateOutputUsableAreas c1)))"

definition ConstrainToUsableArea :: "nat \<Rightarrow> compositor \<Rightarrow> compositor" where
  "ConstrainToUsableArea i c =
     (case find_tl c i of
        None \<Rightarrow> c
      | Some t \<Rightarrow>
          if \<not> IsAlive t \<or> tl_scene_tree t = None \<or> tl_maximized t \<or> tl_tiled t \<or> \<not> CanManage t \<or>
             RequestedFullscreen t
          then c
          else let frame = LayoutFrame (scale_of c) t; x = box_x frame; y = box_y frame;
                   centre = wlr_output_layout_output_at (output_layout c)
                              (of_int x + of_int (box_width frame) / 2)
                              (of_int y + of_int (box_height frame) / 2);
                   output = (case centre of
                               None \<Rightarrow> wlr_output_layout_output_at (output_layout c) (of_int x) (of_int y)
                             | Some k \<Rightarrow> Some k);
                   usable = UsableOutputBox c output;
                   new_x = max (min x (box_x usable + box_width usable - box_width frame)) (box_x usable);
                   new_y = max (min y (box_y usable + box_height usable - box_height frame)) (box_y usable)
               in if box_width frame \<le> 0 \<or> box_height frame \<le> 0 \<or> output = None \<or>
                     box_width usable \<le> 0 \<or> box_height usable \<le> 0
                  then c
                  else if new_x \<noteq> x \<or> new_y \<noteq> y then MoveToplevelFrame i new_x new_y c else c)"

text \<open>The point whose output a new window opens on: its parent's centre, or the pointer.\<close>

definition place_anchor :: "compositor \<Rightarrow> Toplevel \<Rightarrow> real \<times> real" where
  "place_anchor c t =
     (case ToplevelForSurface c (ParentSurface t) of
        Some parent \<Rightarrow>
          if tl_id parent \<noteq> tl_id t \<and> tl_mapped parent \<and> tl_scene_tree parent \<noteq> None
          then let f = LayoutFrame (scale_of c) parent
               in (of_int (box_x f) + of_int (box_width f) / 2, of_int (box_y f) + of_int (box_height f) / 2)
          else (cursor_x c, cursor_y c)
      | None \<Rightarrow> (cursor_x c, cursor_y c))"

definition PlaceNewToplevel :: "nat \<Rightarrow> compositor \<Rightarrow> compositor" where
  "PlaceNewToplevel i c =
     (case find_tl c i of
        None \<Rightarrow> c
      | Some t \<Rightarrow>
          (case tl_scene_tree t of
             None \<Rightarrow> c
           | Some n \<Rightarrow>
               if \<not> IsAlive t \<or> \<not> CanManage t \<or> tl_maximized t \<or> tl_tiled t \<or> RequestedFullscreen t \<or>
                  RequestedPosition t \<or> \<not> nd_in_toplevel_tree n
               then c
               else let frame = LayoutFrame (scale_of c) t;
                        (anchor_x, anchor_y) = place_anchor c t;
                        output = output_under c anchor_x anchor_y;
                        usable = UsableOutputBox c output;
                        c1 = MoveToplevelFrame i
                               (box_x usable + max 0 (cdiv (box_width usable - box_width frame) 2))
                               (box_y usable + max 0 (cdiv (box_height usable - box_height frame) 2)) c;
                        c2 = (if IsXWayland t then c1
                              else upd_tl i (\<lambda>t. t\<lparr>tl_keep_centered := True,
                                     tl_centered_frame := LayoutFrame (scale_of c1) t\<rparr>) c1)
                    in if box_width frame \<le> 0 \<or> box_height frame \<le> 0 \<or> output = None \<or>
                          box_width usable \<le> 0 \<or> box_height usable \<le> 0
                       then c
                       else notify CProtocol MoveDrag c2))"

definition KeepCentered :: "nat \<Rightarrow> compositor \<Rightarrow> compositor" where
  "KeepCentered i c =
     (case find_tl c i of
        None \<Rightarrow> c
      | Some t \<Rightarrow>
          if \<not> tl_mapped t \<or> tl_maximized t \<or> tl_tiled t \<or> RequestedFullscreen t \<or> RequestedPosition t
          then upd_tl i (\<lambda>t. t\<lparr>tl_keep_centered := False\<rparr>) c
          else let frame = LayoutFrame (scale_of c) t; centered = tl_centered_frame t
               in if box_width frame \<le> 0 \<or> box_height frame \<le> 0 \<or>
                     (box_width frame = box_width centered \<and> box_height frame = box_height centered)
                  then c
                  else let c1 = ConstrainToUsableArea i (MoveToplevelFrame i
                              (box_x centered + cdiv (box_width centered - box_width frame) 2)
                              (box_y centered + cdiv (box_height centered - box_height frame) 2) c)
                       in upd_tl i (\<lambda>t. t\<lparr>tl_centered_frame := LayoutFrame (scale_of c1) t\<rparr>) c1)"

section \<open>Maximised, tiled, minimised, restored\<close>

definition ssd_set_maximized :: "bool \<Rightarrow> Toplevel \<Rightarrow> Toplevel" where
  "ssd_set_maximized m = on_ssd (\<lambda>s. Ssd_SetMaximized s m)"

definition ssd_set_tiled :: "bool \<Rightarrow> Toplevel \<Rightarrow> Toplevel" where
  "ssd_set_tiled m = on_ssd (\<lambda>s. SetTiled s m)"

text \<open>Leaving a tiling slot, and saving the complete frame for a later restore.\<close>

definition leave_tile :: "Toplevel \<Rightarrow> Toplevel" where
  "leave_tile t = SetTiledState 0 (ssd_set_tiled False
     (t\<lparr>tl_tiled := False, tl_tile_position_pending := False\<rparr>))"

definition save_restore_box :: "real \<Rightarrow> Toplevel \<Rightarrow> Toplevel" where
  "save_restore_box scale t =
     (let frame = FrameGeometry scale t
      in case tl_scene_tree t of
           None \<Rightarrow> t
         | Some n \<Rightarrow>
             if box_width frame > 0 \<and> box_height frame > 0
             then t\<lparr>tl_restore_box := frame\<lparr>box_x := nd_x n + box_x frame, box_y := nd_y n + box_y frame\<rparr>,
                    tl_has_restore_box := True\<rparr>
             else t)"

definition restore_configure :: "real \<Rightarrow> Toplevel \<Rightarrow> Toplevel" where
  "restore_configure scale t =
     (if tl_has_restore_box t
      then (Configure scale (tl_restore_box t) t)\<lparr>tl_restore_position_pending := True\<rparr> else t)"

definition enter_maximized :: "compositor \<Rightarrow> Toplevel \<Rightarrow> Toplevel" where
  "enter_maximized c t =
     (let output = output_under c (cursor_x c) (cursor_y c);
          b = UsableOutputBox c output;
          t1 = t\<lparr>tl_maximized_output := output, tl_maximized_box := b\<rparr>;
          t2 = (if box_width b > 0 \<and> box_height b > 0 then Configure (scale_of c) b t1 else t1)
      in if tl_minimized t2 then (set_enabled True t2)\<lparr>tl_minimized := False\<rparr> else t2)"

definition SetMaximized :: "nat \<Rightarrow> bool \<Rightarrow> compositor \<Rightarrow> compositor" where
  "SetMaximized i m c =
     (case find_tl c i of
        None \<Rightarrow> c
      | Some t \<Rightarrow>
          if \<not> IsAlive t \<or> tl_scene_tree t = None then c
          else let c0 = notify CTileAnimation (Cancel CTileAnimation) c
               in if m = tl_maximized t then
                    upd_tl i (\<lambda>t. SetMaximizedState m (ssd_set_maximized m
                        (if \<not> m \<and> tl_tiled t then restore_configure (scale_of c) (leave_tile t) else t))) c0
                  else let c1 = upd_tl i (\<lambda>t. ssd_set_maximized m
                                  ((leave_tile (if m \<and> \<not> tl_tiled t then save_restore_box (scale_of c) t else t))
                                   \<lparr>tl_maximized := m\<rparr>)) c0;
                           c2 = UpdateCsdShadow i (RebuildSurfaceClip i c1);
                           c3 = upd_tl i (\<lambda>t. SetMaximizedState m
                                  (if m then enter_maximized c2 t
                                   else (restore_configure (scale_of c) t)\<lparr>tl_maximized_output := None\<rparr>)) c2
                       in notify CProtocol (UpdateToplevel (Surface t)) c3)"

definition ToggleMaximized :: "nat option \<Rightarrow> compositor \<Rightarrow> compositor" where
  "ToggleMaximized i c =
     (case Option.bind i (find_tl c) of
        None \<Rightarrow> c
      | Some t \<Rightarrow> if CanMaximize t then SetMaximized (tl_id t) (\<not> tl_maximized t) c else c)"

definition WLR_EDGE_ALL :: "32 word" where
  "WLR_EDGE_ALL = WLR_EDGE_TOP OR WLR_EDGE_BOTTOM OR WLR_EDGE_LEFT OR WLR_EDGE_RIGHT"

definition TileToplevel :: "nat \<Rightarrow> Tile \<Rightarrow> compositor \<Rightarrow> compositor" where
  "TileToplevel i tile c =
     (case find_tl c i of
        None \<Rightarrow> c
      | Some t \<Rightarrow>
          (case (tl_scene_tree t, output_under c (cursor_x c) (cursor_y c)) of
             (Some n, Some output) \<Rightarrow>
               let usable = UsableOutputBox c (Some output);
                   target = TileBox usable tile;
                   frame = FrameGeometry (scale_of c) t;
                   from_box = frame\<lparr>box_x := box_x frame + nd_x n, box_y := box_y frame + nd_y n\<rparr>;
                   c1 = upd_tl i (\<lambda>t. if \<not> tl_maximized t \<and> \<not> tl_tiled t
                                     then save_restore_box (scale_of c) t else t) c;
                   c2 = notify CTileAnimation (StartAnimation i from_box target) c1;
                   c3 = upd_tl i (\<lambda>t. ssd_set_tiled True (ssd_set_maximized False
                          (t\<lparr>tl_maximized := False, tl_maximized_output := None, tl_tiled := True,
                             tl_tiled_box := target, tl_tile := tile, tl_tiled_output := Some output,
                             tl_tile_position_pending := True, tl_restore_position_pending := False\<rparr>))) c2;
                   c4 = UpdateCsdShadow i (RebuildSurfaceClip i c3);
                   c5 = upd_tl i (\<lambda>t. Configure (scale_of c) target
                          (SetMaximizedState False (SetTiledState WLR_EDGE_ALL t))) c4;
                   c6 = upd_tl i (\<lambda>t. if tl_minimized t
                                     then set_enabled True (SetMinimizedState False (t\<lparr>tl_minimized := False\<rparr>))
                                     else t) c5
               in if \<not> tl_mapped t \<or> \<not> IsAlive t \<or> \<not> CanManage t \<or>
                     box_width usable \<le> 1 \<or> box_height usable \<le> 1
                  then c
                  else notify CProtocol (UpdateToplevel (Surface t)) (FocusToplevel (Some i) c6)
           | _ \<Rightarrow> c))"

definition Minimize :: "nat option \<Rightarrow> compositor \<Rightarrow> compositor" where
  "Minimize i c =
     (case Option.bind i (find_tl c) of
        None \<Rightarrow> c
      | Some t \<Rightarrow>
          if \<not> CanMinimize t \<or> \<not> tl_mapped t \<or> tl_minimized t \<or> tl_scene_tree t = None then c
          else let c1 = upd_tl (tl_id t) (\<lambda>t. set_enabled False (SetMinimizedState True
                          (t\<lparr>tl_minimized := True\<rparr>))) (notify CTileAnimation (Cancel CTileAnimation) c);
                   c2 = (if focused_surface c1 = Surface t then FocusNextToplevel (Some (tl_id t)) c1 else c1);
                   c3 = (if IsXWayland t then SetActivated (tl_id t) False c2 else c2)
               in notify CProtocol (UpdateToplevel (Surface t)) (c3\<lparr>pointer_focus := None\<rparr>))"

definition RestoreForMove :: "nat \<Rightarrow> compositor \<Rightarrow> compositor" where
  "RestoreForMove i c =
     (case find_tl c i of
        None \<Rightarrow> c
      | Some t \<Rightarrow>
          (case tl_scene_tree t of
             None \<Rightarrow> c
           | Some n \<Rightarrow>
               if (\<not> tl_maximized t \<and> \<not> tl_tiled t) \<or> \<not> tl_has_restore_box t then c
               else let output_box = OutputBoxAt c (cursor_x c) (cursor_y c);
                        ratio = (if box_width output_box > 0
                                 then cclamp ((cursor_x c - of_int (box_x output_box)) /
                                              of_int (box_width output_box)) 0 1
                                 else 1 / 2);
                        restore = tl_restore_box t;
                        frame = FrameGeometry (scale_of c) t;
                        max_offset = (case tl_ssd t of None \<Rightarrow> 48 | Some s \<Rightarrow> of_int (TitlebarHeight s));
                        offset = cclamp (cursor_y c - of_int (nd_y n + box_y frame)) 0 max_offset;
                        c1 = SetMaximized i False c;
                        frame_x = ctrunc (cursor_x c - of_int (box_width restore) * ratio);
                        frame_y = ctrunc (cursor_y c - offset)
                    in upd_tl i (\<lambda>t. let restored = FrameGeometry (scale_of c1) t
                         in set_position (frame_x - box_x restored) (frame_y - box_y restored)
                              (t\<lparr>tl_restore_box := (tl_restore_box t)\<lparr>box_x := frame_x, box_y := frame_y\<rparr>\<rparr>)) c1))"

end
