(* ===== verification/Interactive.thy ===== *)
theory Interactive
  imports Placement
begin

text \<open>
  Interactive moves and resizes: hit tests of client-side decorated windows, the start and the
  end of a grab, and the motion of the pointer while a window is grabbed.
\<close>

definition kCsdResizeMargin :: int where "kCsdResizeMargin = 8"
definition kMoveTitlebarVisible :: int where "kMoveTitlebarVisible = 32"

definition ResizeCursorName :: "32 word \<Rightarrow> string" where
  "ResizeCursorName e =
     (if e AND WLR_EDGE_TOP \<noteq> 0 \<and> e AND WLR_EDGE_LEFT \<noteq> 0 then ''top_left_corner''
      else if e AND WLR_EDGE_TOP \<noteq> 0 \<and> e AND WLR_EDGE_RIGHT \<noteq> 0 then ''top_right_corner''
      else if e AND WLR_EDGE_BOTTOM \<noteq> 0 \<and> e AND WLR_EDGE_LEFT \<noteq> 0 then ''bottom_left_corner''
      else if e AND WLR_EDGE_BOTTOM \<noteq> 0 \<and> e AND WLR_EDGE_RIGHT \<noteq> 0 then ''bottom_right_corner''
      else if e AND WLR_EDGE_LEFT \<noteq> 0 then ''left_side''
      else if e AND WLR_EDGE_RIGHT \<noteq> 0 then ''right_side''
      else if e AND WLR_EDGE_TOP \<noteq> 0 then ''top_side''
      else ''bottom_side'')"

definition set_cursor_name :: "string \<Rightarrow> compositor \<Rightarrow> compositor" where
  "set_cursor_name name c = c\<lparr>cursor_state := SetCursorName name (cursor_state c)\<rparr>"

definition CursorAtOutputTop :: "compositor \<Rightarrow> bool" where
  "CursorAtOutputTop c =
     (let b = OutputBoxAt c (cursor_x c) (cursor_y c)
      in box_width b > 0 \<and> cursor_x c \<ge> of_int (box_x b) \<and>
         cursor_x c < of_int (box_x b + box_width b) \<and> cursor_y c \<le> of_int (box_y b + 4))"

definition IsTitlebarPoint :: "compositor \<Rightarrow> nat option \<Rightarrow> nat option \<Rightarrow> real \<Rightarrow> bool" where
  "IsTitlebarPoint c i surface surface_y =
     (case Option.bind i (find_tl c) of
        None \<Rightarrow> False
      | Some t \<Rightarrow>
          if \<not> IsAlive t \<or> tl_ssd t \<noteq> None \<or> surface \<noteq> Surface t then False
          else let geometry_y = box_y (Geometry (scale_of c) t)
               in surface_y \<ge> of_int geometry_y \<and> surface_y < of_int (geometry_y + 48))"

text \<open>The hit of one candidate: the edges within the margin, without those of a fixed size.\<close>

definition csd_candidate :: "Toplevel \<Rightarrow> bool" where
  "csd_candidate t =
     (IsAlive t \<and> \<not> IsXWayland t \<and> tl_ssd t = None \<and> tl_mapped t \<and> \<not> tl_minimized t \<and>
      \<not> tl_maximized t \<and> \<not> tl_tiled t \<and> \<not> RequestedFullscreen t)"

definition csd_edges :: "compositor \<Rightarrow> Toplevel \<Rightarrow> 32 word" where
  "csd_edges c t =
     (case (tl_scene_tree t, tl_handle t) of
        (Some n, Some h) \<Rightarrow>
          let g = Geometry (scale_of c) t;
              b = g\<lparr>box_x := nd_x n, box_y := nd_y n\<rparr>;
              m = kCsdResizeMargin
          in if \<not> csd_candidate t \<or> box_width g \<le> 0 \<or> box_height g \<le> 0 \<or>
                cursor_x c < of_int (box_x b - m) \<or> cursor_x c \<ge> of_int (box_x b + box_width b + m) \<or>
                cursor_y c < of_int (box_y b - m) \<or> cursor_y c \<ge> of_int (box_y b + box_height b + m)
             then 0
             else let e = border_edges b m (cursor_x c) (cursor_y c);
                      e1 = (if fixed_width h then e AND NOT (WLR_EDGE_LEFT OR WLR_EDGE_RIGHT) else e)
                  in if fixed_height h then e1 AND NOT (WLR_EDGE_TOP OR WLR_EDGE_BOTTOM) else e1
      | _ \<Rightarrow> 0)"

fun csd_search :: "compositor \<Rightarrow> nat list \<Rightarrow> HitTarget \<times> nat option" where
  "csd_search c [] = (no_target, None)"
| "csd_search c (i # is) =
     (case find (\<lambda>t. tl_scene_tree t \<noteq> None \<and> tl_id t = i) (toplevels c) of
        None \<Rightarrow> csd_search c is
      | Some t \<Rightarrow>
          if csd_edges c t = 0 then csd_search c is
          else (\<lparr>ht_part = kResize, ht_edges = csd_edges c t\<rparr>, Some i))"

definition CsdResizeHitAt :: "compositor \<Rightarrow> HitTarget \<times> nat option" where
  "CsdResizeHitAt c = csd_search c (rev (tl_stack c))"

definition EndInteractive :: "compositor \<Rightarrow> compositor" where
  "EndInteractive c =
     (let toplevel = grabbed_toplevel c;
          should_maximize = (cursor_mode c = kMove \<and> maximize_on_release c);
          c1 = ResetCursorMode c
      in case toplevel of
           Some i \<Rightarrow> if should_maximize then SetMaximized i True c1 else c1
         | None \<Rightarrow> c1)"

definition begin_resize :: "nat \<Rightarrow> 32 word \<Rightarrow> compositor \<Rightarrow> compositor" where
  "begin_resize i e c =
     (let c1 = set_cursor_name (ResizeCursorName e) (upd_tl i (SetResizingState True) c)
      in case find_tl c1 i of
           None \<Rightarrow> c1
         | Some t \<Rightarrow>
             (case tl_scene_tree t of
                None \<Rightarrow> c1
              | Some n \<Rightarrow>
                  let f = FrameGeometry (scale_of c1) t;
                      b = f\<lparr>box_x := box_x f + nd_x n, box_y := box_y f + nd_y n\<rparr>;
                      border_x = box_x b + (if e AND WLR_EDGE_RIGHT \<noteq> 0 then box_width b else 0);
                      border_y = box_y b + (if e AND WLR_EDGE_BOTTOM \<noteq> 0 then box_height b else 0)
                  in c1\<lparr>grab_box := b, grab_x := cursor_x c1 - of_int border_x,
                        grab_y := cursor_y c1 - of_int border_y\<rparr>))"

definition BeginInteractive :: "nat option \<Rightarrow> CursorMode \<Rightarrow> 32 word \<Rightarrow> compositor \<Rightarrow> compositor" where
  "BeginInteractive toplevel mode e c =
     (case Option.bind toplevel (find_tl c) of
        None \<Rightarrow> c
      | Some t0 \<Rightarrow>
          let i = tl_id t0
          in if SessionLocked c \<or> \<not> tl_mapped t0 \<or> tl_scene_tree t0 = None then c
             else let c1 = upd_tl i (\<lambda>t. t\<lparr>tl_keep_centered := False\<rparr>)
                             (notify CTileAnimation (Cancel CTileAnimation) c);
                      c2 = (if mode = kMove \<and> (tl_maximized t0 \<or> tl_tiled t0) then RestoreForMove i c1 else c1);
                      c3 = c2\<lparr>grabbed_toplevel := Some i, cursor_mode := mode, resize_edges := e\<rparr>
                  in case find_tl c3 i of
                       None \<Rightarrow> c3
                     | Some t \<Rightarrow>
                         if mode = kMove then
                           (case tl_scene_tree t of
                              None \<Rightarrow> c3
                            | Some n \<Rightarrow> c3\<lparr>grab_x := cursor_x c3 - of_int (nd_x n),
                                           grab_y := cursor_y c3 - of_int (nd_y n)\<rparr>)
                         else if e = 0 \<or> tl_maximized t \<or> RequestedFullscreen t then ResetCursorMode c3
                         else begin_resize i e c3)"

text \<open>The vertical position of a moved window: the top of its frame stays within the usable area of
  the output under the pointer, and at least \<open>kMoveTitlebarVisible\<close> above its bottom.\<close>

definition move_y :: "compositor \<Rightarrow> Toplevel \<Rightarrow> node \<Rightarrow> int \<Rightarrow> int" where
  "move_y c t n y =
     (let usable = UsableOutputBox c
            (wlr_output_layout_output_at (output_layout c) (cursor_x c) (cursor_y c))
      in if box_width usable > 0 \<and> box_height usable > 0
         then let frame_offset = box_y (LayoutFrame (scale_of c) t) - nd_y n;
                  min_top = box_y usable;
                  max_top = max min_top (box_y usable + box_height usable - kMoveTitlebarVisible)
              in cclamp (y + frame_offset) min_top max_top - frame_offset
         else y)"

text \<open>The box of a resized window: the edges of the grab follow the pointer.\<close>

definition resize_box :: "compositor \<Rightarrow> Toplevel \<Rightarrow> wlr_box" where
  "resize_box c t =
     (let g = grab_box c; e = resize_edges c;
          left = box_x g; right = box_x g + box_width g;
          top = box_y g; bottom = box_y g + box_height g;
          border_x = ctrunc (cursor_x c - grab_x c);
          border_y = ctrunc (cursor_y c - grab_y c);
          usable = UsableOutputBox c
            (wlr_output_layout_output_at (output_layout c) (cursor_x c) (cursor_y c));
          min_top = box_y usable + box_y (Geometry (scale_of c) t);
          top1 = min border_y (bottom - 1);
          top' = (if e AND WLR_EDGE_TOP \<noteq> 0
                  then (if box_width usable > 0 \<and> box_height usable > 0 \<and> box_y g \<ge> min_top
                        then min (max top1 min_top) (bottom - 1) else top1)
                  else top);
          bottom' = (if e AND WLR_EDGE_TOP = 0 \<and> e AND WLR_EDGE_BOTTOM \<noteq> 0
                     then max border_y (top + 1) else bottom);
          left' = (if e AND WLR_EDGE_LEFT \<noteq> 0 then min border_x (right - 1) else left);
          right' = (if e AND WLR_EDGE_LEFT = 0 \<and> e AND WLR_EDGE_RIGHT \<noteq> 0
                    then max border_x (left + 1) else right)
      in \<lparr>box_x = left', box_y = top', box_width = right' - left', box_height = bottom' - top'\<rparr>)"

definition ProcessInteractiveMotion :: "compositor \<Rightarrow> compositor" where
  "ProcessInteractiveMotion c =
     (case Option.bind (grabbed_toplevel c) (find_tl c) of
        None \<Rightarrow> ResetCursorMode c
      | Some t \<Rightarrow>
          if \<not> IsAlive t then ResetCursorMode c
          else if cursor_mode c = kMove then
            (let x = ctrunc (cursor_x c - grab_x c);
                 y0 = ctrunc (cursor_y c - grab_y c);
                 y = (case tl_scene_tree t of None \<Rightarrow> y0 | Some n \<Rightarrow> move_y c t n y0);
                 f = (if IsXWayland t
                      then Configure (scale_of c) ((Geometry (scale_of c) t)\<lparr>box_x := x, box_y := y\<rparr>)
                      else set_position x y)
             in (upd_tl (tl_id t) f c)\<lparr>maximize_on_release := CursorAtOutputTop c\<rparr>)
          else upd_tl (tl_id t) (Configure (scale_of c) (resize_box c t)) c)"

end
