(* ===== verification/Toplevel_Events.thy ===== *)
theory Toplevel_Events
  imports Interactive
begin

text \<open>
  The life of a window: creation, map, commit, the client's requests, unmap and destruction, for
  XDG windows and for X windows, the life of layer surfaces, the window menu, and the actions
  behind the default shortcuts.
\<close>

section \<open>XDG windows\<close>

definition new_node :: node where
  "new_node = \<lparr>nd_x = 0, nd_y = 0, nd_enabled = True, nd_in_toplevel_tree = True\<rparr>"

definition OnNewToplevel :: "nat \<Rightarrow> client \<Rightarrow> compositor \<Rightarrow> compositor" where
  "OnNewToplevel i h c =
     RebuildSurfaceClip i
       (c\<lparr>toplevels := toplevels c @
            [(new_Toplevel i False h (current_workspace c))\<lparr>tl_scene_tree := Some new_node\<rparr>],
          tl_stack := tl_stack c @ [i]\<rparr>)"

definition OnMap :: "nat \<Rightarrow> compositor \<Rightarrow> compositor" where
  "OnMap i c =
     (case find_tl c i of
        None \<Rightarrow> c
      | Some t0 \<Rightarrow>
          let c1 = upd_tl i (\<lambda>t. refresh_enabled c (t\<lparr>tl_mapped := True\<rparr>)) c;
              c2 = notify CProtocol (MapToplevel (Surface t0) (Title t0) (AppId t0)) c1;
              c3 = (if RequestedMaximized t0 \<and> CanManage t0 then SetMaximized i True c2 else c2);
              c4 = (if RequestedFullscreen t0
                    then UpdateCsdShadow i (RebuildSurfaceClip i (upd_tl i (SetFullscreenState True) c3))
                    else c3);
              c5 = (if \<not> tl_placed t0 then PlaceNewToplevel i (upd_tl i (\<lambda>t. t\<lparr>tl_placed := True\<rparr>) c4) else c4);
              c6 = ConstrainToUsableArea i c5
          in if WantsFocus t0 then FocusToplevel (Some i) c6 else c6)"

definition surface_unavailable :: "nat option \<Rightarrow> nat \<Rightarrow> compositor \<Rightarrow> compositor" where
  "surface_unavailable s i c =
     notify CTileAnimation (SourceUnavailable i)
       (notify CSplitScreen (SurfaceUnavailable CSplitScreen s)
         (notify CTooltip (SurfaceUnavailable CTooltip s)
           (notify CWindowMenu (SurfaceUnavailable CWindowMenu s)
             (notify CWindowPreviews (SurfaceUnavailable CWindowPreviews s)
               (notify CMultitasking (SurfaceUnavailable CMultitasking s)
                 (notify CAppSwitcher (SurfaceUnavailable CAppSwitcher s)
                   (notify CSelector (SurfaceUnavailable CSelector s) c)))))))"

definition forget_menu :: "nat \<Rightarrow> compositor \<Rightarrow> compositor" where
  "forget_menu i c =
     (if pending_window_menu c = Some i then c\<lparr>pending_window_menu := None\<rparr> else c)"

definition OnUnmap :: "nat \<Rightarrow> compositor \<Rightarrow> compositor" where
  "OnUnmap i c =
     (case find_tl c i of
        None \<Rightarrow> c
      | Some t \<Rightarrow>
          let s = Surface t;
              had_focus = (s \<noteq> None \<and> focused_surface c = s);
              c1 = (if IsXWayland t then SetActivated i False c else c);
              c2 = forget_menu i (surface_unavailable s i c1);
              c3 = UpdateCsdShadow i (upd_tl i (\<lambda>t. t\<lparr>tl_mapped := False\<rparr>) c2);
              c4 = notify CProtocol (UnmapToplevel s) c3;
              c5 = (if grabbed_toplevel c4 = Some i then ResetCursorMode c4 else c4)
          in if had_focus then FocusNextToplevel (Some i) c5 else c5)"

text \<open>The decoration follows the committed geometry; a new decoration moves a window at the origin
  so that its frame starts there.\<close>

definition commit_ssd :: "real \<Rightarrow> client \<Rightarrow> Toplevel \<Rightarrow> Toplevel" where
  "commit_ssd scale h t =
     (case tl_ssd t of
        None \<Rightarrow> t
      | Some s \<Rightarrow>
          let geometry = Geometry scale t;
              t1 = on_ssd (\<lambda>s. SetAppId (SetTitle (SetGeometry s geometry)
                     (case cl_title h of None \<Rightarrow> [] | Some v \<Rightarrow> v))
                     (case cl_app_id h of None \<Rightarrow> [] | Some v \<Rightarrow> v)) t
          in if tl_ssd_initial_position_pending t1 \<and> box_width geometry > 0 \<and> box_height geometry > 0
             then let frame = FrameGeometry scale t1;
                      t2 = (case tl_scene_tree t1 of
                              Some n \<Rightarrow> if nd_x n = 0 \<and> nd_y n = 0
                                        then set_position (- box_x frame) (- box_y frame) t1 else t1
                            | None \<Rightarrow> t1)
                  in t2\<lparr>tl_ssd_initial_position_pending := False\<rparr>
             else t1)"

text \<open>The requested frame position is kept when the geometry changed after a configure.\<close>

definition commit_position :: "real \<Rightarrow> Toplevel \<Rightarrow> Toplevel" where
  "commit_position scale t =
     (let frame = FrameGeometry scale t;
          place = (\<lambda>b. set_position (box_x b - box_x frame) (box_y b - box_y frame))
      in if tl_maximized t \<and> box_width (tl_maximized_box t) > 0 \<and> box_height (tl_maximized_box t) > 0
         then place (tl_maximized_box t) t
         else if tl_tile_position_pending t \<and> box_width (tl_tiled_box t) > 0 \<and> box_height (tl_tiled_box t) > 0
         then (place (tl_tiled_box t) t)\<lparr>tl_tile_position_pending := False\<rparr>
         else if tl_restore_position_pending t \<and> tl_has_restore_box t
         then (place (tl_restore_box t) t)\<lparr>tl_restore_position_pending := False\<rparr>
         else t)"

definition OnCommit :: "nat \<Rightarrow> compositor \<Rightarrow> compositor" where
  "OnCommit i c =
     (case find_tl c i of
        None \<Rightarrow> c
      | Some t0 \<Rightarrow>
          let s = Surface t0;
              c1 = RebuildSurfaceClip i (notify CWindowPreviews (SurfaceUpdated CWindowPreviews s)
                     (notify CMultitasking (SurfaceUpdated CMultitasking s) c))
          in case xdg_handle t0 of
               None \<Rightarrow> c1
             | Some h \<Rightarrow>
                 let c2 = upd_tl i UpdateCapabilities (UpdateCsdShadow i c1);
                     c3 = (if cl_initial_commit h then upd_tl i SendInitialConfigure c2 else c2);
                     c4 = upd_tl i (\<lambda>t. commit_position (scale_of c) (commit_ssd (scale_of c) h t)) c3;
                     c5 = (case find_tl c4 i of
                             Some t \<Rightarrow> if tl_keep_centered t then KeepCentered i c4 else c4
                           | None \<Rightarrow> c4)
                 in notify CProtocol (UpdateToplevel s) c5)"

definition xdg_initialized :: "Toplevel \<Rightarrow> bool" where
  "xdg_initialized t = (case xdg_handle t of None \<Rightarrow> False | Some h \<Rightarrow> cl_initialized h)"

definition OnRequestMaximize :: "nat \<Rightarrow> compositor \<Rightarrow> compositor" where
  "OnRequestMaximize i c =
     (case find_tl c i of
        None \<Rightarrow> c
      | Some t \<Rightarrow> if xdg_initialized t \<and> CanManage t
                  then SetMaximized i (CanMaximize t \<and> RequestedMaximized t) c else c)"

definition OnRequestMinimize :: "nat \<Rightarrow> compositor \<Rightarrow> compositor" where
  "OnRequestMinimize i c =
     (case find_tl c i of
        None \<Rightarrow> c
      | Some t \<Rightarrow> if CanMinimize t then Minimize (Some i) c else c)"

definition OnRequestFullscreen :: "nat \<Rightarrow> compositor \<Rightarrow> compositor" where
  "OnRequestFullscreen i c =
     (case find_tl c i of
        None \<Rightarrow> c
      | Some t \<Rightarrow>
          if \<not> xdg_initialized t then c
          else notify CProtocol (UpdateToplevel (Surface t))
                 (UpdateCsdShadow i (RebuildSurfaceClip i
                   (upd_tl i (\<lambda>t. SetFullscreenState (RequestedFullscreen t) t) c))))"

definition OnRequestMove :: "nat \<Rightarrow> compositor \<Rightarrow> compositor" where
  "OnRequestMove i c = BeginInteractive (Some i) kMove 0 c"

definition OnRequestResize :: "nat \<Rightarrow> 32 word \<Rightarrow> compositor \<Rightarrow> compositor" where
  "OnRequestResize i e c = BeginInteractive (Some i) kResizeMode e c"

definition ShowWindowMenu :: "nat option \<Rightarrow> real \<Rightarrow> real \<Rightarrow> compositor \<Rightarrow> bool \<times> compositor" where
  "ShowWindowMenu i x y c =
     (case Option.bind i (find_tl c) of
        None \<Rightarrow> (False, c)
      | Some t \<Rightarrow>
          if \<not> has_component c CWindowMenu \<or> \<not> tl_mapped t \<or> \<not> IsAlive t \<or> Surface t = None \<or> SessionLocked c
          then (False, c)
          else let c1 = notify CSelector (Cancel CSelector)
                     (notify CWindowPreviews (Cancel CWindowPreviews)
                       (notify CMultitasking (Cancel CMultitasking)
                         (notify CAppSwitcher (Cancel CAppSwitcher) c)));
                   c2 = (FocusToplevel i (ResetCursorMode c1))\<lparr>pointer_focus := None\<rparr>
               in (True, notify CWindowMenu (ShowMenu (Surface t) x y) c2))"

definition OnRequestShowWindowMenu :: "nat \<Rightarrow> int \<Rightarrow> int \<Rightarrow> compositor \<Rightarrow> compositor" where
  "OnRequestShowWindowMenu i ex ey c =
     (case find_tl c i of
        None \<Rightarrow> c
      | Some t \<Rightarrow>
          (case tl_scene_tree t of
             None \<Rightarrow> c
           | Some n \<Rightarrow>
               let g = Geometry (scale_of c) t
               in snd (ShowWindowMenu (Some i) (of_int (nd_x n + box_x g + ex))
                         (of_int (nd_y n + box_y g + ey)) c)))"

definition OnSetTitle :: "nat \<Rightarrow> compositor \<Rightarrow> compositor" where
  "OnSetTitle i c =
     (case find_tl c i of
        None \<Rightarrow> c
      | Some t \<Rightarrow>
          notify CProtocol (UpdateToplevel (Surface t))
            (case xdg_handle t of
               None \<Rightarrow> c
             | Some h \<Rightarrow> upd_tl i (on_ssd (\<lambda>s. SetTitle s (case cl_title h of None \<Rightarrow> [] | Some v \<Rightarrow> v))) c))"

definition OnSetAppId :: "nat \<Rightarrow> compositor \<Rightarrow> compositor" where
  "OnSetAppId i c =
     (case find_tl c i of
        None \<Rightarrow> c
      | Some t \<Rightarrow>
          notify CProtocol (UpdateToplevel (Surface t))
            (case xdg_handle t of
               None \<Rightarrow> c
             | Some h \<Rightarrow> upd_tl i (on_ssd (\<lambda>s. SetAppId s (case cl_app_id h of None \<Rightarrow> [] | Some v \<Rightarrow> v))) c))"

definition OnSetParent :: "nat \<Rightarrow> compositor \<Rightarrow> compositor" where
  "OnSetParent i c =
     (case find_tl c i of
        None \<Rightarrow> c
      | Some t \<Rightarrow>
          let c1 = upd_tl i UpdateCapabilities c;
              c2 = (case xdg_handle t of
                      None \<Rightarrow> c1
                    | Some h \<Rightarrow> upd_tl i (on_ssd (\<lambda>s. SetDialog s (cl_parent h \<noteq> None))) c1);
              c3 = UpdateCsdShadow i c2;
              c4 = (if tl_maximized t \<and> \<not> CanMaximize t then SetMaximized i False c3 else c3)
          in notify CProtocol (UpdateToplevelParent (Surface t) (ParentSurface t)) c4)"

text \<open>The window object stays in the list with a null handle; wlroots removes its scene tree.\<close>

definition OnDestroy :: "nat \<Rightarrow> compositor \<Rightarrow> compositor" where
  "OnDestroy i c =
     (case find_tl c i of
        None \<Rightarrow> c
      | Some t \<Rightarrow>
          let s = Surface t;
              c1 = forget_menu i (surface_unavailable s i c);
              c2 = (if grabbed_toplevel c1 = Some i then ResetCursorMode c1 else c1);
              c3 = ClearSurfaceRoundCorner c2 s;
              c4 = c3\<lparr>no_titlebar_surfaces := erase_if (\<lambda>s'. Some s' = s) (no_titlebar_surfaces c3),
                      tl_stack := erase_if (\<lambda>j. j = i) (tl_stack c3)\<rparr>
          in upd_tl i (\<lambda>t. t\<lparr>tl_ssd := None, tl_csd_shadow := None, tl_handle := None,
                            tl_scene_tree := None, tl_mapped := False\<rparr>) c4)"

section \<open>X windows\<close>

text \<open>\<open>XWaylandManager::OnNewSurface\<close> for a window other than the focus parking window, and the
  handlers of \<open>XSurface\<close>. \<open>request_move\<close>, \<open>request_maximize\<close> and \<open>request_fullscreen\<close> of an X window
  are connected to the inherited handlers above.\<close>

definition OnAssociate :: "nat \<Rightarrow> bool \<Rightarrow> compositor \<Rightarrow> compositor" where
  "OnAssociate i surface_mapped c =
     (case find_tl c i of
        None \<Rightarrow> c
      | Some t \<Rightarrow>
          (case tl_handle t of
             None \<Rightarrow> c
           | Some h \<Rightarrow>
               if cl_surface h = None \<or> tl_scene_tree t \<noteq> None then c
               else let n = new_node\<lparr>nd_x := FromX (scale_of c) (box_x (cl_geometry h)),
                                     nd_y := FromX (scale_of c) (box_y (cl_geometry h))\<rparr>;
                        c1 = RebuildSurfaceClip i (upd_tl i (\<lambda>t. t\<lparr>tl_scene_tree := Some n\<rparr>)
                               (c\<lparr>tl_stack := tl_stack c @ [i]\<rparr>))
                    in if surface_mapped then OnMap i c1 else c1))"

definition xw_OnNewSurface :: "nat \<Rightarrow> client \<Rightarrow> bool \<Rightarrow> compositor \<Rightarrow> compositor" where
  "xw_OnNewSurface i h surface_mapped c =
     OnAssociate i surface_mapped (c\<lparr>toplevels := toplevels c @ [new_Toplevel i True h (current_workspace c)]\<rparr>)"

definition Dissociate :: "nat \<Rightarrow> compositor \<Rightarrow> compositor" where
  "Dissociate i c =
     (case find_tl c i of
        None \<Rightarrow> c
      | Some t \<Rightarrow>
          let c1 = ClearSurfaceRoundCorner c (Surface t);
              c2 = (if tl_mapped t then OnUnmap i c1 else c1)
          in upd_tl i (\<lambda>t. t\<lparr>tl_scene_tree := None, tl_mapped := False\<rparr>)
               (c2\<lparr>tl_stack := (if tl_scene_tree t = None then tl_stack c2
                                else erase_if (\<lambda>j. j = i) (tl_stack c2))\<rparr>))"

definition x_OnRequestConfigure :: "nat \<Rightarrow> wlr_box \<Rightarrow> compositor \<Rightarrow> compositor" where
  "x_OnRequestConfigure i event c =
     upd_tl i (\<lambda>t. if tl_handle t = None then t
                   else if tl_maximized t \<and> CanManage t then Configure (scale_of c) (tl_maximized_box t) t
                   else Configure (scale_of c)
                          \<lparr>box_x = FromX (scale_of c) (box_x event), box_y = FromX (scale_of c) (box_y event),
                           box_width = FromX (scale_of c) (box_width event),
                           box_height = FromX (scale_of c) (box_height event)\<rparr> t) c"

definition x_OnRequestMinimize :: "nat \<Rightarrow> bool \<Rightarrow> compositor \<Rightarrow> compositor" where
  "x_OnRequestMinimize i m c =
     (if m then Minimize (Some i) c
      else let c1 = upd_tl i (\<lambda>t. set_enabled True (SetMinimizedState False (t\<lparr>tl_minimized := False\<rparr>))) c
           in case find_tl c1 i of
                None \<Rightarrow> c1
              | Some t \<Rightarrow> if tl_mapped t \<and> WantsFocus t then FocusToplevel (Some i) c1 else c1)"

definition x_OnRequestActivate :: "nat \<Rightarrow> compositor \<Rightarrow> compositor" where
  "x_OnRequestActivate i c =
     (case find_tl c i of
        None \<Rightarrow> c
      | Some t \<Rightarrow> if WantsFocus t then FocusToplevel (Some i) c else c)"

definition x_OnSetGeometry :: "nat \<Rightarrow> compositor \<Rightarrow> compositor" where
  "x_OnSetGeometry i c =
     upd_tl i (\<lambda>t. case tl_handle t of
                     None \<Rightarrow> t
                   | Some h \<Rightarrow>
                       if tl_scene_tree t = None \<or> tl_maximized t \<or> grabbed_toplevel c = Some i then t
                       else set_position (FromX (scale_of c) (box_x (cl_geometry h)))
                              (FromX (scale_of c) (box_y (cl_geometry h))) t) c"

definition x_OnDestroy :: "nat \<Rightarrow> compositor \<Rightarrow> compositor" where
  "x_OnDestroy i c =
     OnDestroy i (upd_tl i (\<lambda>t. t\<lparr>tl_handle := None\<rparr>) (SetActivated i False (Dissociate i c)))"

text \<open>\<open>XWaylandManager::UpdateScale\<close> with the largest output scale: managed X windows keep their
  place in layout units.\<close>

definition largest_scale :: "compositor \<Rightarrow> real" where
  "largest_scale c =
     fold (\<lambda>l m. max m (wo_scale (output_state (output_layout c) (lo_output l))))
       (lo_outputs (output_layout c)) 1"

definition UpdateScale :: "compositor \<Rightarrow> compositor" where
  "UpdateScale c =
     (let largest = largest_scale c
      in case xwayland c of
           None \<Rightarrow> c
         | Some x \<Rightarrow>
             if largest = xw_scale x then c
             else c\<lparr>xwayland := Some (x\<lparr>xw_scale := largest\<rparr>),
                    toplevels := map (\<lambda>t. case tl_scene_tree t of
                        None \<Rightarrow> t
                      | Some n \<Rightarrow>
                          if tl_xwayland t \<and> tl_mapped t \<and> CanManage t
                          then Configure largest ((Geometry (xw_scale x) t)\<lparr>box_x := nd_x n, box_y := nd_y n\<rparr>) t
                          else t) (toplevels c)\<rparr>)"

section \<open>Layer surfaces\<close>

definition find_layer :: "compositor \<Rightarrow> nat \<Rightarrow> LayerSurface option" where
  "find_layer c i = find (\<lambda>l. ly_id l = i) (layer_surfaces c)"

definition upd_layer :: "nat \<Rightarrow> (LayerSurface \<Rightarrow> LayerSurface) \<Rightarrow> compositor \<Rightarrow> compositor" where
  "upd_layer i f c = c\<lparr>layer_surfaces := map (\<lambda>l. if ly_id l = i then f l else l) (layer_surfaces c)\<rparr>"

definition LayerSurfaceFor :: "compositor \<Rightarrow> nat option \<Rightarrow> LayerSurface option" where
  "LayerSurfaceFor c surface =
     (case surface of
        None \<Rightarrow> None
      | Some s \<Rightarrow>
          find (\<lambda>l. case ly_handle l of None \<Rightarrow> False | Some h \<Rightarrow> lc_surface h = root_surface c s)
            (layer_surfaces c))"

definition focus_if_exclusive :: "nat \<Rightarrow> compositor \<Rightarrow> compositor" where
  "focus_if_exclusive i c =
     (case find_layer c i of
        None \<Rightarrow> c
      | Some l \<Rightarrow>
          (case ly_handle l of
             Some h \<Rightarrow> if lc_keyboard_interactive h = InteractiveExclusive then FocusLayerSurface l c else c
           | None \<Rightarrow> c))"

definition layer_OnMap :: "nat \<Rightarrow> compositor \<Rightarrow> compositor" where
  "layer_OnMap i c =
     (case Option.bind (find_layer c i) ly_handle of
        None \<Rightarrow> c
      | Some h \<Rightarrow>
          focus_if_exclusive i (ArrangeLayers (lc_output h) (upd_layer i (\<lambda>l. l\<lparr>ly_mapped := True\<rparr>) c)))"

definition layer_OnUnmap :: "nat \<Rightarrow> compositor \<Rightarrow> compositor" where
  "layer_OnUnmap i c =
     (case Option.bind (find_layer c i) ly_handle of
        None \<Rightarrow> c
      | Some h \<Rightarrow>
          let c1 = upd_layer i (\<lambda>l. l\<lparr>ly_mapped := False\<rparr>) c;
              c2 = (if focused_surface c1 = Some (lc_surface h) then FocusNextToplevel None c1 else c1)
          in ArrangeLayers (lc_output h) c2)"

definition layer_OnCommit :: "nat \<Rightarrow> compositor \<Rightarrow> compositor" where
  "layer_OnCommit i c =
     (case Option.bind (find_layer c i) ly_handle of
        None \<Rightarrow> c
      | Some h \<Rightarrow>
          if lc_initial_commit h then ArrangeLayers (lc_output h) c
          else let output = lc_output h;
                   c1 = (case output of
                           Some k \<Rightarrow> if lc_committed_layer h \<and> FindOutput c output \<noteq> None
                                     then upd_layer i (\<lambda>l. l\<lparr>ly_tree := Some (LayerTree k (lc_layer h))\<rparr>) c else c
                         | None \<Rightarrow> c);
                   c2 = (if lc_committed h then ArrangeLayers output c1 else c1)
               in case find_layer c2 i of
                    None \<Rightarrow> c2
                  | Some l \<Rightarrow> if ly_mapped l then focus_if_exclusive i c2 else c2)"

definition layer_OnDestroy :: "nat \<Rightarrow> compositor \<Rightarrow> compositor" where
  "layer_OnDestroy i c =
     (case Option.bind (find_layer c i) ly_handle of
        None \<Rightarrow> c
      | Some h \<Rightarrow>
          ArrangeLayers (lc_output h)
            (upd_layer i (\<lambda>l. l\<lparr>ly_handle := None, ly_tree := None, ly_mapped := False\<rparr>) c))"

text \<open>A request without an output goes to the one under the pointer or in the centre; without any
  output the surface is destroyed.\<close>

definition OnNewLayerSurface :: "nat \<Rightarrow> layer_client \<Rightarrow> compositor \<Rightarrow> compositor" where
  "OnNewLayerSurface i h c =
     (let output = (case lc_output h of Some k \<Rightarrow> Some k | None \<Rightarrow> output_under c (cursor_x c) (cursor_y c))
      in case output of
           None \<Rightarrow> c
         | Some k \<Rightarrow>
             if FindOutput c (Some k) = None then c
             else c\<lparr>layer_surfaces := layer_surfaces c @
                      [\<lparr>ly_id = i, ly_mapped = False, ly_handle = Some (h\<lparr>lc_output := output\<rparr>),
                        ly_tree = Some (LayerTree k (lc_layer h)), ly_x = 0, ly_y = 0\<rparr>]\<rparr>)"

end
