(* ===== verification/Seat_Input.thy ===== *)
theory Seat_Input
  imports Toplevel_Events Default_Bindings
begin

text \<open>
  Pointer, touch and keyboard events. A \<open>desktop\<close> is the compositor with the state of its input
  handlers and the log of what was forwarded to the seat. What the overlays and wlroots answer to
  an event (whether a menu or an overview consumes it, which surface lies under a point, which
  output the device is mapped to, how a pointer constraint shortens a motion) is the argument
  \<open>env\<close> of a handler.
\<close>

section \<open>Data\<close>

datatype TouchPointMode = kNative | kPointer | kSelector | kMultitasking | kWindowPreviews | kIgnored

record TouchPoint =
  tp_touch :: nat
  tp_touch_id :: int
  tp_mode :: TouchPointMode
  tp_last_x :: real
  tp_last_y :: real

datatype seat_event =
    SeatEnter nat real real
  | SeatMotion "32 word" real real
  | SeatButton "32 word" nat bool
  | SeatAxis "32 word"
  | SeatPointerFrame
  | SeatTouchDown "32 word" int nat real real
  | SeatTouchUp "32 word" int
  | SeatTouchMotion "32 word" int real real
  | SeatTouchCancel nat
  | SeatTouchFrame
  | SeatKey nat "32 word" key_state
  | GrabKey nat "32 word" key_state

record env =
  ev_hit :: "real \<Rightarrow> real \<Rightarrow> nat option \<times> nat option \<times> real \<times> real"
  menu_motion :: bool
  split_motion :: bool
  previews_motion :: bool
  multitasking_motion :: bool
  selector_motion :: bool
  menu_button :: bool
  split_button :: bool
  multitasking_button :: bool
  previews_button :: bool
  selector_button :: bool
  menu_active :: bool
  multitasking_active :: bool
  previews_active :: bool
  selector_active :: bool
  xw_owns_surface :: "nat \<Rightarrow> bool"
  mapped_output :: "nat option"
  confine_pointer :: "real \<times> real \<Rightarrow> real \<times> real"
  forward_axis :: bool
  accepts_touch :: "nat \<Rightarrow> bool"
  touch_down_serial :: bool
  seat_touch_point :: "int \<Rightarrow> (nat \<times> nat option \<times> real \<times> real) option"

record desktop =
  core :: compositor
  last_click_toplevel :: "nat option"
  last_click_time :: "32 word"
  last_click_x :: real
  last_click_y :: real
  suppress_button_release :: bool
  cursor_hidden_by_touch :: bool
  touch_points :: "TouchPoint list"
  touch_pointer_frame_pending :: bool
  seat_log :: "seat_event list"

definition BTN_LEFT :: nat where "BTN_LEFT = 272"
definition BTN_RIGHT :: nat where "BTN_RIGHT = 273"
definition kDoubleClickIntervalMs :: "32 word" where "kDoubleClickIntervalMs = 400"
definition kDoubleClickDistance :: real where "kDoubleClickDistance = 6"

definition on_core :: "(compositor \<Rightarrow> compositor) \<Rightarrow> desktop \<Rightarrow> desktop" where
  "on_core f d = d\<lparr>core := f (core d)\<rparr>"

definition send :: "seat_event \<Rightarrow> desktop \<Rightarrow> desktop" where
  "send e d = d\<lparr>seat_log := seat_log d @ [e]\<rparr>"

definition clear_pointer_focus :: "compositor \<Rightarrow> compositor" where
  "clear_pointer_focus c = c\<lparr>pointer_focus := None\<rparr>"

section \<open>Pointer motion\<close>

text \<open>An overlay consumes the event: its pointer is not null and its handler answers true.\<close>

definition consumes :: "compositor \<Rightarrow> component \<Rightarrow> bool \<Rightarrow> bool" where
  "consumes c cp answer = (has_component c cp \<and> answer)"

definition default_cursor_no_focus :: "compositor \<Rightarrow> compositor" where
  "default_cursor_no_focus c = clear_pointer_focus (set_cursor_name ''default'' c)"

definition hover_ssd :: "nat option \<Rightarrow> HitTarget \<Rightarrow> compositor \<Rightarrow> compositor" where
  "hover_ssd toplevel hit c =
     c\<lparr>toplevels := map (\<lambda>t. on_ssd (\<lambda>s. SetHovered s (if Some (tl_id t) = toplevel then hit else no_target)) t)
        (toplevels c)\<rparr>"

definition ToSurfaceX :: "env \<Rightarrow> compositor \<Rightarrow> nat \<Rightarrow> real \<times> real \<Rightarrow> real \<times> real" where
  "ToSurfaceX e c s p =
     (if xwayland c \<noteq> None \<and> xw_owns_surface e s then (fst p * scale_of c, snd p * scale_of c) else p)"

text \<open>What the hovered titlebar part shows: the split-screen chooser over the maximise button, the
  tooltips of the others.\<close>

definition hover_hints :: "nat option \<Rightarrow> HitTarget \<Rightarrow> compositor \<Rightarrow> compositor" where
  "hover_hints toplevel hit c =
     (case Option.bind toplevel (find_tl c) of
        Some t \<Rightarrow>
          if ht_part hit = kMaximize \<and> Surface t \<noteq> None then
            (let node_y = (case tl_scene_tree t of None \<Rightarrow> 0 | Some n \<Rightarrow> nd_y n)
             in notify CSplitScreen (HoverMaximize (Surface t) (cursor_x c) (cursor_y c)
                    (node_y + box_y (Geometry (scale_of c) t)))
                  (notify CTooltip (Cancel CTooltip) c))
          else notify CTooltip (TooltipHover (Surface t)
                   (if ht_part hit = kMinimize \<or> ht_part hit = kClose then ht_part hit else kNone)
                   (cursor_x c) (cursor_y c))
                 (notify CSplitScreen LeaveMaximize c)
      | None \<Rightarrow> notify CTooltip (TooltipHover None kNone (cursor_x c) (cursor_y c))
                  (notify CSplitScreen LeaveMaximize c))"

text \<open>The tail of \<open>ProcessCursorMotion\<close>: no overlay and no grab takes the motion.\<close>

definition pointer_passthrough :: "env \<Rightarrow> 32 word \<Rightarrow> desktop \<Rightarrow> desktop" where
  "pointer_passthrough e time d =
     (let c = core d;
          (toplevel, surface, sx, sy) = ev_hit e (cursor_x c) (cursor_y c);
          hit = SsdHitAt c toplevel;
          c1 = hover_ssd toplevel hit c;
          (csd, csd_toplevel) = CsdResizeHitAt c1
      in if ht_part csd = kResize then
           d\<lparr>core := clear_pointer_focus (set_cursor_name (ResizeCursorName (ht_edges csd))
               (notify CSplitScreen LeaveMaximize (notify CTooltip (Cancel CTooltip) c1)))\<rparr>
         else let c2 = hover_hints toplevel hit c1
         in if ht_part hit \<noteq> kNone then
           d\<lparr>core := clear_pointer_focus (set_cursor_name
               (if ht_part hit = kResize then ResizeCursorName (ht_edges hit) else ''default'') c2)\<rparr>
         else let c3 = (if toplevel = None then set_cursor_name ''default'' c2 else c2)
              in case surface of
                   None \<Rightarrow> d\<lparr>core := clear_pointer_focus c3\<rparr>
                 | Some s \<Rightarrow>
                     let (x, y) = ToSurfaceX e c3 s (sx, sy)
                     in send (SeatMotion time x y) (send (SeatEnter s x y)
                          (d\<lparr>core := c3\<lparr>pointer_focus := Some s\<rparr>\<rparr>)))"

definition ProcessCursorMotion :: "env \<Rightarrow> 32 word \<Rightarrow> desktop \<Rightarrow> desktop" where
  "ProcessCursorMotion e time d =
     (let c = core d
      in if consumes c CWindowMenu (menu_motion e) then on_core default_cursor_no_focus d
         else if consumes c CSplitScreen (split_motion e)
         then on_core (\<lambda>c. default_cursor_no_focus (notify CTooltip (Cancel CTooltip) c)) d
         else if consumes c CWindowPreviews (previews_motion e) then on_core default_cursor_no_focus d
         else if consumes c CMultitasking (multitasking_motion e) then on_core default_cursor_no_focus d
         else if consumes c CSelector (selector_motion e) then on_core clear_pointer_focus d
         else if cursor_mode c \<noteq> kPassthrough
         then on_core (\<lambda>c. ProcessInteractiveMotion (notify CSplitScreen (Cancel CSplitScreen)
                (notify CTooltip (Cancel CTooltip) c))) d
         else pointer_passthrough e time d)"

definition show_cursor_again :: "desktop \<Rightarrow> desktop" where
  "show_cursor_again d =
     (if cursor_hidden_by_touch d
      then (on_core (set_cursor_name ''default'') d)\<lparr>cursor_hidden_by_touch := False\<rparr> else d)"

text \<open>The mapping box of a device: the output it is mapped to. The cursor itself is never mapped.\<close>

definition get_mapping :: "nat option \<Rightarrow> compositor \<Rightarrow> wlr_box" where
  "get_mapping mapped c =
     (case mapped of None \<Rightarrow> zero_box | Some _ \<Rightarrow> wlr_output_layout_get_box (output_layout c) mapped)"

definition wlr_cursor_warp_closest :: "nat option \<Rightarrow> real \<Rightarrow> real \<Rightarrow> compositor \<Rightarrow> compositor" where
  "wlr_cursor_warp_closest mapped lx ly c =
     (let mapping = get_mapping mapped c
      in case wlr_box_closest_point (Some mapping) lx ly of
           Some (x, y) \<Rightarrow> c\<lparr>cursor_x := x, cursor_y := y\<rparr>
         | None \<Rightarrow>
             if lo_outputs (output_layout c) \<noteq> [] then
               (let (x, y) = wlr_output_layout_closest_point (output_layout c) None lx ly
                in c\<lparr>cursor_x := x, cursor_y := y\<rparr>)
             else c)"

definition wlr_cursor_move :: "nat option \<Rightarrow> real \<Rightarrow> real \<Rightarrow> compositor \<Rightarrow> compositor" where
  "wlr_cursor_move mapped delta_x delta_y c =
     wlr_cursor_warp_closest mapped (cursor_x c + delta_x) (cursor_y c + delta_y) c"

definition wlr_cursor_absolute_to_layout_coords ::
  "nat option \<Rightarrow> real \<Rightarrow> real \<Rightarrow> compositor \<Rightarrow> real \<times> real" where
  "wlr_cursor_absolute_to_layout_coords mapped x y c =
     (let m = get_mapping mapped c;
          mapping = (if wlr_box_empty (Some m) then wlr_output_layout_get_box (output_layout c) None else m)
      in (of_int (box_width mapping) * x + of_int (box_x mapping),
          of_int (box_height mapping) * y + of_int (box_y mapping)))"

definition wlr_cursor_warp_absolute :: "nat option \<Rightarrow> real \<Rightarrow> real \<Rightarrow> compositor \<Rightarrow> compositor" where
  "wlr_cursor_warp_absolute mapped x y c =
     (let (lx, ly) = wlr_cursor_absolute_to_layout_coords mapped x y c
      in wlr_cursor_warp_closest mapped lx ly c)"

definition ConfinePointer :: "env \<Rightarrow> compositor \<Rightarrow> real \<times> real \<Rightarrow> real \<times> real" where
  "ConfinePointer e c delta = (if has_component c CProtocol then confine_pointer e delta else delta)"

definition OnCursorMotion :: "env \<Rightarrow> 32 word \<Rightarrow> real \<Rightarrow> real \<Rightarrow> desktop \<Rightarrow> desktop" where
  "OnCursorMotion e time delta_x delta_y d =
     (let d1 = on_core (\<lambda>c. notify CProtocol (SendRelativeMotion time) (notify CProtocol (NotifyPointer time) c))
                 (show_cursor_again d);
          (dx, dy) = ConfinePointer e (core d1) (delta_x, delta_y);
          d2 = on_core (\<lambda>c. notify CProtocol MoveDrag (wlr_cursor_move (mapped_output e) dx dy c)) d1
      in on_core (notify CShakeCursor ShakeMotion) (ProcessCursorMotion e time d2))"

definition OnCursorMotionAbsolute :: "env \<Rightarrow> 32 word \<Rightarrow> real \<Rightarrow> real \<Rightarrow> desktop \<Rightarrow> desktop" where
  "OnCursorMotionAbsolute e time x y d =
     (let d0 = show_cursor_again d;
          (layout_x, layout_y) = wlr_cursor_absolute_to_layout_coords (mapped_output e) x y (core d0);
          d1 = on_core (notify CProtocol (NotifyPointer time)) d0;
          (dx, dy) = ConfinePointer e (core d1)
                       (layout_x - cursor_x (core d0), layout_y - cursor_y (core d0));
          d2 = on_core (\<lambda>c. notify CProtocol MoveDrag
                 (wlr_cursor_warp_closest (mapped_output e) (cursor_x c + dx) (cursor_y c + dy) c)) d1
      in on_core (notify CShakeCursor ShakeMotion) (ProcessCursorMotion e time d2))"

section \<open>Pointer buttons\<close>

text \<open>The chain of overlays that see a button first; \<open>Some\<close> is the result when one consumed it.
  \<open>from_pointer\<close> says whether the event comes from a pointer device or from emulated touch.\<close>

definition overlay_buttons :: "env \<Rightarrow> 32 word \<Rightarrow> bool \<Rightarrow> desktop \<Rightarrow> desktop option" where
  "overlay_buttons e time pressed d =
     (let c = core d
      in if consumes c CWindowMenu (menu_button e) then
           Some (if menu_active e then d
                 else ProcessCursorMotion e time
                        (if pressed then d\<lparr>suppress_button_release := True\<rparr> else d))
         else if consumes c CSplitScreen (split_button e) then Some d
         else if consumes c CMultitasking (multitasking_button e) then
           Some (if multitasking_active e then d else ProcessCursorMotion e time d)
         else if consumes c CWindowPreviews (previews_button e) then
           Some (if previews_active e then d else ProcessCursorMotion e time d)
         else if consumes c CSelector (selector_button e) then
           Some (if selector_active e then d else ProcessCursorMotion e time d)
         else None)"

definition release_pressed :: "compositor \<Rightarrow> compositor" where
  "release_pressed c = c\<lparr>toplevels := map (on_ssd (\<lambda>s. SetPressed s no_target)) (toplevels c)\<rparr>"

definition button_released :: "32 word \<Rightarrow> nat \<Rightarrow> desktop \<Rightarrow> desktop" where
  "button_released time button d =
     (let d1 = on_core release_pressed d
      in case pending_window_menu (core d1) of
           Some i \<Rightarrow>
             if button = BTN_RIGHT then
               on_core (\<lambda>c. let c' = EndInteractive (c\<lparr>pending_window_menu := None\<rparr>)
                            in snd (ShowWindowMenu (Some i) (cursor_x c') (cursor_y c') c'))
                 (d1\<lparr>suppress_button_release := False\<rparr>)
             else on_core EndInteractive
               (if suppress_button_release d1 then d1\<lparr>suppress_button_release := False\<rparr>
                else send (SeatButton time button False) d1)
         | None \<Rightarrow>
             on_core EndInteractive
               (if suppress_button_release d1 then d1\<lparr>suppress_button_release := False\<rparr>
                else send (SeatButton time button False) d1))"

definition double_click :: "32 word \<Rightarrow> nat option \<Rightarrow> desktop \<Rightarrow> bool" where
  "double_click time toplevel d =
     (last_click_toplevel d = toplevel \<and>
      time - last_click_time d \<le> kDoubleClickIntervalMs \<and>
      \<bar>cursor_x (core d) - last_click_x d\<bar> \<le> kDoubleClickDistance \<and>
      \<bar>cursor_y (core d) - last_click_y d\<bar> \<le> kDoubleClickDistance)"

definition remember_click :: "32 word \<Rightarrow> nat option \<Rightarrow> desktop \<Rightarrow> desktop" where
  "remember_click time toplevel d =
     d\<lparr>last_click_toplevel := toplevel, last_click_time := time,
       last_click_x := cursor_x (core d), last_click_y := cursor_y (core d)\<rparr>"

text \<open>A press on a part of a server-side decoration.\<close>

definition ssd_pressed :: "32 word \<Rightarrow> nat \<Rightarrow> nat \<Rightarrow> HitTarget \<Rightarrow> desktop \<Rightarrow> desktop" where
  "ssd_pressed time button i hit d0 =
     (let d = (on_core (FocusToplevel (Some i)) d0)\<lparr>suppress_button_release := True\<rparr>
      in if button \<noteq> BTN_LEFT then
           on_core (\<lambda>c. c\<lparr>pending_window_menu :=
             (if button = BTN_RIGHT \<and> ht_part hit = kTitlebar then Some i else None)\<rparr>) d
         else let d1 = on_core (upd_tl i (on_ssd (\<lambda>s. SetPressed s hit))) d;
                  d2 = d1\<lparr>last_click_toplevel := None\<rparr>
              in case ht_part hit of
                   kClose \<Rightarrow> on_core (upd_tl i Close) d2
                 | kMinimize \<Rightarrow> on_core (Minimize (Some i)) d2
                 | kMaximize \<Rightarrow> on_core (\<lambda>c. ToggleMaximized (Some i)
                                   (notify CSplitScreen (Cancel CSplitScreen) c)) d2
                 | kResize \<Rightarrow> on_core (BeginInteractive (Some i) kResizeMode (ht_edges hit)) d2
                 | _ \<Rightarrow>
                     if double_click time (Some i) d1
                     then on_core (\<lambda>c. ToggleMaximized (Some i) (EndInteractive c)) d2
                     else on_core (BeginInteractive (Some i) kMove 0) (remember_click time (Some i) d1))"

definition client_pressed ::
  "env \<Rightarrow> 32 word \<Rightarrow> nat \<Rightarrow> nat option \<Rightarrow> nat option \<Rightarrow> real \<Rightarrow> desktop \<Rightarrow> desktop" where
  "client_pressed e time button toplevel surface surface_y d =
     (let titlebar = (button = BTN_LEFT \<and> IsTitlebarPoint (core d) toplevel surface surface_y)
      in if titlebar \<and> last_click_toplevel d \<noteq> None \<and> double_click time toplevel d
         then on_core (\<lambda>c. FocusToplevel toplevel (ToggleMaximized toplevel (EndInteractive c)))
                (d\<lparr>last_click_toplevel := None, suppress_button_release := True\<rparr>)
         else let d1 = (if titlebar then remember_click time toplevel d
                        else d\<lparr>last_click_toplevel := None\<rparr>);
                  d2 = send (SeatButton time button True) d1
              in on_core (\<lambda>c. if toplevel \<noteq> None then FocusToplevel toplevel c
                             else case LayerSurfaceFor c surface of
                                    None \<Rightarrow> c | Some l \<Rightarrow> FocusLayerSurface l c) d2)"

definition button_pressed :: "env \<Rightarrow> 32 word \<Rightarrow> nat \<Rightarrow> desktop \<Rightarrow> desktop" where
  "button_pressed e time button d =
     (if cursor_mode (core d) \<noteq> kPassthrough
      then (on_core EndInteractive d)\<lparr>suppress_button_release := True\<rparr>
      else let c = core d;
               (toplevel, surface, sx, sy) = ev_hit e (cursor_x c) (cursor_y c);
               hit = SsdHitAt c toplevel;
               (csd, csd_toplevel) = CsdResizeHitAt c
           in if button = BTN_LEFT \<and> ht_part csd = kResize \<and> csd_toplevel \<noteq> None
              then on_core (\<lambda>c. BeginInteractive csd_toplevel kResizeMode (ht_edges csd)
                             (FocusToplevel csd_toplevel c))
                     (d\<lparr>suppress_button_release := True, last_click_toplevel := None\<rparr>)
              else (case toplevel of
                      Some i \<Rightarrow> if ht_part hit \<noteq> kNone then ssd_pressed time button i hit d
                                else client_pressed e time button toplevel surface sy d
                    | None \<Rightarrow> client_pressed e time button toplevel surface sy d))"

definition OnCursorButton :: "env \<Rightarrow> 32 word \<Rightarrow> bool \<Rightarrow> nat \<Rightarrow> bool \<Rightarrow> desktop \<Rightarrow> desktop" where
  "OnCursorButton e time from_pointer button pressed d0 =
     (let d = on_core (notify CProtocol (NotifyPointer time))
                (if from_pointer then show_cursor_again d0 else d0)
      in if SessionLocked (core d) then send (SeatButton time button pressed) d
         else case overlay_buttons e time pressed d of
                Some d' \<Rightarrow> d'
              | None \<Rightarrow> if \<not> pressed then button_released time button d else button_pressed e time button d)"

definition OnCursorAxis :: "env \<Rightarrow> 32 word \<Rightarrow> bool \<Rightarrow> desktop \<Rightarrow> desktop" where
  "OnCursorAxis e time from_pointer d0 =
     (let d = on_core (notify CProtocol (NotifyPointer time))
                (if from_pointer then show_cursor_again d0 else d0);
          c = core d
      in if (has_component c CProtocol \<and> \<not> forward_axis e) \<or> consumes c CWindowMenu (menu_active e) \<or>
            consumes c CMultitasking (multitasking_active e) \<or> consumes c CWindowPreviews (previews_active e)
         then d else send (SeatAxis time) d)"

definition OnCursorFrame :: "desktop \<Rightarrow> desktop" where
  "OnCursorFrame d = send SeatPointerFrame d"

section \<open>The window menu's actions\<close>

datatype MenuAction =
    MenuMinimize | MenuToggleMaximize | MenuMove | MenuResize | MenuToggleKeepAbove
  | MenuToggleAllWorkspaces | MenuMoveWorkspaceLeft | MenuMoveWorkspaceRight | MenuClose

definition node_origin :: "Toplevel \<Rightarrow> int \<times> int" where
  "node_origin t = (case tl_scene_tree t of None \<Rightarrow> (0, 0) | Some n \<Rightarrow> (nd_x n, nd_y n))"

definition menu_warp :: "bool \<Rightarrow> Toplevel \<Rightarrow> compositor \<Rightarrow> compositor" where
  "menu_warp resize t c =
     (let frame = FrameGeometry (scale_of c) t; (nx, ny) = node_origin t
      in if resize
         then wlr_cursor_warp_closest None (of_int (nx + box_x frame + box_width frame + 8))
                (of_int (ny + box_y frame + box_height frame + 8)) c
         else wlr_cursor_warp_closest None (of_int (nx + box_x frame) + of_int (box_width frame) / 2)
                (of_int (ny + box_y frame) + of_int (box_height frame) / 2) c)"

text \<open>The window after \<open>SetAllWorkspaces(toplevel, false)\<close> moves to the neighbouring workspace.\<close>

definition menu_move_workspace :: "nat \<Rightarrow> bool \<Rightarrow> compositor \<Rightarrow> compositor" where
  "menu_move_workspace i right c =
     (let c1 = SetAllWorkspaces i False c
      in case find_tl c1 i of
           None \<Rightarrow> c1
         | Some t \<Rightarrow> snd (MoveToplevelToWorkspace i
                        (if right then min (workspace_count c1 - 1) (tl_workspace t + 1)
                         else max 0 (tl_workspace t - 1)) c1))"

definition HandleWindowMenuAction :: "env \<Rightarrow> nat option \<Rightarrow> MenuAction \<Rightarrow> desktop \<Rightarrow> desktop" where
  "HandleWindowMenuAction e surface action d =
     (case ToplevelForSurface (core d) surface of
        None \<Rightarrow> d
      | Some t \<Rightarrow>
          if \<not> tl_mapped t \<or> \<not> IsAlive t then d
          else let i = tl_id t
               in case action of
                    MenuMinimize \<Rightarrow> on_core (Minimize (Some i)) d
                  | MenuToggleMaximize \<Rightarrow> on_core (ToggleMaximized (Some i)) d
                  | MenuMove \<Rightarrow> ProcessCursorMotion e 0
                                (on_core (\<lambda>c. BeginInteractive (Some i) kMove 0 (menu_warp False t c)) d)
                  | MenuResize \<Rightarrow> ProcessCursorMotion e 0
                                (on_core (\<lambda>c. BeginInteractive (Some i) kResizeMode
                                   (WLR_EDGE_RIGHT OR WLR_EDGE_BOTTOM) (menu_warp True t c)) d)
                  | MenuToggleKeepAbove \<Rightarrow> on_core (SetKeptAbove i (\<not> tl_kept_above t)) d
                  | MenuToggleAllWorkspaces \<Rightarrow> on_core (SetAllWorkspaces i (\<not> tl_all_workspaces t)) d
                  | MenuMoveWorkspaceLeft \<Rightarrow> on_core (menu_move_workspace i False) d
                  | MenuMoveWorkspaceRight \<Rightarrow> on_core (menu_move_workspace i True) d
                  | MenuClose \<Rightarrow> on_core (upd_tl i Close) d)"

section \<open>Touch\<close>

definition is_point :: "nat \<Rightarrow> int \<Rightarrow> TouchPoint \<Rightarrow> bool" where
  "is_point touch touch_id p = (tp_touch p = touch \<and> tp_touch_id p = touch_id)"

definition FindTouchPoint :: "nat \<Rightarrow> int \<Rightarrow> desktop \<Rightarrow> TouchPoint option" where
  "FindTouchPoint touch touch_id d = find (is_point touch touch_id) (touch_points d)"

definition unset_cursor :: "compositor \<Rightarrow> compositor" where
  "unset_cursor c = c\<lparr>cursor_state := UnsetCursorImage (cursor_state c)\<rparr>"

definition SendPointerTouchButton :: "env \<Rightarrow> 32 word \<Rightarrow> bool \<Rightarrow> desktop \<Rightarrow> desktop" where
  "SendPointerTouchButton e time pressed d =
     (OnCursorButton e time False BTN_LEFT pressed d)\<lparr>touch_pointer_frame_pending := True\<rparr>"

definition add_point :: "nat \<Rightarrow> int \<Rightarrow> TouchPointMode \<Rightarrow> desktop \<Rightarrow> desktop" where
  "add_point touch touch_id mode d =
     d\<lparr>touch_points := touch_points d @
         [\<lparr>tp_touch = touch, tp_touch_id = touch_id, tp_mode = mode,
           tp_last_x = cursor_x (core d), tp_last_y = cursor_y (core d)\<rparr>]\<rparr>"

definition overlay_touch :: "component \<Rightarrow> bool \<Rightarrow> compositor \<Rightarrow> compositor" where
  "overlay_touch cp pressed c = notify cp (OverlayButton cp pressed) (notify cp (OverlayMotion cp) c)"

text \<open>A touch on a surface that takes touch events: it is forwarded and the window is focused.\<close>

definition native_touch ::
  "env \<Rightarrow> 32 word \<Rightarrow> int \<Rightarrow> nat option \<Rightarrow> nat option \<Rightarrow> real \<Rightarrow> real \<Rightarrow> desktop \<Rightarrow> TouchPointMode \<times> desktop" where
  "native_touch e time touch_id toplevel surface sx sy d =
     (case surface of
        None \<Rightarrow> (kIgnored, d)
      | Some s \<Rightarrow>
          if \<not> accepts_touch e s then (kIgnored, d)
          else let d1 = on_core (notify CProtocol (NotifyTouch surface time)) d;
                   (x, y) = ToSurfaceX e (core d1) s (sx, sy);
                   d2 = send (SeatTouchDown time touch_id s x y) d1
               in if \<not> touch_down_serial e then (kIgnored, d2)
                  else (kNative, on_core (\<lambda>c. if toplevel \<noteq> None then FocusToplevel toplevel c
                          else case LayerSurfaceFor c surface of
                                 None \<Rightarrow> c | Some l \<Rightarrow> FocusLayerSurface l c) d2))"

definition MoveTouchCursor :: "env \<Rightarrow> real \<Rightarrow> real \<Rightarrow> compositor \<Rightarrow> compositor" where
  "MoveTouchCursor e x y c = notify CProtocol MoveDrag (wlr_cursor_warp_absolute (mapped_output e) x y c)"

definition OnTouchDown :: "env \<Rightarrow> 32 word \<Rightarrow> nat \<Rightarrow> int \<Rightarrow> real \<Rightarrow> real \<Rightarrow> desktop \<Rightarrow> desktop" where
  "OnTouchDown e time touch touch_id ex ey d0 =
     (let d = on_core (\<lambda>c. MoveTouchCursor e ex ey (notify CProtocol (TouchGesture touch touch_id) c)) d0;
          c = core d
      in if consumes c CMultitasking (multitasking_active e)
         then add_point touch touch_id kMultitasking (on_core (overlay_touch CMultitasking True) d)
         else if consumes c CWindowPreviews (previews_active e)
         then add_point touch touch_id kWindowPreviews (on_core (overlay_touch CWindowPreviews True) d)
         else if consumes c CSelector (selector_active e)
         then add_point touch touch_id kSelector (on_core (overlay_touch CSelector True) d)
         else let d1 = (on_core unset_cursor d)\<lparr>cursor_hidden_by_touch := True\<rparr>;
                  (toplevel, surface, sx, sy) = ev_hit e (cursor_x (core d1)) (cursor_y (core d1));
                  (mode, d2) = native_touch e time touch_id toplevel surface sx sy d1;
                  pointer_in_use = any_of (\<lambda>p. tp_mode p = kPointer) (touch_points d2);
                  (mode', d3) =
                    (if mode = kIgnored \<and> \<not> pointer_in_use
                     then (kPointer, SendPointerTouchButton e time True
                             (on_core unset_cursor (ProcessCursorMotion e time d2)))
                     else (mode, d2))
              in on_core (notify CTouchFeedback (FeedbackDown touch touch_id))
                   (add_point touch touch_id mode' d3))"

definition OnTouchUp :: "env \<Rightarrow> 32 word \<Rightarrow> nat \<Rightarrow> int \<Rightarrow> desktop \<Rightarrow> desktop" where
  "OnTouchUp e time touch touch_id d0 =
     (let d = on_core (notify CProtocol (TouchGesture touch touch_id)) d0
      in case FindTouchPoint touch touch_id d of
           None \<Rightarrow> d
         | Some p \<Rightarrow>
             let d1 = (case tp_mode p of
                         kNative \<Rightarrow>
                           send (SeatTouchUp time touch_id)
                             (on_core (notify CProtocol
                               (NotifyTouch (map_option fst (seat_touch_point e touch_id)) time)) d)
                       | kPointer \<Rightarrow> SendPointerTouchButton e time False d
                       | kSelector \<Rightarrow> on_core (notify CSelector (OverlayButton CSelector False)) d
                       | kMultitasking \<Rightarrow> on_core (notify CMultitasking (OverlayButton CMultitasking False)) d
                       | kWindowPreviews \<Rightarrow>
                           on_core (notify CWindowPreviews (OverlayButton CWindowPreviews False)) d
                       | kIgnored \<Rightarrow> d)
             in on_core (notify CTouchFeedback (FeedbackUp touch touch_id))
                  (d1\<lparr>touch_points := erase_if (is_point touch touch_id) (touch_points d1)\<rparr>))"

definition OnTouchMotion :: "env \<Rightarrow> 32 word \<Rightarrow> nat \<Rightarrow> int \<Rightarrow> real \<Rightarrow> real \<Rightarrow> desktop \<Rightarrow> desktop" where
  "OnTouchMotion e time touch touch_id ex ey d0 =
     (let d = on_core (notify CProtocol (TouchGesture touch touch_id)) d0
      in case FindTouchPoint touch touch_id d of
           None \<Rightarrow> d
         | Some p \<Rightarrow>
             let d1 = on_core (MoveTouchCursor e ex ey) d;
                 x = cursor_x (core d1); y = cursor_y (core d1);
                 dx = x - tp_last_x p; dy = y - tp_last_y p;
                 d2 = d1\<lparr>touch_points := update_first (is_point touch touch_id)
                            (\<lambda>p. p\<lparr>tp_last_x := x, tp_last_y := y\<rparr>) (touch_points d1)\<rparr>;
                 d3 = (case tp_mode p of
                         kNative \<Rightarrow>
                           (case seat_touch_point e touch_id of
                              None \<Rightarrow> d2
                            | Some (s, _, sx, sy) \<Rightarrow>
                                let (sdx, sdy) = ToSurfaceX e (core d2) s (dx, dy)
                                in send (SeatTouchMotion time touch_id (sx + sdx) (sy + sdy))
                                     (on_core (notify CProtocol (NotifyTouch (Some s) time)) d2))
                       | kPointer \<Rightarrow>
                           (on_core unset_cursor (ProcessCursorMotion e time
                             (on_core (notify CProtocol (NotifyPointer time)) d2)))
                             \<lparr>touch_pointer_frame_pending := True\<rparr>
                       | kSelector \<Rightarrow> on_core (notify CSelector (OverlayMotion CSelector)) d2
                       | kMultitasking \<Rightarrow> on_core (notify CMultitasking (OverlayMotion CMultitasking)) d2
                       | kWindowPreviews \<Rightarrow> on_core (notify CWindowPreviews (OverlayMotion CWindowPreviews)) d2
                       | kIgnored \<Rightarrow> d2)
             in on_core (notify CTouchFeedback (FeedbackMotion touch touch_id)) d3)"

text \<open>The points a cancel removes: the cancelled one, and native points the seat no longer knows.\<close>

definition cancelled :: "env \<Rightarrow> nat \<Rightarrow> int \<Rightarrow> TouchPoint \<Rightarrow> bool" where
  "cancelled e touch touch_id p =
     (tp_touch p = touch \<and>
      (tp_touch_id p = touch_id \<or> (tp_mode p = kNative \<and> seat_touch_point e (tp_touch_id p) = None)))"

definition OnTouchCancel :: "env \<Rightarrow> 32 word \<Rightarrow> nat \<Rightarrow> int \<Rightarrow> desktop \<Rightarrow> desktop" where
  "OnTouchCancel e time touch touch_id d0 =
     (let d = on_core (notify CProtocol (TouchGesture touch touch_id)) d0
      in case FindTouchPoint touch touch_id d of
           None \<Rightarrow> d
         | Some p \<Rightarrow>
             let d1 = (case tp_mode p of
                         kNative \<Rightarrow>
                           (case seat_touch_point e touch_id of
                              Some (_, Some client, _, _) \<Rightarrow> send (SeatTouchCancel client) d
                            | _ \<Rightarrow> d)
                       | kPointer \<Rightarrow> SendPointerTouchButton e time False d
                       | kSelector \<Rightarrow> on_core (notify CSelector (Cancel CSelector)) d
                       | kMultitasking \<Rightarrow> on_core (notify CMultitasking (Cancel CMultitasking)) d
                       | kWindowPreviews \<Rightarrow> on_core (notify CWindowPreviews (Cancel CWindowPreviews)) d
                       | kIgnored \<Rightarrow> d);
                 gone = filter (cancelled e touch touch_id) (touch_points d1);
                 d2 = on_core (fold (\<lambda>p. notify CTouchFeedback (FeedbackCancel (tp_touch p) (tp_touch_id p))) gone) d1
             in d2\<lparr>touch_points := erase_if (cancelled e touch touch_id) (touch_points d2)\<rparr>)"

text \<open>A touch device is removed: every client with a native point gets one cancel, and an emulated
  button is released.\<close>

definition CancelTouchDevice :: "env \<Rightarrow> nat \<Rightarrow> desktop \<Rightarrow> desktop" where
  "CancelTouchDevice e touch d =
     (let mine = filter (\<lambda>p. tp_touch p = touch) (touch_points d);
          clients = fold (\<lambda>p cs. if tp_mode p \<noteq> kNative then cs
                      else case seat_touch_point e (tp_touch_id p) of
                             Some (_, Some k, _, _) \<Rightarrow> if k \<in> set cs then cs else cs @ [k]
                           | _ \<Rightarrow> cs) mine [];
          d1 = fold (\<lambda>k. send (SeatTouchCancel k)) clients d;
          d2 = (if any_of (\<lambda>p. tp_mode p = kPointer) mine
                then send SeatPointerFrame (SendPointerTouchButton e 0 False d1) else d1)
      in on_core (notify CTouchFeedback (FeedbackCancelDevice touch))
           (d2\<lparr>touch_points := erase_if (\<lambda>p. tp_touch p = touch) (touch_points d2)\<rparr>))"

definition OnTouchFrame :: "desktop \<Rightarrow> desktop" where
  "OnTouchFrame d =
     (let d1 = send SeatTouchFrame d
      in if touch_pointer_frame_pending d1
         then (send SeatPointerFrame d1)\<lparr>touch_pointer_frame_pending := False\<rparr> else d1)"

end
