(* ===== verification/Keyboard_Input.thy ===== *)
theory Keyboard_Input
  imports Seat_Input
begin

text \<open>
  Keyboards: the order in which a key event passes the overlays, the shortcuts and the input
  method before it reaches the focused client, the actions of the default shortcuts, and the
  seat's capabilities as devices come and go.
\<close>

section \<open>Data\<close>

record session =
  desk :: desktop
  key_binding_manager :: "KeyBindingManager option"
  keyboards :: "nat option list"
  touch_devices :: "nat option list"
  active_keyboard :: "nat option"
  seat_capabilities :: "32 word"

text \<open>What the overlays, the shortcut inhibitor and the input method answer to a key event.\<close>

record key_answers =
  menu_key :: bool
  selector_key :: bool
  previews_key :: bool
  multitasking_key :: bool
  switcher_key :: bool
  shortcuts_inhibited :: bool
  has_grab :: bool

definition on_desk :: "(desktop \<Rightarrow> desktop) \<Rightarrow> session \<Rightarrow> session" where
  "on_desk f s = s\<lparr>desk := f (desk s)\<rparr>"

section \<open>The default shortcuts' actions\<close>

definition cancel_all :: "component list \<Rightarrow> compositor \<Rightarrow> compositor" where
  "cancel_all cps = fold (\<lambda>cp. notify cp (Cancel cp)) cps"

definition focused_toplevel :: "compositor \<Rightarrow> Toplevel option" where
  "focused_toplevel c = ToplevelForSurface c (focused_surface c)"

definition toggle_multitasking :: "compositor \<Rightarrow> compositor" where
  "toggle_multitasking c =
     notify CMultitasking (Toggle CMultitasking)
       (cancel_all [CWindowMenu, CSelector, CAppSwitcher, CWindowPreviews] c)"

definition show_active_menu :: "compositor \<Rightarrow> compositor" where
  "show_active_menu c =
     (case focused_toplevel c of
        None \<Rightarrow> c
      | Some t \<Rightarrow>
          (case tl_scene_tree t of
             None \<Rightarrow> c
           | Some n \<Rightarrow>
               let frame = FrameGeometry (scale_of c) t
               in snd (ShowWindowMenu (Some (tl_id t)) (of_int (nd_x n + box_x frame - 8))
                         (of_int (nd_y n + box_y frame)) c)))"

definition close_active :: "compositor \<Rightarrow> compositor" where
  "close_active c =
     (case focused_toplevel c of
        None \<Rightarrow> c
      | Some t \<Rightarrow> if IsAlive t then upd_tl (tl_id t) Close c else c)"

text \<open>The lambdas of \<open>RegisterDefaultKeyBindings\<close>, in their order; \<open>other\<close> are the actions that
  other components register later.\<close>

definition run_action :: "(nat \<Rightarrow> compositor \<Rightarrow> compositor) \<Rightarrow> nat \<Rightarrow> compositor \<Rightarrow> compositor" where
  "run_action other a c =
     (if a = 0 then notify CAppSwitcher (Cycle False)
                      (cancel_all [CWindowMenu, CWindowPreviews, CMultitasking] c)
      else if a = 1 then notify CAppSwitcher (Cycle True)
                      (cancel_all [CWindowMenu, CWindowPreviews, CMultitasking] c)
      else if a = 2 \<or> a = 3 then toggle_multitasking c
      else if a = 4 then notify CWindowPreviews (Toggle CWindowPreviews)
                      (cancel_all [CWindowMenu, CSelector, CAppSwitcher, CMultitasking] c)
      else if a = 5 then show_active_menu c
      else if a = 6 then close_active c
      else if a = 7 then Minimize (map_option tl_id (focused_toplevel c)) c
      else if a = 8 then ToggleMaximized (map_option tl_id (focused_toplevel c)) c
      else other a c)"

definition run_effect :: "(nat \<Rightarrow> compositor \<Rightarrow> compositor) \<Rightarrow> kb_effect \<Rightarrow> compositor \<Rightarrow> compositor" where
  "run_effect other eff c =
     (case eff of RunAction a \<Rightarrow> run_action other a c | CaptureCallback _ _ _ \<Rightarrow> c)"

section \<open>Key events\<close>

text \<open>The shortcuts see a key when the session is not locked; the result says whether one took it.\<close>

definition offer_shortcuts ::
  "xkb \<Rightarrow> (nat \<Rightarrow> compositor \<Rightarrow> compositor) \<Rightarrow> key_answers \<Rightarrow> keyboard \<Rightarrow> key_event \<Rightarrow> session \<Rightarrow> bool \<times> session" where
  "offer_shortcuts x other ans kb event s =
     (case key_binding_manager s of
        None \<Rightarrow> (False, s)
      | Some m \<Rightarrow>
          if SessionLocked (core (desk s)) then (False, s)
          else let (taken, m', effs) = HandleKey x m (Some kb) event
                     (has_component (core (desk s)) CProtocol \<and> shortcuts_inhibited ans)
               in (taken, on_desk (on_core (fold (run_effect other) effs))
                            (s\<lparr>key_binding_manager := Some m'\<rparr>)))"

text \<open>\<open>wlr_seat_set_keyboard\<close>.\<close>

definition set_keyboard :: "nat \<Rightarrow> session \<Rightarrow> session" where
  "set_keyboard k s = (on_desk (on_core (\<lambda>c. c\<lparr>seat_keyboard := True\<rparr>)) s)\<lparr>active_keyboard := Some k\<rparr>"

text \<open>The input method's grab or the focused client.\<close>

definition deliver_key :: "key_answers \<Rightarrow> 32 word \<Rightarrow> keyboard \<Rightarrow> key_event \<Rightarrow> session \<Rightarrow> session" where
  "deliver_key ans time kb event s =
     (if \<not> SessionLocked (core (desk s)) \<and> has_component (core (desk s)) CInputMethod \<and> has_grab ans
      then on_desk (send (GrabKey (kbd_id kb) (ev_keycode event) (ev_state event))) s
      else on_desk (send (SeatKey (kbd_id kb) (ev_keycode event) (ev_state event)))
             (set_keyboard (kbd_id kb) s))"

definition overlay_takes_key :: "compositor \<Rightarrow> key_answers \<Rightarrow> bool" where
  "overlay_takes_key c ans =
     (consumes c CWindowMenu (menu_key ans) \<or> consumes c CSelector (selector_key ans) \<or>
      consumes c CWindowPreviews (previews_key ans) \<or> consumes c CMultitasking (multitasking_key ans) \<or>
      consumes c CAppSwitcher (switcher_key ans))"

definition OnKey ::
  "xkb \<Rightarrow> (nat \<Rightarrow> compositor \<Rightarrow> compositor) \<Rightarrow> key_answers \<Rightarrow> 32 word \<Rightarrow> keyboard option \<Rightarrow> key_event \<Rightarrow>
     session \<Rightarrow> session" where
  "OnKey x other ans time keyboard event s0 =
     (case keyboard of
        None \<Rightarrow> s0
      | Some kb \<Rightarrow>
          let s = on_desk (on_core (notify CProtocol (NotifyKeyboard time))) s0
          in if overlay_takes_key (core (desk s)) ans then s
             else let (taken, s1) = offer_shortcuts x other ans kb event s
                  in if taken then s1 else deliver_key ans time kb event s1)"

section \<open>Devices\<close>

definition WL_SEAT_CAPABILITY_POINTER :: "32 word" where "WL_SEAT_CAPABILITY_POINTER = 1"
definition WL_SEAT_CAPABILITY_KEYBOARD :: "32 word" where "WL_SEAT_CAPABILITY_KEYBOARD = 2"
definition WL_SEAT_CAPABILITY_TOUCH :: "32 word" where "WL_SEAT_CAPABILITY_TOUCH = 4"

definition UpdateSeatCapabilities :: "session \<Rightarrow> session" where
  "UpdateSeatCapabilities s =
     s\<lparr>seat_capabilities := WL_SEAT_CAPABILITY_POINTER
         OR (if any_of (\<lambda>k. k \<noteq> None) (keyboards s) then WL_SEAT_CAPABILITY_KEYBOARD else 0)
         OR (if any_of (\<lambda>t. t \<noteq> None) (touch_devices s) then WL_SEAT_CAPABILITY_TOUCH else 0)\<rparr>"

text \<open>\<open>keymap\<close>: the default keymap compiled. The focused surface is entered again with the new
  keyboard; without one a window is focused.\<close>

definition AddKeyboard :: "bool \<Rightarrow> nat \<Rightarrow> session \<Rightarrow> session" where
  "AddKeyboard keymap k s =
     (if \<not> keymap then s
      else let s1 = set_keyboard k s;
               s2 = UpdateSeatCapabilities (s1\<lparr>keyboards := keyboards s1 @ [Some k]\<rparr>)
           in case focused_surface (core (desk s2)) of
                Some surface \<Rightarrow> on_desk (on_core (keyboard_enter surface)) s2
              | None \<Rightarrow> on_desk (on_core (FocusNextToplevel None)) s2)"

definition clear_handle :: "nat \<Rightarrow> nat option list \<Rightarrow> nat option list" where
  "clear_handle k = map (\<lambda>h. if h = Some k then None else h)"

definition Keyboard_OnDestroy :: "nat \<Rightarrow> session \<Rightarrow> session" where
  "Keyboard_OnDestroy k s =
     UpdateSeatCapabilities
       (s\<lparr>key_binding_manager := map_option (\<lambda>m. ForgetKeyboard m (Some k)) (key_binding_manager s),
          keyboards := clear_handle k (keyboards s)\<rparr>)"

text \<open>The seat's own listener: the active keyboard is unset when it is destroyed.\<close>

definition handle_keyboard_destroy :: "nat \<Rightarrow> session \<Rightarrow> session" where
  "handle_keyboard_destroy k s =
     (if active_keyboard s = Some k
      then (on_desk (on_core (\<lambda>c. c\<lparr>seat_keyboard := False\<rparr>)) s)\<lparr>active_keyboard := None\<rparr> else s)"

definition keyboard_destroyed :: "nat \<Rightarrow> session \<Rightarrow> session" where
  "keyboard_destroyed k s = handle_keyboard_destroy k (Keyboard_OnDestroy k s)"

definition AddTouch :: "nat \<Rightarrow> session \<Rightarrow> session" where
  "AddTouch k s = UpdateSeatCapabilities (s\<lparr>touch_devices := touch_devices s @ [Some k]\<rparr>)"

definition TouchDevice_OnDestroy :: "env \<Rightarrow> nat \<Rightarrow> session \<Rightarrow> session" where
  "TouchDevice_OnDestroy e k s =
     UpdateSeatCapabilities
       ((on_desk (CancelTouchDevice e k) s)\<lparr>touch_devices := clear_handle k (touch_devices s)\<rparr>)"

datatype device_type = DeviceKeyboard | DevicePointer | DeviceTouch | DeviceOther

definition OnNewInput :: "device_type \<Rightarrow> bool \<Rightarrow> nat \<Rightarrow> session \<Rightarrow> session" where
  "OnNewInput type keymap k s0 =
     (let s = on_desk (on_core (\<lambda>c. notify CProtocol (InputAdded k) (notify CDbus (InputAdded k) c))) s0
      in case type of
           DeviceKeyboard \<Rightarrow> AddKeyboard keymap k s
         | DeviceTouch \<Rightarrow> AddTouch k s
         | _ \<Rightarrow> UpdateSeatCapabilities s)"

definition OnNewVirtualKeyboard :: "bool \<Rightarrow> bool \<Rightarrow> nat \<Rightarrow> session \<Rightarrow> session" where
  "OnNewVirtualKeyboard own_seat keymap k s = (if \<not> own_seat then s else AddKeyboard keymap k s)"

text \<open>The start: the member initialisers, the seat advertises a pointer, the shortcuts are the
  default ones or there is no manager.\<close>

definition new_session :: "KeyBindingManager option \<Rightarrow> compositor \<Rightarrow> session" where
  "new_session m c =
     \<lparr>desk = \<lparr>core = c, last_click_toplevel = None, last_click_time = 0, last_click_x = 0, last_click_y = 0,
        suppress_button_release = False, cursor_hidden_by_touch = False, touch_points = [],
        touch_pointer_frame_pending = False, seat_log = []\<rparr>,
      key_binding_manager = m, keyboards = [], touch_devices = [], active_keyboard = None,
      seat_capabilities = WL_SEAT_CAPABILITY_POINTER\<rparr>"

end
