(* ===== verification/Outputs.thy ===== *)
theory Outputs
  imports Toplevel_Events
begin

text \<open>
  Monitors: mode selection, hot plugging, backend-requested state and the interval of the Qt frame
  timer. Whether a backend accepts a state (\<open>wlr_output_commit_state\<close>) is an argument. An accepted
  state changes the wlr_output, and wlroots then places the automatic outputs of the layout again.
\<close>

section \<open>Modes\<close>

record output_mode =
  om_width :: int
  om_height :: int
  om_refresh :: int
  om_preferred :: bool

definition wlr_output_preferred_mode :: "output_mode list \<Rightarrow> output_mode option" where
  "wlr_output_preferred_mode modes =
     (case modes of
        [] \<Rightarrow> None
      | first # _ \<Rightarrow>
          (case find om_preferred modes of Some mode \<Rightarrow> Some mode | None \<Rightarrow> Some first))"

definition better_mode :: "output_mode \<Rightarrow> output_mode \<Rightarrow> output_mode" where
  "better_mode mode selected =
     (if om_width mode = om_width selected \<and> om_height mode = om_height selected \<and>
         om_refresh mode > om_refresh selected then mode else selected)"

definition HighestNativeRefreshMode :: "output_mode list \<Rightarrow> output_mode option" where
  "HighestNativeRefreshMode modes =
     map_option (fold better_mode modes) (wlr_output_preferred_mode modes)"

section \<open>Output states\<close>

text \<open>The parts of \<open>wlr_output_state\<close> that a request can commit: the mode, which is one of the list
  or a custom one, and whether the output is on.\<close>

datatype mode_request = FixedMode output_mode | CustomMode int int int

record output_request =
  rq_mode :: "mode_request option"
  rq_enabled :: "bool option"

definition apply_mode :: "mode_request \<Rightarrow> wlr_output \<Rightarrow> wlr_output" where
  "apply_mode m output =
     (case m of
        FixedMode mode \<Rightarrow> output\<lparr>wo_width := om_width mode, wo_height := om_height mode,
                                  wo_refresh := om_refresh mode\<rparr>
      | CustomMode width height refresh \<Rightarrow> output\<lparr>wo_width := width, wo_height := height,
                                                    wo_refresh := refresh\<rparr>)"

definition apply_request :: "output_request \<Rightarrow> wlr_output \<Rightarrow> wlr_output" where
  "apply_request rq output =
     (let output' = (case rq_mode rq of None \<Rightarrow> output | Some m \<Rightarrow> apply_mode m output)
      in case rq_enabled rq of None \<Rightarrow> output' | Some b \<Rightarrow> output'\<lparr>wo_enabled := b\<rparr>)"

text \<open>\<open>wlr_output_commit_state\<close>: nothing changes when the backend refuses. A changed mode makes the
  layout's commit listener place the outputs again, if the output is in the layout.\<close>

definition handle_output_commit :: "nat \<Rightarrow> output_request \<Rightarrow> wlr_output_layout \<Rightarrow> wlr_output_layout" where
  "handle_output_commit output rq layout =
     (if rq_mode rq \<noteq> None \<and> wlr_output_layout_get layout output \<noteq> None
      then output_layout_reconfigure layout else layout)"

definition wlr_output_commit_state :: "bool \<Rightarrow> nat \<Rightarrow> output_request \<Rightarrow> compositor \<Rightarrow> bool \<times> compositor" where
  "wlr_output_commit_state accepted output rq c =
     (if \<not> accepted then (False, c)
      else let layout = output_layout c;
               layout' = layout\<lparr>output_state := (output_state layout)
                           (output := apply_request rq (output_state layout output))\<rparr>
           in (True, c\<lparr>output_layout := handle_output_commit output rq layout'\<rparr>))"

section \<open>The Qt frame timer\<close>

definition highest_refresh :: "compositor \<Rightarrow> int" where
  "highest_refresh c =
     fold (\<lambda>output highest.
        case out_handle output of
          None \<Rightarrow> highest
        | Some k \<Rightarrow>
            if wo_enabled (output_state (output_layout c) k)
            then max highest (wo_refresh (output_state (output_layout c) k)) else highest)
       (outputs c) 0"

definition UpdateQtFrameInterval :: "compositor \<Rightarrow> compositor" where
  "UpdateQtFrameInterval c =
     (let highest = highest_refresh c
      in c\<lparr>qt_frame_interval_ms := (if highest > 0 then max 1 (cdiv 1000000 highest) else 16)\<rparr>)"

section \<open>Hot plugging and requests\<close>

text \<open>An \<open>Output*\<close> is its position in \<open>outputs_\<close>, which only grows.\<close>

definition upd_output :: "nat \<Rightarrow> (Output \<Rightarrow> Output) \<Rightarrow> compositor \<Rightarrow> compositor" where
  "upd_output n f c = (if n < length (outputs c) then c\<lparr>outputs := (outputs c)[n := f (outputs c ! n)]\<rparr> else c)"

definition ApplyDeferredMode :: "bool \<Rightarrow> nat \<Rightarrow> compositor \<Rightarrow> compositor" where
  "ApplyDeferredMode accepted n c =
     (if n \<ge> length (outputs c) then c
      else let output = outputs c ! n
           in case out_handle output of
                None \<Rightarrow> c
              | Some k \<Rightarrow>
                  if \<not> out_has_deferred_mode output then c
                  else let c1 = upd_output n (\<lambda>s. s\<lparr>out_has_deferred_mode := False\<rparr>) c;
                           (committed, c2) = wlr_output_commit_state accepted k
                             \<lparr>rq_mode = Some (CustomMode (out_deferred_width output) (out_deferred_height output) 0),
                              rq_enabled = None\<rparr> c1
                       in if \<not> committed then c2
                          else UpdateQtFrameInterval (ArrangeLayers (Some k) c2))"

definition OnRequestState :: "bool \<Rightarrow> nat \<Rightarrow> output_request \<Rightarrow> compositor \<Rightarrow> compositor" where
  "OnRequestState accepted n rq c =
     (if n \<ge> length (outputs c) then c
      else let output = outputs c ! n
           in case (out_in_frame output, rq_mode rq) of
                (True, Some (CustomMode width height _)) \<Rightarrow>
                  upd_output n (\<lambda>s. s\<lparr>out_deferred_width := width, out_deferred_height := height,
                                     out_has_deferred_mode := True\<rparr>) c
              | _ \<Rightarrow>
                  (case out_handle output of
                     None \<Rightarrow> UpdateQtFrameInterval (ArrangeLayers None c)
                   | Some k \<Rightarrow>
                       let (committed, c1) = wlr_output_commit_state accepted k rq c
                       in if committed then UpdateQtFrameInterval (ArrangeLayers (Some k) c1) else c1))"

text \<open>A frame: the requests the backend makes while the scene is committed arrive with \<open>in_frame\<close>
  set, and a custom mode among them is applied when the commit is over.\<close>

definition OnFrame :: "bool \<Rightarrow> nat \<Rightarrow> (bool \<times> output_request) list \<Rightarrow> compositor \<Rightarrow> compositor" where
  "OnFrame accepted n requests c =
     (if n \<ge> length (outputs c) \<or> \<not> out_scene_output (outputs c ! n) then c
      else let c1 = upd_output n (\<lambda>s. s\<lparr>out_in_frame := True\<rparr>) c;
               c2 = fold (\<lambda>(ok, rq). OnRequestState ok n rq) requests c1;
               c3 = upd_output n (\<lambda>s. s\<lparr>out_in_frame := False\<rparr>) c2
           in ApplyDeferredMode accepted n c3)"

definition new_output :: "nat \<Rightarrow> Output" where
  "new_output k = \<lparr>out_handle = Some k, out_usable_box = zero_box, out_layer_pos = replicate 4 (0, 0),
     out_scene_output = True, out_in_frame = False, out_has_deferred_mode = False,
     out_deferred_width = 0, out_deferred_height = 0\<rparr>"

text \<open>\<open>OnNewOutput\<close> with rendering set up (\<open>init_render\<close>) and the layer trees allocated.\<close>

definition OnNewOutput :: "bool \<Rightarrow> bool \<Rightarrow> nat \<Rightarrow> output_mode list \<Rightarrow> compositor \<Rightarrow> compositor" where
  "OnNewOutput init_render accepted k modes c =
     (if \<not> init_render then c
      else let rq = \<lparr>rq_mode = map_option FixedMode (HighestNativeRefreshMode modes), rq_enabled = Some True\<rparr>;
               (committed, c1) = wlr_output_commit_state accepted k rq c
           in if \<not> committed then c1
              else let c2 = c1\<lparr>output_layout := wlr_output_layout_add_auto (output_layout c1) k,
                               outputs := outputs c1 @ [new_output k]\<rparr>
                   in notify CDbus (OutputAdded k) (notify CProtocol (OutputAdded k)
                        (ArrangeLayers (Some k) (UpdateQtFrameInterval c2))))"

text \<open>\<open>wlr_layer_surface_v1_destroy\<close>: a mapped surface is unmapped first.\<close>

definition wlr_layer_surface_v1_destroy :: "nat \<Rightarrow> compositor \<Rightarrow> compositor" where
  "wlr_layer_surface_v1_destroy i c =
     layer_OnDestroy i
       (case find_layer c i of
          Some l \<Rightarrow> if ly_mapped l then layer_OnUnmap i c else c
        | None \<Rightarrow> c)"

definition layers_on :: "nat option \<Rightarrow> compositor \<Rightarrow> nat list" where
  "layers_on output c =
     map ly_id (filter (\<lambda>l. case ly_handle l of None \<Rightarrow> False | Some h \<Rightarrow> lc_output h = output)
       (layer_surfaces c))"

definition Output_OnDestroy :: "nat \<Rightarrow> compositor \<Rightarrow> compositor" where
  "Output_OnDestroy n c =
     (if n \<ge> length (outputs c) then c
      else let k = out_handle (outputs c ! n);
               c1 = notify CDbus (OutputRemoved k) (notify CSelector (OutputRemoved k) c);
               c2 = fold wlr_layer_surface_v1_destroy (layers_on k c1) c1;
               c3 = upd_output n (\<lambda>s. s\<lparr>out_handle := None, out_scene_output := False\<rparr>) c2
           in UpdateQtFrameInterval c3)"

end
