(* ===== verification/Xdg_Decoration.thy ===== *)
theory Xdg_Decoration
  imports Toplevel_Events
begin

text \<open>
  The xdg-decoration protocol objects: which side draws a window's frame. A decoration is kept with
  the modes sent to its client; \<open>xd_toplevel\<close> is the window of its handle, none once the protocol
  object is destroyed.
\<close>

datatype decoration_mode = ModeNone | ModeClientSide | ModeServerSide

record XdgDecoration =
  xd_toplevel :: "nat option"
  xd_requested_mode :: decoration_mode
  xd_commit_connected :: bool
  xd_sent_modes :: "decoration_mode list"

text \<open>An undecided client gets server-side decorations.\<close>

definition effective_mode :: "decoration_mode \<Rightarrow> decoration_mode" where
  "effective_mode mode = (if mode = ModeNone then ModeServerSide else mode)"

definition FindToplevel :: "compositor \<Rightarrow> nat \<Rightarrow> Toplevel option" where
  "FindToplevel c i = find (\<lambda>t. tl_id t = i \<and> xdg_handle t \<noteq> None) (toplevels c)"

definition ApplyMode :: "XdgDecoration \<Rightarrow> compositor \<Rightarrow> XdgDecoration \<times> compositor" where
  "ApplyMode dec c =
     (case xd_toplevel dec of
        None \<Rightarrow> (dec, c)
      | Some i \<Rightarrow>
          let mode = effective_mode (xd_requested_mode dec);
              c1 = (if FindToplevel c i = None then c else SetSsdEnabled i (mode = ModeServerSide) c);
              initialized = (case find_tl c1 i of None \<Rightarrow> False | Some t \<Rightarrow> xdg_initialized t)
          in if \<not> initialized then (dec\<lparr>xd_commit_connected := True\<rparr>, c1)
             else (dec\<lparr>xd_commit_connected := False, xd_sent_modes := xd_sent_modes dec @ [mode]\<rparr>, c1))"

definition OnRequestMode :: "decoration_mode \<Rightarrow> XdgDecoration \<Rightarrow> compositor \<Rightarrow> XdgDecoration \<times> compositor" where
  "OnRequestMode mode dec c = ApplyMode (dec\<lparr>xd_requested_mode := mode\<rparr>) c"

definition OnSurfaceCommit :: "XdgDecoration \<Rightarrow> compositor \<Rightarrow> XdgDecoration \<times> compositor" where
  "OnSurfaceCommit dec c =
     (case Option.bind (xd_toplevel dec) (find_tl c) of
        None \<Rightarrow> (dec, c)
      | Some t \<Rightarrow>
          if xd_commit_connected dec \<and> xdg_initialized t then ApplyMode dec c else (dec, c))"

definition decoration_OnDestroy :: "XdgDecoration \<Rightarrow> XdgDecoration" where
  "decoration_OnDestroy dec = dec\<lparr>xd_toplevel := None, xd_commit_connected := False\<rparr>"

definition OnNewXdgDecoration :: "nat \<Rightarrow> decoration_mode \<Rightarrow> compositor \<Rightarrow> XdgDecoration \<times> compositor" where
  "OnNewXdgDecoration i mode c =
     ApplyMode \<lparr>xd_toplevel = Some i, xd_requested_mode = mode, xd_commit_connected = False,
       xd_sent_modes = []\<rparr> c"

end
