(* ===== verification/Window_View.thy ===== *)
theory Window_View
  imports Toplevel_Events
begin

text \<open>
  An abstract view of the compositor: what workspaces, visibility, grabs and menus depend on. Most
  operations do not change it at all, and each of the others changes it in a way stated by one
  equation. The invariants of the development are predicates on the view.
\<close>

section \<open>The view\<close>

record window_view =
  vw_id :: nat
  vw_xwayland :: bool
  vw_alive :: bool
  vw_surface :: "nat option"
  vw_mapped :: bool
  vw_minimized :: bool
  vw_all_workspaces :: bool
  vw_workspace :: int
  vw_enabled :: "bool option"

definition window_view :: "Toplevel \<Rightarrow> window_view" where
  "window_view t = \<lparr>vw_id = tl_id t, vw_xwayland = tl_xwayland t, vw_alive = IsAlive t,
     vw_surface = Surface t, vw_mapped = tl_mapped t, vw_minimized = tl_minimized t,
     vw_all_workspaces = tl_all_workspaces t, vw_workspace = tl_workspace t,
     vw_enabled = map_option nd_enabled (tl_scene_tree t)\<rparr>"

record desktop_view =
  dv_windows :: "window_view list"
  dv_stack :: "nat set"
  dv_count :: int
  dv_current :: int
  dv_multitasking :: bool
  dv_previews :: bool
  dv_locked :: bool
  dv_mode :: CursorMode
  dv_grabbed :: "nat option"
  dv_menu :: "nat option"

definition view :: "compositor \<Rightarrow> desktop_view" where
  "view c = \<lparr>dv_windows = map window_view (toplevels c), dv_stack = set (tl_stack c),
     dv_count = workspace_count c, dv_current = current_workspace c,
     dv_multitasking = multitasking_sources_hidden c, dv_previews = window_previews_sources_hidden c,
     dv_locked = SessionLocked c, dv_mode = cursor_mode c, dv_grabbed = grabbed_toplevel c,
     dv_menu = pending_window_menu c\<rparr>"

definition on_window :: "nat \<Rightarrow> (window_view \<Rightarrow> window_view) \<Rightarrow> desktop_view \<Rightarrow> desktop_view" where
  "on_window i f v = v\<lparr>dv_windows := map (\<lambda>w. if vw_id w = i then f w else w) (dv_windows v)\<rparr>"

named_theorems view_frame "operations that keep a window's view or the whole view"

section \<open>Windows\<close>

definition same_view :: "(Toplevel \<Rightarrow> Toplevel) \<Rightarrow> bool" where
  "same_view f = (\<forall>t. window_view (f t) = window_view t)"

lemma window_view_on_handle:
  assumes "\<And>h. cl_surface (f h) = cl_surface h"
  shows "window_view (on_handle f t) = window_view t"
  using assms by (cases "tl_handle t") (simp_all add: window_view_def on_handle_def IsAlive_def Surface_def)

lemma window_view_pending [view_frame]: "window_view (on_pending f t) = window_view t"
  by (simp add: window_view_def on_pending_def IsAlive_def Surface_def)

lemma window_view_on_ssd [view_frame]: "window_view (on_ssd f t) = window_view t"
  by (simp add: window_view_def on_ssd_def IsAlive_def Surface_def)

lemma window_view_position [view_frame]: "window_view (set_position x y t) = window_view t"
  by (cases "tl_scene_tree t") (simp_all add: window_view_def set_position_def IsAlive_def Surface_def)

lemma window_view_configure_or_defer:
  assumes "\<And>h. cl_surface (f h) = cl_surface h"
  shows "window_view (configure_or_defer f g t) = window_view t"
  by (simp add: configure_or_defer_def view_frame window_view_on_handle assms)

lemma window_view_Configure [view_frame]: "window_view (Configure scale b t) = window_view t"
  by (simp add: Configure_def view_frame window_view_on_handle window_view_configure_or_defer Let_def)

lemma window_view_setters [view_frame]:
  "window_view (xdg_SetActivated a t) = window_view t"
  "window_view (SetMaximizedState a t) = window_view t"
  "window_view (SetResizingState a t) = window_view t"
  "window_view (SetMinimizedState a t) = window_view t"
  "window_view (SetFullscreenState a t) = window_view t"
  "window_view (SetTiledState e t) = window_view t"
  "window_view (Restack t) = window_view t"
  "window_view (Close t) = window_view t"
  by (simp_all add: xdg_SetActivated_def SetMaximizedState_def SetResizingState_def
      SetMinimizedState_def SetFullscreenState_def SetTiledState_def Restack_def Close_def
      window_view_on_handle window_view_configure_or_defer)

lemma window_view_fields [view_frame]:
  "window_view (t\<lparr>tl_placed := a\<rparr>) = window_view t"
  "window_view (t\<lparr>tl_keep_centered := a\<rparr>) = window_view t"
  "window_view (t\<lparr>tl_centered_frame := b\<rparr>) = window_view t"
  "window_view (t\<lparr>tl_maximized := a\<rparr>) = window_view t"
  "window_view (t\<lparr>tl_kept_above := a\<rparr>) = window_view t"
  "window_view (t\<lparr>tl_has_restore_box := a\<rparr>) = window_view t"
  "window_view (t\<lparr>tl_restore_position_pending := a\<rparr>) = window_view t"
  "window_view (t\<lparr>tl_tiled := a\<rparr>) = window_view t"
  "window_view (t\<lparr>tl_tile_position_pending := a\<rparr>) = window_view t"
  "window_view (t\<lparr>tl_capabilities_advertised := a\<rparr>) = window_view t"
  "window_view (t\<lparr>tl_advertised_capabilities := e\<rparr>) = window_view t"
  "window_view (t\<lparr>tl_pending_configure := p\<rparr>) = window_view t"
  "window_view (t\<lparr>tl_restore_box := b\<rparr>) = window_view t"
  "window_view (t\<lparr>tl_maximized_box := b\<rparr>) = window_view t"
  "window_view (t\<lparr>tl_tiled_box := b\<rparr>) = window_view t"
  "window_view (t\<lparr>tl_maximized_output := k\<rparr>) = window_view t"
  "window_view (t\<lparr>tl_tile := tile\<rparr>) = window_view t"
  "window_view (t\<lparr>tl_tiled_output := k\<rparr>) = window_view t"
  "window_view (t\<lparr>tl_corner_radius := r\<rparr>) = window_view t"
  "window_view (t\<lparr>tl_ssd := s\<rparr>) = window_view t"
  "window_view (t\<lparr>tl_ssd_initial_position_pending := a\<rparr>) = window_view t"
  "window_view (t\<lparr>tl_csd_shadow := sh\<rparr>) = window_view t"
  "window_view (t\<lparr>tl_csd_shadow_set := a\<rparr>) = window_view t"
  "window_view (t\<lparr>tl_csd_shadow_enabled := a\<rparr>) = window_view t"
  by (simp_all add: window_view_def IsAlive_def Surface_def)

lemma window_view_initial [view_frame]: "window_view (SendInitialConfigure t) = window_view t"
  by (simp add: SendInitialConfigure_def Let_def view_frame window_view_on_handle apply_opt_def
      split: option.splits)

lemma window_view_capabilities [view_frame]: "window_view (UpdateCapabilities t) = window_view t"
  by (simp add: UpdateCapabilities_def Let_def view_frame window_view_on_handle split: option.splits)

lemma window_view_csd_shadow [view_frame]: "window_view (update_csd_shadow c t) = window_view t"
  by (simp add: update_csd_shadow_def Let_def view_frame)

lemma window_view_placement [view_frame]:
  "window_view (ssd_set_maximized m t) = window_view t"
  "window_view (ssd_set_tiled m t) = window_view t"
  "window_view (leave_tile t) = window_view t"
  "window_view (save_restore_box scale t) = window_view t"
  "window_view (restore_configure scale t) = window_view t"
  "window_view (commit_position scale t) = window_view t"
  by (simp_all add: ssd_set_maximized_def ssd_set_tiled_def leave_tile_def save_restore_box_def
      restore_configure_def commit_position_def Let_def view_frame split: option.splits)

lemma window_view_commit_ssd [view_frame]: "window_view (commit_ssd scale h t) = window_view t"
  by (simp add: commit_ssd_def Let_def view_frame split: option.splits)

lemma window_view_enabled:
  "window_view (set_enabled e t) = (window_view t)\<lparr>vw_enabled := map_option (\<lambda>_. e) (vw_enabled (window_view t))\<rparr>"
  by (cases "tl_scene_tree t") (simp_all add: window_view_def set_enabled_def IsAlive_def Surface_def)

section \<open>Frame rules of the compositor\<close>

lemma view_sel [simp]:
  "dv_windows (view c) = map window_view (toplevels c)" "dv_stack (view c) = set (tl_stack c)"
  "dv_count (view c) = workspace_count c" "dv_current (view c) = current_workspace c"
  "dv_multitasking (view c) = multitasking_sources_hidden c"
  "dv_previews (view c) = window_previews_sources_hidden c" "dv_locked (view c) = SessionLocked c"
  "dv_mode (view c) = cursor_mode c" "dv_grabbed (view c) = grabbed_toplevel c"
  "dv_menu (view c) = pending_window_menu c"
  by (simp_all add: view_def)

lemma window_view_sel [simp]:
  "vw_id (window_view t) = tl_id t" "vw_xwayland (window_view t) = tl_xwayland t"
  "vw_alive (window_view t) = IsAlive t" "vw_surface (window_view t) = Surface t"
  "vw_mapped (window_view t) = tl_mapped t" "vw_minimized (window_view t) = tl_minimized t"
  "vw_all_workspaces (window_view t) = tl_all_workspaces t"
  "vw_workspace (window_view t) = tl_workspace t"
  "vw_enabled (window_view t) = map_option nd_enabled (tl_scene_tree t)"
  by (simp_all add: window_view_def)

lemma view_cong:
  assumes "map window_view (toplevels c) = map window_view (toplevels c')" "set (tl_stack c) = set (tl_stack c')"
    "workspace_count c = workspace_count c'" "current_workspace c = current_workspace c'"
    "multitasking_sources_hidden c = multitasking_sources_hidden c'"
    "window_previews_sources_hidden c = window_previews_sources_hidden c'"
    "SessionLocked c = SessionLocked c'" "cursor_mode c = cursor_mode c'"
    "grabbed_toplevel c = grabbed_toplevel c'" "pending_window_menu c = pending_window_menu c'"
  shows "view c = view c'"
  using assms by (simp add: view_def)

lemma view_fields [view_frame]:
  "view (c\<lparr>call_log := l\<rparr>) = view c"
  "view (c\<lparr>focused_surface := s\<rparr>) = view c"
  "view (c\<lparr>pointer_focus := s\<rparr>) = view c"
  "view (c\<lparr>seat_keyboard := b\<rparr>) = view c"
  "view (c\<lparr>xwayland := x\<rparr>) = view c"
  "view (c\<lparr>blur_renderer := r\<rparr>) = view c"
  "view (c\<lparr>scene_blur_active := b\<rparr>) = view c"
  "view (c\<lparr>scene_rounded_corners_active := b\<rparr>) = view c"
  "view (c\<lparr>scene_direct_scanout := b\<rparr>) = view c"
  "view (c\<lparr>scene_calculate_visibility := b\<rparr>) = view c"
  "view (c\<lparr>cursor_x := x1\<rparr>) = view c"
  "view (c\<lparr>cursor_y := x1\<rparr>) = view c"
  "view (c\<lparr>grab_x := x1\<rparr>) = view c"
  "view (c\<lparr>grab_y := x1\<rparr>) = view c"
  "view (c\<lparr>grab_box := bx\<rparr>) = view c"
  "view (c\<lparr>resize_edges := e\<rparr>) = view c"
  "view (c\<lparr>maximize_on_release := b\<rparr>) = view c"
  "view (c\<lparr>cursor_state := cs\<rparr>) = view c"
  "view (c\<lparr>no_titlebar_surfaces := ns\<rparr>) = view c"
  "view (c\<lparr>outputs := os\<rparr>) = view c"
  "view (c\<lparr>output_layout := ol\<rparr>) = view c"
  "view (c\<lparr>qt_frame_interval_ms := q\<rparr>) = view c"
  "view (c\<lparr>layer_surfaces := ls\<rparr>) = view c"
  by (simp_all add: view_def SessionLocked_def)

lemma view_toplevels_map:
  assumes "\<And>t. window_view (f t) = window_view t"
  shows "view (c\<lparr>toplevels := map f (toplevels c)\<rparr>) = view c"
  using assms by (simp add: view_def SessionLocked_def comp_def)

lemma view_upd_tl:
  assumes "\<And>t. window_view (f t) = g (window_view t)"
  shows "view (upd_tl i f c) = on_window i g (view c)"
  by (simp add: view_def upd_tl_def on_window_def SessionLocked_def)
     (simp add: window_view_def assms [unfolded window_view_def])

lemma view_upd_tl_same:
  assumes "\<And>t. window_view (f t) = window_view t"
  shows "view (upd_tl i f c) = view c"
  unfolding upd_tl_def by (rule view_toplevels_map) (simp add: assms)

lemma view_notify [view_frame]: "view (notify cp cl c) = view c"
  by (simp add: notify_def view_frame)

lemma view_fold:
  assumes "\<And>x c. view (f x c) = view c"
  shows "view (fold f xs c) = view c"
  by (induction xs arbitrary: c) (simp_all add: assms)

lemma view_raise [view_frame]: "view (raise_to_top i c) = view c"
  by (rule view_cong) (auto simp: raise_to_top_def SessionLocked_def erase_if_def)

lemma view_activation [view_frame]:
  "view (ParkXWaylandFocus c) = view c"
  "view (SetActivated i a c) = view c"
  "view (deactivate_previous p c) = view c"
  "view (keyboard_enter s c) = view c"
  by (simp_all add: ParkXWaylandFocus_def SetActivated_def keyboard_enter_def view_frame view_upd_tl_same
      split: option.splits)
     (simp add: deactivate_previous_def view_toplevels_map window_view_on_handle split: option.splits)

lemma view_decoration [view_frame]:
  "view (RefreshRoundedCornerState c) = view c"
  "view (RebuildSurfaceClip i c) = view c"
  "view (ClearSurfaceRoundCorner c s) = view c"
  "view (UpdateCsdShadow i c) = view c"
proof -
  show r: "view (RefreshRoundedCornerState c) = view c" for c
    by (simp add: RefreshRoundedCornerState_def UpdateBackdropBlurState_def Let_def view_frame
        split: option.splits)
  show "view (RebuildSurfaceClip i c) = view c" "view (ClearSurfaceRoundCorner c s) = view c"
    by (simp_all add: RebuildSurfaceClip_def ClearSurfaceRoundCorner_def Let_def r view_frame
        split: option.splits)
  show "view (UpdateCsdShadow i c) = view c"
    by (simp add: UpdateCsdShadow_def view_upd_tl_same view_frame)
qed

lemma view_decoration_requests [view_frame]:
  "view (SetCsdShadow i b c) = view c"
  "view (SetRoundCorner i r c) = view c"
  "view (AttachSsd i c) = view c"
  "view (SetSsdEnabled i b c) = view c"
proof -
  show a: "view (AttachSsd i c) = view c" for c
    by (simp add: AttachSsd_def view_frame view_upd_tl_same split: option.splits)
  show "view (SetCsdShadow i b c) = view c" "view (SetRoundCorner i r c) = view c"
    "view (SetSsdEnabled i b c) = view c"
    by (simp_all add: SetCsdShadow_def SetRoundCorner_def SetSsdEnabled_def a view_frame
        view_upd_tl_same split: option.splits)
qed

lemma view_raise_focused [view_frame]: "view (raise_focused t c) = view c"
  unfolding raise_focused_def Let_def
  by (simp add: view_frame view_upd_tl_same view_fold)

lemma view_focus [view_frame]:
  "view (FocusLayerSurface l c) = view c"
  "view (FocusToplevel w c) = view c"
  "view (FocusNextToplevel w c) = view c"
proof -
  show l: "view (FocusLayerSurface l c) = view c" for l
    by (simp add: FocusLayerSurface_def Let_def view_frame view_toplevels_map split: option.splits)
  show f: "view (FocusToplevel w c) = view c" for w
    by (simp add: FocusToplevel_def activate_toplevel_def Let_def view_frame l view_toplevels_map
        split: option.splits)
  show "view (FocusNextToplevel w c) = view c"
    by (simp add: FocusNextToplevel_def view_frame l f split: option.splits)
qed

section \<open>Visibility in the view\<close>

definition view_visible :: "desktop_view \<Rightarrow> window_view \<Rightarrow> bool" where
  "view_visible v w =
     (vw_mapped w \<and> \<not> vw_minimized w \<and> (vw_all_workspaces w \<or> vw_workspace w = dv_current v) \<and>
      \<not> dv_multitasking v \<and> \<not> dv_previews v)"

definition enable :: "bool \<Rightarrow> window_view \<Rightarrow> window_view" where
  "enable b w = w\<lparr>vw_enabled := map_option (\<lambda>_. b) (vw_enabled w)\<rparr>"

definition refresh :: "desktop_view \<Rightarrow> window_view \<Rightarrow> window_view" where
  "refresh v w = enable (view_visible v w) w"

definition refresh_windows :: "desktop_view \<Rightarrow> desktop_view" where
  "refresh_windows v = v\<lparr>dv_windows := map (refresh v) (dv_windows v)\<rparr>"

definition reset_grab :: "desktop_view \<Rightarrow> desktop_view" where
  "reset_grab v = v\<lparr>dv_mode := kPassthrough, dv_grabbed := None\<rparr>"

definition view_find :: "desktop_view \<Rightarrow> nat \<Rightarrow> window_view option" where
  "view_find v i = find (\<lambda>w. vw_id w = i) (dv_windows v)"

lemma visible_view: "IsToplevelVisible c t = view_visible (view c) (window_view t)"
  by (simp add: IsToplevelVisible_def on_current_def view_visible_def view_def window_view_def)

lemma find_view: "view_find (view c) i = map_option window_view (find_tl c i)"
proof -
  have "find (\<lambda>w. vw_id w = i) (map window_view ts) = map_option window_view (find (\<lambda>t. tl_id t = i) ts)" for ts
    by (induction ts) (simp_all add: window_view_def)
  then show ?thesis by (simp add: view_find_def find_tl_def view_def)
qed

lemma window_view_refresh: "window_view (refresh_enabled c t) = refresh (view c) (window_view t)"
  by (simp add: refresh_enabled_def window_view_enabled refresh_def enable_def visible_view)

lemma refresh_fields [simp]:
  "vw_id (refresh v w) = vw_id w" "vw_alive (refresh v w) = vw_alive w"
  "vw_mapped (refresh v w) = vw_mapped w" "vw_minimized (refresh v w) = vw_minimized w"
  "vw_workspace (refresh v w) = vw_workspace w" "vw_all_workspaces (refresh v w) = vw_all_workspaces w"
  "vw_id (enable b w) = vw_id w" "vw_alive (enable b w) = vw_alive w"
  "vw_mapped (enable b w) = vw_mapped w" "vw_minimized (enable b w) = vw_minimized w"
  "vw_workspace (enable b w) = vw_workspace w" "vw_all_workspaces (enable b w) = vw_all_workspaces w"
  by (simp_all add: refresh_def enable_def)

lemma view_refresh_all: "view (refresh_all c) = refresh_windows (view c)"
proof -
  have "view (refresh_all c) = (view c)\<lparr>dv_windows := map window_view (map (refresh_enabled c) (toplevels c))\<rparr>"
    by (simp add: view_def refresh_all_def SessionLocked_def)
  then show ?thesis by (simp add: refresh_windows_def window_view_refresh comp_def)
qed

lemma view_update_mapped [view_frame]: "view (update_mapped_toplevels c) = view c"
  unfolding update_mapped_toplevels_def by (rule view_fold) (simp add: view_frame)

lemma view_reset: "view (ResetCursorMode c) = reset_grab (view c)"
proof -
  have "view (c\<lparr>cursor_mode := kPassthrough, grabbed_toplevel := None, maximize_on_release := False\<rparr>) =
      reset_grab (view c)" for c
    by (simp add: view_def reset_grab_def SessionLocked_def)
  then show ?thesis
    by (simp add: ResetCursorMode_def Let_def view_upd_tl_same view_frame split: option.splits)
qed

section \<open>Workspaces in the view\<close>

definition view_switch :: "int \<Rightarrow> desktop_view \<Rightarrow> desktop_view" where
  "view_switch w v =
     (if w < 0 \<or> w \<ge> dv_count v \<or> w = dv_current v \<or> dv_locked v then v
      else refresh_windows ((reset_grab v)\<lparr>dv_current := w\<rparr>))"

definition view_move :: "nat \<Rightarrow> int \<Rightarrow> desktop_view \<Rightarrow> desktop_view" where
  "view_move i w v =
     (case view_find v i of
        None \<Rightarrow> v
      | Some x \<Rightarrow> if w < 0 \<or> w \<ge> dv_count v \<or> vw_workspace x = w then v
                  else on_window i (\<lambda>x. refresh v (x\<lparr>vw_workspace := w\<rparr>)) v)"

definition view_remove :: "int \<Rightarrow> desktop_view \<Rightarrow> desktop_view" where
  "view_remove w v =
     (if dv_count v \<le> 1 \<or> w < 0 \<or> w \<ge> dv_count v then v
      else refresh_windows
             (v\<lparr>dv_count := dv_count v - 1,
                dv_windows := map (\<lambda>x. x\<lparr>vw_workspace := removed_index w (dv_count v - 1) (vw_workspace x)\<rparr>)
                                (dv_windows v),
                dv_current := removed_index w (dv_count v - 1) (dv_current v)\<rparr>))"

definition view_reorder :: "int \<Rightarrow> int \<Rightarrow> desktop_view \<Rightarrow> desktop_view" where
  "view_reorder a b v =
     (if a < 0 \<or> b < 0 \<or> a \<ge> dv_count v \<or> b \<ge> dv_count v \<or> a = b then v
      else v\<lparr>dv_current := remap a b (dv_current v),
             dv_windows := map (\<lambda>x. x\<lparr>vw_workspace := remap a b (vw_workspace x)\<rparr>) (dv_windows v)\<rparr>)"

definition view_all_workspaces :: "nat \<Rightarrow> bool \<Rightarrow> desktop_view \<Rightarrow> desktop_view" where
  "view_all_workspaces i b v =
     (case view_find v i of
        None \<Rightarrow> v
      | Some x \<Rightarrow>
          if vw_all_workspaces x = b then v
          else on_window i (\<lambda>x. refresh v (x\<lparr>vw_all_workspaces := b,
                 vw_workspace := (if b then vw_workspace x else dv_current v)\<rparr>)) v)"

lemma view_SwitchWorkspace: "view (SwitchWorkspace w c) = view_switch w (view c)"
proof (cases "w < 0 \<or> w \<ge> workspace_count c \<or> w = current_workspace c \<or> SessionLocked c")
  case True
  then show ?thesis by (auto simp: SwitchWorkspace_def view_switch_def)
next
  case False
  let ?at = "\<lambda>c. c\<lparr>current_workspace := w\<rparr>"
  have current: "view (?at c) = (view c)\<lparr>dv_current := w\<rparr>" for c
    by (simp add: view_def SessionLocked_def)
  have shadow: "view (c\<lparr>current_workspace := w, toplevels := map (\<lambda>t. update_csd_shadow (?at c)
      (if \<not> on_current (?at c) t then on_ssd (\<lambda>s. SetActive s False) (refresh_enabled (?at c) t)
       else refresh_enabled (?at c) t)) (toplevels c)\<rparr>) =
      refresh_windows ((view c)\<lparr>dv_current := w\<rparr>)" for c
    unfolding current [symmetric] view_refresh_all [symmetric]
    by (rule view_cong) (simp_all add: refresh_all_def view_frame SessionLocked_def)
  show ?thesis
    using False
    by (simp add: SwitchWorkspace_def Let_def view_frame shadow current view_reset view_switch_def
        split: option.splits)
qed

lemma view_MoveToplevel: "view (snd (MoveToplevelToWorkspace i w c)) = view_move i w (view c)"
proof -
  have "window_view (refresh_enabled c (t\<lparr>tl_workspace := w\<rparr>)) =
      refresh (view c) ((window_view t)\<lparr>vw_workspace := w\<rparr>)" for t
    unfolding window_view_refresh by (simp add: window_view_def IsAlive_def Surface_def)
  note upd = view_upd_tl [of "\<lambda>t. refresh_enabled c (t\<lparr>tl_workspace := w\<rparr>)", OF this]
  have n: "dv_count (view c) = workspace_count c" by (simp add: view_def)
  show ?thesis
    by (simp add: MoveToplevelToWorkspace_def view_move_def find_view Let_def view_frame upd n
        split: option.splits)
qed

lemma view_AddWorkspace:
  "view (snd (AddWorkspace c)) =
     (if dv_count (view c) \<ge> kMaximumWorkspaceCount then view c
      else (view c)\<lparr>dv_count := dv_count (view c) + 1\<rparr>)"
proof -
  have "view (c\<lparr>workspace_count := n\<rparr>) = (view c)\<lparr>dv_count := n\<rparr>" for n
    by (simp add: view_def SessionLocked_def)
  moreover have "dv_count (view c) = workspace_count c" by (simp add: view_def)
  ultimately show ?thesis by (simp add: AddWorkspace_def view_frame)
qed

lemma view_RemoveWorkspace: "view (snd (RemoveWorkspace w c)) = view_remove w (view c)"
proof -
  let ?n = "workspace_count c - 1"
  have "view (c\<lparr>workspace_count := ?n,
        toplevels := map (\<lambda>t. t\<lparr>tl_workspace := removed_index w ?n (tl_workspace t)\<rparr>) (toplevels c),
        current_workspace := removed_index w ?n (current_workspace c)\<rparr>) =
      (view c)\<lparr>dv_count := ?n,
        dv_windows := map (\<lambda>x. x\<lparr>vw_workspace := removed_index w ?n (vw_workspace x)\<rparr>) (dv_windows (view c)),
        dv_current := removed_index w ?n (current_workspace c)\<rparr>"
    by (simp add: view_def SessionLocked_def) (simp add: window_view_def IsAlive_def Surface_def)
  then show ?thesis
    by (simp add: RemoveWorkspace_def view_remove_def Let_def view_frame view_refresh_all)
qed

lemma view_ReorderWorkspace: "view (snd (ReorderWorkspace a b c)) = view_reorder a b (view c)"
proof -
  have "view (c\<lparr>current_workspace := remap a b (current_workspace c),
        toplevels := map (\<lambda>t. t\<lparr>tl_workspace := remap a b (tl_workspace t)\<rparr>) (toplevels c)\<rparr>) =
      (view c)\<lparr>dv_current := remap a b (current_workspace c),
        dv_windows := map (\<lambda>x. x\<lparr>vw_workspace := remap a b (vw_workspace x)\<rparr>) (dv_windows (view c))\<rparr>"
    by (simp add: view_def SessionLocked_def) (simp add: window_view_def IsAlive_def Surface_def)
  then show ?thesis
    by (simp add: ReorderWorkspace_def view_reorder_def Let_def view_frame)
qed

lemma view_SetAllWorkspaces: "view (SetAllWorkspaces i b c) = view_all_workspaces i b (view c)"
proof -
  let ?f = "\<lambda>t. refresh_enabled c (t\<lparr>tl_all_workspaces := b,
      tl_workspace := (if b then tl_workspace t else current_workspace c)\<rparr>)"
  have "window_view (?f t) = refresh (view c) ((window_view t)\<lparr>vw_all_workspaces := b,
      vw_workspace := (if b then vw_workspace (window_view t) else current_workspace c)\<rparr>)" for t
    unfolding window_view_refresh by (simp add: window_view_def IsAlive_def Surface_def)
  note upd = view_upd_tl [of ?f, OF this]
  have n: "dv_current (view c) = current_workspace c" by (simp add: view_def)
  show ?thesis
    by (simp add: SetAllWorkspaces_def view_all_workspaces_def find_view Let_def view_frame upd n
        cong: if_cong split: option.splits)
qed

lemma view_hide:
  "view (SetMultitaskingSourcesHidden b c) = refresh_windows ((view c)\<lparr>dv_multitasking := b\<rparr>)"
  "view (SetWindowPreviewsSourcesHidden b c) = refresh_windows ((view c)\<lparr>dv_previews := b\<rparr>)"
  by (simp_all add: SetMultitaskingSourcesHidden_def SetWindowPreviewsSourcesHidden_def view_refresh_all)
     (simp_all add: view_def SessionLocked_def)

lemma view_SetKeptAbove [view_frame]: "view (SetKeptAbove i b c) = view c"
  by (simp add: SetKeptAbove_def Let_def view_frame view_upd_tl_same split: option.splits)

section \<open>Placement in the view\<close>

definition shown :: "window_view \<Rightarrow> window_view" where
  "shown w = enable True (w\<lparr>vw_minimized := False\<rparr>)"

definition unminimize :: "window_view \<Rightarrow> window_view" where
  "unminimize w = (if vw_minimized w then shown w else w)"

lemma view_MoveToplevelFrame [view_frame]: "view (MoveToplevelFrame i x y c) = view c"
  by (simp add: MoveToplevelFrame_def Let_def view_frame view_upd_tl_same split: option.splits)

lemma view_fit [view_frame]:
  "view (fit_toplevel k usable old i c) = view c"
  "view (FitToplevelsToUsableArea k old c) = view c"
proof -
  show f: "view (fit_toplevel k usable old i c) = view c" for usable i c
    by (simp add: fit_toplevel_def Let_def view_frame view_upd_tl_same split: option.splits)
  show "view (FitToplevelsToUsableArea k old c) = view c"
    by (simp add: FitToplevelsToUsableArea_def Let_def view_fold [of "fit_toplevel _ _ _", OF f]
        split: option.splits)
qed

lemma view_ArrangeLayers [view_frame]: "view (ArrangeLayers k c) = view c"
proof (cases k)
  case (Some a)
  then show ?thesis
    by (cases "FindOutput c k") (simp_all add: ArrangeLayers_def Let_def view_frame split: prod.splits)
qed (simp add: ArrangeLayers_def)

lemma view_Constrain [view_frame]: "view (ConstrainToUsableArea i c) = view c"
  by (cases "find_tl c i") (simp_all add: ConstrainToUsableArea_def Let_def view_frame)

lemma view_centre [view_frame]:
  "view (PlaceNewToplevel i c) = view c"
  "view (KeepCentered i c) = view c"
proof -
  show "view (PlaceNewToplevel i c) = view c"
    by (simp add: PlaceNewToplevel_def Let_def view_frame view_upd_tl_same
        split: option.splits prod.splits)
  show "view (KeepCentered i c) = view c"
    by (simp add: KeepCentered_def Let_def view_frame view_upd_tl_same split: option.splits)
qed

lemma window_view_enter_maximized: "window_view (enter_maximized c t) = unminimize (window_view t)"
proof -
  have minimized: "tl_minimized (Configure scale b t) = tl_minimized t" for scale b t
    using window_view_Configure [of scale b t] by (metis window_view_sel(6))
  have "window_view ((set_enabled True t)\<lparr>tl_minimized := False\<rparr>) = shown (window_view t)" for t
    unfolding shown_def enable_def set_enabled_def
    by (cases "tl_scene_tree t") (simp_all add: window_view_def IsAlive_def Surface_def)
  then show ?thesis
    by (simp add: enter_maximized_def Let_def minimized unminimize_def view_frame)
qed

text \<open>Maximising and tiling change nothing of the view but a minimised window, which is shown.\<close>

lemma view_SetMaximized:
  "view (SetMaximized i m c) = view c \<or> view (SetMaximized i m c) = on_window i unminimize (view c)"
proof (cases "find_tl c i")
  case (Some t)
  have "view (upd_tl i (\<lambda>t. SetMaximizedState m (if m then enter_maximized c2 t
      else (restore_configure (scale_of c) t)\<lparr>tl_maximized_output := None\<rparr>)) c3) =
      (if m then on_window i unminimize (view c3) else view c3)" for m c2 c3
  proof (cases m)
    case True
    then show ?thesis
      using view_upd_tl [of "\<lambda>t. SetMaximizedState m (enter_maximized c2 t)" unminimize]
      by (simp add: view_frame window_view_enter_maximized)
  qed (simp add: view_frame view_upd_tl_same)
  with Some show ?thesis
    by (simp add: SetMaximized_def Let_def view_frame view_upd_tl_same)
qed (simp add: SetMaximized_def)

lemma view_TileToplevel:
  "view (TileToplevel i tile c) = view c \<or> view (TileToplevel i tile c) = on_window i unminimize (view c)"
proof -
  let ?f = "\<lambda>t. if tl_minimized t then set_enabled True (SetMinimizedState False (t\<lparr>tl_minimized := False\<rparr>)) else t"
  have "window_view (?f t) = unminimize (window_view t)" for t
    by (simp add: window_view_enabled view_frame unminimize_def shown_def enable_def)
       (simp add: window_view_def IsAlive_def Surface_def SetMinimizedState_def on_handle_def)
  note show_it = view_upd_tl [of ?f, OF this]
  show ?thesis
    by (simp add: TileToplevel_def Let_def view_frame view_upd_tl_same show_it split: option.splits)
qed

definition minimize :: "window_view \<Rightarrow> window_view" where
  "minimize w = enable False (w\<lparr>vw_minimized := True\<rparr>)"

lemma view_Minimize:
  "view (Minimize w c) = view c \<or>
   (\<exists>i x. w = Some i \<and> view_find (view c) i = Some x \<and> vw_mapped x \<and>
      view (Minimize w c) = on_window i minimize (view c))"
proof (cases "Option.bind w (find_tl c)")
  case (Some t)
  let ?f = "\<lambda>t. set_enabled False (SetMinimizedState True (t\<lparr>tl_minimized := True\<rparr>))"
  have "window_view (?f t) = minimize (window_view t)" for t
    by (simp add: window_view_enabled view_frame minimize_def enable_def)
       (simp add: window_view_def IsAlive_def Surface_def SetMinimizedState_def on_handle_def)
  note hide_it = view_upd_tl [of ?f, OF this]
  from Some obtain i where i: "w = Some i" "find_tl c i = Some t" by (cases w) auto
  have "tl_id t = i" using i(2) by (simp add: find_tl_def find_Some_iff) auto
  with i show ?thesis
    by (auto simp: Minimize_def Let_def view_frame hide_it find_view)
qed (simp add: Minimize_def)

lemma view_RestoreForMove:
  "view (RestoreForMove i c) = view c \<or> view (RestoreForMove i c) = on_window i unminimize (view c)"
proof -
  have "view (upd_tl i (\<lambda>t. let restored = FrameGeometry s t
        in set_position (x - box_x restored) (y - box_y restored) (t\<lparr>tl_restore_box := b t\<rparr>)) c1) = view c1"
    for s x y b c1
    by (rule view_upd_tl_same) (simp add: Let_def view_frame)
  then show ?thesis
    using view_SetMaximized [of i False c]
    by (simp add: RestoreForMove_def Let_def split: option.splits)
qed

section \<open>Grabs in the view\<close>

lemma view_EndInteractive:
  "view (EndInteractive c) = reset_grab (view c) \<or>
   (\<exists>i. view (EndInteractive c) = on_window i unminimize (reset_grab (view c)))"
  using view_SetMaximized [of _ True "ResetCursorMode c"]
  by (auto simp: EndInteractive_def Let_def view_reset split: option.splits)

end
