(* ===== verification/Desktop_Invariant.thy ===== *)
theory Desktop_Invariant
  imports Window_View Outputs Xdg_Decoration
begin

text \<open>
  The invariant of the desktop and the events that keep it. \<open>base_inv\<close> says that workspace indices
  are in range, window identities are unique, a mapped window is alive and has a scene node, the
  stack holds exactly the windows with a node, and that a grab or a pending menu names a mapped
  window; \<open>vis_inv\<close> says that a visible window's node is enabled and an enabled mapped window is
  not minimised.
\<close>

section \<open>The invariant\<close>

definition mapped_ids :: "desktop_view \<Rightarrow> nat set" where
  "mapped_ids v = {vw_id w | w. w \<in> set (dv_windows v) \<and> vw_mapped w}"

definition has_node :: "window_view \<Rightarrow> bool" where
  "has_node w = (vw_enabled w \<noteq> None)"

lemma has_node_fields [simp]:
  "has_node (enable b w) = has_node w" "has_node (w\<lparr>vw_minimized := b\<rparr>) = has_node w"
  "has_node (w\<lparr>vw_mapped := b\<rparr>) = has_node w" "has_node (w\<lparr>vw_workspace := n\<rparr>) = has_node w"
  "has_node (w\<lparr>vw_all_workspaces := b\<rparr>) = has_node w"
  by (simp_all add: has_node_def enable_def)

definition node_ids :: "desktop_view \<Rightarrow> nat set" where
  "node_ids v = {vw_id w | w. w \<in> set (dv_windows v) \<and> has_node w}"

definition window_ok :: "int \<Rightarrow> window_view \<Rightarrow> bool" where
  "window_ok n w =
     (0 \<le> vw_workspace w \<and> vw_workspace w < n \<and> (vw_mapped w \<longrightarrow> has_node w) \<and> (has_node w \<longrightarrow> vw_alive w))"

definition indices_ok :: "desktop_view \<Rightarrow> bool" where
  "indices_ok v = (1 \<le> dv_count v \<and> dv_count v \<le> kMaximumWorkspaceCount \<and>
     0 \<le> dv_current v \<and> dv_current v < dv_count v)"

definition grab_ok :: "desktop_view \<Rightarrow> bool" where
  "grab_ok v = ((dv_mode v = kPassthrough \<longleftrightarrow> dv_grabbed v = None) \<and>
     set_option (dv_grabbed v) \<subseteq> mapped_ids v \<and> set_option (dv_menu v) \<subseteq> mapped_ids v)"

definition base_inv :: "desktop_view \<Rightarrow> bool" where
  "base_inv v =
     (indices_ok v \<and> distinct (map vw_id (dv_windows v)) \<and>
      (\<forall>w\<in>set (dv_windows v). window_ok (dv_count v) w) \<and> grab_ok v \<and> dv_stack v = node_ids v)"

definition vis_inv :: "desktop_view \<Rightarrow> bool" where
  "vis_inv v =
     (\<forall>w\<in>set (dv_windows v).
        (view_visible v w \<longrightarrow> vw_enabled w = Some True) \<and>
        (vw_mapped w \<and> vw_enabled w = Some True \<longrightarrow> \<not> vw_minimized w))"

definition wm_inv :: "desktop_view \<Rightarrow> bool" where
  "wm_inv v = (base_inv v \<and> vis_inv v)"

named_theorems inv_intro "steps of the view that keep the invariant"

section \<open>Preservation in the view\<close>

lemma base_inv_elims:
  assumes "base_inv v"
  shows "indices_ok v" "distinct (map vw_id (dv_windows v))" "grab_ok v" "dv_stack v = node_ids v"
    and "\<And>w. w \<in> set (dv_windows v) \<Longrightarrow> window_ok (dv_count v) w"
  using assms by (simp_all add: base_inv_def)

lemma ids_cong:
  assumes "dv_windows v' = dv_windows v"
  shows "mapped_ids v' = mapped_ids v" "node_ids v' = node_ids v"
  using assms by (simp_all add: mapped_ids_def node_ids_def)

lemma base_reset: "base_inv v \<Longrightarrow> base_inv (reset_grab v)"
  using ids_cong [of "reset_grab v" v]
  by (simp add: base_inv_def reset_grab_def indices_ok_def grab_ok_def)

lemma vis_reset: "vis_inv v \<Longrightarrow> vis_inv (reset_grab v)"
  by (simp add: vis_inv_def reset_grab_def view_visible_def)

lemma inv_reset [inv_intro]: "wm_inv v \<Longrightarrow> wm_inv (reset_grab v)"
  by (simp add: wm_inv_def base_reset vis_reset)

text \<open>A change of windows that keeps identity, life, mapping and the presence of a node.\<close>

definition keeps_node :: "(window_view \<Rightarrow> window_view) \<Rightarrow> bool" where
  "keeps_node f =
     (\<forall>w. vw_id (f w) = vw_id w \<and> vw_alive (f w) = vw_alive w \<and> vw_mapped (f w) = vw_mapped w \<and>
          has_node (f w) = has_node w)"

lemma keeps_nodeD:
  assumes "keeps_node f"
  shows "vw_id (f w) = vw_id w" "vw_alive (f w) = vw_alive w" "vw_mapped (f w) = vw_mapped w"
    "has_node (f w) = has_node w"
  using assms by (simp_all add: keeps_node_def)

lemma keeps_node_ids:
  assumes "keeps_node f"
  shows "mapped_ids (v\<lparr>dv_windows := map f (dv_windows v)\<rparr>) = mapped_ids v"
    and "node_ids (v\<lparr>dv_windows := map f (dv_windows v)\<rparr>) = node_ids v"
    and "map vw_id (map f ws) = map vw_id ws"
proof -
  note k = keeps_nodeD [OF assms]
  have ex: "(\<exists>w'. w' \<in> f ` A \<and> P w') = (\<exists>w. w \<in> A \<and> P (f w))" for A P by blast
  show "mapped_ids (v\<lparr>dv_windows := map f (dv_windows v)\<rparr>) = mapped_ids v"
    "node_ids (v\<lparr>dv_windows := map f (dv_windows v)\<rparr>) = node_ids v"
    unfolding mapped_ids_def node_ids_def by (auto simp: k) (metis k imageI)+
  show "map vw_id (map f ws) = map vw_id ws" by (simp add: k)
qed

lemma base_map:
  assumes "base_inv v" "keeps_node f"
    and ws: "\<And>w. w \<in> set (dv_windows v) \<Longrightarrow> 0 \<le> vw_workspace (f w) \<and> vw_workspace (f w) < dv_count v"
  shows "base_inv (v\<lparr>dv_windows := map f (dv_windows v)\<rparr>)"
proof -
  note b = base_inv_elims [OF assms(1)] and ids = keeps_node_ids [OF assms(2)]
  have "window_ok (dv_count v) (f w)" if "w \<in> set (dv_windows v)" for w
    using b(5) [OF that] ws [OF that] by (simp add: window_ok_def keeps_nodeD [OF assms(2)])
  moreover have "distinct (map vw_id (map f (dv_windows v)))"
    unfolding ids(3) by (rule b(2))
  ultimately show ?thesis
    using b(1,3,4) ids(1,2) by (simp add: base_inv_def indices_ok_def grab_ok_def)
qed

lemma on_window_map:
  "on_window i f v = v\<lparr>dv_windows := map (\<lambda>w. if vw_id w = i then f w else w) (dv_windows v)\<rparr>"
  by (simp add: on_window_def)

lemma base_on_window:
  assumes "base_inv v" "keeps_node f"
    and "\<And>w. w \<in> set (dv_windows v) \<Longrightarrow> 0 \<le> vw_workspace (f w) \<and> vw_workspace (f w) < dv_count v"
  shows "base_inv (on_window i f v)"
  unfolding on_window_map using assms(1)
proof (rule base_map)
  show "keeps_node (\<lambda>w. if vw_id w = i then f w else w)" using assms(2) by (simp add: keeps_node_def)
  show "0 \<le> vw_workspace (if vw_id w = i then f w else w) \<and>
      vw_workspace (if vw_id w = i then f w else w) < dv_count v" if "w \<in> set (dv_windows v)" for w
    using assms(3) [OF that] base_inv_elims(5) [OF assms(1) that] by (simp add: window_ok_def)
qed

lemma visible_same:
  "view_visible (v\<lparr>dv_windows := ws\<rparr>) w = view_visible v w"
  by (simp add: view_visible_def)

lemma vis_on_window:
  assumes "vis_inv v"
    and "\<And>w. w \<in> set (dv_windows v) \<Longrightarrow> vw_id w = i \<Longrightarrow>
      (view_visible v (f w) \<longrightarrow> vw_enabled (f w) = Some True) \<and>
      (vw_mapped (f w) \<and> vw_enabled (f w) = Some True \<longrightarrow> \<not> vw_minimized (f w))"
  shows "vis_inv (on_window i f v)"
  using assms by (auto simp: vis_inv_def on_window_map visible_same)

lemma keeps_refresh: "keeps_node (refresh v)"
  by (simp add: keeps_node_def refresh_def enable_def has_node_def)

lemma refresh_enabled_value:
  assumes "has_node w"
  shows "vw_enabled (refresh v w) = Some (view_visible v w)"
  using assms by (auto simp: refresh_def enable_def has_node_def)

lemma refresh_visible [simp]: "view_visible v (refresh v' w) = view_visible v w"
  by (simp add: view_visible_def)

lemma refresh_ok:
  assumes "window_ok n w"
  shows "(view_visible v (refresh v w) \<longrightarrow> vw_enabled (refresh v w) = Some True) \<and>
    (vw_mapped (refresh v w) \<and> vw_enabled (refresh v w) = Some True \<longrightarrow> \<not> vw_minimized (refresh v w))"
proof (cases "vw_mapped w")
  case True
  with assms have "has_node w" by (simp add: window_ok_def)
  then show ?thesis by (simp add: refresh_enabled_value view_visible_def)
qed (simp add: view_visible_def)

lemma inv_refresh:
  assumes "base_inv v"
  shows "wm_inv (refresh_windows v)"
proof -
  note ok = base_inv_elims(5) [OF assms]
  have "base_inv (refresh_windows v)"
    unfolding refresh_windows_def using assms
    by (rule base_map [OF _ keeps_refresh]) (use ok in \<open>simp add: window_ok_def\<close>)
  moreover have "vis_inv (refresh_windows v)"
    unfolding vis_inv_def refresh_windows_def visible_same
    using refresh_ok [OF ok, where v = v] by auto
  ultimately show ?thesis by (simp add: wm_inv_def)
qed

lemma inv_refresh_window:
  assumes "wm_inv v" "keeps_node f" "0 \<le> n" "n < dv_count v"
    and "\<And>w. vw_workspace (f w) = vw_workspace w \<or> vw_workspace (f w) = n"
  shows "wm_inv (on_window i (\<lambda>w. refresh v (f w)) v)"
proof -
  have base: "base_inv v" and vis: "vis_inv v" using assms(1) by (simp_all add: wm_inv_def)
  have ok: "window_ok (dv_count v) (f w)" if "w \<in> set (dv_windows v)" for w
    using base_inv_elims(5) [OF base that] assms(3,4) assms(5) [of w]
    by (auto simp: window_ok_def keeps_nodeD [OF assms(2)])
  have "keeps_node (\<lambda>w. refresh v (f w))"
    using assms(2) keeps_refresh [of v] by (simp add: keeps_node_def)
  then have "base_inv (on_window i (\<lambda>w. refresh v (f w)) v)"
    by (rule base_on_window [OF base]) (use ok in \<open>simp add: window_ok_def\<close>)
  moreover have "vis_inv (on_window i (\<lambda>w. refresh v (f w)) v)"
    using vis by (rule vis_on_window) (rule refresh_ok [OF ok])
  ultimately show ?thesis by (simp add: wm_inv_def)
qed

section \<open>Workspaces\<close>

lemma removed_index_range:
  assumes "0 \<le> w" "w < n" "1 < n" "0 \<le> k" "k < n"
  shows "0 \<le> removed_index w (n - 1) k \<and> removed_index w (n - 1) k < n - 1"
  using assms by (auto simp: removed_index_def min_def)

lemma remap_range:
  assumes "0 \<le> a" "a < n" "0 \<le> b" "b < n" "0 \<le> k" "k < n"
  shows "0 \<le> remap a b k \<and> remap a b k < n"
  using assms by (auto simp: remap_def)

lemma remap_inj: "remap a b j = remap a b k \<longleftrightarrow> j = k"
  by (auto simp: remap_def split: if_splits)

lemma base_current:
  assumes "base_inv v" "0 \<le> w" "w < dv_count v"
  shows "base_inv (v\<lparr>dv_current := w\<rparr>)"
  using assms ids_cong [of "v\<lparr>dv_current := w\<rparr>" v] by (simp add: base_inv_def indices_ok_def grab_ok_def)

lemma inv_switch: "wm_inv v \<Longrightarrow> wm_inv (view_switch w v)"
proof (cases "w < 0 \<or> w \<ge> dv_count v \<or> w = dv_current v \<or> dv_locked v")
  case False
  assume "wm_inv v"
  then have "base_inv (reset_grab v)" by (simp add: wm_inv_def base_reset)
  then have "base_inv ((reset_grab v)\<lparr>dv_current := w\<rparr>)"
    by (rule base_current) (use False in \<open>simp_all add: reset_grab_def\<close>)
  with False show ?thesis by (simp add: view_switch_def inv_refresh)
qed (auto simp: view_switch_def)

lemma inv_move: "wm_inv v \<Longrightarrow> wm_inv (view_move i w v)"
  by (auto simp: view_move_def split: option.splits
      intro!: inv_refresh_window [where n = w] simp: keeps_node_def has_node_def)

lemma inv_add:
  assumes "wm_inv v" "dv_count v < kMaximumWorkspaceCount"
  shows "wm_inv (v\<lparr>dv_count := dv_count v + 1\<rparr>)"
proof -
  let ?v = "v\<lparr>dv_count := dv_count v + 1\<rparr>"
  note b = base_inv_elims [OF conjunct1 [OF assms(1) [unfolded wm_inv_def]]]
  have "indices_ok ?v" using b(1) assms(2) by (simp add: indices_ok_def)
  moreover have "window_ok (dv_count v + 1) w" if "w \<in> set (dv_windows v)" for w
    using b(5) [OF that] by (simp add: window_ok_def)
  ultimately have "base_inv ?v"
    using b(2-4) ids_cong [of ?v v] by (simp add: base_inv_def grab_ok_def)
  with assms(1) show ?thesis by (simp add: wm_inv_def vis_inv_def view_visible_def)
qed

lemma inv_remove:
  assumes "wm_inv v"
  shows "wm_inv (view_remove w v)"
proof (cases "dv_count v \<le> 1 \<or> w < 0 \<or> w \<ge> dv_count v")
  case True
  with assms show ?thesis by (auto simp: view_remove_def)
next
  case False
  let ?n = "dv_count v - 1"
  let ?f = "\<lambda>x. x\<lparr>vw_workspace := removed_index w ?n (vw_workspace x)\<rparr>"
  have base: "base_inv v" using assms by (simp add: wm_inv_def)
  note b = base_inv_elims [OF base]
  have range: "0 \<le> removed_index w ?n k \<and> removed_index w ?n k < ?n" if "0 \<le> k" "k < dv_count v" for k
    using False that by (intro removed_index_range) auto
  have "keeps_node ?f" by (simp add: keeps_node_def has_node_def)
  note ids = keeps_node_ids(1,2) [OF this, of v]
  have "base_inv (v\<lparr>dv_count := ?n, dv_windows := map ?f (dv_windows v),
      dv_current := removed_index w ?n (dv_current v)\<rparr>)" (is "base_inv ?v")
  proof -
    have "indices_ok ?v" using b(1) False range [of "dv_current v"] by (simp add: indices_ok_def)
    moreover have "window_ok ?n (?f x)" if "x \<in> set (dv_windows v)" for x
      using b(5) [OF that] range [of "vw_workspace x"] by (simp add: window_ok_def has_node_def)
    moreover have "mapped_ids ?v = mapped_ids v" "node_ids ?v = node_ids v"
      using ids(1,2) by (simp_all add: mapped_ids_def node_ids_def)
    ultimately show ?thesis using b(2-4) by (simp add: base_inv_def grab_ok_def comp_def)
  qed
  with False show ?thesis by (simp add: view_remove_def inv_refresh)
qed

lemma inv_reorder:
  assumes "wm_inv v"
  shows "wm_inv (view_reorder a b v)"
proof (cases "a < 0 \<or> b < 0 \<or> a \<ge> dv_count v \<or> b \<ge> dv_count v \<or> a = b")
  case True
  with assms show ?thesis by (auto simp: view_reorder_def)
next
  case False
  let ?f = "\<lambda>x. x\<lparr>vw_workspace := remap a b (vw_workspace x)\<rparr>"
  let ?v = "v\<lparr>dv_current := remap a b (dv_current v), dv_windows := map ?f (dv_windows v)\<rparr>"
  have base: "base_inv v" and vis: "vis_inv v" using assms by (simp_all add: wm_inv_def)
  note e = base_inv_elims [OF base]
  have range: "0 \<le> remap a b k \<and> remap a b k < dv_count v" if "0 \<le> k" "k < dv_count v" for k
    using False that by (intro remap_range) auto
  have "keeps_node ?f" by (simp add: keeps_node_def has_node_def)
  note ids = keeps_node_ids(1,2) [OF this, of v]
  have "indices_ok ?v" using e(1) range [of "dv_current v"] by (simp add: indices_ok_def)
  moreover have "window_ok (dv_count v) (?f x)" if "x \<in> set (dv_windows v)" for x
    using e(5) [OF that] range [of "vw_workspace x"] by (simp add: window_ok_def has_node_def)
  moreover have "mapped_ids ?v = mapped_ids v" "node_ids ?v = node_ids v"
    using ids(1,2) by (simp_all add: mapped_ids_def node_ids_def)
  ultimately have "base_inv ?v" using e(2-4) by (simp add: base_inv_def grab_ok_def comp_def)
  moreover have "view_visible ?v (?f x) = view_visible v x" for x
    by (simp add: view_visible_def remap_inj)
  then have "vis_inv ?v" using vis by (simp add: vis_inv_def)
  ultimately show ?thesis using False by (simp add: view_reorder_def wm_inv_def)
qed

lemma inv_all_workspaces:
  assumes "wm_inv v"
  shows "wm_inv (view_all_workspaces i b v)"
proof -
  have "0 \<le> dv_current v" "dv_current v < dv_count v"
    using assms by (simp_all add: wm_inv_def base_inv_def indices_ok_def)
  then have "wm_inv (on_window i (\<lambda>x. refresh v (x\<lparr>vw_all_workspaces := b,
      vw_workspace := (if b then vw_workspace x else dv_current v)\<rparr>)) v)"
    by (intro inv_refresh_window [OF assms, where n = "dv_current v"]) (auto simp: keeps_node_def has_node_def)
  with assms show ?thesis by (simp add: view_all_workspaces_def split: option.splits)
qed

lemma inv_hide:
  assumes "wm_inv v"
  shows "wm_inv (refresh_windows (v\<lparr>dv_multitasking := b\<rparr>))" "wm_inv (refresh_windows (v\<lparr>dv_previews := b\<rparr>))"
proof -
  have "base_inv (v\<lparr>dv_multitasking := b\<rparr>)" "base_inv (v\<lparr>dv_previews := b\<rparr>)"
    using assms by (simp_all add: wm_inv_def base_inv_def indices_ok_def grab_ok_def mapped_ids_def node_ids_def)
  then show "wm_inv (refresh_windows (v\<lparr>dv_multitasking := b\<rparr>))" "wm_inv (refresh_windows (v\<lparr>dv_previews := b\<rparr>))"
    by (simp_all add: inv_refresh)
qed

section \<open>Showing and hiding one window\<close>

lemma inv_keep:
  assumes "wm_inv v" "keeps_node f" "\<And>w. vw_workspace (f w) = vw_workspace w"
    and "\<And>w. vw_enabled w = Some True \<or> vw_enabled w = Some False \<Longrightarrow>
        (\<not> vw_minimized w \<or> vw_enabled w = Some False) \<Longrightarrow>
        (vw_minimized (f w) \<or> vw_enabled (f w) = Some True \<or> \<not> view_visible v (f w)) \<and>
        (vw_enabled (f w) = Some True \<longrightarrow> \<not> vw_minimized (f w))"
  shows "wm_inv (on_window i f v)"
proof -
  have base: "base_inv v" and vis: "vis_inv v" using assms(1) by (simp_all add: wm_inv_def)
  note ok = base_inv_elims(5) [OF base]
  have "base_inv (on_window i f v)"
    by (rule base_on_window [OF base assms(2)]) (use ok assms(3) in \<open>simp add: window_ok_def\<close>)
  moreover have "vis_inv (on_window i f v)"
  proof (rule vis_on_window [OF vis])
    fix w assume w: "w \<in> set (dv_windows v)"
    show "(view_visible v (f w) \<longrightarrow> vw_enabled (f w) = Some True) \<and>
      (vw_mapped (f w) \<and> vw_enabled (f w) = Some True \<longrightarrow> \<not> vw_minimized (f w))"
    proof (cases "vw_mapped w")
      case True
      with ok [OF w] obtain e where e: "vw_enabled w = Some e" by (auto simp: window_ok_def has_node_def)
      with True vis w have "\<not> vw_minimized w \<or> e = False" by (auto simp: vis_inv_def)
      with e assms(4) [of w] show ?thesis by (cases e) (auto simp: view_visible_def)
    qed (simp add: view_visible_def keeps_nodeD [OF assms(2)])
  qed
  ultimately show ?thesis by (simp add: wm_inv_def)
qed

lemma inv_shown: "wm_inv v \<Longrightarrow> wm_inv (on_window i shown v)"
  by (erule inv_keep) (auto simp: shown_def keeps_node_def enable_def has_node_def)

lemma inv_minimize: "wm_inv v \<Longrightarrow> wm_inv (on_window i minimize v)"
  by (erule inv_keep) (auto simp: minimize_def keeps_node_def enable_def has_node_def)

lemma inv_unminimize:
  assumes "wm_inv v"
  shows "wm_inv (on_window i unminimize v)"
proof -
  have base: "base_inv v" and vis: "vis_inv v" using assms by (simp_all add: wm_inv_def)
  note ok = base_inv_elims(5) [OF base]
  have k: "keeps_node unminimize"
    by (simp add: unminimize_def shown_def keeps_node_def)
  have "base_inv (on_window i unminimize v)"
    by (rule base_on_window [OF base k])
       (use ok in \<open>simp add: window_ok_def unminimize_def shown_def\<close>)
  moreover have "vis_inv (on_window i unminimize v)"
  proof (rule vis_on_window [OF vis])
    fix w assume w: "w \<in> set (dv_windows v)"
    show "(view_visible v (unminimize w) \<longrightarrow> vw_enabled (unminimize w) = Some True) \<and>
      (vw_mapped (unminimize w) \<and> vw_enabled (unminimize w) = Some True \<longrightarrow> \<not> vw_minimized (unminimize w))"
      using vis w ok [OF w]
      by (auto simp: unminimize_def shown_def enable_def view_visible_def vis_inv_def window_ok_def has_node_def)
  qed
  ultimately show ?thesis by (simp add: wm_inv_def)
qed

section \<open>Windows that come and go\<close>

definition drop_refs :: "nat \<Rightarrow> desktop_view \<Rightarrow> desktop_view" where
  "drop_refs i v =
     (let v1 = (if dv_menu v = Some i then v\<lparr>dv_menu := None\<rparr> else v)
      in if dv_grabbed v1 = Some i then reset_grab v1 else v1)"

definition view_unmap :: "nat \<Rightarrow> desktop_view \<Rightarrow> desktop_view" where
  "view_unmap i v = drop_refs i (on_window i (\<lambda>w. w\<lparr>vw_mapped := False\<rparr>) v)"

definition gone :: "bool \<Rightarrow> window_view \<Rightarrow> window_view" where
  "gone dead w = w\<lparr>vw_mapped := False, vw_enabled := None, vw_alive := vw_alive w \<and> \<not> dead,
     vw_surface := (if dead then None else vw_surface w)\<rparr>"

definition view_gone :: "bool \<Rightarrow> nat \<Rightarrow> desktop_view \<Rightarrow> desktop_view" where
  "view_gone dead i v = (drop_refs i (on_window i (gone dead) v))\<lparr>dv_stack := dv_stack v - {i}\<rparr>"

definition view_attach :: "nat \<Rightarrow> desktop_view \<Rightarrow> desktop_view" where
  "view_attach i v = (on_window i (\<lambda>w. w\<lparr>vw_enabled := Some True\<rparr>) v)\<lparr>dv_stack := insert i (dv_stack v)\<rparr>"

definition view_append :: "window_view \<Rightarrow> desktop_view \<Rightarrow> desktop_view" where
  "view_append w v = v\<lparr>dv_windows := dv_windows v @ [w],
     dv_stack := (if has_node w then insert (vw_id w) (dv_stack v) else dv_stack v)\<rparr>"

lemma on_window_ids:
  assumes "\<And>w. vw_id (f w) = vw_id w"
  shows "map vw_id (dv_windows (on_window i f v)) = map vw_id (dv_windows v)"
  using assms by (simp add: on_window_def)

lemma window_choice:
  assumes "\<And>w. vw_id (f w) = vw_id w"
  shows "(\<exists>w\<in>set (dv_windows (on_window i f v)). vw_id w = j \<and> P w) \<longleftrightarrow>
         (\<exists>w\<in>set (dv_windows v). vw_id w = j \<and> P (if j = i then f w else w))"
proof -
  have "(\<exists>w\<in>set (dv_windows (on_window i f v)). vw_id w = j \<and> P w) \<longleftrightarrow>
      (\<exists>w\<in>set (dv_windows v). vw_id (if vw_id w = i then f w else w) = j \<and> P (if vw_id w = i then f w else w))"
    by (simp add: on_window_def del: if_image_distrib)
  also have "\<dots> \<longleftrightarrow> (\<exists>w\<in>set (dv_windows v). vw_id w = j \<and> P (if j = i then f w else w))"
    by (rule bex_cong) (auto simp: assms)
  finally show ?thesis .
qed

lemma ids_on_window:
  assumes "\<And>w. vw_id (f w) = vw_id w"
  shows "mapped_ids (on_window i f v) = {j. \<exists>w\<in>set (dv_windows v). vw_id w = j \<and> vw_mapped (if j = i then f w else w)}"
    and "node_ids (on_window i f v) = {j. \<exists>w\<in>set (dv_windows v). vw_id w = j \<and> has_node (if j = i then f w else w)}"
proof -
  have m: "mapped_ids v = {j. \<exists>w\<in>set (dv_windows v). vw_id w = j \<and> vw_mapped w}" for v
    by (auto simp: mapped_ids_def)
  have n: "node_ids v = {j. \<exists>w\<in>set (dv_windows v). vw_id w = j \<and> has_node w}" for v
    by (auto simp: node_ids_def)
  show "mapped_ids (on_window i f v) = {j. \<exists>w\<in>set (dv_windows v). vw_id w = j \<and> vw_mapped (if j = i then f w else w)}"
    unfolding m window_choice [of f, OF assms] ..
  show "node_ids (on_window i f v) = {j. \<exists>w\<in>set (dv_windows v). vw_id w = j \<and> has_node (if j = i then f w else w)}"
    unfolding n window_choice [of f, OF assms] ..
qed

lemma drop_refs_fields [simp]:
  "dv_windows (drop_refs i v) = dv_windows v" "dv_stack (drop_refs i v) = dv_stack v"
  "dv_count (drop_refs i v) = dv_count v" "dv_current (drop_refs i v) = dv_current v"
  "dv_multitasking (drop_refs i v) = dv_multitasking v" "dv_previews (drop_refs i v) = dv_previews v"
  "view_visible (drop_refs i v) w = view_visible v w"
  by (simp_all add: drop_refs_def Let_def reset_grab_def view_visible_def)

lemma drop_refs_grab:
  assumes "grab_ok v" "mapped_ids v' = mapped_ids v - {i}"
    "dv_mode v' = dv_mode v" "dv_grabbed v' = dv_grabbed v" "dv_menu v' = dv_menu v"
  shows "grab_ok (drop_refs i v')"
proof -
  have "mapped_ids (drop_refs i v') = mapped_ids v - {i}"
    using assms(2) by (simp add: mapped_ids_def)
  with assms show ?thesis
    by (cases "dv_grabbed v"; cases "dv_menu v")
       (auto simp: grab_ok_def drop_refs_def Let_def reset_grab_def)
qed

lemma inv_dropped:
  assumes "wm_inv v" and id: "\<And>w. vw_id (f w) = vw_id w" and unmapped: "\<And>w. \<not> vw_mapped (f w)"
    and ok: "\<And>w. window_ok (dv_count v) w \<Longrightarrow> window_ok (dv_count v) (f w)"
    and stack: "S = node_ids (on_window i f v)"
  shows "wm_inv ((drop_refs i (on_window i f v))\<lparr>dv_stack := S\<rparr>)" (is "wm_inv ?v")
proof -
  have base: "base_inv v" and vis: "vis_inv v" using assms(1) by (simp_all add: wm_inv_def)
  note b = base_inv_elims [OF base]
  let ?d = "drop_refs i (on_window i f v)"
  have "mapped_ids (on_window i f v) = mapped_ids v - {i}"
    unfolding ids_on_window [of f, OF id] using unmapped by (auto simp: mapped_ids_def)
  then have "grab_ok ?d"
    by (rule drop_refs_grab [OF b(3)]) (simp_all add: on_window_def)
  then have "grab_ok ?v" by (simp add: grab_ok_def mapped_ids_def)
  moreover have "indices_ok ?v" using b(1) by (simp add: indices_ok_def) (simp add: on_window_def)
  moreover have "window_ok (dv_count v) w" if "w \<in> set (dv_windows (on_window i f v))" for w
    using that b(5) ok by (auto simp: on_window_def)
  moreover have "distinct (map vw_id (dv_windows (on_window i f v)))"
    unfolding on_window_ids [of f, OF id] by (rule b(2))
  ultimately have "base_inv ?v"
    using stack by (simp add: base_inv_def node_ids_def) (simp add: on_window_def)
  moreover have "vis_inv (on_window i f v)"
    using vis by (rule vis_on_window) (simp add: unmapped view_visible_def)
  then have "vis_inv ?v" by (simp add: vis_inv_def view_visible_def)
  ultimately show ?thesis by (simp add: wm_inv_def)
qed

lemma inv_unmap:
  assumes "wm_inv v"
  shows "wm_inv (view_unmap i v)"
proof -
  let ?f = "\<lambda>w. w\<lparr>vw_mapped := False\<rparr>"
  have "dv_stack v = node_ids v" using assms by (simp add: wm_inv_def base_inv_def)
  also have "\<dots> = node_ids (on_window i ?f v)"
    unfolding ids_on_window [of ?f, simplified] by (auto simp: node_ids_def)
  finally have "wm_inv ((drop_refs i (on_window i ?f v))\<lparr>dv_stack := dv_stack v\<rparr>)"
    by (intro inv_dropped [OF assms]) (simp_all add: window_ok_def)
  moreover have "dv_stack (drop_refs i (on_window i ?f v)) = dv_stack v" by (simp add: on_window_def)
  ultimately show ?thesis by (metis desktop_view.surjective desktop_view.update_convs(2) view_unmap_def)
qed

lemma inv_gone:
  assumes "wm_inv v"
  shows "wm_inv (view_gone dead i v)"
  unfolding view_gone_def
proof (rule inv_dropped [OF assms])
  have "dv_stack v = node_ids v" using assms by (simp add: wm_inv_def base_inv_def)
  then show "dv_stack v - {i} = node_ids (on_window i (gone dead) v)"
    unfolding ids_on_window [of "gone dead", simplified gone_def, simplified]
    by (auto simp: node_ids_def gone_def has_node_def)
qed (simp_all add: gone_def window_ok_def has_node_def)

end
