(* ===== verification/App_Switcher.thy ===== *)
theory App_Switcher
  imports Wlr_Geometry Key_Bindings
begin

text \<open>
  The Alt-Tab switcher (\<open>src/view/app_switcher\<close>).  The windows on offer are the argument \<open>provided\<close> and
  the activations a log; the compositor's side of both is in theory \<open>Overlays\<close>.  Surfaces are numbers, a
  null pointer is \<open>None\<close>.  Titles, application ids and pixels are only drawn; whether the buffers for a
  size can be made is the argument \<open>renders\<close>, and the screen the argument \<open>screen\<close>.
\<close>

section \<open>State\<close>

record Entry =
  en_surface :: "nat option"
  en_active :: bool
  en_minimized :: bool

text \<open>What is on screen: the box of the panel, the cell size, the number of columns and rows, the
  entries and the selected one.\<close>

record switcher_panel =
  sp_box :: wlr_box
  sp_cell :: int
  sp_columns :: int
  sp_rows :: int
  sp_entries :: "Entry list"
  sp_index :: int

text \<open>\<open>as_blur\<close> says that a blur texture is registered, \<open>as_blur_buffer\<close> is the size of the blur buffer and
  \<open>as_activated\<close> lists the calls of \<open>activate_\<close>, oldest first.\<close>

record AppSwitcher =
  as_entries :: "Entry list"
  as_focus_history :: "nat list"
  as_current_index :: int
  as_active :: bool
  as_panel :: "switcher_panel option"
  as_blur :: bool
  as_blur_buffer :: "(int \<times> int) option"
  as_activated :: "nat list"

definition new_AppSwitcher :: AppSwitcher where
  "new_AppSwitcher = \<lparr>as_entries = [], as_focus_history = [], as_current_index = -1, as_active = False,
     as_panel = None, as_blur = False, as_blur_buffer = None, as_activated = []\<rparr>"

section \<open>Entries\<close>

text \<open>\<open>std::find_if\<close> as an index; the length of the list stands for the end iterator.\<close>

fun index_of :: "('a \<Rightarrow> bool) \<Rightarrow> 'a list \<Rightarrow> nat" where
  "index_of P [] = 0"
| "index_of P (x # xs) = (if P x then 0 else Suc (index_of P xs))"

fun by_history :: "nat list \<Rightarrow> Entry list \<Rightarrow> Entry list" where
  "by_history [] available = available"
| "by_history (surface # history) available =
     (let i = index_of (\<lambda>item. en_surface item = Some surface) available
      in if i = length available then by_history history available
         else available ! i # by_history history (take i available @ drop (Suc i) available))"

definition selected_surface :: "AppSwitcher \<Rightarrow> nat option" where
  "selected_surface s =
     (if 0 \<le> as_current_index s \<and> as_current_index s < int (length (as_entries s))
      then en_surface (as_entries s ! nat (as_current_index s)) else None)"

definition RefreshEntries :: "Entry list \<Rightarrow> nat option \<Rightarrow> AppSwitcher \<Rightarrow> AppSwitcher" where
  "RefreshEntries provided preferred s =
     (let entries = by_history (as_focus_history s) (filter (\<lambda>e. en_surface e \<noteq> None) provided);
          selected = index_of (\<lambda>e. en_surface e = preferred) entries;
          focused = index_of en_active entries
      in s\<lparr>as_entries := entries,
           as_current_index := (if selected < length entries then int selected
                                else if focused = length entries then 0 else int focused)\<rparr>)"

definition switcher_Step :: "bool \<Rightarrow> AppSwitcher \<Rightarrow> AppSwitcher" where
  "switcher_Step reverse s =
     (let count = int (length (as_entries s))
      in if count \<le> 0 then s\<lparr>as_current_index := -1\<rparr>
         else s\<lparr>as_current_index := (if reverse then (as_current_index s + count - 1) mod count
                                       else (as_current_index s + 1) mod count)\<rparr>)"

section \<open>The panel\<close>

abbreviation kMinimumItemBox :: int where "kMinimumItemBox \<equiv> 128"
abbreviation kBoxMargin :: int where "kBoxMargin \<equiv> 32"
abbreviation kMaximumRows :: int where "kMaximumRows \<equiv> 2"

definition panel_columns :: "int \<Rightarrow> int \<Rightarrow> int" where
  "panel_columns content_width count =
     (let columns0 = min (max 1 (cdiv content_width (kMinimumItemBox + 20))) count
      in if count > columns0 * kMaximumRows then cdiv (count + kMaximumRows - 1) kMaximumRows else columns0)"

definition panel_layout :: "wlr_box \<Rightarrow> Entry list \<Rightarrow> int \<Rightarrow> switcher_panel" where
  "panel_layout screen entries index =
     (let count = int (length entries);
          maximum_width = max kMinimumItemBox (box_width screen - 2 * 70);
          content_width = max 1 (maximum_width - 2 * kBoxMargin);
          default_cell = kMinimumItemBox + 20;
          columns = panel_columns content_width count;
          cell_size = (if columns * default_cell \<le> content_width then default_cell else max 48 (cdiv content_width columns));
          rows = cdiv (count + columns - 1) columns;
          width = min (box_width screen) (columns * cell_size + 2 * kBoxMargin);
          height = min (box_height screen) (rows * cell_size + 2 * kBoxMargin)
      in \<lparr>sp_box = \<lparr>box_x = box_x screen + cdiv (box_width screen - width) 2,
            box_y = box_y screen + cdiv (box_height screen - height) 2, box_width = width, box_height = height\<rparr>,
          sp_cell = cell_size, sp_columns = columns, sp_rows = rows, sp_entries = entries, sp_index = index\<rparr>)"

definition ClearRegisteredBlur :: "AppSwitcher \<Rightarrow> AppSwitcher" where
  "ClearRegisteredBlur s = s\<lparr>as_blur := False\<rparr>"

definition EnsureBlurBuffer :: "int \<times> int \<Rightarrow> AppSwitcher \<Rightarrow> AppSwitcher" where
  "EnsureBlurBuffer dims s =
     (if as_blur_buffer s = Some dims then s else (ClearRegisteredBlur s)\<lparr>as_blur_buffer := Some dims\<rparr>)"

definition hide_panel :: "AppSwitcher \<Rightarrow> AppSwitcher" where
  "hide_panel s = ClearRegisteredBlur (s\<lparr>as_panel := None\<rparr>)"

definition switcher_UpdateView :: "(int \<Rightarrow> int \<Rightarrow> bool) \<Rightarrow> wlr_box \<Rightarrow> AppSwitcher \<Rightarrow> AppSwitcher" where
  "switcher_UpdateView renders screen s =
     (if \<not> as_active s \<or> as_entries s = [] then hide_panel s
      else if box_width screen \<le> 0 \<or> box_height screen \<le> 0 then hide_panel s
      else let panel = panel_layout screen (as_entries s) (as_current_index s);
               width = box_width (sp_box panel); height = box_height (sp_box panel)
           in if \<not> renders width height then hide_panel s
              else (EnsureBlurBuffer (width, height) s)\<lparr>as_panel := Some panel\<rparr>)"

text \<open>\<open>OnBlurNodeSample\<close>: \<open>registers\<close> is the answer of \<open>set_blur_\<close> for a new texture.\<close>

definition OnBlurNodeSample :: "bool \<Rightarrow> AppSwitcher \<Rightarrow> AppSwitcher" where
  "OnBlurNodeSample registers s =
     (if \<not> as_active s \<or> as_blur_buffer s = None then s
      else if registers then s\<lparr>as_blur := True\<rparr> else s)"

section \<open>Operations\<close>

definition switcher_Finish :: "bool \<Rightarrow> AppSwitcher \<Rightarrow> AppSwitcher" where
  "switcher_Finish activate s =
     (let selected = (if activate then selected_surface s else None);
          s1 = hide_panel (s\<lparr>as_active := False, as_current_index := -1, as_entries := []\<rparr>)
      in case selected of None \<Rightarrow> s1 | Some surface \<Rightarrow> s1\<lparr>as_activated := as_activated s1 @ [surface]\<rparr>)"

definition switcher_Cycle :: "(int \<Rightarrow> int \<Rightarrow> bool) \<Rightarrow> wlr_box \<Rightarrow> Entry list \<Rightarrow> bool \<Rightarrow> AppSwitcher \<Rightarrow> bool \<times> AppSwitcher" where
  "switcher_Cycle renders screen provided reverse s =
     (let preferred = (if as_active s then selected_surface s else None);
          s1 = RefreshEntries provided preferred s
      in if length (as_entries s1) < 2 then (False, if as_active s1 then switcher_Finish False s1 else s1)
         else (True, switcher_UpdateView renders screen (switcher_Step reverse (s1\<lparr>as_active := True\<rparr>))))"

abbreviation XKB_KEY_Escape :: keysym where "XKB_KEY_Escape \<equiv> 0xff1b"
abbreviation XKB_KEY_Return :: keysym where "XKB_KEY_Return \<equiv> 0xff0d"
abbreviation XKB_KEY_KP_Enter :: keysym where "XKB_KEY_KP_Enter \<equiv> 0xff8d"
abbreviation XKB_KEY_Alt_L :: keysym where "XKB_KEY_Alt_L \<equiv> 0xffe9"
abbreviation XKB_KEY_Alt_R :: keysym where "XKB_KEY_Alt_R \<equiv> 0xffea"

text \<open>Alt, Shift, Control, Super and Meta, left and right.\<close>

definition IsForwardedModifier :: "keysym \<Rightarrow> bool" where
  "IsForwardedModifier symbol =
     (symbol \<in> {XKB_KEY_Alt_L, XKB_KEY_Alt_R, 0xffe1, 0xffe2, 0xffe3, 0xffe4, 0xffeb, 0xffec, 0xffe7, 0xffe8})"

text \<open>\<open>symbol\<close> is \<open>None\<close> when there is no keyboard or no keymap; the first component of the result says
  that the key was consumed.\<close>

definition switcher_HandleKey :: "keysym option \<Rightarrow> bool \<Rightarrow> AppSwitcher \<Rightarrow> bool \<times> AppSwitcher" where
  "switcher_HandleKey symbol released s =
     (if \<not> as_active s then (False, s)
      else case symbol of
        None \<Rightarrow> (True, s)
      | Some symbol \<Rightarrow>
          if symbol = XKB_KEY_Tab \<or> symbol = XKB_KEY_ISO_Left_Tab then (False, s)
          else if symbol = XKB_KEY_Escape then (True, if released then switcher_Finish False s else s)
          else if symbol = XKB_KEY_Return \<or> symbol = XKB_KEY_KP_Enter then (True, if released then switcher_Finish True s else s)
          else if released \<and> (symbol = XKB_KEY_Alt_L \<or> symbol = XKB_KEY_Alt_R) then (False, switcher_Finish True s)
          else (\<not> IsForwardedModifier symbol, s))"

definition switcher_SurfaceActivated :: "nat option \<Rightarrow> AppSwitcher \<Rightarrow> AppSwitcher" where
  "switcher_SurfaceActivated surface s =
     (case surface of None \<Rightarrow> s
      | Some x \<Rightarrow> s\<lparr>as_focus_history := x # filter (\<lambda>y. y \<noteq> x) (as_focus_history s)\<rparr>)"

definition switcher_SurfaceUnavailable :: "(int \<Rightarrow> int \<Rightarrow> bool) \<Rightarrow> wlr_box \<Rightarrow> nat option \<Rightarrow> AppSwitcher \<Rightarrow> AppSwitcher" where
  "switcher_SurfaceUnavailable renders screen surface s =
     (case surface of None \<Rightarrow> s
      | Some x \<Rightarrow>
          let s1 = s\<lparr>as_focus_history := filter (\<lambda>y. y \<noteq> x) (as_focus_history s)\<rparr>
          in if \<not> as_active s1 then s1
             else let selected = selected_surface s1;
                      entries = filter (\<lambda>e. en_surface e \<noteq> Some x) (as_entries s1);
                      s2 = s1\<lparr>as_entries := entries\<rparr>
                  in if entries = [] then switcher_Finish False s2
                     else let current = index_of (\<lambda>e. en_surface e = selected) entries
                          in switcher_UpdateView renders screen
                               (s2\<lparr>as_current_index := (if current = length entries then min (as_current_index s2) (int (length entries) - 1)
                                                          else int current)\<rparr>))"

definition switcher_Cancel :: "AppSwitcher \<Rightarrow> AppSwitcher" where
  "switcher_Cancel s = (if as_active s then switcher_Finish False s else s)"

end
