(* ===== verification/Overlays.thy ===== *)
theory Overlays
  imports Workspaces App_Switcher
begin

text \<open>
  What the compositor hands to its overlays, the Alt-Tab switcher, the multitasking view and the window
  previews (the lambdas in the constructor of \<open>CompositorPrivate\<close>): the windows on offer and what
  happens to the chosen one.
\<close>

section \<open>The switcher\<close>

text \<open>The windows on offer, in the order of the compositor's list.\<close>

definition switcher_entries :: "compositor \<Rightarrow> Entry list" where
  "switcher_entries c =
     map (\<lambda>t. \<lparr>en_surface = Surface t, en_active = (focused_surface c = Surface t), en_minimized = tl_minimized t\<rparr>)
       (filter (\<lambda>t. tl_mapped t \<and> IsAlive t \<and> WantsFocus t \<and> Surface t \<noteq> None \<and> on_current c t) (toplevels c))"

definition switcher_activate :: "nat \<Rightarrow> compositor \<Rightarrow> compositor" where
  "switcher_activate surface c =
     (case ToplevelForSurface c (Some surface) of
        None \<Rightarrow> c
      | Some t \<Rightarrow>
          if \<not> tl_mapped t \<or> \<not> IsAlive t then c
          else let c1 = (if tl_minimized t
                         then upd_tl (tl_id t) (\<lambda>t. (if on_current c t then set_enabled True else id)
                                (SetMinimizedState False (t\<lparr>tl_minimized := False\<rparr>))) c
                         else c)
               in FocusToplevel (Some (tl_id t)) c1)"

section \<open>The overviews\<close>

text \<open>A window as the multitasking view sees it; the window previews leave out \<open>ov_kept_above\<close>.\<close>

record overview_entry =
  ov_surface :: "nat option"
  ov_geometry :: wlr_box
  ov_workspace :: int
  ov_active :: bool
  ov_minimized :: bool
  ov_kept_above :: bool

definition overview_entry_of :: "compositor \<Rightarrow> Toplevel \<Rightarrow> overview_entry" where
  "overview_entry_of c t =
     (let geometry = Geometry (scale_of c) t
      in \<lparr>ov_surface = Surface t,
          ov_geometry = (case tl_scene_tree t of None \<Rightarrow> geometry
            | Some n \<Rightarrow> geometry\<lparr>box_x := box_x geometry + nd_x n, box_y := box_y geometry + nd_y n\<rparr>),
          ov_workspace = tl_workspace t, ov_active = (focused_surface c = Surface t),
          ov_minimized = tl_minimized t, ov_kept_above = tl_kept_above t\<rparr>)"

definition multitasking_entries :: "compositor \<Rightarrow> overview_entry list" where
  "multitasking_entries c =
     map (overview_entry_of c) (filter (\<lambda>t. tl_mapped t \<and> IsAlive t \<and> WantsFocus t \<and> Surface t \<noteq> None) (toplevels c))"

definition previews_entries :: "compositor \<Rightarrow> overview_entry list" where
  "previews_entries c =
     map (overview_entry_of c)
       (filter (\<lambda>t. tl_mapped t \<and> IsAlive t \<and> CanManage t \<and> WantsFocus t \<and> Surface t \<noteq> None) (toplevels c))"

definition multitasking_activate :: "nat \<Rightarrow> compositor \<Rightarrow> compositor" where
  "multitasking_activate surface c =
     (case ToplevelForSurface c (Some surface) of
        None \<Rightarrow> c
      | Some t \<Rightarrow>
          if \<not> tl_mapped t \<or> \<not> IsAlive t then c
          else FocusToplevel (Some (tl_id t))
                 (upd_tl (tl_id t) (\<lambda>t. if tl_minimized t then set_enabled True (SetMinimizedState False (t\<lparr>tl_minimized := False\<rparr>)) else t)
                   (SwitchWorkspace (tl_workspace t) c)))"

definition previews_activate :: "nat \<Rightarrow> compositor \<Rightarrow> compositor" where
  "previews_activate surface c =
     (case ToplevelForSurface c (Some surface) of
        None \<Rightarrow> c
      | Some t \<Rightarrow>
          if \<not> tl_mapped t \<or> \<not> IsAlive t then c
          else FocusToplevel (Some (tl_id t))
                 (SwitchWorkspace (tl_workspace t)
                   (upd_tl (tl_id t) (\<lambda>t. if tl_minimized t then SetMinimizedState False (t\<lparr>tl_minimized := False\<rparr>) else t) c)))"

definition overview_close :: "nat \<Rightarrow> compositor \<Rightarrow> compositor" where
  "overview_close surface c =
     (case ToplevelForSurface c (Some surface) of
        None \<Rightarrow> c
      | Some t \<Rightarrow> if IsAlive t then upd_tl (tl_id t) Close c else c)"

definition overview_toggle_above :: "nat \<Rightarrow> compositor \<Rightarrow> compositor" where
  "overview_toggle_above surface c =
     (case ToplevelForSurface c (Some surface) of
        None \<Rightarrow> c
      | Some t \<Rightarrow> if IsAlive t then SetKeptAbove (tl_id t) (\<not> tl_kept_above t) c else c)"

definition overview_move :: "nat \<Rightarrow> int \<Rightarrow> compositor \<Rightarrow> bool \<times> compositor" where
  "overview_move surface workspace c =
     (case ToplevelForSurface c (Some surface) of
        None \<Rightarrow> (False, c)
      | Some t \<Rightarrow> MoveToplevelToWorkspace (tl_id t) workspace c)"

end
