(* ===== verification/Desktop_Steps.thy ===== *)
theory Desktop_Steps
  imports Desktop_Invariant Overlays
begin

text \<open>
  The events of the window manager as a step relation on compositor states, and the invariant of
  every reachable state.
\<close>

section \<open>What the events do to the view\<close>

abbreviation desktop_ok :: "compositor \<Rightarrow> bool" where
  "desktop_ok c \<equiv> wm_inv (view c)"

lemma find_tl_id: "find_tl c i = Some t \<Longrightarrow> tl_id t = i \<and> t \<in> set (toplevels c)"
  by (auto simp: find_tl_def find_Some_iff)

lemma find_tl_distinct:
  assumes "distinct (map tl_id (toplevels c))" "find_tl c i = Some t" "k \<in> set (toplevels c)" "tl_id k = i"
  shows "k = t"
  using assms find_tl_id [OF assms(2)] by (simp add: distinct_map inj_on_def)

lemma mapped_idsI:
  assumes "find_tl c i = Some t" "tl_mapped t"
  shows "i \<in> mapped_ids (view c)"
  using find_tl_id [OF assms(1)] assms(2) by (force simp: mapped_ids_def)

lemma ok_frame: "view c' = view c \<Longrightarrow> desktop_ok c \<Longrightarrow> desktop_ok c'"
  by simp

lemma SetMaximized_ok: "desktop_ok c \<Longrightarrow> desktop_ok (SetMaximized i m c)"
  using view_SetMaximized [of i m c] inv_unminimize by auto

lemma ToggleMaximized_ok: "desktop_ok c \<Longrightarrow> desktop_ok (ToggleMaximized w c)"
  by (simp add: ToggleMaximized_def SetMaximized_ok split: option.splits)

lemma TileToplevel_ok: "desktop_ok c \<Longrightarrow> desktop_ok (TileToplevel i tile c)"
  using view_TileToplevel [of i tile c] inv_unminimize by auto

lemma Minimize_ok: "desktop_ok c \<Longrightarrow> desktop_ok (Minimize w c)"
  using view_Minimize [of w c] inv_minimize by auto

lemma EndInteractive_ok: "desktop_ok c \<Longrightarrow> desktop_ok (EndInteractive c)"
  using view_EndInteractive [of c] inv_unminimize inv_reset by auto

lemma RestoreForMove_ok: "desktop_ok c \<Longrightarrow> desktop_ok (RestoreForMove i c)"
  using view_RestoreForMove [of i c] inv_unminimize by auto

lemma mapped_unminimize: "mapped_ids (on_window i unminimize v) = mapped_ids v"
  unfolding on_window_map
  by (rule keeps_node_ids) (simp add: keeps_node_def unminimize_def shown_def)

lemma mapped_RestoreForMove: "mapped_ids (view (RestoreForMove i c)) = mapped_ids (view c)"
  using view_RestoreForMove [of i c] mapped_unminimize by auto

lemma inv_grab:
  assumes "wm_inv v" "i \<in> mapped_ids v" "mode \<noteq> kPassthrough"
  shows "wm_inv (v\<lparr>dv_mode := mode, dv_grabbed := Some i\<rparr>)" (is "wm_inv ?v")
  using assms ids_cong [of ?v v]
  by (simp add: wm_inv_def base_inv_def grab_ok_def indices_ok_def vis_inv_def view_visible_def)

lemma view_begin_resize [view_frame]: "view (begin_resize i e c) = view c"
  by (simp add: begin_resize_def set_cursor_name_def Let_def view_frame view_upd_tl_same
      split: option.splits)

lemma BeginInteractive_ok:
  assumes "desktop_ok c" "mode \<noteq> kPassthrough"
  shows "desktop_ok (BeginInteractive w mode e c)"
proof (cases "Option.bind w (find_tl c)")
  case (Some t0)
  then obtain i where i: "w = Some i" "find_tl c i = Some t0" by (cases w) auto
  have id: "tl_id t0 = i" using find_tl_id [OF i(2)] by simp
  let ?c1 = "upd_tl i (\<lambda>t. t\<lparr>tl_keep_centered := False\<rparr>) (notify CTileAnimation (Cancel CTileAnimation) c)"
  have c1: "view ?c1 = view c" by (simp add: view_frame view_upd_tl_same)
  let ?grab = "\<lambda>c. c\<lparr>grabbed_toplevel := Some i, cursor_mode := mode, resize_edges := e\<rparr>"
  have grab: "view (?grab c) = (view c)\<lparr>dv_mode := mode, dv_grabbed := Some i\<rparr>" for c
    by (simp add: view_def SessionLocked_def)
  have grab_ok: "desktop_ok (?grab c2)" if "desktop_ok c2" "i \<in> mapped_ids (view c2)" for c2
    unfolding grab using that assms(2) by (rule inv_grab)
  let ?tail = "\<lambda>c. case find_tl c i of None \<Rightarrow> c
     | Some t \<Rightarrow>
         if mode = kMove then
           (case tl_scene_tree t of None \<Rightarrow> c
            | Some n \<Rightarrow> c\<lparr>grab_x := cursor_x c - of_int (nd_x n), grab_y := cursor_y c - of_int (nd_y n)\<rparr>)
         else if e = 0 \<or> tl_maximized t \<or> RequestedFullscreen t then ResetCursorMode c
         else begin_resize i e c"
  have tail: "desktop_ok (?tail c)" if "desktop_ok c" for c
    using that by (simp add: view_frame view_reset inv_reset split: option.splits)
  show ?thesis
  proof (cases "SessionLocked c \<or> \<not> tl_mapped t0 \<or> tl_scene_tree t0 = None")
    case False
    then have m: "i \<in> mapped_ids (view ?c1)" unfolding c1 using mapped_idsI [OF i(2)] by simp
    have r: "desktop_ok (RestoreForMove i ?c1)" using assms(1) c1 by (simp add: RestoreForMove_ok)
    let ?c2 = "if mode = kMove \<and> (tl_maximized t0 \<or> tl_tiled t0) then RestoreForMove i ?c1 else ?c1"
    have "BeginInteractive w mode e c = ?tail (?grab ?c2)"
      unfolding BeginInteractive_def i(1) Let_def bind.bind_lunit i(2) option.case id if_not_P [OF False] ..
    moreover have "desktop_ok (?grab ?c2)"
      using assms(1) c1 m r mapped_RestoreForMove [of i ?c1] by (intro grab_ok) simp_all
    ultimately show ?thesis using tail by simp
  qed (use assms i id in \<open>auto simp: BeginInteractive_def\<close>)
qed (use assms in \<open>simp add: BeginInteractive_def\<close>)

lemma ProcessInteractiveMotion_ok: "desktop_ok c \<Longrightarrow> desktop_ok (ProcessInteractiveMotion c)"
  by (simp add: ProcessInteractiveMotion_def Let_def view_reset inv_reset view_frame view_upd_tl_same
      split: option.splits)

lemma inv_mapped:
  assumes "wm_inv v" "view_find v i = Some x" "has_node x"
  shows "wm_inv (on_window i (\<lambda>w. refresh v (w\<lparr>vw_mapped := True\<rparr>)) v)" (is "wm_inv ?v")
proof -
  let ?f = "\<lambda>w. refresh v (w\<lparr>vw_mapped := True\<rparr>)"
  have base: "base_inv v" and vis: "vis_inv v" using assms(1) by (simp_all add: wm_inv_def)
  note b = base_inv_elims [OF base]
  have x: "x \<in> set (dv_windows v)" "vw_id x = i"
    using assms(2) by (auto simp: view_find_def find_Some_iff)
  have node: "has_node w" if "w \<in> set (dv_windows v)" "vw_id w = i" for w
  proof -
    have "w = x" using b(2) that x by (simp add: distinct_map inj_on_def)
    with assms(3) show ?thesis by simp
  qed
  have hn: "has_node (?f w) = has_node w" for w by (simp add: refresh_def)
  have ok: "window_ok (dv_count v) (w\<lparr>vw_mapped := True\<rparr>)" if "w \<in> set (dv_windows v)" "vw_id w = i" for w
    using b(5) [OF that(1)] node [OF that] by (simp add: window_ok_def)
  have "mapped_ids ?v = insert i (mapped_ids v)"
    unfolding ids_on_window [of ?f, simplified] using x by (auto simp: mapped_ids_def)
  then have "grab_ok ?v" using b(3) by (auto simp: grab_ok_def on_window_def)
  moreover have "node_ids ?v = node_ids v"
    unfolding ids_on_window [of ?f, simplified] by (auto simp: node_ids_def hn)
  moreover have "window_ok (dv_count v) w" if "w \<in> set (dv_windows ?v)" for w
    using that b(5) ok by (auto simp: on_window_def window_ok_def hn)
  moreover have "distinct (map vw_id (dv_windows ?v))"
    unfolding on_window_ids [of ?f, simplified] by (rule b(2))
  ultimately have "base_inv ?v"
    using b(1,4) by (simp add: base_inv_def indices_ok_def on_window_def)
  moreover have "vis_inv ?v"
    using vis by (rule vis_on_window) (rule refresh_ok [OF ok])
  ultimately show ?thesis by (simp add: wm_inv_def)
qed

lemma OnMap_ok:
  assumes "desktop_ok c" "find_tl c i = Some t" "tl_scene_tree t \<noteq> None"
  shows "desktop_ok (OnMap i c)"
proof -
  let ?f = "\<lambda>t. refresh_enabled c (t\<lparr>tl_mapped := True\<rparr>)"
  have "window_view (?f t) = refresh (view c) ((window_view t)\<lparr>vw_mapped := True\<rparr>)" for t
    unfolding window_view_refresh by (simp add: window_view_def IsAlive_def Surface_def)
  note upd = view_upd_tl [of ?f, OF this, of i]
  have "desktop_ok (upd_tl i ?f c)"
    unfolding upd using assms(1)
    by (rule inv_mapped [where x = "window_view t"]) (use assms in \<open>auto simp: find_view has_node_def\<close>)
  then have ok: "desktop_ok (notify CProtocol cl (upd_tl i ?f c))" for cl by (simp add: view_frame)
  with SetMaximized_ok [OF ok] show ?thesis
    by (simp add: OnMap_def assms Let_def view_frame view_upd_tl_same)
qed

lemma view_forget_menu:
  "view (forget_menu i c) = (if dv_menu (view c) = Some i then (view c)\<lparr>dv_menu := None\<rparr> else view c)"
  by (simp add: forget_menu_def view_def SessionLocked_def)

lemma view_surface_unavailable [view_frame]: "view (surface_unavailable s i c) = view c"
  by (simp add: surface_unavailable_def view_frame)

lemma view_OnUnmap:
  assumes Some: "find_tl c i = Some t"
  shows "view (OnUnmap i c) = view_unmap i (view c)"
proof -
  have "window_view (t\<lparr>tl_mapped := False\<rparr>) = (window_view t)\<lparr>vw_mapped := False\<rparr>" for t
    by (simp add: window_view_def IsAlive_def Surface_def)
  note upd = view_upd_tl [of "\<lambda>t. t\<lparr>tl_mapped := False\<rparr>", OF this, of i]
  let ?drop = "\<lambda>c1. UpdateCsdShadow i (upd_tl i (\<lambda>t. t\<lparr>tl_mapped := False\<rparr>)
      (forget_menu i (surface_unavailable (Surface t) i c1)))"
  have "view (let c4 = notify CProtocol (UnmapToplevel (Surface t)) (?drop c1)
      in if grabbed_toplevel c4 = Some i then ResetCursorMode c4 else c4) = view_unmap i (view c)"
    if c1: "view c1 = view c" for c1
  proof -
    have "view (?drop c1) = (if dv_menu (view c) = Some i
        then (on_window i (\<lambda>w. w\<lparr>vw_mapped := False\<rparr>) (view c))\<lparr>dv_menu := None\<rparr>
        else on_window i (\<lambda>w. w\<lparr>vw_mapped := False\<rparr>) (view c))" (is "_ = ?v")
      by (simp add: view_frame upd view_forget_menu c1 on_window_def)
    then have "view (notify CProtocol (UnmapToplevel (Surface t)) (?drop c1)) = ?v" (is "view ?c4 = _")
      by (simp add: view_frame)
    moreover have "grabbed_toplevel ?c4 = dv_grabbed (view ?c4)" by simp
    ultimately show ?thesis
      unfolding Let_def view_unmap_def drop_refs_def by (simp add: view_reset on_window_def)
  qed
  note unmapped = this [of "if IsXWayland t then SetActivated i False c else c"]
  have focus: "view (if P then FocusNextToplevel w c' else c') = view c'" for P w c'
    by (simp add: view_frame)
  show ?thesis
    unfolding OnUnmap_def Some option.case Let_def focus
    by (rule unmapped [unfolded Let_def]) (simp add: view_frame)
qed

lemma OnUnmap_ok: "desktop_ok c \<Longrightarrow> desktop_ok (OnUnmap i c)"
  by (cases "find_tl c i") (simp_all add: view_OnUnmap inv_unmap, simp add: OnUnmap_def)

lemma view_OnCommit [view_frame]: "view (OnCommit i c) = view c"
  by (simp add: OnCommit_def Let_def view_frame view_upd_tl_same split: option.splits)

lemma view_requests [view_frame]:
  "view (OnRequestFullscreen i c) = view c"
  "view (OnSetTitle i c) = view c"
  "view (OnSetAppId i c) = view c"
  by (simp_all add: OnRequestFullscreen_def OnSetTitle_def OnSetAppId_def view_frame view_upd_tl_same
      split: option.splits)

lemma ShowWindowMenu_ok: "desktop_ok c \<Longrightarrow> desktop_ok (snd (ShowWindowMenu w x y c))"
  by (simp add: ShowWindowMenu_def Let_def view_frame view_reset inv_reset split: option.splits)

lemma requests_ok:
  assumes "desktop_ok c"
  shows "desktop_ok (OnRequestMaximize i c)" "desktop_ok (OnRequestMinimize i c)"
    "desktop_ok (OnRequestMove i c)" "desktop_ok (OnRequestResize i e c)"
    "desktop_ok (OnRequestShowWindowMenu i ex ey c)" "desktop_ok (OnSetParent i c)"
proof -
  let ?csd = "\<lambda>c. UpdateCsdShadow i c"
  show "desktop_ok (OnRequestMaximize i c)" "desktop_ok (OnRequestMinimize i c)"
    using assms by (simp_all add: OnRequestMaximize_def OnRequestMinimize_def SetMaximized_ok Minimize_ok
        split: option.splits)
  show "desktop_ok (OnRequestMove i c)" "desktop_ok (OnRequestResize i e c)"
    using assms by (simp_all add: OnRequestMove_def OnRequestResize_def BeginInteractive_ok)
  show "desktop_ok (OnRequestShowWindowMenu i ex ey c)"
    using assms by (simp add: OnRequestShowWindowMenu_def Let_def ShowWindowMenu_ok split: option.splits)
  show "desktop_ok (OnSetParent i c)"
    using assms by (simp add: OnSetParent_def Let_def view_frame view_upd_tl_same SetMaximized_ok
        split: option.splits)
qed

lemma view_OnDestroy:
  assumes Some: "find_tl c i = Some t"
  shows "view (OnDestroy i c) = view_gone True i (view c)"
proof -
  let ?f = "\<lambda>t. t\<lparr>tl_ssd := None, tl_csd_shadow := None, tl_handle := None, tl_scene_tree := None, tl_mapped := False\<rparr>"
  have "window_view (?f t) = gone True (window_view t)" for t
    by (simp add: window_view_def IsAlive_def Surface_def gone_def)
  note upd = view_upd_tl [of ?f, OF this, of i]
  have stack: "view (c\<lparr>no_titlebar_surfaces := ns, tl_stack := erase_if (\<lambda>j. j = i) (tl_stack c)\<rparr>) =
      (view c)\<lparr>dv_stack := dv_stack (view c) - {i}\<rparr>" for c ns
    by (auto simp: view_def SessionLocked_def erase_if_def)
  let ?c1 = "forget_menu i (surface_unavailable (Surface t) i c)"
  have c1: "view ?c1 = (if dv_menu (view c) = Some i then (view c)\<lparr>dv_menu := None\<rparr> else view c)"
    by (simp add: view_forget_menu view_frame)
  have "grabbed_toplevel ?c1 = dv_grabbed (view ?c1)" by simp
  then have "view (if grabbed_toplevel ?c1 = Some i then ResetCursorMode ?c1 else ?c1) = drop_refs i (view c)"
    unfolding drop_refs_def Let_def c1 by (simp add: c1 view_reset)
  then show ?thesis
    by (simp add: OnDestroy_def Some Let_def upd stack view_frame)
       (simp add: view_gone_def drop_refs_def reset_grab_def Let_def on_window_def)
qed

lemma OnDestroy_ok: "desktop_ok c \<Longrightarrow> desktop_ok (OnDestroy i c)"
  by (cases "find_tl c i") (simp_all add: view_OnDestroy inv_gone, simp add: OnDestroy_def)

lemma inv_append:
  assumes "wm_inv v" "vw_id x \<notin> vw_id ` set (dv_windows v)" "\<not> vw_mapped x" "vw_alive x"
    "0 \<le> vw_workspace x" "vw_workspace x < dv_count v"
  shows "wm_inv (view_append x v)" (is "wm_inv ?v")
proof -
  have base: "base_inv v" and vis: "vis_inv v" using assms(1) by (simp_all add: wm_inv_def)
  note b = base_inv_elims [OF base]
  have m: "mapped_ids ?v = mapped_ids v" using assms(3) by (auto simp: mapped_ids_def view_append_def)
  have n: "dv_stack ?v = node_ids ?v" using b(4) by (auto simp: node_ids_def view_append_def)
  have "indices_ok ?v" using b(1) by (simp add: indices_ok_def view_append_def)
  moreover have "grab_ok ?v" using b(3) m by (simp add: grab_ok_def) (simp add: view_append_def)
  moreover have "distinct (map vw_id (dv_windows ?v))" using b(2) assms(2) by (simp add: view_append_def)
  moreover have "\<forall>w\<in>set (dv_windows ?v). window_ok (dv_count ?v) w"
    using b(5) assms(3-6) by (auto simp: view_append_def window_ok_def)
  ultimately have "base_inv ?v" using n by (simp add: base_inv_def)
  moreover have "vis_inv ?v" using vis assms(3) by (auto simp: vis_inv_def view_append_def view_visible_def)
  ultimately show ?thesis by (simp add: wm_inv_def)
qed

definition fresh :: "nat \<Rightarrow> compositor \<Rightarrow> bool" where
  "fresh i c = (i \<notin> tl_id ` set (toplevels c))"

lemma view_OnNewToplevel:
  "view (OnNewToplevel i h c) =
     view_append (window_view ((new_Toplevel i False h (current_workspace c))\<lparr>tl_scene_tree := Some new_node\<rparr>)) (view c)"
  (is "_ = view_append (window_view ?t) (view c)")
proof -
  have "view (c\<lparr>toplevels := toplevels c @ [?t], tl_stack := tl_stack c @ [i]\<rparr>) =
      view_append (window_view ?t) (view c)"
    by (simp add: view_def view_append_def SessionLocked_def has_node_def)
       (simp add: new_Toplevel_def window_view_def)
  then show ?thesis by (simp add: OnNewToplevel_def view_frame)
qed

lemma OnNewToplevel_ok:
  assumes "desktop_ok c" "fresh i c"
  shows "desktop_ok (OnNewToplevel i h c)"
  unfolding view_OnNewToplevel
  by (rule inv_append [OF assms(1)])
     (use assms in \<open>auto simp: new_Toplevel_def IsAlive_def fresh_def wm_inv_def base_inv_def indices_ok_def\<close>)

lemma view_find_stack [simp]: "view_find (v\<lparr>dv_stack := S\<rparr>) i = view_find v i"
  by (simp add: view_find_def)

lemma view_find_on_window:
  assumes "\<And>w. vw_id (f w) = vw_id w"
  shows "view_find (on_window i f v) i = map_option f (view_find v i)"
proof -
  have "find (\<lambda>w. vw_id w = i) (map (\<lambda>w. if vw_id w = i then f w else w) ws) =
      map_option f (find (\<lambda>w. vw_id w = i) ws)" for ws
    by (induction ws) (auto simp: assms)
  then show ?thesis by (simp add: view_find_def on_window_def)
qed

lemma inv_attach:
  assumes "wm_inv v" "view_find v i = Some x" "vw_alive x" "\<not> vw_mapped x"
  shows "wm_inv (view_attach i v)" (is "wm_inv ?v")
proof -
  let ?f = "\<lambda>w. w\<lparr>vw_enabled := Some True\<rparr>"
  have base: "base_inv v" and vis: "vis_inv v" using assms(1) by (simp_all add: wm_inv_def)
  note b = base_inv_elims [OF base]
  have x: "x \<in> set (dv_windows v)" "vw_id x = i"
    using assms(2) by (auto simp: view_find_def find_Some_iff)
  have one: "w = x" if "w \<in> set (dv_windows v)" "vw_id w = i" for w
    using b(2) that x by (simp add: distinct_map inj_on_def)
  have "mapped_ids (on_window i ?f v) = mapped_ids v"
    unfolding ids_on_window [of ?f, simplified] by (auto simp: mapped_ids_def)
  then have "grab_ok ?v"
    using b(3) by (simp add: grab_ok_def view_attach_def mapped_ids_def) (simp add: on_window_def)
  moreover have "node_ids (on_window i ?f v) = insert i (node_ids v)"
    unfolding ids_on_window [of ?f, simplified] using x by (auto simp: node_ids_def has_node_def)
  then have "dv_stack ?v = node_ids ?v" using b(4) by (simp add: view_attach_def node_ids_def)
  moreover have "window_ok (dv_count v) w" if "w \<in> set (dv_windows (on_window i ?f v))" for w
    using that b(5) one assms(3,4) by (auto simp: on_window_def window_ok_def has_node_def)
  moreover have "distinct (map vw_id (dv_windows (on_window i ?f v)))"
    unfolding on_window_ids [of ?f, simplified] by (rule b(2))
  ultimately have "base_inv ?v"
    using b(1) by (simp add: base_inv_def view_attach_def indices_ok_def) (simp add: on_window_def)
  moreover have "vis_inv (on_window i ?f v)"
    using vis by (rule vis_on_window) (use one assms(4) in \<open>auto simp: view_visible_def\<close>)
  then have "vis_inv ?v" by (simp add: vis_inv_def view_attach_def view_visible_def)
  ultimately show ?thesis by (simp add: wm_inv_def)
qed

lemma OnAssociate_ok:
  assumes "desktop_ok c"
  shows "desktop_ok (OnAssociate i surface_mapped c)"
proof (cases "find_tl c i")
  case (Some t)
  show ?thesis
  proof (cases "tl_handle t")
    case (Some h)
    let ?n = "new_node\<lparr>nd_x := FromX (scale_of c) (box_x (cl_geometry h)),
      nd_y := FromX (scale_of c) (box_y (cl_geometry h))\<rparr>"
    let ?c0 = "c\<lparr>tl_stack := tl_stack c @ [i]\<rparr>"
    let ?c1 = "RebuildSurfaceClip i (upd_tl i (\<lambda>t. t\<lparr>tl_scene_tree := Some ?n\<rparr>) ?c0)"
    have c0: "view ?c0 = (view c)\<lparr>dv_stack := insert i (dv_stack (view c))\<rparr>"
      by (simp add: view_def SessionLocked_def)
    have "window_view (t\<lparr>tl_scene_tree := Some ?n\<rparr>) = (window_view t)\<lparr>vw_enabled := Some True\<rparr>" for t
      by (simp add: window_view_def IsAlive_def Surface_def new_node_def)
    note upd = view_upd_tl [of "\<lambda>t. t\<lparr>tl_scene_tree := Some ?n\<rparr>", OF this, of i]
    have c1: "view ?c1 = view_attach i (view c)"
      by (simp add: view_frame upd c0 view_attach_def on_window_def)
    have ok: "desktop_ok ?c1" if "tl_scene_tree t = None"
      unfolding c1 using assms
    proof (rule inv_attach [where x = "window_view t"])
      have "window_ok (workspace_count c) (window_view t)"
        using assms find_tl_id [OF \<open>find_tl c i = Some t\<close>] by (simp add: wm_inv_def base_inv_def)
      then show "\<not> vw_mapped (window_view t)" using that by (simp add: window_ok_def has_node_def)
    qed (use Some \<open>find_tl c i = Some t\<close> in \<open>simp_all add: find_view IsAlive_def\<close>)
    have "view_find (view ?c1) i = Some ((window_view t)\<lparr>vw_enabled := Some True\<rparr>)"
      unfolding c1 view_attach_def using \<open>find_tl c i = Some t\<close>
      by (simp add: view_find_on_window [of "\<lambda>w. w\<lparr>vw_enabled := Some True\<rparr>"] find_view)
    then obtain t1 where t1: "find_tl ?c1 i = Some t1" "window_view t1 = (window_view t)\<lparr>vw_enabled := Some True\<rparr>"
      using find_view [of ?c1 i] by auto
    have "vw_enabled (window_view t1) = Some True" unfolding t1(2) by simp
    then have "tl_scene_tree t1 \<noteq> None" by auto
    with t1(1) ok \<open>find_tl c i = Some t\<close> Some assms show ?thesis
      by (simp add: OnAssociate_def Let_def OnMap_ok)
  qed (use assms Some in \<open>simp add: OnAssociate_def\<close>)
qed (use assms in \<open>simp add: OnAssociate_def\<close>)

lemma xw_OnNewSurface_ok:
  assumes "desktop_ok c" "fresh i c"
  shows "desktop_ok (xw_OnNewSurface i h surface_mapped c)"
proof -
  let ?t = "new_Toplevel i True h (current_workspace c)"
  have "view (c\<lparr>toplevels := toplevels c @ [?t]\<rparr>) = view_append (window_view ?t) (view c)"
    by (simp add: view_def view_append_def SessionLocked_def has_node_def)
       (simp add: new_Toplevel_def)
  moreover have "wm_inv (view_append (window_view ?t) (view c))"
    by (rule inv_append [OF assms(1)])
       (use assms in \<open>auto simp: new_Toplevel_def IsAlive_def fresh_def wm_inv_def base_inv_def indices_ok_def\<close>)
  ultimately show ?thesis by (simp add: xw_OnNewSurface_def OnAssociate_ok)
qed

lemma inv_unmapped_gone:
  assumes "wm_inv v" "\<And>w. w \<in> set (dv_windows v) \<Longrightarrow> vw_id w = i \<Longrightarrow> \<not> vw_mapped w"
  shows "wm_inv ((on_window i (gone dead) v)\<lparr>dv_stack := dv_stack v - {i}\<rparr>)"
proof -
  have "i \<notin> mapped_ids v" using assms(2) by (auto simp: mapped_ids_def)
  moreover have "grab_ok v" using assms(1) by (simp add: wm_inv_def base_inv_def)
  ultimately have "dv_menu v \<noteq> Some i" "dv_grabbed v \<noteq> Some i" by (auto simp: grab_ok_def)
  then have "drop_refs i (on_window i (gone dead) v) = on_window i (gone dead) v"
    by (simp add: drop_refs_def on_window_def)
  with inv_gone [OF assms(1), of dead i] show ?thesis by (simp add: view_gone_def)
qed

lemma find_tl_unmapped:
  assumes "desktop_ok c" "find_tl c i = Some t" "\<not> tl_mapped t" "w \<in> set (dv_windows (view c))" "vw_id w = i"
  shows "\<not> vw_mapped w"
proof -
  have "distinct (map tl_id (toplevels c))"
    using assms(1) by (simp add: wm_inv_def base_inv_def comp_def)
  then show ?thesis using assms(2-5) find_tl_distinct [of c i t] by auto
qed

lemma find_tl_view:
  assumes "view c' = view c" "find_tl c i = Some t"
  obtains t' where "find_tl c' i = Some t'" "window_view t' = window_view t"
  using assms find_view [of c' i] find_view [of c i] by (cases "find_tl c' i") auto

lemma view_unmap_unmapped:
  assumes "w \<in> set (dv_windows (view_unmap i v))" "vw_id w = i"
  shows "\<not> vw_mapped w"
proof -
  from assms(1) obtain x where "w = (if vw_id x = i then x\<lparr>vw_mapped := False\<rparr> else x)"
    by (auto simp: view_unmap_def on_window_map simp del: if_image_distrib)
  with assms(2) show ?thesis by (simp split: if_splits)
qed

lemma Dissociate_ok:
  assumes "desktop_ok c"
  shows "desktop_ok (Dissociate i c)"
proof (cases "find_tl c i")
  case (Some t)
  let ?c1 = "ClearSurfaceRoundCorner c (Surface t)"
  let ?c2 = "if tl_mapped t then OnUnmap i ?c1 else ?c1"
  let ?f = "\<lambda>t. t\<lparr>tl_scene_tree := None, tl_mapped := False\<rparr>"
  let ?s = "\<lambda>c2. c2\<lparr>tl_stack := (if tl_scene_tree t = None then tl_stack c2 else erase_if (\<lambda>j. j = i) (tl_stack c2))\<rparr>"
  have c1: "view ?c1 = view c" by (simp add: view_frame)
  obtain t1 where t1: "find_tl ?c1 i = Some t1" by (rule find_tl_view [OF c1 Some])
  have um: "view (OnUnmap i ?c1) = view_unmap i (view c)" using view_OnUnmap [OF t1] c1 by simp
  have c2: "view ?c2 = (if tl_mapped t then view_unmap i (view c) else view c)"
    unfolding if_distrib [of view] um c1 ..
  have stack2: "dv_stack (view ?c2) = dv_stack (view c)"
    unfolding c2 by (simp add: view_unmap_def) (simp add: on_window_def)
  have unmapped: "\<not> vw_mapped w" if w: "w \<in> set (dv_windows (view ?c2))" "vw_id w = i" for w
  proof (cases "tl_mapped t")
    case True
    from w(1) have "w \<in> set (dv_windows (view_unmap i (view c)))" unfolding trans [OF c2 if_P [OF True]] .
    then show ?thesis using w(2) by (rule view_unmap_unmapped)
  next
    case False
    from w(1) have "w \<in> set (dv_windows (view c))" unfolding trans [OF c2 if_not_P [OF False]] .
    then show ?thesis using w(2) by (rule find_tl_unmapped [OF assms Some False])
  qed
  have nodeless: "i \<notin> dv_stack (view c)" if "tl_scene_tree t = None"
  proof
    assume "i \<in> dv_stack (view c)"
    then have "i \<in> node_ids (view c)" using assms by (simp add: wm_inv_def base_inv_def)
    then obtain k where k: "k \<in> set (toplevels c)" "tl_id k = i" "tl_scene_tree k \<noteq> None"
      by (auto simp: node_ids_def has_node_def)
    have "distinct (map tl_id (toplevels c))"
      using assms by (simp add: wm_inv_def base_inv_def comp_def)
    then have "k = t" by (rule find_tl_distinct [OF _ Some k(1,2)])
    with k(3) that show False by simp
  qed
  have "window_view (?f t) = gone False (window_view t)" for t
    by (simp add: window_view_def IsAlive_def Surface_def gone_def)
  note upd = view_upd_tl [of ?f, OF this, of i]
  have "view (?s ?c2) = (view ?c2)\<lparr>dv_stack := dv_stack (view ?c2) - {i}\<rparr>"
    using nodeless unfolding stack2
    by (cases "tl_scene_tree t") (auto simp: view_def SessionLocked_def erase_if_def stack2 [simplified])
  then have "view (Dissociate i c) = (on_window i (gone False) (view ?c2))\<lparr>dv_stack := dv_stack (view ?c2) - {i}\<rparr>"
    by (simp add: Dissociate_def Some Let_def upd on_window_def)
  moreover have ok: "desktop_ok ?c2" using assms c1 by (simp add: OnUnmap_ok)
  note gone = inv_unmapped_gone [OF ok unmapped, where dead = False]
  ultimately show ?thesis using gone by simp
qed (use assms in \<open>simp add: Dissociate_def\<close>)

lemma find_tl_upd:
  assumes "\<And>t. tl_id (f t) = tl_id t"
  shows "find_tl (upd_tl i f c) i = map_option f (find_tl c i)"
proof -
  have "find (\<lambda>t. tl_id t = i) (map (\<lambda>t. if tl_id t = i then f t else t) ts) =
      map_option f (find (\<lambda>t. tl_id t = i) ts)" for ts
    by (induction ts) (auto simp: assms)
  then show ?thesis by (simp add: find_tl_def upd_tl_def)
qed

lemma x_OnDestroy_ok:
  assumes "desktop_ok c"
  shows "desktop_ok (x_OnDestroy i c)"
proof -
  let ?c1 = "SetActivated i False (Dissociate i c)"
  let ?f = "\<lambda>t. t\<lparr>tl_handle := None\<rparr>"
  let ?g = "\<lambda>w. w\<lparr>vw_alive := False, vw_surface := None\<rparr>"
  have ok: "desktop_ok ?c1" using assms by (simp add: Dissociate_ok view_frame)
  have "window_view (?f t) = ?g (window_view t)" for t
    by (simp add: window_view_def IsAlive_def Surface_def)
  note upd = view_upd_tl [of ?f, OF this, of i]
  show ?thesis
  proof (cases "find_tl ?c1 i")
    case None
    then have "find_tl (upd_tl i ?f ?c1) i = None" by (simp add: find_tl_upd)
    moreover have "upd_tl i ?f ?c1 = ?c1"
    proof -
      have "map (\<lambda>t. if tl_id t = i then ?f t else t) (toplevels ?c1) = toplevels ?c1"
        using None by (intro map_idI) (auto simp: find_tl_def find_None_iff)
      then show ?thesis by (simp add: upd_tl_def)
    qed
    ultimately show ?thesis using ok by (simp add: x_OnDestroy_def OnDestroy_def)
  next
    case (Some t)
    then have "find_tl (upd_tl i ?f ?c1) i = Some (?f t)" by (simp add: find_tl_upd)
    note destroyed = view_OnDestroy [OF this, unfolded upd]
    have "view_gone True i (on_window i ?g v) = view_gone True i v" for v
      by (simp add: view_gone_def drop_refs_def reset_grab_def Let_def on_window_def gone_def comp_def if_distrib
          cong: if_cong)
    then show ?thesis using inv_gone [OF ok, of True i] by (simp add: x_OnDestroy_def destroyed)
  qed
qed

lemma view_x_requests [view_frame]:
  "view (x_OnRequestConfigure i event c) = view c"
  "view (x_OnSetGeometry i c) = view c"
  "view (x_OnRequestActivate i c) = view c"
  by (simp_all add: x_OnRequestConfigure_def x_OnSetGeometry_def x_OnRequestActivate_def view_frame
      view_upd_tl_same split: option.splits)

lemma x_OnRequestMinimize_ok:
  assumes "desktop_ok c"
  shows "desktop_ok (x_OnRequestMinimize i m c)"
proof -
  let ?f = "\<lambda>t. set_enabled True (SetMinimizedState False (t\<lparr>tl_minimized := False\<rparr>))"
  have "window_view (?f t) = shown (window_view t)" for t
    by (simp add: window_view_enabled view_frame shown_def enable_def)
       (simp add: window_view_def IsAlive_def Surface_def SetMinimizedState_def on_handle_def)
  note upd = view_upd_tl [of ?f, OF this, of i]
  from assms inv_shown [OF assms] show ?thesis
    by (simp add: x_OnRequestMinimize_def Let_def Minimize_ok view_frame upd split: option.splits)
qed

text \<open>The overlays' callbacks: the switcher shows the chosen window only on the current workspace, and the
  window previews leave showing it to the end of the overview.\<close>

lemma window_view_restored:
  "window_view (SetMinimizedState False (t\<lparr>tl_minimized := False\<rparr>)) = (window_view t)\<lparr>vw_minimized := False\<rparr>"
  by (simp add: view_frame) (simp add: window_view_def IsAlive_def Surface_def)

lemma switcher_activate_ok:
  assumes "desktop_ok c"
  shows "desktop_ok (switcher_activate s c)"
proof -
  let ?cur = "current_workspace c"
  let ?f = "\<lambda>t. (if on_current c t then set_enabled True else id) (SetMinimizedState False (t\<lparr>tl_minimized := False\<rparr>))"
  let ?g = "\<lambda>w. if vw_all_workspaces w \<or> vw_workspace w = ?cur then shown w else w\<lparr>vw_minimized := False\<rparr>"
  have "window_view (?f t) = ?g (window_view t)" for t
    by (simp add: window_view_enabled window_view_restored shown_def enable_def on_current_def)
  note upd = view_upd_tl [of ?f, OF this]
  have "wm_inv (on_window i ?g (view c))" for i
    using assms by (rule inv_keep)
      (auto simp: shown_def keeps_node_def enable_def has_node_def view_visible_def view_def)
  with assms upd show ?thesis by (simp add: switcher_activate_def Let_def view_frame split: option.splits)
qed

lemma multitasking_activate_ok:
  assumes "desktop_ok c"
  shows "desktop_ok (multitasking_activate s c)"
proof -
  let ?f = "\<lambda>t. if tl_minimized t then set_enabled True (SetMinimizedState False (t\<lparr>tl_minimized := False\<rparr>)) else t"
  have "window_view (?f t) = unminimize (window_view t)" for t
    by (simp add: window_view_enabled window_view_restored unminimize_def shown_def enable_def)
  note upd = view_upd_tl [of ?f, OF this]
  have "desktop_ok (SwitchWorkspace n c)" for n using assms by (simp add: view_SwitchWorkspace inv_switch)
  with assms show ?thesis
    by (simp add: multitasking_activate_def view_frame upd inv_unminimize split: option.splits)
qed

lemma previews_activate_ok:
  assumes "desktop_ok c" "window_previews_sources_hidden c"
  shows "desktop_ok (previews_activate s c)"
proof -
  let ?f = "\<lambda>t. if tl_minimized t then SetMinimizedState False (t\<lparr>tl_minimized := False\<rparr>) else t"
  let ?g = "\<lambda>w. w\<lparr>vw_minimized := False\<rparr>"
  have "window_view (?f t) = ?g (window_view t)" for t
    by (simp add: window_view_restored)
  note upd = view_upd_tl [of ?f, OF this]
  have "wm_inv (on_window i ?g (view c))" for i
    using assms(1) by (rule inv_keep) (use assms(2) in \<open>auto simp: keeps_node_def has_node_def view_visible_def view_def\<close>)
  with assms show ?thesis
    by (simp add: previews_activate_def view_frame view_SwitchWorkspace upd inv_switch split: option.splits)
qed

lemma overview_operations [view_frame]:
  "view (overview_close s c) = view c"
  "view (overview_toggle_above s c) = view c"
  by (simp_all add: overview_close_def overview_toggle_above_def view_frame view_upd_tl_same split: option.splits)

lemma view_UpdateScale [view_frame]: "view (UpdateScale c) = view c"
proof -
  have "view (c\<lparr>xwayland := x, toplevels := map f (toplevels c)\<rparr>) = view c"
    if "\<And>t. window_view (f t) = window_view t" for x f
    using view_toplevels_map [of f "c\<lparr>xwayland := x\<rparr>", OF that] by (simp add: view_frame)
  then show ?thesis by (simp add: UpdateScale_def Let_def view_frame split: option.splits)
qed

section \<open>Layer surfaces, outputs and decorations\<close>

lemma view_upd_layer [view_frame]: "view (upd_layer i f c) = view c"
  by (simp add: upd_layer_def view_frame)

lemma view_layers [view_frame]:
  "view (layer_OnMap i c) = view c"
  "view (layer_OnUnmap i c) = view c"
  "view (layer_OnCommit i c) = view c"
  "view (layer_OnDestroy i c) = view c"
  "view (OnNewLayerSurface i lh c) = view c"
proof -
  have f: "view (focus_if_exclusive i c) = view c" for c
    by (simp add: focus_if_exclusive_def view_frame split: option.splits)
  show "view (layer_OnMap i c) = view c" "view (layer_OnUnmap i c) = view c"
    "view (layer_OnDestroy i c) = view c" "view (OnNewLayerSurface i lh c) = view c"
    by (simp_all add: layer_OnMap_def layer_OnUnmap_def layer_OnDestroy_def OnNewLayerSurface_def Let_def
        view_frame f split: option.splits)
  show "view (layer_OnCommit i c) = view c"
    by (simp add: layer_OnCommit_def Let_def view_frame f split: option.splits)
qed

lemma view_commit_state: "wlr_output_commit_state accepted k rq c = (b, c') \<Longrightarrow> view c' = view c"
  by (auto simp: wlr_output_commit_state_def Let_def view_frame split: if_splits)

lemma view_outputs [view_frame]:
  "view (UpdateQtFrameInterval c) = view c"
  "view (upd_output n g c) = view c"
  "view (ApplyDeferredMode accepted n c) = view c"
  "view (OnRequestState accepted n rq c) = view c"
proof -
  show q: "view (UpdateQtFrameInterval c) = view c" for c
    by (simp add: UpdateQtFrameInterval_def Let_def view_frame)
  show u: "view (upd_output n g c) = view c" for n g c
    by (simp add: upd_output_def view_frame)
  show "view (ApplyDeferredMode accepted n c) = view c"
    by (simp add: ApplyDeferredMode_def Let_def view_frame q u view_commit_state
        split: option.splits prod.splits)
  show "view (OnRequestState accepted n rq c) = view c"
    by (simp add: OnRequestState_def Let_def view_frame q u view_commit_state
        split: option.splits prod.splits mode_request.splits bool.splits)
qed

lemma view_hotplug [view_frame]:
  "view (OnFrame accepted n rqs c) = view c"
  "view (OnNewOutput r accepted k modes c) = view c"
  "view (wlr_layer_surface_v1_destroy i c) = view c"
  "view (Output_OnDestroy n c) = view c"
proof -
  show "view (OnFrame accepted n rqs c) = view c"
    by (simp add: OnFrame_def Let_def view_frame view_fold split: prod.splits)
  show "view (OnNewOutput r accepted k modes c) = view c"
    by (simp add: OnNewOutput_def Let_def view_frame view_commit_state split: prod.splits)
  show d: "view (wlr_layer_surface_v1_destroy i c) = view c" for i c
    by (simp add: wlr_layer_surface_v1_destroy_def view_frame split: option.splits)
  show "view (Output_OnDestroy n c) = view c"
    by (simp add: Output_OnDestroy_def Let_def view_frame view_fold [of wlr_layer_surface_v1_destroy, OF d])
qed

lemma view_ApplyMode: "ApplyMode dec c = (dec', c') \<Longrightarrow> view c' = view c"
  by (auto simp: ApplyMode_def Let_def view_frame split: option.splits if_splits)

end
