(* ===== verification/Desktop_Reachable.thy ===== *)
theory Desktop_Reachable
  imports Desktop_Steps
begin

text \<open>
  The events of the window manager as a step relation with one rule per handler, and what holds
  in every state reachable from the start. A rule's condition is what the sender of the event
  guarantees: a new window has a new identity, a window is mapped while it has a scene node, a
  client's own changes keep its surface.
\<close>

section \<open>Steps\<close>

inductive wm_step :: "compositor \<Rightarrow> compositor \<Rightarrow> bool" where
  Switch: "wm_step c (SwitchWorkspace n c)"
| Move: "wm_step c (snd (MoveToplevelToWorkspace i n c))"
| Add: "wm_step c (snd (AddWorkspace c))"
| Remove: "wm_step c (snd (RemoveWorkspace n c))"
| Reorder: "wm_step c (snd (ReorderWorkspace n m c))"
| KeptAbove: "wm_step c (SetKeptAbove i b c)"
| AllWorkspaces: "wm_step c (SetAllWorkspaces i b c)"
| HideMultitasking: "wm_step c (SetMultitaskingSourcesHidden b c)"
| HidePreviews: "wm_step c (SetWindowPreviewsSourcesHidden b c)"
| MinimizeWindow: "wm_step c (Minimize w c)"
| Maximize: "wm_step c (SetMaximized i b c)"
| ToggleMaximize: "wm_step c (ToggleMaximized w c)"
| TileWindow: "wm_step c (TileToplevel i tile c)"
| Focus: "wm_step c (FocusToplevel w c)"
| FocusNext: "wm_step c (FocusNextToplevel w c)"
| New: "fresh i c \<Longrightarrow> wm_step c (OnNewToplevel i h c)"
| Map: "find_tl c i = Some t \<Longrightarrow> tl_scene_tree t \<noteq> None \<Longrightarrow> wm_step c (OnMap i c)"
| Unmap: "wm_step c (OnUnmap i c)"
| Commit: "wm_step c (OnCommit i c)"
| Client: "(\<And>h. cl_surface (f h) = cl_surface h) \<Longrightarrow> wm_step c (upd_tl i (on_handle f) c)"
| RequestMaximize: "wm_step c (OnRequestMaximize i c)"
| RequestMinimize: "wm_step c (OnRequestMinimize i c)"
| RequestFullscreen: "wm_step c (OnRequestFullscreen i c)"
| RequestMove: "wm_step c (OnRequestMove i c)"
| RequestResize: "wm_step c (OnRequestResize i e c)"
| RequestMenu: "wm_step c (OnRequestShowWindowMenu i ex ey c)"
| ShowMenu: "wm_step c (snd (ShowWindowMenu w x y c))"
| SetTitle: "wm_step c (OnSetTitle i c)"
| SetAppId: "wm_step c (OnSetAppId i c)"
| SetParent: "wm_step c (OnSetParent i c)"
| Destroy: "wm_step c (OnDestroy i c)"
| XNew: "fresh i c \<Longrightarrow> wm_step c (xw_OnNewSurface i h b c)"
| XAssociate: "wm_step c (OnAssociate i b c)"
| XDissociate: "wm_step c (Dissociate i c)"
| XConfigure: "wm_step c (x_OnRequestConfigure i bx c)"
| XMinimize: "wm_step c (x_OnRequestMinimize i b c)"
| XActivate: "wm_step c (x_OnRequestActivate i c)"
| XGeometry: "wm_step c (x_OnSetGeometry i c)"
| XDestroy: "wm_step c (x_OnDestroy i c)"
| XScale: "wm_step c (UpdateScale c)"
| Begin: "mode \<noteq> kPassthrough \<Longrightarrow> wm_step c (BeginInteractive w mode e c)"
| Motion: "wm_step c (ProcessInteractiveMotion c)"
| End: "wm_step c (EndInteractive c)"
| Cursor: "wm_step c (c\<lparr>cursor_x := x, cursor_y := y\<rparr>)"
| Decorate: "wm_step c (SetSsdEnabled i b c)"
| RoundCorner: "wm_step c (SetRoundCorner i r c)"
| Shadow: "wm_step c (SetCsdShadow i b c)"
| LayerNew: "wm_step c (OnNewLayerSurface i lh c)"
| LayerMap: "wm_step c (layer_OnMap i c)"
| LayerUnmap: "wm_step c (layer_OnUnmap i c)"
| LayerCommit: "wm_step c (layer_OnCommit i c)"
| LayerDestroy: "wm_step c (layer_OnDestroy i c)"
| OutputNew: "wm_step c (OnNewOutput b accepted k modes c)"
| OutputState: "wm_step c (OnRequestState accepted k rq c)"
| OutputFrame: "wm_step c (OnFrame accepted k rqs c)"
| OutputDestroy: "wm_step c (Output_OnDestroy k c)"
| Keyboard: "wm_step c (c\<lparr>seat_keyboard := b\<rparr>)"
| Lock: "wm_step c (c\<lparr>session_locked := b\<rparr>)"
| SwitcherActivate: "wm_step c (switcher_activate s c)"
| MultitaskingActivate: "wm_step c (multitasking_activate s c)"
| PreviewsActivate: "window_previews_sources_hidden c \<Longrightarrow> wm_step c (previews_activate s c)"
| OverviewClose: "wm_step c (overview_close s c)"
| OverviewToggle: "wm_step c (overview_toggle_above s c)"

lemma inv_lock:
  assumes "desktop_ok c"
  shows "desktop_ok (c\<lparr>session_locked := b\<rparr>)"
proof -
  have lock: "view (c\<lparr>session_locked := b\<rparr>) = (view c)\<lparr>dv_locked := SessionLocked (c\<lparr>session_locked := b\<rparr>)\<rparr>"
    by (simp add: view_def)
  have "wm_inv (v\<lparr>dv_locked := l\<rparr>) = wm_inv v" for v l
    by (simp add: wm_inv_def base_inv_def vis_inv_def indices_ok_def grab_ok_def mapped_ids_def node_ids_def
        view_visible_def)
  with assms show ?thesis unfolding lock by blast
qed

lemma view_client: "(\<And>h. cl_surface (f h) = cl_surface h) \<Longrightarrow> view (upd_tl i (on_handle f) c) = view c"
  by (rule view_upd_tl_same) (rule window_view_on_handle)

lemmas step_ok =
  inv_switch inv_move inv_add inv_remove inv_reorder inv_all_workspaces inv_hide
  SetMaximized_ok ToggleMaximized_ok TileToplevel_ok Minimize_ok EndInteractive_ok BeginInteractive_ok
  ProcessInteractiveMotion_ok OnMap_ok OnUnmap_ok OnDestroy_ok OnNewToplevel_ok requests_ok
  ShowWindowMenu_ok OnAssociate_ok xw_OnNewSurface_ok Dissociate_ok x_OnDestroy_ok
  x_OnRequestMinimize_ok inv_lock switcher_activate_ok multitasking_activate_ok previews_activate_ok

lemmas step_view =
  view_SwitchWorkspace view_MoveToplevel view_AddWorkspace view_RemoveWorkspace view_ReorderWorkspace
  view_SetAllWorkspaces view_hide view_client

lemma wm_step_ok:
  assumes "wm_step c c'" "desktop_ok c"
  shows "desktop_ok c'"
  using assms
proof induction
  case (Add c)
  then show ?case using inv_add [of "view c"] by (simp add: view_AddWorkspace)
qed (simp_all add: step_view step_ok view_frame)

section \<open>Reachable states\<close>

inductive reachable :: "compositor \<Rightarrow> bool" where
  Start: "reachable (new_compositor present resize)"
| Step: "reachable c \<Longrightarrow> wm_step c c' \<Longrightarrow> reachable c'"

lemma new_compositor_ok: "desktop_ok (new_compositor present resize)"
  by (simp add: wm_inv_def base_inv_def vis_inv_def indices_ok_def grab_ok_def mapped_ids_def node_ids_def
      new_compositor_def kInitialWorkspaceCount_def kMaximumWorkspaceCount_def)

lemma reachable_ok: "reachable c \<Longrightarrow> desktop_ok c"
  by (induction rule: reachable.induct) (simp_all add: new_compositor_ok wm_step_ok)

lemma reachable_windows:
  assumes "reachable c" "t \<in> set (toplevels c)"
  shows "window_ok (workspace_count c) (window_view t)"
  using reachable_ok [OF assms(1)] assms(2) by (simp add: wm_inv_def base_inv_def)

lemma mapped_ids_view:
  assumes "desktop_ok c" "i \<in> mapped_ids (view c)"
  obtains t where "find_tl c i = Some t" "tl_mapped t" "IsAlive t" "tl_scene_tree t \<noteq> None"
proof -
  from assms(2) obtain t where t: "t \<in> set (toplevels c)" "tl_id t = i" "tl_mapped t"
    by (auto simp: mapped_ids_def)
  have "window_ok (workspace_count c) (window_view t)"
    using assms(1) t(1) by (simp add: wm_inv_def base_inv_def)
  then have "IsAlive t" "tl_scene_tree t \<noteq> None" using t(3) by (auto simp: window_ok_def has_node_def)
  moreover have "distinct (map tl_id (toplevels c))"
    using assms(1) by (simp add: wm_inv_def base_inv_def comp_def)
  then have "find_tl c i = Some t"
    using t find_tl_distinct [of c i _ t] by (cases "find_tl c i") (auto simp: find_tl_def find_None_iff)
  ultimately show ?thesis using that t(3) by blast
qed

text \<open>A desktop with one mapped window, on a machine without optional components.\<close>

definition sample_client :: client where
  "sample_client = \<lparr>cl_surface = Some 1, cl_initialized = True, cl_initial_commit = False,
     cl_geometry = \<lparr>box_x = 0, box_y = 0, box_width = 300, box_height = 200\<rparr>, cl_parent = None,
     cl_modal = False, cl_min_width = 0, cl_max_width = 0, cl_min_height = 0, cl_max_height = 0,
     cl_requested_maximized = False, cl_requested_fullscreen = False, cl_title = None, cl_app_id = None,
     cl_version = 6, cl_override_redirect = False, cl_or_wants_focus = False, cl_us_position = False,
     cl_p_position = False, sent_size = None, sent_box = None, sent_activated = False,
     sent_maximized = False, sent_fullscreen = False, sent_resizing = False, sent_minimized = False,
     sent_tiled = 0, sent_capabilities = None, sent_close = 0, sent_restack = 0\<rparr>"

definition bare_compositor :: compositor where
  "bare_compositor = new_compositor (\<lambda>_. False) (\<lambda>_ _. True)"

definition open_window :: "nat \<Rightarrow> nat \<Rightarrow> compositor \<Rightarrow> compositor" where
  "open_window i s c = OnMap i (OnNewToplevel i (sample_client\<lparr>cl_surface := Some s\<rparr>) c)"

definition sample_desktop :: compositor where
  "sample_desktop = open_window 0 1 bare_compositor"

lemma bare_reachable: "reachable bare_compositor"
  unfolding bare_compositor_def by (rule reachable.Start)

lemma find_append_None: "find P xs = None \<Longrightarrow> find P (xs @ ys) = find P ys"
  by (induction xs) (auto split: if_splits)

lemma new_window_node:
  assumes "fresh i c"
  obtains t where "find_tl (OnNewToplevel i h c) i = Some t" "tl_scene_tree t \<noteq> None"
proof -
  let ?t = "(new_Toplevel i False h (current_workspace c))\<lparr>tl_scene_tree := Some new_node\<rparr>"
  have id: "tl_id ?t = i" by (simp add: new_Toplevel_def)
  have "find (\<lambda>w. vw_id w = i) (map window_view (toplevels c)) = None"
    using assms by (auto simp: find_None_iff fresh_def)
  then have "find (\<lambda>w. vw_id w = i) (map window_view (toplevels c) @ [window_view ?t]) = Some (window_view ?t)"
    using id by (simp add: find_append_None)
  then have "view_find (view (OnNewToplevel i h c)) i = Some (window_view ?t)"
    unfolding view_OnNewToplevel by (simp add: view_find_def view_append_def)
  then obtain t where t: "find_tl (OnNewToplevel i h c) i = Some t" "window_view t = window_view ?t"
    using find_view [of "OnNewToplevel i h c" i] by auto
  have "vw_enabled (window_view t) = vw_enabled (window_view ?t)"
    using t(2) by simp
  then have "tl_scene_tree t \<noteq> None"
    by (cases "tl_scene_tree t") (simp_all add: window_view_def)
  with t(1) that show thesis by blast
qed

lemma open_window_reachable:
  assumes "reachable c" "fresh i c"
  shows "reachable (open_window i s c)"
proof -
  let ?c = "OnNewToplevel i (sample_client\<lparr>cl_surface := Some s\<rparr>) c"
  have "reachable ?c" using assms by (blast intro: reachable.Step wm_step.New)
  moreover obtain t where "find_tl ?c i = Some t" "tl_scene_tree t \<noteq> None"
    using assms(2) by (rule new_window_node)
  ultimately show ?thesis
    unfolding open_window_def by (blast intro: reachable.Step wm_step.Map)
qed

lemma sample_reachable: "reachable sample_desktop"
  unfolding sample_desktop_def
  by (rule open_window_reachable [OF bare_reachable]) (simp add: fresh_def bare_compositor_def new_compositor_def)

section \<open>What holds in every reachable state\<close>

text \<open>In every reachable state there are between one and six workspaces, the current workspace
  is one of them and so is the workspace of every window, alive or destroyed.\<close>

lemma reachable_workspaces:
  assumes "reachable c"
  shows "1 \<le> workspace_count c \<and> workspace_count c \<le> 6 \<and>
    0 \<le> current_workspace c \<and> current_workspace c < workspace_count c \<and>
    (\<forall>t\<in>set (toplevels c). 0 \<le> tl_workspace t \<and> tl_workspace t < workspace_count c)"
  using reachable_ok [OF assms] reachable_windows [OF assms]
  by (auto simp: wm_inv_def base_inv_def indices_ok_def window_ok_def kMaximumWorkspaceCount_def)

lemma sample_window_states:
  "map (\<lambda>t. (tl_id t, tl_mapped t, tl_minimized t, map_option nd_enabled (tl_scene_tree t))) (toplevels sample_desktop) =
     [(0, True, False, Some True)]"
  by code_simp

text \<open>In every reachable state a window that should be visible (mapped, not minimised, on the
  current or on all workspaces, no overview open) has an enabled scene node, and a mapped window
  with an enabled node is not minimised.\<close>

lemma reachable_visible:
  assumes "reachable c" "t \<in> set (toplevels c)"
  shows "(IsToplevelVisible c t \<longrightarrow> (\<exists>n. tl_scene_tree t = Some n \<and> nd_enabled n)) \<and>
    (\<forall>n. tl_mapped t \<and> tl_scene_tree t = Some n \<and> nd_enabled n \<longrightarrow> \<not> tl_minimized t)"
proof -
  have vis: "view_visible (view c) (window_view t) \<longrightarrow> vw_enabled (window_view t) = Some True"
    "vw_mapped (window_view t) \<and> vw_enabled (window_view t) = Some True \<longrightarrow> \<not> vw_minimized (window_view t)"
    using reachable_ok [OF assms(1)] assms(2) by (simp_all add: wm_inv_def vis_inv_def)
  show ?thesis
    using vis by (cases "tl_scene_tree t") (auto simp: visible_view)
qed

text \<open>In every reachable state the cursor mode is passthrough exactly when no window is grabbed,
  and the grabbed window as well as the window of a pending menu is a window of the list that is
  alive, mapped and in the scene: neither pointer dangles.\<close>

lemma reachable_grab:
  assumes "reachable c"
  shows "(cursor_mode c = kPassthrough \<longleftrightarrow> grabbed_toplevel c = None) \<and>
    (\<forall>i. grabbed_toplevel c = Some i \<or> pending_window_menu c = Some i \<longrightarrow>
      (\<exists>t. find_tl c i = Some t \<and> IsAlive t \<and> tl_mapped t \<and> tl_scene_tree t \<noteq> None))"
proof -
  have g: "grab_ok (view c)" using reachable_ok [OF assms] by (simp add: wm_inv_def base_inv_def)
  have "\<exists>t. find_tl c i = Some t \<and> IsAlive t \<and> tl_mapped t \<and> tl_scene_tree t \<noteq> None"
    if "grabbed_toplevel c = Some i \<or> pending_window_menu c = Some i" for i
  proof -
    from g that have "i \<in> mapped_ids (view c)" by (auto simp: grab_ok_def)
    then show ?thesis by (rule mapped_ids_view [OF reachable_ok [OF assms]]) blast
  qed
  with g show ?thesis by (simp add: grab_ok_def)
qed

text \<open>In every reachable state no two windows share an identity, and the stacking order of the
  scene consists of exactly the windows that have a scene node.\<close>

lemma reachable_stack:
  assumes "reachable c"
  shows "distinct (map tl_id (toplevels c)) \<and>
    set (tl_stack c) = tl_id ` set (filter (\<lambda>t. tl_scene_tree t \<noteq> None) (toplevels c))"
proof
  show "distinct (map tl_id (toplevels c))"
    using reachable_ok [OF assms] by (simp add: wm_inv_def base_inv_def comp_def)
  have "set (tl_stack c) = node_ids (view c)"
    using reachable_ok [OF assms] by (simp add: wm_inv_def base_inv_def)
  also have "\<dots> = tl_id ` set (filter (\<lambda>t. tl_scene_tree t \<noteq> None) (toplevels c))"
    by (force simp: node_ids_def has_node_def)
  finally show "set (tl_stack c) = tl_id ` set (filter (\<lambda>t. tl_scene_tree t \<noteq> None) (toplevels c))" .
qed

section \<open>Workspaces\<close>


text \<open>C11: Reordering workspaces permutes the workspace indices: no two workspaces are merged, and
  every window is visible afterwards if and only if it was before.\<close>

theorem ReorderWorkspace_keeps_visibility:
  "inj (remap n m) \<and>
   map (IsToplevelVisible (snd (ReorderWorkspace n m c))) (toplevels (snd (ReorderWorkspace n m c))) =
     map (IsToplevelVisible c) (toplevels c)"
proof
  show "inj (remap n m)" by (simp add: inj_def remap_inj)
  have vis: "map (IsToplevelVisible c) (toplevels c) = map (view_visible (view c)) (dv_windows (view c))" for c
    by (simp add: visible_view)
  have "map (view_visible (view_reorder n m v)) (dv_windows (view_reorder n m v)) =
      map (view_visible v) (dv_windows v)" for v
    by (simp add: view_reorder_def view_visible_def remap_inj)
  then show "map (IsToplevelVisible (snd (ReorderWorkspace n m c))) (toplevels (snd (ReorderWorkspace n m c))) =
     map (IsToplevelVisible c) (toplevels c)"
    unfolding vis view_ReorderWorkspace .
qed

end
