(* ===== verification/Focus_Laws.thy ===== *)
theory Focus_Laws
  imports Desktop_Reachable
begin

text \<open>
  Keyboard focus: who gets it, what stays below what when a window is raised, and that a locked
  session and an exclusive layer surface are respected.
\<close>

section \<open>Stacking\<close>

lemma toplevels_notify [simp]: "toplevels (notify cp cl c) = toplevels c" "tl_stack (notify cp cl c) = tl_stack c"
  "focused_surface (notify cp cl c) = focused_surface c" "seat_keyboard (notify cp cl c) = seat_keyboard c"
  "xwayland (notify cp cl c) = xwayland c" "has_component (notify cp cl c) = has_component c"
  "session_locked (notify cp cl c) = session_locked c" "layer_surfaces (notify cp cl c) = layer_surfaces c"
  by (simp_all add: notify_def)

text \<open>The windows that are raised over a focused one: those kept above, in creation order.\<close>

definition kept_ids :: "compositor \<Rightarrow> Toplevel \<Rightarrow> nat list" where
  "kept_ids c t =
     map tl_id (filter (\<lambda>k. tl_id k \<noteq> tl_id t \<and> tl_kept_above k \<and> tl_scene_tree k \<noteq> None \<and>
                            IsToplevelVisible c k) (toplevels c))"

lemma raise_to_top_fields [simp]:
  "toplevels (raise_to_top i c) = toplevels c" "IsToplevelVisible (raise_to_top i c) k = IsToplevelVisible c k"
  "focused_surface (raise_to_top i c) = focused_surface c" "seat_keyboard (raise_to_top i c) = seat_keyboard c"
  "xwayland (raise_to_top i c) = xwayland c"
  by (simp_all add: raise_to_top_def IsToplevelVisible_def on_current_def)

lemma raise_to_top_stack:
  "i \<in> set (tl_stack c) \<Longrightarrow> tl_stack (raise_to_top i c) = filter (\<lambda>j. j \<noteq> i) (tl_stack c) @ [i]"
  by (simp add: raise_to_top_def erase_if_def)

lemma fold_raise:
  assumes "distinct ids" "set ids \<subseteq> set (tl_stack c)"
  shows "tl_stack (fold raise_to_top ids c) = filter (\<lambda>j. j \<notin> set ids) (tl_stack c) @ ids"
  using assms
proof (induction ids arbitrary: c)
  case (Cons i ids)
  let ?c = "raise_to_top i c"
  have s: "tl_stack ?c = filter (\<lambda>j. j \<noteq> i) (tl_stack c) @ [i]"
    using Cons.prems(2) by (intro raise_to_top_stack) simp
  have "set ids \<subseteq> set (tl_stack ?c)" using Cons.prems unfolding s by auto
  with Cons.IH [of ?c] Cons.prems(1)
  have "tl_stack (fold raise_to_top ids ?c) = filter (\<lambda>j. j \<notin> set ids) (tl_stack ?c) @ ids" by simp
  also have "\<dots> = filter (\<lambda>j. j \<notin> set (i # ids)) (tl_stack c) @ i # ids"
    unfolding s using Cons.prems(1) by (simp add: conj_commute)
  finally show ?case by simp
qed simp

lemma fold_raise_filter:
  "fold (\<lambda>k c'. if P k \<and> IsToplevelVisible c' k then raise_to_top (tl_id k) c' else c') ts c =
     fold raise_to_top (map tl_id (filter (\<lambda>k. P k \<and> IsToplevelVisible c k) ts)) c"
proof (induction ts arbitrary: c)
  case (Cons k ts)
  then show ?case by (cases "P k \<and> IsToplevelVisible c k") auto
qed simp

lemma raise_focused_stack:
  assumes "distinct (map tl_id (toplevels c))" "\<not> tl_kept_above t"
    and "tl_id t \<in> set (tl_stack c)" "set (kept_ids c t) \<subseteq> set (tl_stack c)"
  shows "tl_stack (raise_focused t c) =
     filter (\<lambda>j. j \<noteq> tl_id t \<and> j \<notin> set (kept_ids c t)) (tl_stack c) @ tl_id t # kept_ids c t"
proof -
  let ?c1 = "upd_tl (tl_id t) Restack (raise_to_top (tl_id t) c)"
  let ?P = "\<lambda>k. tl_id k \<noteq> tl_id t \<and> tl_kept_above k \<and> tl_scene_tree k \<noteq> None"
  have vis: "IsToplevelVisible ?c1 k = IsToplevelVisible c k" for k
    by (simp add: visible_view view_frame view_upd_tl_same)
  have keep: "tl_id (Restack k) = tl_id k" "tl_kept_above (Restack k) = tl_kept_above k"
    "tl_scene_tree (Restack k) = tl_scene_tree k" for k
    by (simp_all add: Restack_def on_handle_def)
  have "map tl_id (filter (\<lambda>k. ?P k \<and> IsToplevelVisible c k) (map (\<lambda>k. if tl_id k = tl_id t then Restack k else k) ts)) =
      map tl_id (filter (\<lambda>k. ?P k \<and> IsToplevelVisible c k) ts)" for ts
    by (induction ts) (auto simp: keep)
  then have ids: "map tl_id (filter (\<lambda>k. ?P k \<and> IsToplevelVisible ?c1 k) (toplevels ?c1)) = kept_ids c t"
    unfolding vis by (simp add: upd_tl_def kept_ids_def conj_assoc)
  have s1: "tl_stack ?c1 = filter (\<lambda>j. j \<noteq> tl_id t) (tl_stack c) @ [tl_id t]"
    using assms(3) by (simp add: upd_tl_def raise_to_top_stack)
  have notin: "tl_id t \<notin> set (kept_ids c t)" by (auto simp: kept_ids_def)
  have "tl_stack (raise_focused t c) = tl_stack (fold raise_to_top (kept_ids c t) ?c1)"
    unfolding raise_focused_def Let_def
    using assms(2) fold_raise_filter [of ?P "toplevels ?c1" ?c1] ids by (simp add: conj_assoc)
  also have "\<dots> = filter (\<lambda>j. j \<notin> set (kept_ids c t)) (tl_stack ?c1) @ kept_ids c t"
    using assms(1,4) notin s1
    by (intro fold_raise) (auto simp: kept_ids_def distinct_map inj_on_def intro: distinct_filter)
  also have "\<dots> = filter (\<lambda>j. j \<noteq> tl_id t \<and> j \<notin> set (kept_ids c t)) (tl_stack c) @ tl_id t # kept_ids c t"
    unfolding s1 using notin by (simp add: conj_commute)
  finally show ?thesis .
qed

section \<open>Focusing a window\<close>

lemma shadow_fields [simp]:
  "tl_id (update_csd_shadow c t) = tl_id t" "tl_kept_above (update_csd_shadow c t) = tl_kept_above t"
  "tl_scene_tree (update_csd_shadow c t) = tl_scene_tree t"
  "tl_id (on_ssd f t) = tl_id t" "tl_kept_above (on_ssd f t) = tl_kept_above t"
  "tl_scene_tree (on_ssd f t) = tl_scene_tree t"
  "tl_id (on_handle g t) = tl_id t" "tl_kept_above (on_handle g t) = tl_kept_above t"
  "tl_scene_tree (on_handle g t) = tl_scene_tree t"
  by (simp_all add: update_csd_shadow_def on_ssd_def on_handle_def Let_def)

lemma kept_ids_map:
  assumes "\<And>k. tl_id (f k) = tl_id k" "\<And>k. tl_kept_above (f k) = tl_kept_above k"
    "\<And>k. tl_scene_tree (f k) = tl_scene_tree k" "\<And>k. window_view (f k) = window_view k"
    "toplevels c' = map f (toplevels c)" "view c' = view c"
  shows "kept_ids c' t = kept_ids c t"
proof -
  have "IsToplevelVisible c' (f k) = IsToplevelVisible c k" for k
    using assms(4,6) by (simp add: visible_view)
  then show ?thesis
    unfolding kept_ids_def assms(5) by (simp add: filter_map comp_def assms(1-3))
qed

lemma activation_fields [simp]:
  "tl_stack (SetActivated i a c) = tl_stack c" "focused_surface (SetActivated i a c) = focused_surface c"
  "seat_keyboard (SetActivated i a c) = seat_keyboard c"
  "tl_stack (ParkXWaylandFocus c) = tl_stack c" "focused_surface (ParkXWaylandFocus c) = focused_surface c"
  "seat_keyboard (ParkXWaylandFocus c) = seat_keyboard c" "toplevels (ParkXWaylandFocus c) = toplevels c"
  "tl_stack (deactivate_previous p c) = tl_stack c" "focused_surface (deactivate_previous p c) = focused_surface c"
  "seat_keyboard (deactivate_previous p c) = seat_keyboard c" "xwayland (deactivate_previous p c) = xwayland c"
  "tl_stack (keyboard_enter s c) = tl_stack c" "xwayland (keyboard_enter s c) = xwayland c"
  by (simp_all add: SetActivated_def ParkXWaylandFocus_def deactivate_previous_def keyboard_enter_def upd_tl_def
      split: option.splits)

lemma fold_keeps:
  assumes "\<And>x c. g (f x c) = g c"
  shows "g (fold f xs c) = g c"
  by (induction xs arbitrary: c) (simp_all add: assms)

lemma raise_focused_fields [simp]:
  "focused_surface (raise_focused t c) = focused_surface c" "seat_keyboard (raise_focused t c) = seat_keyboard c"
  "xwayland (raise_focused t c) = xwayland c"
  by (simp_all add: raise_focused_def Let_def fold_keeps [of focused_surface] fold_keeps [of seat_keyboard]
      fold_keeps [of xwayland] upd_tl_def)

lemma focusableD:
  assumes "focusable c t"
  obtains s where "Surface t = Some s" "\<not> SessionLocked c" "tl_mapped t"
  using assms by (auto simp: focusable_def)

lemma FocusToplevel_unfold:
  assumes "find_tl c i = Some t" "focusable c t" "exclusive_layer c = None" "Surface t = Some s"
    "focused_surface c \<noteq> Some s"
  shows "FocusToplevel (Some i) c =
    activate_toplevel t s (notify CAppSwitcher (SurfaceActivated (Some s))
      (c\<lparr>toplevels := map (\<lambda>k. update_csd_shadow c (on_ssd (\<lambda>d. SetActive d (tl_id k = tl_id t)) k)) (toplevels c)\<rparr>))"
  using assms by (simp add: FocusToplevel_def Let_def)

lemma reachable_kept_ids: "reachable c \<Longrightarrow> set (kept_ids c t) \<subseteq> set (tl_stack c)"
  using reachable_ok [of c] by (force simp: kept_ids_def wm_inv_def base_inv_def node_ids_def has_node_def)

lemma reachable_distinct: "reachable c \<Longrightarrow> distinct (map tl_id (toplevels c))"
  using reachable_ok [of c] by (simp add: wm_inv_def base_inv_def comp_def)

lemma reachable_mapped_stack:
  assumes "reachable c" "find_tl c i = Some t" "tl_mapped t"
  shows "i \<in> set (tl_stack c)"
proof -
  have "t \<in> set (toplevels c)" "tl_id t = i" using find_tl_id [OF assms(2)] by simp_all
  moreover from this have "window_ok (workspace_count c) (window_view t)"
    using reachable_windows [OF assms(1)] by blast
  ultimately show ?thesis
    using reachable_ok [OF assms(1)] assms(3)
    by (force simp: wm_inv_def base_inv_def node_ids_def window_ok_def)
qed


text \<open>Three windows on a desktop with a keyboard, the newest of them kept above.\<close>

definition sample_trio :: compositor where
  "sample_trio = SetKeptAbove 2 True
     (open_window 2 12 (open_window 1 11 (open_window 0 10 (bare_compositor\<lparr>seat_keyboard := True\<rparr>))))"

lemma sample_trio_reachable: "reachable sample_trio"
proof -
  have "fresh 0 (bare_compositor\<lparr>seat_keyboard := True\<rparr>)"
    "fresh 1 (open_window 0 10 (bare_compositor\<lparr>seat_keyboard := True\<rparr>))"
    "fresh 2 (open_window 1 11 (open_window 0 10 (bare_compositor\<lparr>seat_keyboard := True\<rparr>)))"
    unfolding fresh_def by code_simp+
  moreover have "reachable (bare_compositor\<lparr>seat_keyboard := True\<rparr>)"
    by (rule reachable.Step [OF bare_reachable wm_step.Keyboard])
  ultimately show ?thesis
    unfolding sample_trio_def
    by (intro reachable.Step [OF _ wm_step.KeptAbove] open_window_reachable)
qed


section \<open>The next window\<close>

lemma FocusToplevel_focus:
  assumes "find_tl c i = Some t" "exclusive_layer c = None" "seat_keyboard c"
  shows "focused_surface (FocusToplevel (Some i) c) = (if focusable c t then Surface t else focused_surface c)"
proof (cases "focusable c t")
  case True
  then obtain s where "Surface t = Some s" by (rule focusableD)
  with True assms show ?thesis
    by (simp add: FocusToplevel_def Let_def activate_toplevel_def keyboard_enter_def)
qed (use assms in \<open>simp add: FocusToplevel_def\<close>)

lemma find_tl_distinct_mem:
  assumes "distinct (map tl_id (toplevels c))" "t \<in> set (toplevels c)"
  shows "find_tl c (tl_id t) = Some t"
proof -
  have "\<exists>!k. k \<in> set (toplevels c) \<and> tl_id k = tl_id t"
    using assms by (auto simp: distinct_map inj_on_def)
  moreover obtain k where "find_tl c (tl_id t) = Some k"
    using assms(2) by (cases "find_tl c (tl_id t)") (auto simp: find_tl_def find_None_iff)
  ultimately show ?thesis
    using find_tl_id [of c "tl_id t" k] assms(2) by auto
qed

text \<open>The windows that \<^const>\<open>FocusNextToplevel\<close> considers, newest first.\<close>

definition candidates :: "nat option \<Rightarrow> compositor \<Rightarrow> Toplevel list" where
  "candidates excluding c =
     filter (\<lambda>k. Some (tl_id k) \<noteq> excluding \<and> tl_mapped k \<and> \<not> tl_minimized k \<and> IsAlive k \<and> on_current c k)
       (rev (toplevels c))"

lemma find_filter: "find P xs = (case filter P xs of [] \<Rightarrow> None | x # _ \<Rightarrow> Some x)"
  by (induction xs) auto



section \<open>Exclusive layer surfaces\<close>

text \<open>C28: While a mapped layer surface asks for the keyboard exclusively, every attempt to focus a
  window, or the next window, gives the keyboard to that layer surface.\<close>

theorem exclusive_layer_wins:
  assumes "exclusive_layer c = Some l" "\<not> SessionLocked c" "seat_keyboard c"
    "find_tl c i = Some t" "focusable c t"
  shows "focused_surface (FocusToplevel (Some i) c) = map_option lc_surface (ly_handle l) \<and>
    focused_surface (FocusNextToplevel w c) = map_option lc_surface (ly_handle l)"
proof -
  obtain h where "ly_handle l = Some h" "ly_mapped l" "lc_keyboard_interactive h = InteractiveExclusive"
    using assms(1) by (auto simp: exclusive_layer_def find_Some_iff split: option.splits)
  with assms(2,3) have "focused_surface (FocusLayerSurface l c) = map_option lc_surface (ly_handle l)"
    by (simp add: FocusLayerSurface_def Let_def keyboard_enter_def)
  with assms show ?thesis by (simp add: FocusToplevel_def FocusNextToplevel_def)
qed

text \<open>A panel that holds the keyboard while a window is focused.\<close>

definition sample_layer :: LayerSurface where
  "sample_layer = \<lparr>ly_id = 0, ly_mapped = True, ly_handle = Some \<lparr>lc_surface = 20, lc_surface_mapped = True,
     lc_keyboard_interactive = InteractiveExclusive, lc_layer = 2, lc_output = None, lc_initialized = True,
     lc_initial_commit = False, lc_committed = False, lc_committed_layer = False, lc_exclusive_zone = 0,
     lc_exclusive_edge = 0, lc_anchor = 0, lc_margin_top = 0, lc_margin_bottom = 0, lc_margin_left = 0,
     lc_margin_right = 0, lc_desired_width = 100, lc_desired_height = 100, lc_sent_size = None\<rparr>,
     ly_tree = None, ly_x = 0, ly_y = 0\<rparr>"

theorem exclusive_layer_wins_witness:
  "focused_surface (FocusToplevel (Some 0) (sample_trio\<lparr>layer_surfaces := [sample_layer]\<rparr>)) = Some 20 \<and>
   focused_surface (FocusNextToplevel None (sample_trio\<lparr>layer_surfaces := [sample_layer]\<rparr>)) = Some 20"
proof -
  let ?c = "sample_trio\<lparr>layer_surfaces := [sample_layer]\<rparr>"
  let ?t = "the (find_tl ?c 0)"
  have "\<not> Option.is_none (find_tl ?c 0)" by code_simp
  then have "find_tl ?c 0 = Some ?t" by (cases "find_tl ?c 0") simp_all
  moreover have "exclusive_layer ?c = Some sample_layer"
    by (simp add: exclusive_layer_def sample_layer_def)
  moreover have "\<not> SessionLocked ?c" "seat_keyboard ?c" "focusable ?c ?t" by code_simp+
  moreover have "map_option lc_surface (ly_handle sample_layer) = Some 20" by code_simp
  ultimately show ?thesis
    using exclusive_layer_wins [of ?c sample_layer 0 ?t None] by simp
qed

end
