(* ===== verification/Session_Laws.thy ===== *)
theory Session_Laws
  imports Desktop_Reachable Keyboard_Input
begin

text \<open>
  The whole session: input events, shortcuts, devices and the window manager's own events
  interleaved in any order. Every handler keeps the window manager's invariant, at most one touch
  emulates the pointer, and the seat advertises exactly the devices there are.
\<close>

section \<open>Handlers keep the invariant\<close>

named_theorems ok_frame_rules "operations and handlers that keep the invariant"

text \<open>The invariant of the compositor, with the set of mapped windows where it is needed, and the
  same for the input handlers' state, together with the touch points.\<close>

definition okc :: "compositor \<Rightarrow> bool" where "okc c = desktop_ok c"

definition okm :: "nat set \<Rightarrow> compositor \<Rightarrow> bool" where
  "okm ids c = (desktop_ok c \<and> mapped_ids (view c) = ids)"

definition okd :: "TouchPoint list \<Rightarrow> desktop \<Rightarrow> bool" where
  "okd ps d = (okc (core d) \<and> touch_points d = ps)"

definition okp :: "nat set \<Rightarrow> TouchPoint list \<Rightarrow> desktop \<Rightarrow> bool" where
  "okp ids ps d = (okm ids (core d) \<and> touch_points d = ps)"

lemma okm_okc: "okm ids c \<Longrightarrow> okc c" and okp_okd: "okp ids ps d \<Longrightarrow> okd ps d"
  by (simp_all add: okm_def okc_def okp_def okd_def)

lemma okc_control [ok_frame_rules]:
  "(P \<Longrightarrow> okc a) \<Longrightarrow> (\<not> P \<Longrightarrow> okc b) \<Longrightarrow> okc (if P then a else b)"
  "okc (f a') \<Longrightarrow> okc (Let a' f)"
  "(q = None \<Longrightarrow> okc a) \<Longrightarrow> (\<And>x. q = Some x \<Longrightarrow> okc (g x)) \<Longrightarrow> okc (case_option a g q)"
  "(\<And>x y. p = (x, y) \<Longrightarrow> okc (h x y)) \<Longrightarrow> okc (case_prod h p)"
  by (simp_all split: option.splits prod.splits)

lemma okm_control [ok_frame_rules]:
  "(P \<Longrightarrow> okm ids a) \<Longrightarrow> (\<not> P \<Longrightarrow> okm ids b) \<Longrightarrow> okm ids (if P then a else b)"
  "okm ids (f a') \<Longrightarrow> okm ids (Let a' f)"
  "(q = None \<Longrightarrow> okm ids a) \<Longrightarrow> (\<And>x. q = Some x \<Longrightarrow> okm ids (g x)) \<Longrightarrow> okm ids (case_option a g q)"
  "(\<And>x y. p = (x, y) \<Longrightarrow> okm ids (h x y)) \<Longrightarrow> okm ids (case_prod h p)"
  by (simp_all split: option.splits prod.splits)

lemma okd_control [ok_frame_rules]:
  "(P \<Longrightarrow> okd ps a) \<Longrightarrow> (\<not> P \<Longrightarrow> okd ps b) \<Longrightarrow> okd ps (if P then a else b)"
  "okd ps (f a') \<Longrightarrow> okd ps (Let a' f)"
  "(q = None \<Longrightarrow> okd ps a) \<Longrightarrow> (\<And>x. q = Some x \<Longrightarrow> okd ps (g x)) \<Longrightarrow> okd ps (case_option a g q)"
  "(\<And>x y. p = (x, y) \<Longrightarrow> okd ps (h x y)) \<Longrightarrow> okd ps (case_prod h p)"
  by (simp_all split: option.splits prod.splits)

lemma okp_control [ok_frame_rules]:
  "(P \<Longrightarrow> okp ids ps a) \<Longrightarrow> (\<not> P \<Longrightarrow> okp ids ps b) \<Longrightarrow> okp ids ps (if P then a else b)"
  "okp ids ps (f a') \<Longrightarrow> okp ids ps (Let a' f)"
  "(q = None \<Longrightarrow> okp ids ps a) \<Longrightarrow> (\<And>x. q = Some x \<Longrightarrow> okp ids ps (g x)) \<Longrightarrow> okp ids ps (case_option a g q)"
  "(\<And>x y. p = (x, y) \<Longrightarrow> okp ids ps (h x y)) \<Longrightarrow> okp ids ps (case_prod h p)"
  by (simp_all split: option.splits prod.splits)

lemma okc_view: "view c' = view c \<Longrightarrow> okc c \<Longrightarrow> okc c'"
  and okm_view: "view c' = view c \<Longrightarrow> okm ids c \<Longrightarrow> okm ids c'"
  by (simp_all add: okc_def okm_def)

lemma okc_step: "wm_step c c' \<Longrightarrow> okc c \<Longrightarrow> okc c'"
  by (simp add: okc_def wm_step_ok)

lemma okc_fields [ok_frame_rules]:
  "okc c \<Longrightarrow> okc (c\<lparr>pointer_focus := x1\<rparr>)" "okc c \<Longrightarrow> okc (c\<lparr>seat_keyboard := x2\<rparr>)"
  "okc c \<Longrightarrow> okc (c\<lparr>cursor_x := x3\<rparr>)" "okc c \<Longrightarrow> okc (c\<lparr>cursor_y := x3\<rparr>)"
  "okc c \<Longrightarrow> okc (c\<lparr>cursor_state := x4\<rparr>)" "okc c \<Longrightarrow> okc (notify cp cl c)"
  by (simp_all add: okc_def view_frame)

lemma okm_fields [ok_frame_rules]:
  "okm ids c \<Longrightarrow> okm ids (c\<lparr>pointer_focus := x1\<rparr>)" "okm ids c \<Longrightarrow> okm ids (c\<lparr>cursor_x := x3\<rparr>)"
  "okm ids c \<Longrightarrow> okm ids (c\<lparr>cursor_y := x3\<rparr>)" "okm ids c \<Longrightarrow> okm ids (c\<lparr>cursor_state := x4\<rparr>)"
  "okm ids c \<Longrightarrow> okm ids (notify cp cl c)"
  by (simp_all add: okm_def view_frame)

lemma okc_menu:
  "okm ids c \<Longrightarrow> set_option m \<subseteq> ids \<Longrightarrow> okc (c\<lparr>pending_window_menu := m\<rparr>)"
  "okc c \<Longrightarrow> okc (c\<lparr>pending_window_menu := None\<rparr>)"
proof -
  have v: "view (c\<lparr>pending_window_menu := m\<rparr>) = (view c)\<lparr>dv_menu := m\<rparr>" for m
    by (simp add: view_def SessionLocked_def)
  have "wm_inv (x\<lparr>dv_menu := m\<rparr>)" if "wm_inv x" "set_option m \<subseteq> mapped_ids x" for x m
    using that by (simp add: wm_inv_def base_inv_def vis_inv_def indices_ok_def grab_ok_def mapped_ids_def node_ids_def
        view_visible_def)
  then show "okm ids c \<Longrightarrow> set_option m \<subseteq> ids \<Longrightarrow> okc (c\<lparr>pending_window_menu := m\<rparr>)"
    "okc c \<Longrightarrow> okc (c\<lparr>pending_window_menu := None\<rparr>)"
    unfolding okc_def okm_def v by auto
qed

lemma okc_steps [ok_frame_rules]:
  "okc c \<Longrightarrow> okc (FocusToplevel w c)" "okc c \<Longrightarrow> okc (FocusNextToplevel w c)"
  "okc c \<Longrightarrow> okc (ProcessInteractiveMotion c)"
  "okc c \<Longrightarrow> okc (EndInteractive c)" "mode \<noteq> kPassthrough \<Longrightarrow> okc c \<Longrightarrow> okc (BeginInteractive w mode e c)"
  "okc c \<Longrightarrow> okc (Minimize w c)" "okc c \<Longrightarrow> okc (ToggleMaximized w c)" "okc c \<Longrightarrow> okc (SetKeptAbove i b c)"
  "okc c \<Longrightarrow> okc (SetAllWorkspaces i b c)" "okc c \<Longrightarrow> okc (snd (MoveToplevelToWorkspace i n c))"
  "okc c \<Longrightarrow> okc (snd (ShowWindowMenu w x y c))"
  by (rule okc_step, (rule wm_step.intros | assumption)+)+

lemma okc_enter [ok_frame_rules]:
  "okc c \<Longrightarrow> okc (keyboard_enter sf c)" "okc c \<Longrightarrow> okc (FocusLayerSurface l c)" "okc c \<Longrightarrow> okc (upd_tl i Close c)"
  by (simp_all add: okc_def view_frame view_upd_tl_same)

lemma okm_focus [ok_frame_rules]:
  "okm ids c \<Longrightarrow> okm ids (FocusToplevel w c)" "okm ids c \<Longrightarrow> okm ids (FocusLayerSurface l c)"
  by (simp_all add: okm_def view_frame)

lemma okm_motion [ok_frame_rules]:
  assumes "okm ids c"
  shows "okm ids (ProcessInteractiveMotion c)"
proof -
  have "mapped_ids (reset_grab v) = mapped_ids v" for v by (simp add: mapped_ids_def reset_grab_def)
  then have "mapped_ids (view (ProcessInteractiveMotion c)) = mapped_ids (view c)"
    by (simp add: ProcessInteractiveMotion_def Let_def view_reset view_frame view_upd_tl_same split: option.splits)
  then show ?thesis using assms okc_steps(3) [of c] by (simp add: okm_def okc_def)
qed

lemma okm_cursor [ok_frame_rules]:
  "okm ids c \<Longrightarrow> okm ids (set_cursor_name nm c)" "okm ids c \<Longrightarrow> okm ids (unset_cursor c)"
  "okm ids c \<Longrightarrow> okm ids (clear_pointer_focus c)"
  "okm ids c \<Longrightarrow> okm ids (wlr_cursor_warp_closest mapped lx ly c)"
  unfolding set_cursor_name_def unset_cursor_def clear_pointer_focus_def wlr_cursor_warp_closest_def
  by (intro ok_frame_rules; assumption)+

lemma okm_pointer [ok_frame_rules]:
  "okm ids c \<Longrightarrow> okm ids (default_cursor_no_focus c)" "okm ids c \<Longrightarrow> okm ids (hover_hints w hit c)"
  "okm ids c \<Longrightarrow> okm ids (wlr_cursor_move mapped dx dy c)" "okm ids c \<Longrightarrow> okm ids (wlr_cursor_warp_absolute mapped x y c)"
  unfolding default_cursor_no_focus_def hover_hints_def wlr_cursor_move_def wlr_cursor_warp_absolute_def
  by (intro ok_frame_rules; assumption)+

lemma okm_hover [ok_frame_rules]: "okm ids c \<Longrightarrow> okm ids (hover_ssd w hit c)"
  unfolding hover_ssd_def by (rule okm_view [OF view_toplevels_map]) (simp_all add: view_frame)

lemma okm_menu_warp [ok_frame_rules]: "okm ids c \<Longrightarrow> okm ids (menu_warp r t c)"
  unfolding menu_warp_def by (intro ok_frame_rules; assumption)

lemma okc_warp [ok_frame_rules]: "okc c \<Longrightarrow> okc (menu_warp r t c)"
  "okc c \<Longrightarrow> okc (unset_cursor c)" "okc c \<Longrightarrow> okc (set_cursor_name nm c)"
  "okc c \<Longrightarrow> okc (wlr_cursor_warp_closest mapped lx ly c)"
  "okc c \<Longrightarrow> okc (wlr_cursor_move mapped lx ly c)" "okc c \<Longrightarrow> okc (wlr_cursor_warp_absolute mapped lx ly c)"
  unfolding menu_warp_def unset_cursor_def set_cursor_name_def wlr_cursor_warp_closest_def wlr_cursor_move_def
    wlr_cursor_warp_absolute_def
  by (intro ok_frame_rules; assumption)+

lemma okd_basic [ok_frame_rules]:
  "(okc (core d) \<Longrightarrow> okc (f (core d))) \<Longrightarrow> okd ps d \<Longrightarrow> okd ps (on_core f d)"
  "okd ps d \<Longrightarrow> okd ps (send ev d)" "okd ps d \<Longrightarrow> okd ps (d\<lparr>last_click_toplevel := a1\<rparr>)"
  "okd ps d \<Longrightarrow> okd ps (d\<lparr>suppress_button_release := a2\<rparr>)" "okd ps d \<Longrightarrow> okd ps (d\<lparr>cursor_hidden_by_touch := a2\<rparr>)"
  "okd ps d \<Longrightarrow> okd ps (d\<lparr>touch_pointer_frame_pending := a2\<rparr>)" "okd ps d \<Longrightarrow> okd ps (remember_click tm w d)"
  by (simp_all add: okd_def on_core_def send_def remember_click_def)

lemma okp_basic [ok_frame_rules]:
  "(okm ids (core d) \<Longrightarrow> okm ids (f (core d))) \<Longrightarrow> okp ids ps d \<Longrightarrow> okp ids ps (on_core f d)"
  "okp ids ps d \<Longrightarrow> okp ids ps (send ev d)" "okp ids ps d \<Longrightarrow> okp ids ps (d\<lparr>suppress_button_release := a2\<rparr>)"
  "okp ids ps d \<Longrightarrow> okp ids ps (d\<lparr>cursor_hidden_by_touch := a2\<rparr>)"
  "okm ids c \<Longrightarrow> okp ids ps d \<Longrightarrow> okp ids ps (d\<lparr>core := c\<rparr>)"
  by (simp_all add: okp_def on_core_def send_def)

lemma okp_passthrough [ok_frame_rules]:
  assumes "okp ids ps d"
  shows "okp ids ps (pointer_passthrough e time d)"
proof -
  have "okm ids (core d)" using assms by (simp add: okp_def)
  with assms show ?thesis
    unfolding pointer_passthrough_def by - (intro ok_frame_rules; assumption)
qed

lemma okp_motion [ok_frame_rules]:
  "okp ids ps d \<Longrightarrow> okp ids ps (ProcessCursorMotion e time d)" "okp ids ps d \<Longrightarrow> okp ids ps (show_cursor_again d)"
  unfolding ProcessCursorMotion_def show_cursor_again_def by (intro ok_frame_rules; assumption)+

lemma okd_okp: "okd ps d \<Longrightarrow> okp (mapped_ids (view (core d))) ps d"
  by (simp add: okd_def okp_def okc_def okm_def)

lemma okd_motion [ok_frame_rules]:
  "okd ps d \<Longrightarrow> okd ps (ProcessCursorMotion e time d)" "okd ps d \<Longrightarrow> okd ps (show_cursor_again d)"
  by (rule okp_okd, rule okp_motion, erule okd_okp)+

lemma okd_cursor_motion [ok_frame_rules]:
  "okd ps d \<Longrightarrow> okd ps (OnCursorMotion e time dx dy d)" "okd ps d \<Longrightarrow> okd ps (OnCursorMotionAbsolute e time x y d)"
  "okd ps d \<Longrightarrow> okd ps (OnCursorAxis e time fp d)" "okd ps d \<Longrightarrow> okd ps (OnCursorFrame d)"
  unfolding OnCursorMotion_def OnCursorMotionAbsolute_def OnCursorAxis_def OnCursorFrame_def
  by (intro ok_frame_rules; assumption)+

section \<open>Buttons, the window menu and touch\<close>

text \<open>What the scene promises of a hit test: it finds only windows that are mapped.\<close>

definition hits_mapped :: "env \<Rightarrow> nat set \<Rightarrow> bool" where
  "hits_mapped e ids = (\<forall>x y i. fst (ev_hit e x y) = Some i \<longrightarrow> i \<in> ids)"

lemma okd_part [ok_frame_rules]:
  "okd ps a \<Longrightarrow> okd ps b \<Longrightarrow> okd ps c \<Longrightarrow> okd ps d \<Longrightarrow> okd ps f \<Longrightarrow> okd ps g \<Longrightarrow> okd ps (case_Part a b c d f g p)"
  by (simp split: Part.splits)

lemma okc_release [ok_frame_rules]: "okc c \<Longrightarrow> okc (release_pressed c)"
  unfolding release_pressed_def by (rule okc_view [OF view_toplevels_map]) (simp_all add: view_frame)

lemma okc_pressed [ok_frame_rules]: "okc c \<Longrightarrow> okc (upd_tl i (on_ssd f) c)"
  by (rule okc_view [OF view_upd_tl_same]) (simp_all add: view_frame)

lemma okd_released [ok_frame_rules]: "okd ps d \<Longrightarrow> okd ps (button_released time button d)"
  unfolding button_released_def by (intro ok_frame_rules okc_menu(2); assumption)

lemma okd_ssd_pressed:
  assumes "okp ids ps d" "i \<in> ids"
  shows "okd ps (ssd_pressed time button i hit d)"
proof -
  have p: "okp ids ps ((on_core (FocusToplevel (Some i)) d)\<lparr>suppress_button_release := True\<rparr>)" (is "okp ids ps ?d")
    using assms(1) by - (intro ok_frame_rules; assumption)
  then have "okd ps ?d" by (rule okp_okd)
  moreover have "okd ps (on_core (\<lambda>c. c\<lparr>pending_window_menu := m\<rparr>) ?d)" if "set_option m \<subseteq> ids" for m
    using p okc_menu(1) [OF _ that] by (simp add: okp_def okd_def on_core_def)
  then have "okd ps (on_core (\<lambda>c. c\<lparr>pending_window_menu :=
      (if button = BTN_RIGHT \<and> ht_part hit = kTitlebar then Some i else None)\<rparr>) ?d)"
    using assms(2) by simp
  moreover have "kResizeMode \<noteq> kPassthrough" "kMove \<noteq> kPassthrough" by simp_all
  ultimately show ?thesis
    unfolding ssd_pressed_def Let_def by - (assumption | rule ok_frame_rules)+
qed

lemma okd_client_pressed [ok_frame_rules]: "okd ps d \<Longrightarrow> okd ps (client_pressed e time button w sf sy d)"
  unfolding client_pressed_def by (intro ok_frame_rules; assumption)

lemma okd_pressed:
  assumes "okp ids ps d" "hits_mapped e ids"
  shows "okd ps (button_pressed e time button d)"
proof -
  have d: "okd ps d" using assms(1) by (rule okp_okd)
  have modes: "kResizeMode \<noteq> kPassthrough" by simp
  obtain w sf sx sy where hit: "ev_hit e (cursor_x (core d)) (cursor_y (core d)) = (w, sf, sx, sy)"
    by (cases "ev_hit e (cursor_x (core d)) (cursor_y (core d))") auto
  have "okd ps (ssd_pressed time button i h d)" if "w = Some i" for i h
  proof (rule okd_ssd_pressed [OF assms(1)])
    have "fst (ev_hit e (cursor_x (core d)) (cursor_y (core d))) = Some i" using hit that by simp
    with assms(2) show "i \<in> ids" unfolding hits_mapped_def by blast
  qed
  then have "okd ps (case w of Some i \<Rightarrow> if ht_part h \<noteq> kNone then ssd_pressed time button i h d
      else client_pressed e time button w sf sy d | None \<Rightarrow> client_pressed e time button w sf sy d)" for h
    using okd_client_pressed [OF d] by (simp split: option.splits)
  with d modes show ?thesis
    unfolding button_pressed_def hit Let_def prod.case by - (assumption | rule ok_frame_rules)+
qed

lemma okd_overlay:
  assumes "okd ps d"
  shows "case overlay_buttons e time pressed d of None \<Rightarrow> True | Some d' \<Rightarrow> okd ps d'"
  using assms by (auto simp: overlay_buttons_def Let_def split: if_splits intro!: ok_frame_rules)

lemma okd_button:
  assumes "okp ids ps d" "hits_mapped e ids"
  shows "okd ps (OnCursorButton e time fp button pressed d)"
proof -
  define d' where "d' = on_core (notify CProtocol (NotifyPointer time)) (if fp then show_cursor_again d else d)"
  have p: "okp ids ps d'" unfolding d'_def using assms(1) by - (intro ok_frame_rules; assumption)
  then have d: "okd ps d'" by (rule okp_okd)
  show ?thesis
    unfolding OnCursorButton_def Let_def d'_def [symmetric]
    using okd_overlay [OF d, of e time pressed] okd_pressed [OF p assms(2), of time button]
      okd_released [OF d, of time button] okd_basic(2) [OF d]
    by (cases "overlay_buttons e time pressed d'") simp_all
qed

lemma okc_menu_move [ok_frame_rules]: "okc c \<Longrightarrow> okc (menu_move_workspace i r c)"
  unfolding menu_move_workspace_def by (intro ok_frame_rules; assumption)

lemma okd_menu_action [ok_frame_rules]:
  assumes "okd ps d"
  shows "okd ps (HandleWindowMenuAction e sf a d)"
proof -
  have "kResizeMode \<noteq> kPassthrough" "kMove \<noteq> kPassthrough" by simp_all
  with assms show ?thesis
    unfolding HandleWindowMenuAction_def Let_def
    by (cases a) (simp_all only: MenuAction.case, (intro ok_frame_rules; assumption)+)
qed

text \<open>Touches: at most one of them emulates the pointer.\<close>

definition pointers :: "TouchPoint list \<Rightarrow> nat" where
  "pointers ps = length (filter (\<lambda>p. tp_mode p = kPointer) ps)"

definition okt :: "desktop \<Rightarrow> bool" where
  "okt d = (okc (core d) \<and> pointers (touch_points d) \<le> 1)"

lemma okt_okd: "okd ps d \<Longrightarrow> pointers ps \<le> 1 \<Longrightarrow> okt d"
  by (simp add: okt_def okd_def)

lemma okd_self: "okt d \<Longrightarrow> okd (touch_points d) d" "okt d \<Longrightarrow> okp (mapped_ids (view (core d))) (touch_points d) d"
  by (simp_all add: okt_def okd_def okp_def okc_def okm_def)

lemma pointers_append: "pointers (ps @ [p]) = pointers ps + (if tp_mode p = kPointer then 1 else 0)"
  by (simp add: pointers_def)

lemma pointers_erase: "pointers (erase_if P ps) \<le> pointers ps"
  by (induction ps) (auto simp: pointers_def erase_if_def)

lemma pointers_update: "(\<And>p. tp_mode (f p) = tp_mode p) \<Longrightarrow> pointers (update_first P f ps) = pointers ps"
  by (induction ps) (auto simp: pointers_def)

lemma okt_add:
  assumes "okd ps d" "pointers ps \<le> 1" "mode = kPointer \<Longrightarrow> pointers ps = 0"
  shows "okt (on_core (notify cp cl) (add_point touch touch_id mode d))" "okt (add_point touch touch_id mode d)"
  using assms okc_fields(6) by (auto simp: okt_def okd_def on_core_def add_point_def pointers_append)

lemma okc_touch [ok_frame_rules]:
  "okc c \<Longrightarrow> okc (overlay_touch cp b c)" "okc c \<Longrightarrow> okc (MoveTouchCursor e x y c)"
  unfolding overlay_touch_def MoveTouchCursor_def by (intro ok_frame_rules; assumption)+

lemma okm_touch [ok_frame_rules]: "okm ids c \<Longrightarrow> okm ids (MoveTouchCursor e x y c)"
  unfolding MoveTouchCursor_def by (intro ok_frame_rules; assumption)

lemma okp_native:
  assumes "okp ids ps d"
  shows "okp ids ps (snd (native_touch e time touch_id w sf sx sy d))"
  using assms unfolding native_touch_def Let_def
  by (auto split: option.splits prod.splits intro!: ok_frame_rules)

lemma okd_touch_button:
  assumes "okp ids ps d" "hits_mapped e ids"
  shows "okd ps (SendPointerTouchButton e time pressed d)"
  unfolding SendPointerTouchButton_def using okd_button [OF assms] by (rule okd_basic(6))

lemma okt_down:
  assumes "okt d" "hits_mapped e (mapped_ids (view (core d)))"
  shows "okt (OnTouchDown e time touch touch_id ex ey d)"
proof -
  let ?ids = "mapped_ids (view (core d))" and ?ps = "touch_points d"
  define d1 where "d1 = on_core (\<lambda>c. MoveTouchCursor e ex ey (notify CProtocol (TouchGesture touch touch_id) c)) d"
  define d2 where "d2 = (on_core unset_cursor d1)\<lparr>cursor_hidden_by_touch := True\<rparr>"
  have n: "pointers ?ps \<le> 1" using assms(1) by (simp add: okt_def)
  have p1: "okp ?ids ?ps d1"
    unfolding d1_def using okd_self(2) [OF assms(1)] by - (intro ok_frame_rules; assumption)
  have o1: "okd ?ps d1" using p1 by (rule okp_okd)
  have p2: "okp ?ids ?ps d2" unfolding d2_def using p1 by - (intro ok_frame_rules; assumption)
  have overlays: "okt (add_point touch touch_id m (on_core (overlay_touch cp True) d1))" if "m \<noteq> kPointer" for m cp
    by (rule okt_add(2) [OF _ n]) (use o1 that in \<open>auto intro!: ok_frame_rules\<close>)
  obtain w sf sx sy where hit: "ev_hit e (cursor_x (core d2)) (cursor_y (core d2)) = (w, sf, sx, sy)"
    by (cases "ev_hit e (cursor_x (core d2)) (cursor_y (core d2))") auto
  obtain mode d3 where nat: "native_touch e time touch_id w sf sx sy d2 = (mode, d3)"
    by (cases "native_touch e time touch_id w sf sx sy d2")
  have p3: "okp ?ids ?ps d3" using okp_native [OF p2, of e time touch_id w sf sx sy] nat by simp
  have mode: "mode \<noteq> kPointer"
    using nat by (auto simp: native_touch_def Let_def split: option.splits if_splits prod.splits)
  have "okt (on_core (notify CTouchFeedback (FeedbackDown touch touch_id)) (add_point touch touch_id kPointer
      (SendPointerTouchButton e time True (on_core unset_cursor (ProcessCursorMotion e time d3)))))"
    if "\<not> any_of (\<lambda>p. tp_mode p = kPointer) (touch_points d3)"
  proof (rule okt_add(1) [OF _ n])
    show "okd ?ps (SendPointerTouchButton e time True (on_core unset_cursor (ProcessCursorMotion e time d3)))"
      by (rule okd_touch_button [OF _ assms(2)]) (use p3 in \<open>auto intro!: ok_frame_rules\<close>)
    show "pointers ?ps = 0" using that p3 by (auto simp: okp_def pointers_def filter_empty_conv)
  qed
  moreover have "okt (on_core (notify CTouchFeedback (FeedbackDown touch touch_id)) (add_point touch touch_id mode d3))"
    by (rule okt_add(1) [OF okp_okd [OF p3] n]) (simp add: mode)
  ultimately show ?thesis
    using overlays unfolding OnTouchDown_def Let_def d1_def [symmetric] d2_def [symmetric] hit nat prod.case
    by (simp split: prod.splits if_splits)
qed

lemma okd_touch_mode [ok_frame_rules]:
  "okd ps a \<Longrightarrow> okd ps b \<Longrightarrow> okd ps c \<Longrightarrow> okd ps d \<Longrightarrow> okd ps f \<Longrightarrow> okd ps g \<Longrightarrow>
   okd ps (case_TouchPointMode a b c d f g m)"
  by (simp split: TouchPointMode.splits)

lemma okt_points:
  assumes "okd ps d" "pointers ps' \<le> 1"
  shows "okt (d\<lparr>touch_points := ps'\<rparr>)"
  using assms by (simp add: okt_def okd_def)

lemma okt_core: "(okc (core d) \<Longrightarrow> okc (f (core d))) \<Longrightarrow> okt d \<Longrightarrow> okt (on_core f d)"
  by (simp add: okt_def on_core_def)

lemma okt_erase: "okd (touch_points d) d' \<Longrightarrow> okt d \<Longrightarrow> okt (d'\<lparr>touch_points := erase_if P (touch_points d')\<rparr>)"
  using pointers_erase [of P "touch_points d"] by (simp add: okt_def okd_def)

lemma touch_points_gesture: "touch_points (on_core f d) = touch_points d"
  by (simp add: on_core_def)

lemma okt_up:
  assumes "okt d" "hits_mapped e (mapped_ids (view (core d)))"
  shows "okt (OnTouchUp e time touch touch_id d)"
proof -
  define d1 where "d1 = on_core (notify CProtocol (TouchGesture touch touch_id)) d"
  have p1: "okp (mapped_ids (view (core d))) (touch_points d) d1"
    unfolding d1_def using okd_self(2) [OF assms(1)] by - (intro ok_frame_rules; assumption)
  then have o1: "okd (touch_points d) d1" by (rule okp_okd)
  have button: "okd (touch_points d) (SendPointerTouchButton e time False d1)"
    by (rule okd_touch_button [OF p1 assms(2)])
  show ?thesis
    unfolding OnTouchUp_def Let_def d1_def [symmetric]
    using okt_okd [OF o1] assms(1) button o1
    by (auto simp: okt_def [of d] split: option.splits intro!: okt_core okt_erase [OF _ assms(1)] ok_frame_rules)
qed

lemma okt_motion:
  assumes "okt d"
  shows "okt (OnTouchMotion e time touch touch_id ex ey d)"
proof (cases "FindTouchPoint touch touch_id (on_core (notify CProtocol (TouchGesture touch touch_id)) d)")
  case None
  have "okt (on_core (notify CProtocol (TouchGesture touch touch_id)) d)"
    by (rule okt_core [OF _ assms]) (rule ok_frame_rules)
  with None show ?thesis by (simp add: OnTouchMotion_def Let_def)
next
  case (Some p)
  define d1 where "d1 = on_core (MoveTouchCursor e ex ey) (on_core (notify CProtocol (TouchGesture touch touch_id)) d)"
  define ps where "ps = update_first (is_point touch touch_id)
    (\<lambda>p. p\<lparr>tp_last_x := cursor_x (core d1), tp_last_y := cursor_y (core d1)\<rparr>) (touch_points d1)"
  define d2 where "d2 = d1\<lparr>touch_points := ps\<rparr>"
  have o1: "okd (touch_points d) d1"
    unfolding d1_def using okd_self(1) [OF assms] by - (intro ok_frame_rules; assumption)
  then have o2: "okd ps d2" by (simp add: okd_def d2_def)
  have "pointers ps = pointers (touch_points d)"
    using o1 by (simp add: ps_def pointers_update okd_def)
  then have n: "pointers ps \<le> 1" using assms by (simp add: okt_def)
  show ?thesis
    unfolding OnTouchMotion_def Let_def Some option.case d1_def [symmetric] ps_def [symmetric] d2_def [symmetric]
    by (rule okt_okd [OF _ n]) (intro ok_frame_rules o2; assumption)
qed

lemma okd_fold_send [ok_frame_rules]: "okd ps d \<Longrightarrow> okd ps (fold (\<lambda>k. send (g k)) ks d)"
  by (induction ks arbitrary: d) (simp_all add: okd_basic)

lemma okc_fold_notify [ok_frame_rules]: "okc c \<Longrightarrow> okc (fold (\<lambda>k. notify (h k) (g k)) ks c)"
  by (induction ks arbitrary: c) (simp_all add: okc_fields)

lemma okt_cancel:
  assumes "okt d" "hits_mapped e (mapped_ids (view (core d)))"
  shows "okt (OnTouchCancel e time touch touch_id d)"
proof -
  define d1 where "d1 = on_core (notify CProtocol (TouchGesture touch touch_id)) d"
  have p1: "okp (mapped_ids (view (core d))) (touch_points d) d1"
    unfolding d1_def using okd_self(2) [OF assms(1)] by - (intro ok_frame_rules; assumption)
  then have o1: "okd (touch_points d) d1" by (rule okp_okd)
  have button: "okd (touch_points d) (SendPointerTouchButton e time False d1)"
    by (rule okd_touch_button [OF p1 assms(2)])
  show ?thesis
    unfolding OnTouchCancel_def Let_def d1_def [symmetric]
    using okt_okd [OF o1] assms(1) button o1
    by (auto simp: okt_def [of d] split: option.splits
        intro!: okt_core okt_erase [OF _ assms(1)] ok_frame_rules)
qed

lemma okt_cancel_device:
  assumes "okt d" "hits_mapped e (mapped_ids (view (core d)))"
  shows "okt (CancelTouchDevice e touch d)"
proof -
  have p: "okp ids ps (fold (\<lambda>k. send (SeatTouchCancel k)) ks d')" if "okp ids ps d'" for ids ps ks d'
    using that by (induction ks arbitrary: d') (simp_all add: okp_basic)
  note p1 = p [OF okd_self(2) [OF assms(1)]]
  have "okd (touch_points d) (send SeatPointerFrame (SendPointerTouchButton e 0 False
      (fold (\<lambda>k. send (SeatTouchCancel k)) ks d)))" for ks
    by (rule okd_basic(2), rule okd_touch_button [OF p1 assms(2)])
  then show ?thesis
    unfolding CancelTouchDevice_def Let_def
    using okp_okd [OF p1]
    by (intro okt_core okt_erase [OF _ assms(1)] okd_control(1) okc_fields(6))
qed

lemma okt_button:
  "okt d \<Longrightarrow> hits_mapped e (mapped_ids (view (core d))) \<Longrightarrow> okt (OnCursorButton e time fp button pressed d)"
  using okd_button [OF okd_self(2)] by (simp add: okt_def okd_def)

lemma okt_frame: "okt d \<Longrightarrow> okt (OnTouchFrame d)"
  by (simp add: okt_def OnTouchFrame_def Let_def send_def)

section \<open>Keys and devices\<close>

lemma okc_fold_cancel [ok_frame_rules]: "okc c \<Longrightarrow> okc (cancel_all cps c)"
  unfolding cancel_all_def by (intro ok_frame_rules; assumption)

lemma okc_actions [ok_frame_rules]:
  "okc c \<Longrightarrow> okc (toggle_multitasking c)" "okc c \<Longrightarrow> okc (show_active_menu c)" "okc c \<Longrightarrow> okc (close_active c)"
  unfolding toggle_multitasking_def show_active_menu_def close_active_def
  by (intro ok_frame_rules; assumption)+

lemma okc_run:
  assumes "\<And>a c. okc c \<Longrightarrow> okc (other a c)" "okc c"
  shows "okc (fold (run_effect other) effs c)"
proof -
  have "okc (run_action other a c')" if "okc c'" for a c'
    using that assms(1) unfolding run_action_def by - (intro ok_frame_rules; assumption)
  then have "okc (run_effect other eff c')" if "okc c'" for eff c'
    using that by (simp add: run_effect_def split: kb_effect.splits)
  then show ?thesis using assms(2) by (induction effs arbitrary: c) simp_all
qed

section \<open>The session\<close>

text \<open>What the seat should advertise.\<close>

definition capabilities :: "session \<Rightarrow> 32 word" where
  "capabilities s = WL_SEAT_CAPABILITY_POINTER
     OR (if \<exists>k. Some k \<in> set (keyboards s) then WL_SEAT_CAPABILITY_KEYBOARD else 0)
     OR (if \<exists>k. Some k \<in> set (touch_devices s) then WL_SEAT_CAPABILITY_TOUCH else 0)"

definition oks :: "session \<Rightarrow> bool" where
  "oks s = (okt (desk s) \<and> seat_capabilities s = capabilities s)"

lemma capabilities_updated: "seat_capabilities (UpdateSeatCapabilities s) = capabilities (UpdateSeatCapabilities s)"
  by (auto simp: UpdateSeatCapabilities_def capabilities_def)

text \<open>One event: a handler of the window manager, an input event, a shortcut, a device.  \<open>other\<close> are
  the actions other components registered; they keep the window manager's invariant.\<close>

inductive session_step :: "session \<Rightarrow> session \<Rightarrow> bool" where
  Window: "wm_step (core (desk s)) c \<Longrightarrow> session_step s (on_desk (on_core (\<lambda>_. c)) s)"
| Motion: "session_step s (on_desk (OnCursorMotion e time dx dy) s)"
| MotionAbsolute: "session_step s (on_desk (OnCursorMotionAbsolute e time x y) s)"
| Button: "hits_mapped e (mapped_ids (view (core (desk s)))) \<Longrightarrow>
    session_step s (on_desk (OnCursorButton e time fp button pressed) s)"
| Axis: "session_step s (on_desk (OnCursorAxis e time fp) s)"
| Frame: "session_step s (on_desk OnCursorFrame s)"
| MenuAction: "session_step s (on_desk (HandleWindowMenuAction e sf a) s)"
| TouchDown: "hits_mapped e (mapped_ids (view (core (desk s)))) \<Longrightarrow>
    session_step s (on_desk (OnTouchDown e time touch touch_id ex ey) s)"
| TouchUp: "hits_mapped e (mapped_ids (view (core (desk s)))) \<Longrightarrow>
    session_step s (on_desk (OnTouchUp e time touch touch_id) s)"
| TouchMotion: "session_step s (on_desk (OnTouchMotion e time touch touch_id ex ey) s)"
| TouchCancel: "hits_mapped e (mapped_ids (view (core (desk s)))) \<Longrightarrow>
    session_step s (on_desk (OnTouchCancel e time touch touch_id) s)"
| TouchFrame: "session_step s (on_desk OnTouchFrame s)"
| Key: "(\<And>a c. desktop_ok c \<Longrightarrow> desktop_ok (other a c)) \<Longrightarrow>
    session_step s (OnKey x other ans time kb event s)"
| NewInput: "session_step s (OnNewInput type keymap k s)"
| NewVirtualKeyboard: "session_step s (OnNewVirtualKeyboard own keymap k s)"
| KeyboardGone: "session_step s (keyboard_destroyed k s)"
| TouchGone: "hits_mapped e (mapped_ids (view (core (desk s)))) \<Longrightarrow> session_step s (TouchDevice_OnDestroy e k s)"

inductive session_reachable :: "session \<Rightarrow> bool" where
  Start: "session_reachable (new_session m (new_compositor present resize))"
| Step: "session_reachable s \<Longrightarrow> session_step s s' \<Longrightarrow> session_reachable s'"

lemma oks_desk: "(okt (desk s) \<Longrightarrow> okt (f (desk s))) \<Longrightarrow> oks s \<Longrightarrow> oks (on_desk f s)"
  by (simp add: oks_def on_desk_def capabilities_def)

lemma okt_keep: "okd (touch_points d) d' \<Longrightarrow> okt d \<Longrightarrow> okt d'"
  by (simp add: okt_def okd_def)

lemma oks_fields:
  "oks s \<Longrightarrow> oks (s\<lparr>active_keyboard := k\<rparr>)" "oks s \<Longrightarrow> oks (s\<lparr>key_binding_manager := m\<rparr>)"
  by (simp_all add: oks_def capabilities_def)

lemma oks_set_keyboard: "oks s \<Longrightarrow> oks (set_keyboard k s)"
  unfolding set_keyboard_def by (intro oks_fields oks_desk okt_core ok_frame_rules; assumption)

lemma oks_key:
  assumes "\<And>a c. desktop_ok c \<Longrightarrow> desktop_ok (other a c)" "oks s"
  shows "oks (OnKey x other ans time kb event s)"
proof (cases kb)
  case (Some k)
  define s1 where "s1 = on_desk (on_core (notify CProtocol (NotifyKeyboard time))) s"
  have s1: "oks s1" unfolding s1_def by (intro oks_desk [OF _ assms(2)] okt_core ok_frame_rules; assumption)
  have run: "okc (fold (run_effect other) effs c)" if "okc c" for effs c
    using okc_run [OF _ that, of other] assms(1) by (simp add: okc_def)
  have offer: "oks (snd (offer_shortcuts x other ans k event s1))"
    unfolding offer_shortcuts_def Let_def
    using s1 run by (auto split: option.splits prod.splits intro!: oks_desk oks_fields okt_core)
  have deliver: "oks (deliver_key ans time k event s')" if "oks s'" for s'
    unfolding deliver_key_def
    using that oks_set_keyboard [OF that]
    by (auto intro!: oks_desk simp: okt_def send_def)
  show ?thesis
    using s1 offer deliver [OF offer]
    by (simp add: OnKey_def Some s1_def [symmetric] Let_def split_def)
qed (use assms in \<open>simp add: OnKey_def\<close>)

lemma oks_update:
  "okt (desk s) \<Longrightarrow> oks (UpdateSeatCapabilities s)"
  using capabilities_updated [of s] by (simp add: oks_def) (simp add: UpdateSeatCapabilities_def)

lemma oks_add_keyboard:
  assumes "oks s"
  shows "oks (AddKeyboard keymap k s)"
proof -
  have "okt (desk (set_keyboard k s))" using oks_set_keyboard [OF assms] by (simp add: oks_def)
  then have "oks (UpdateSeatCapabilities ((set_keyboard k s)\<lparr>keyboards := ks\<rparr>))" for ks
    by (intro oks_update) simp
  then show ?thesis
    unfolding AddKeyboard_def Let_def
    using assms by (auto split: option.splits intro!: oks_desk okt_core ok_frame_rules)
qed

lemma oks_devices:
  assumes "oks s"
  shows "oks (OnNewInput type keymap k s)" "oks (OnNewVirtualKeyboard own keymap k s)" "oks (keyboard_destroyed k s)"
proof -
  define s1 where "s1 = on_desk (on_core (\<lambda>c. notify CProtocol (InputAdded k) (notify CDbus (InputAdded k) c))) s"
  have s1: "oks s1" unfolding s1_def by (intro oks_desk [OF _ assms] okt_core ok_frame_rules; assumption)
  then have t1: "okt (desk s1)" by (simp add: oks_def)
  show "oks (OnNewInput type keymap k s)"
    unfolding OnNewInput_def Let_def s1_def [symmetric] AddTouch_def
    using oks_add_keyboard [OF s1] oks_update t1 by (simp split: device_type.splits)
  show "oks (OnNewVirtualKeyboard own keymap k s)"
    using assms oks_add_keyboard by (simp add: OnNewVirtualKeyboard_def)
  have "oks (Keyboard_OnDestroy k s)"
    unfolding Keyboard_OnDestroy_def using assms by (intro oks_update) (simp add: oks_def)
  then show "oks (keyboard_destroyed k s)"
    unfolding keyboard_destroyed_def handle_keyboard_destroy_def
    by (auto intro!: oks_fields oks_desk okt_core ok_frame_rules)
qed

lemma oks_touch_gone:
  assumes "oks s" "hits_mapped e (mapped_ids (view (core (desk s))))"
  shows "oks (TouchDevice_OnDestroy e k s)"
  unfolding TouchDevice_OnDestroy_def
  using assms okt_cancel_device by (intro oks_update) (simp add: oks_def on_desk_def)

lemma okt_pointer:
  "okt d \<Longrightarrow> okt (OnCursorMotion e time dx dy d)" "okt d \<Longrightarrow> okt (OnCursorMotionAbsolute e time x y d)"
  "okt d \<Longrightarrow> okt (OnCursorAxis e time fp d)" "okt d \<Longrightarrow> okt (OnCursorFrame d)"
  "okt d \<Longrightarrow> okt (HandleWindowMenuAction e sf a d)"
  by (rule okt_keep, rule okd_cursor_motion okd_menu_action, erule okd_self(1), assumption)+

lemmas okt_handlers = okt_pointer okt_button okt_down okt_up okt_motion okt_cancel okt_frame

lemma session_step_ok:
  assumes "session_step s s'" "oks s"
  shows "oks s'"
  using assms
proof (induction rule: session_step.induct)
  case (Window s c)
  then have "okc (core (desk s)) \<Longrightarrow> okc c" using okc_step by blast
  with Window show ?case by (intro oks_desk okt_core) auto
next
  case (Key other s x ans time kb event)
  then show ?case by (intro oks_key)
qed (assumption | rule oks_desk okt_handlers oks_devices oks_touch_gone)+

lemma session_reachable_ok: "session_reachable s \<Longrightarrow> oks s"
proof (induction rule: session_reachable.induct)
  case (Start m present resize)
  show ?case
    using new_compositor_ok
    by (simp add: oks_def okt_def okc_def new_session_def capabilities_def pointers_def)
qed (rule session_step_ok)

section \<open>What holds in every reachable session\<close>

lemma session_inv: "session_reachable s \<Longrightarrow> desktop_ok (core (desk s))"
  using session_reachable_ok [of s] by (simp add: oks_def okt_def okc_def)


text \<open>A session with a keyboard and a touch screen, in which one finger is down.\<close>

definition quiet_env :: env where
  "quiet_env = \<lparr>ev_hit = (\<lambda>_ _. (None, None, 0, 0)), menu_motion = False, split_motion = False,
     previews_motion = False, multitasking_motion = False, selector_motion = False, menu_button = False,
     split_button = False, multitasking_button = False, previews_button = False, selector_button = False,
     menu_active = False, multitasking_active = False, previews_active = False, selector_active = False,
     xw_owns_surface = (\<lambda>_. False), mapped_output = None, confine_pointer = id, forward_axis = True,
     accepts_touch = (\<lambda>_. False), touch_down_serial = True, seat_touch_point = (\<lambda>_. None)\<rparr>"

definition sample_session :: session where
  "sample_session = on_desk (OnTouchDown quiet_env 5 8 0 0 0) (OnNewInput DeviceTouch True 8
     (OnNewInput DeviceKeyboard True 7 (new_session None bare_compositor)))"

lemma sample_session_reachable: "session_reachable sample_session"
proof -
  have "hits_mapped quiet_env ids" for ids by (simp add: hits_mapped_def quiet_env_def)
  then show ?thesis
    unfolding sample_session_def bare_compositor_def
    by (intro session_reachable.Step [OF _ session_step.TouchDown] session_reachable.Step [OF _ session_step.NewInput]
        session_reachable.Start)
qed


text \<open>C6: In every reachable session at most one touch point emulates the pointer, and the seat
  advertises a keyboard or a touch screen exactly while one is present.\<close>

theorem session_seat_consistent:
  assumes "session_reachable s"
  shows "length (filter (\<lambda>p. tp_mode p = kPointer) (touch_points (desk s))) \<le> 1 \<and>
    (seat_capabilities s AND WL_SEAT_CAPABILITY_KEYBOARD \<noteq> 0 \<longleftrightarrow> (\<exists>k. Some k \<in> set (keyboards s))) \<and>
    (seat_capabilities s AND WL_SEAT_CAPABILITY_TOUCH \<noteq> 0 \<longleftrightarrow> (\<exists>k. Some k \<in> set (touch_devices s))) \<and>
    seat_capabilities s AND WL_SEAT_CAPABILITY_POINTER \<noteq> 0"
proof -
  have "seat_capabilities s = capabilities s" "pointers (touch_points (desk s)) \<le> 1"
    using session_reachable_ok [OF assms] by (simp_all add: oks_def okt_def)
  then show ?thesis
    by (auto simp: pointers_def capabilities_def WL_SEAT_CAPABILITY_KEYBOARD_def WL_SEAT_CAPABILITY_TOUCH_def
        WL_SEAT_CAPABILITY_POINTER_def)
qed

theorem session_seat_consistent_witness:
  "length (filter (\<lambda>p. tp_mode p = kPointer) (touch_points (desk sample_session))) = 1 \<and>
   seat_capabilities sample_session AND WL_SEAT_CAPABILITY_KEYBOARD \<noteq> 0 \<and>
   (\<exists>k. Some k \<in> set (touch_devices sample_session))"
proof -
  have "length (filter (\<lambda>p. tp_mode p = kPointer) (touch_points (desk sample_session))) = 1"
    "Some 7 \<in> set (keyboards sample_session)" "seat_capabilities sample_session AND WL_SEAT_CAPABILITY_TOUCH \<noteq> 0"
    by code_simp+
  then show ?thesis using session_seat_consistent [OF sample_session_reachable] by blast
qed

section \<open>Keys\<close>

lemma press_syms_not_taken: "press_syms x m kb event kss = (False, m', effs) \<Longrightarrow> m' = m \<and> effs = []"
  by (induction kss) (auto split: option.splits)

lemma HandleKey_not_taken:
  assumes "HandleKey x m kb event inhibited = (False, m', effs)"
  shows "m' = m \<and> effs = []"
proof -
  have "fst (HandleCapturedKey x m k event)" for k
    by (simp add: HandleCapturedKey_def Let_def split: list.splits)
  then have "HandleCapturedKey x m k event \<noteq> (False, m', effs)" for k
    by (metis fst_conv)
  then show ?thesis
    using assms press_syms_not_taken
    by (fastforce simp: HandleKey_def Let_def split: option.splits if_splits key_state.splits)
qed

lemma offer_not_taken:
  assumes "\<not> fst (offer_shortcuts x other ans kb event s)"
  shows "snd (offer_shortcuts x other ans kb event s) = s"
proof -
  have "on_desk (on_core (\<lambda>c. c)) s' = s'" for s' by (simp add: on_desk_def on_core_def)
  with assms show ?thesis
    by (auto simp: offer_shortcuts_def Let_def id_def split: option.splits if_splits prod.splits
        dest!: HandleKey_not_taken)
qed

lemma offer_log: "seat_log (desk (snd (offer_shortcuts x other ans kb event s))) = seat_log (desk s)"
  by (simp add: offer_shortcuts_def Let_def on_desk_def on_core_def split: option.splits prod.splits)


end
