(* ===== verification/Divergences.thy ===== *)
theory Divergences
  imports Focus_Laws Session_Laws
begin

text \<open>
  Reachable states in which the code does something else than its comments and its own
  bookkeeping say: a hidden window that is drawn, a focus that stays on a minimised window or that
  does not go to the window on top, and a button that stays pressed in a client.
\<close>

section \<open>A hidden window is drawn\<close>

text \<open>A window is minimised, the user goes to the next workspace, and the window asks to be maximised.\<close>

definition maximized_elsewhere :: compositor where
  "maximized_elsewhere = SetMaximized 0 True (SwitchWorkspace 1 (Minimize (Some 0) (open_window 0 10 bare_compositor)))"

lemma maximized_elsewhere_reachable: "reachable maximized_elsewhere"
proof -
  have "fresh 0 bare_compositor" unfolding fresh_def by code_simp
  then show ?thesis
    unfolding maximized_elsewhere_def
    by (intro reachable.Step [OF _ wm_step.Maximize] reachable.Step [OF _ wm_step.Switch]
        reachable.Step [OF _ wm_step.MinimizeWindow] open_window_reachable bare_reachable)
qed

text \<open>Its scene node is then enabled, on a workspace the window is not on, although
  \<^const>\<open>IsToplevelVisible\<close> denies that it is visible.\<close>

theorem maximize_draws_hidden_window:
  "\<exists>c i t. reachable c \<and> find_tl c i = Some t \<and> \<not> IsToplevelVisible c t \<and>
     map_option nd_enabled (tl_scene_tree t) = Some True"
proof -
  let ?c = maximized_elsewhere
  have "\<not> Option.is_none (find_tl ?c 0)" by code_simp
  then obtain t where t: "find_tl ?c 0 = Some t" by (cases "find_tl ?c 0") simp_all
  have "\<not> IsToplevelVisible ?c (the (find_tl ?c 0))"
    "map_option nd_enabled (tl_scene_tree (the (find_tl ?c 0))) = Some True"
    by code_simp+
  with t maximized_elsewhere_reachable show ?thesis by (metis option.sel)
qed

section \<open>The focus stays on a minimised window\<close>

text \<open>An X window that does not take the focus is newer than the window that is minimised.\<close>

definition minimized_focus :: compositor where
  "minimized_focus = Minimize (Some 0) (xw_OnNewSurface 1 (sample_client\<lparr>cl_surface := Some 11,
     cl_override_redirect := True\<rparr>) True (open_window 0 10 (bare_compositor\<lparr>seat_keyboard := True\<rparr>)))"

lemma minimized_focus_reachable: "reachable minimized_focus"
proof -
  let ?b = "bare_compositor\<lparr>seat_keyboard := True\<rparr>"
  have "fresh 0 ?b" "fresh 1 (open_window 0 10 ?b)" unfolding fresh_def by code_simp+
  moreover have "reachable ?b" by (rule reachable.Step [OF bare_reachable wm_step.Keyboard])
  ultimately show ?thesis
    unfolding minimized_focus_def
    by (intro reachable.Step [OF _ wm_step.MinimizeWindow] reachable.Step [OF _ wm_step.XNew] open_window_reachable)
qed

theorem minimized_window_keeps_focus:
  "\<exists>c i t. reachable c \<and> find_tl c i = Some t \<and> tl_minimized t \<and> Surface t \<noteq> None \<and>
     focused_surface c = Surface t"
proof -
  let ?c = minimized_focus
  have "\<not> Option.is_none (find_tl ?c 0)" by code_simp
  then obtain t where t: "find_tl ?c 0 = Some t" by (cases "find_tl ?c 0") simp_all
  have "tl_minimized (the (find_tl ?c 0))" "Surface (the (find_tl ?c 0)) = Some 10"
    "focused_surface ?c = Some 10"
    by code_simp+
  with t minimized_focus_reachable show ?thesis by (metis option.sel option.distinct(1))
qed

section \<open>The next window is not the topmost one\<close>

text \<open>Of three windows the first is raised last; when the third goes, the second is focused.\<close>

theorem next_window_is_not_topmost:
  "\<exists>c w. reachable c \<and> candidates w c \<noteq> [] \<and>
     last (filter (\<lambda>i. i \<in> tl_id ` set (candidates w c)) (tl_stack c)) \<noteq> tl_id (hd (candidates w c))"
proof -
  let ?c = "FocusToplevel (Some 0) sample_trio"
  have "reachable ?c" by (rule reachable.Step [OF sample_trio_reachable wm_step.Focus])
  moreover have "0 < length (candidates (Some 2) ?c)"
    "last (filter (\<lambda>i. i \<in> set (map tl_id (candidates (Some 2) ?c))) (tl_stack ?c)) \<noteq> tl_id (hd (candidates (Some 2) ?c))"
    by code_simp+
  ultimately show ?thesis
    by (intro exI [of _ ?c] exI [of _ "Some 2"]) simp
qed

section \<open>A button stays pressed\<close>

text \<open>The left button is pressed on the close button of a decorated window and held; the right button is
  pressed and released over the content of another one.\<close>

lemma new_session_reachable: "reachable c \<Longrightarrow> session_reachable (new_session m c)"
proof (induction rule: reachable.induct)
  case (Step c c')
  have "on_desk (on_core (\<lambda>_. c')) (new_session m c) = new_session m c'"
    by (simp add: new_session_def on_desk_def on_core_def)
  moreover have "core (desk (new_session m c)) = c" by (simp add: new_session_def)
  ultimately show ?case
    using session_reachable.Step [OF Step.IH session_step.Window, of c'] Step.hyps(2) by simp
qed (rule session_reachable.Start)

definition two_windows :: compositor where
  "two_windows = (open_window 1 11 (SetSsdEnabled 0 True
     (open_window 0 10 (bare_compositor\<lparr>seat_keyboard := True\<rparr>))))\<lparr>cursor_x := 280, cursor_y := - 20\<rparr>"

lemma two_windows_reachable: "reachable two_windows"
proof -
  let ?b = "bare_compositor\<lparr>seat_keyboard := True\<rparr>"
  have "fresh 0 ?b" "fresh 1 (SetSsdEnabled 0 True (open_window 0 10 ?b))" unfolding fresh_def by code_simp+
  moreover have "reachable ?b" by (rule reachable.Step [OF bare_reachable wm_step.Keyboard])
  ultimately show ?thesis
    unfolding two_windows_def
    by (intro reachable.Step [OF _ wm_step.Cursor] open_window_reachable reachable.Step [OF _ wm_step.Decorate])
qed

definition over_frame :: env where
  "over_frame = quiet_env\<lparr>ev_hit := (\<lambda>_ _. (Some 0, None, 0, 0))\<rparr>"

definition over_client :: env where
  "over_client = quiet_env\<lparr>ev_hit := (\<lambda>_ _. (Some 1, Some 11, 5, 5))\<rparr>"

definition both_pressed :: session where
  "both_pressed = on_desk (OnCursorButton over_client 2 True BTN_RIGHT True)
     (on_desk (OnCursorButton over_frame 1 True BTN_LEFT True) (new_session None two_windows))"

lemma hits_mapped_one:
  assumes "list_ex (\<lambda>t. tl_id t = i \<and> tl_mapped t) (toplevels c)" "\<And>x y. fst (ev_hit e x y) = Some i"
  shows "hits_mapped e (mapped_ids (view c))"
  using assms by (force simp: hits_mapped_def mapped_ids_def list_ex_iff)

lemma both_pressed_reachable: "session_reachable both_pressed"
proof -
  let ?s = "new_session None two_windows"
  let ?s1 = "on_desk (OnCursorButton over_frame 1 True BTN_LEFT True) ?s"
  have "list_ex (\<lambda>t. tl_id t = 0 \<and> tl_mapped t) (toplevels (core (desk ?s)))" by code_simp
  then have "hits_mapped over_frame (mapped_ids (view (core (desk ?s))))"
    by (rule hits_mapped_one) (simp add: over_frame_def)
  moreover have "list_ex (\<lambda>t. tl_id t = 1 \<and> tl_mapped t) (toplevels (core (desk ?s1)))" by code_simp
  then have "hits_mapped over_client (mapped_ids (view (core (desk ?s1))))"
    by (rule hits_mapped_one) (simp add: over_client_def)
  moreover note hits = calculation
  show ?thesis
    unfolding both_pressed_def
    by (intro session_reachable.Step [OF _ session_step.Button] hits new_session_reachable two_windows_reachable)
qed

text \<open>The client was told of the press and is not told of the release.\<close>

theorem right_button_stays_pressed:
  "\<exists>s e. session_reachable s \<and> last (seat_log (desk s)) = SeatButton 2 BTN_RIGHT True \<and>
     seat_log (OnCursorButton e 3 True BTN_RIGHT False (desk s)) = seat_log (desk s)"
proof -
  have "last (seat_log (desk both_pressed)) = SeatButton 2 BTN_RIGHT True"
    "seat_log (OnCursorButton over_client 3 True BTN_RIGHT False (desk both_pressed)) = seat_log (desk both_pressed)"
    by code_simp+
  with both_pressed_reachable show ?thesis by blast
qed

end
