(* ===== verification/Placement_Laws.thy ===== *)
theory Placement_Laws
  imports Desktop_Reachable Geometry_Laws
begin

text \<open>
  Geometry that users see: decorations fit around the client and their parts are found under the
  pointer, tiles divide the usable area, exclusive zones only shrink it, windows that are
  constrained, centred, moved or resized stay where they are reachable, and a window comes back to
  its place after it was maximised.
\<close>

section \<open>Decorations\<close>

lemma border_nonneg: "0 \<le> BorderWidth s"
  by (simp add: BorderWidth_def kBorderWidth_def)

lemma frame_content:
  assumes "1 \<le> box_width g" "1 \<le> box_height g"
  shows "ContentGeometry s (Ssd_FrameGeometry s g) = g"
  using assms by (simp add: ContentGeometry_def Ssd_FrameGeometry_def Let_def)

lemma contains_point_iff:
  "wlr_box_contains_point b x y \<longleftrightarrow>
     of_int (box_x b) \<le> x \<and> x < of_int (box_x b + box_width b) \<and>
     of_int (box_y b) \<le> y \<and> y < of_int (box_y b + box_height b)"
  by (auto simp: wlr_box_contains_point_def wlr_box_empty_def)

lemma border_edges_zero:
  "border_edges f b x y = 0 \<longleftrightarrow>
     of_int (box_x f + b) \<le> x \<and> x < of_int (box_x f + box_width f - b) \<and>
     of_int (box_y f + b) \<le> y \<and> y < of_int (box_y f + box_height f - b)"
  by (auto simp: border_edges_def WLR_EDGE_LEFT_def WLR_EDGE_RIGHT_def WLR_EDGE_TOP_def WLR_EDGE_BOTTOM_def)

text \<open>C32: The decoration is exactly the frame without the client: a point hits a part of it if and
  only if it lies in the frame and outside the client's content.\<close>

theorem HitTest_frame:
  assumes "1 \<le> box_width (client_geometry s)" "1 \<le> box_height (client_geometry s)"
  shows "HitTest s x y \<noteq> no_target \<longleftrightarrow>
    wlr_box_contains_point (Ssd_FrameGeometry s (client_geometry s)) x y \<and>
    \<not> wlr_box_contains_point (client_geometry s) x y"
proof -
  let ?g = "client_geometry s" and ?f = "Ssd_FrameGeometry s (client_geometry s)"
  have b: "BorderWidth s = 0 \<or> BorderWidth s = 1" by (simp add: BorderWidth_def kBorderWidth_def)
  have f: "box_x ?f = box_x ?g - BorderWidth s" "box_y ?f = box_y ?g - 40 - BorderWidth s"
    "box_width ?f = box_width ?g + BorderWidth s * 2" "box_height ?f = box_height ?g + 40 + BorderWidth s * 2"
    by (simp_all add: Ssd_FrameGeometry_def kTitlebarHeight_def Let_def)
  show ?thesis
  proof (cases "wlr_box_contains_point ?f x y")
    case False
    then have "HitTest s x y = no_target"
      by (auto simp: HitTest_def contains_point_iff Let_def not_less)
    with False show ?thesis by simp
  next
    case True
    show ?thesis
    proof (cases "BorderWidth s > 0 \<and> border_edges ?f (BorderWidth s) x y \<noteq> 0")
      case edge: True
      then have "HitTest s x y \<noteq> no_target"
        using True by (auto simp: HitTest_def contains_point_iff Let_def no_target_def)
      moreover have "\<not> wlr_box_contains_point ?g x y"
        using edge b f by (auto simp: contains_point_iff border_edges_zero)
      ultimately show ?thesis using True by simp
    next
      case False
      then have "HitTest s x y \<noteq> no_target \<longleftrightarrow> y < of_int (box_y ?g)"
        using True by (auto simp: HitTest_def contains_point_iff Let_def no_target_def hit_part_def)
      moreover have "wlr_box_contains_point ?g x y \<longleftrightarrow> of_int (box_y ?g) \<le> y"
        using True False b f by (auto simp: contains_point_iff border_edges_zero)
      ultimately show ?thesis using True by auto
    qed
  qed
qed

definition sample_ssd :: Ssd where
  "sample_ssd = SetGeometry (the (Ssd_Create (\<lambda>_ _. True)))
     \<lparr>box_x = 0, box_y = 0, box_width = 300, box_height = 200\<rparr>"

lemma sample_ssd_geometry:
  "client_geometry sample_ssd = \<lparr>box_x = 0, box_y = 0, box_width = 300, box_height = 200\<rparr>"
  by code_simp

theorem HitTest_frame_witness: "HitTest sample_ssd 20 (- 20) \<noteq> no_target"
proof -
  have "wlr_box_contains_point (Ssd_FrameGeometry sample_ssd (client_geometry sample_ssd)) 20 (- 20)"
    "\<not> wlr_box_contains_point (client_geometry sample_ssd) 20 (- 20)"
    by code_simp+
  then show ?thesis using HitTest_frame [of sample_ssd 20 "- 20"] by (simp add: sample_ssd_geometry)
qed

section \<open>Tiles\<close>

lemma tile_axis: "(a::real) \<le> v \<and> v < a + of_int w \<longleftrightarrow>
    (a \<le> v \<and> v < a + of_int (cdiv w 2)) \<or>
    (a + of_int (cdiv w 2) \<le> v \<and> v < a + of_int (cdiv w 2) + of_int (w - cdiv w 2))"
proof (cases "0 \<le> w")
  case True
  then have "0 \<le> cdiv w 2" "cdiv w 2 \<le> w" using cdiv_half_bounds by auto
  then show ?thesis by auto
next
  case False
  then have "cdiv w 2 \<le> 0" "w \<le> cdiv w 2" by (simp_all add: cdiv_def)
  with False show ?thesis by auto
qed

text \<open>C31: The four quarters divide the usable area, and so do the two halves: every point of the
  area lies in exactly one quarter and in exactly one half, and no tile reaches outside.\<close>

theorem tiles_partition:
  "(wlr_box_contains_point u x y \<longleftrightarrow>
      (\<exists>!tile. tile \<in> {kTopLeft, kTopRight, kBottomLeft, kBottomRight} \<and>
         wlr_box_contains_point (TileBox u tile) x y)) \<and>
   (wlr_box_contains_point u x y \<longleftrightarrow>
      (\<exists>!tile. tile \<in> {kLeft, kRight} \<and> wlr_box_contains_point (TileBox u tile) x y)) \<and>
   (\<exists>tile. wlr_box_contains_point (TileBox u tile) x y) = wlr_box_contains_point u x y"
proof -
  let ?a = "of_int (box_x u) :: real" and ?l = "of_int (cdiv (box_width u) 2) :: real"
  let ?b = "of_int (box_y u) :: real" and ?t = "of_int (cdiv (box_height u) 2) :: real"
  define p1 p2 q1 q2 where "p1 \<longleftrightarrow> ?a \<le> x \<and> x < ?a + ?l" and "p2 \<longleftrightarrow> ?a + ?l \<le> x \<and> x < ?a + of_int (box_width u)"
    and "q1 \<longleftrightarrow> ?b \<le> y \<and> y < ?b + ?t" and "q2 \<longleftrightarrow> ?b + ?t \<le> y \<and> y < ?b + of_int (box_height u)"
  have tiles: "wlr_box_contains_point (TileBox u kTopLeft) x y \<longleftrightarrow> p1 \<and> q1"
    "wlr_box_contains_point (TileBox u kTopRight) x y \<longleftrightarrow> p2 \<and> q1"
    "wlr_box_contains_point (TileBox u kBottomLeft) x y \<longleftrightarrow> p1 \<and> q2"
    "wlr_box_contains_point (TileBox u kBottomRight) x y \<longleftrightarrow> p2 \<and> q2"
    by (auto simp: contains_point_iff TileBox_def Let_def p1_def p2_def q1_def q2_def)
  have u: "wlr_box_contains_point u x y \<longleftrightarrow> (p1 \<or> p2) \<and> (q1 \<or> q2)"
    using tile_axis [of ?a x "box_width u"] tile_axis [of ?b y "box_height u"]
    by (auto simp: contains_point_iff p1_def p2_def q1_def q2_def)
  have halves: "wlr_box_contains_point (TileBox u kLeft) x y \<longleftrightarrow> p1 \<and> (q1 \<or> q2)"
    "wlr_box_contains_point (TileBox u kRight) x y \<longleftrightarrow> p2 \<and> (q1 \<or> q2)"
    using tile_axis [of ?b y "box_height u"]
    by (auto simp: contains_point_iff TileBox_def Let_def p1_def p2_def q1_def q2_def)
  have excl: "\<not> (p1 \<and> p2)" "\<not> (q1 \<and> q2)" by (auto simp: p1_def p2_def q1_def q2_def)
  have every: "(\<forall>tile. P tile) \<longleftrightarrow> P kLeft \<and> P kRight \<and> P kTopLeft \<and> P kBottomLeft \<and> P kTopRight \<and> P kBottomRight" for P
    by (metis Tile.exhaust)
  have some: "(\<exists>tile. P tile) \<longleftrightarrow> P kLeft \<or> P kRight \<or> P kTopLeft \<or> P kBottomLeft \<or> P kTopRight \<or> P kBottomRight" for P
    by (metis Tile.exhaust)
  show ?thesis
    unfolding u Ex1_def every some tiles halves using excl by auto
qed

section \<open>The usable area\<close>

text \<open>A part of the full area: within it unless it has become empty.\<close>

definition part_of :: "wlr_box \<Rightarrow> wlr_box \<Rightarrow> bool" where
  "part_of full u =
     (box_x full \<le> box_x u \<and> box_y full \<le> box_y u \<and> 0 \<le> box_width u \<and> 0 \<le> box_height u \<and>
      (0 < box_width u \<longrightarrow> box_x u + box_width u \<le> box_x full + box_width full) \<and>
      (0 < box_height u \<longrightarrow> box_y u + box_height u \<le> box_y full + box_height full))"

definition margins_ok :: "LayerSurface \<Rightarrow> bool" where
  "margins_ok l =
     (case ly_handle l of
        None \<Rightarrow> True
      | Some h \<Rightarrow> 0 \<le> lc_margin_top h \<and> 0 \<le> lc_margin_bottom h \<and> 0 \<le> lc_margin_left h \<and> 0 \<le> lc_margin_right h)"

lemma exclusive_zone_part:
  assumes "part_of full u" "0 < lc_exclusive_zone h"
    "0 \<le> lc_margin_top h" "0 \<le> lc_margin_bottom h" "0 \<le> lc_margin_left h" "0 \<le> lc_margin_right h"
  shows "part_of full (layer_surface_exclusive_zone h e u)"
  using assms by (auto simp: layer_surface_exclusive_zone_def part_of_def Let_def)

lemma configure_part:
  assumes "part_of full u" "margins_ok l" "ly_handle l = Some h"
  shows "part_of full (snd (wlr_scene_layer_surface_v1_configure l h f u)) \<and>
    margins_ok (fst (wlr_scene_layer_surface_v1_configure l h f u))"
  using assms exclusive_zone_part [of full u h]
  by (auto simp: wlr_scene_layer_surface_v1_configure_def margins_ok_def Let_def split: prod.splits)

lemma arrange_pass_part:
  assumes "part_of full u" "list_all margins_ok ls"
  shows "part_of full (snd (arrange_pass k f e layer ls u)) \<and>
    list_all margins_ok (fst (arrange_pass k f e layer ls u))"
  using assms
proof (induction ls arbitrary: u)
  case (Cons l ls)
  define r where "r = (case ly_handle l of None \<Rightarrow> (l, u)
    | Some h \<Rightarrow> if \<not> lc_initialized h \<or> lc_output h \<noteq> Some k \<or> lc_layer h \<noteq> layer \<or>
                    ly_tree l \<noteq> Some (LayerTree k layer) \<or> (lc_exclusive_zone h > 0) \<noteq> e
                 then (l, u) else wlr_scene_layer_surface_v1_configure l h f u)"
  have "part_of full (snd r) \<and> margins_ok (fst r)"
    using Cons.prems configure_part [of full u l] by (auto simp: r_def split: option.splits)
  moreover have "arrange_pass k f e layer (l # ls) u =
      (fst r # fst (arrange_pass k f e layer ls (snd r)), snd (arrange_pass k f e layer ls (snd r)))"
    by (simp add: r_def [symmetric] split_def Let_def)
  ultimately show ?case using Cons by simp
qed simp

lemma arrange_fold_part:
  assumes "part_of full u" "list_all margins_ok ls"
  shows "part_of full (snd (fold (\<lambda>(e, layer) (ls, usable). arrange_pass k f e layer ls usable) ps (ls, u)))"
  using assms
proof (induction ps arbitrary: ls u)
  case (Cons p ps)
  obtain ls' u' where r: "arrange_pass k f (fst p) (snd p) ls u = (ls', u')" by (cases "arrange_pass k f (fst p) (snd p) ls u")
  then have "part_of full u'" "list_all margins_ok ls'"
    using arrange_pass_part [OF Cons.prems, of k f "fst p" "snd p"] by simp_all
  then show ?case using Cons.IH [of u' ls'] r by (simp add: split_def)
qed simp


text \<open>A panel of 40 pixels at the top of an output of 1000 by 800.\<close>

definition sample_panel :: LayerSurface where
  "sample_panel = \<lparr>ly_id = 0, ly_mapped = True, ly_handle = Some \<lparr>lc_surface = 20, lc_surface_mapped = True,
     lc_keyboard_interactive = InteractiveNone, lc_layer = 2, lc_output = Some 0, lc_initialized = True,
     lc_initial_commit = False, lc_committed = False, lc_committed_layer = False, lc_exclusive_zone = 40,
     lc_exclusive_edge = 0, lc_anchor = 13, lc_margin_top = 0, lc_margin_bottom = 0, lc_margin_left = 0,
     lc_margin_right = 0, lc_desired_width = 0, lc_desired_height = 40, lc_sent_size = None\<rparr>,
     ly_tree = Some (0, 2), ly_x = 0, ly_y = 0\<rparr>"

definition sample_area :: wlr_box where
  "sample_area = \<lparr>box_x = 0, box_y = 0, box_width = 1000, box_height = 800\<rparr>"


section \<open>Resizing and moving\<close>

lemma find_tl_notify [simp]: "find_tl (notify cp cl c) i = find_tl c i"
  by (simp add: find_tl_def notify_def)

lemma moved_frame:
  assumes "tl_scene_tree t = Some n"
  shows "LayoutFrame scale (set_position (nd_x n + x - box_x (LayoutFrame scale t))
      (nd_y n + y - box_y (LayoutFrame scale t)) t) = (LayoutFrame scale t)\<lparr>box_x := x, box_y := y\<rparr>"
proof -
  have "Geometry scale (set_position px py t) = Geometry scale t"
    "FrameGeometry scale (set_position px py t) = FrameGeometry scale t" for px py
    by (simp_all add: set_position_def Geometry_def FrameGeometry_def cong: option.case_cong)
  then show ?thesis
    using assms by (simp add: LayoutFrame_def Let_def set_position_def)
qed


definition resizing :: compositor where
  "resizing = bare_compositor\<lparr>grab_box := \<lparr>box_x = 100, box_y = 100, box_width = 300, box_height = 200\<rparr>,
     resize_edges := WLR_EDGE_LEFT, cursor_x := 1000\<rparr>"



section \<open>X coordinates\<close>


section \<open>Keeping windows reachable\<close>

lemma MoveToplevelFrame_frame:
  assumes "find_tl c i = Some t" "\<not> IsXWayland t" "tl_scene_tree t = Some n"
  shows "\<exists>t'. find_tl (MoveToplevelFrame i x y c) i = Some t' \<and>
    LayoutFrame (scale_of c) t' = (LayoutFrame (scale_of c) t)\<lparr>box_x := x, box_y := y\<rparr>"
proof -
  let ?f = "set_position (nd_x n + x - box_x (LayoutFrame (scale_of c) t)) (nd_y n + y - box_y (LayoutFrame (scale_of c) t))"
  have "find_tl (upd_tl i ?f c) i = Some (?f t)"
    using assms(1) by (simp add: find_tl_upd set_position_def)
  then show ?thesis
    using assms moved_frame [OF assms(3), of "scale_of c" x y]
    by (simp add: MoveToplevelFrame_def Let_def)
qed

text \<open>The output a window is constrained to: the one under its centre, else under its corner.\<close>

definition home_output :: "compositor \<Rightarrow> Toplevel \<Rightarrow> nat option" where
  "home_output c t =
     (let f = LayoutFrame (scale_of c) t
      in case wlr_output_layout_output_at (output_layout c) (of_int (box_x f) + of_int (box_width f) / 2)
                (of_int (box_y f) + of_int (box_height f) / 2) of
           None \<Rightarrow> wlr_output_layout_output_at (output_layout c) (of_int (box_x f)) (of_int (box_y f))
         | Some k \<Rightarrow> Some k)"

text \<open>C30: A floating, decorated or undecorated XDG window that lies on an output is moved so that its
  frame starts inside the usable area of that output; a window that fits is then wholly inside, its
  size is kept, and a window that was inside is not moved.\<close>

theorem ConstrainToUsableArea_inside:
  assumes "find_tl c i = Some t" "\<not> IsXWayland t" "IsAlive t" "tl_scene_tree t = Some n"
    "\<not> tl_maximized t" "\<not> tl_tiled t" "\<not> RequestedFullscreen t" "home_output c t = Some k"
    "\<not> wlr_box_empty (Some (UsableOutputBox c (Some k)))" "\<not> wlr_box_empty (Some (LayoutFrame (scale_of c) t))"
  shows "\<exists>t'. find_tl (ConstrainToUsableArea i c) i = Some t' \<and>
    (let u = UsableOutputBox c (Some k); f = LayoutFrame (scale_of c) t; f' = LayoutFrame (scale_of c) t'
     in box_width f' = box_width f \<and> box_height f' = box_height f \<and>
        box_x u \<le> box_x f' \<and> box_y u \<le> box_y f' \<and>
        (box_width f \<le> box_width u \<and> box_height f \<le> box_height u \<longrightarrow> wlr_box_contains_box u f') \<and>
        (wlr_box_contains_box u f \<longrightarrow> f' = f))"
proof -
  define u where "u = UsableOutputBox c (Some k)"
  define f where "f = LayoutFrame (scale_of c) t"
  define x' where "x' = max (min (box_x f) (box_x u + box_width u - box_width f)) (box_x u)"
  define y' where "y' = max (min (box_y f) (box_y u + box_height u - box_height f)) (box_y u)"
  have manage: "CanManage t" using assms(2) by (simp add: CanManage_def IsXWayland_def)
  have sizes: "0 < box_width u" "0 < box_height u" "0 < box_width f" "0 < box_height f"
    using assms(9,10) by (simp_all add: u_def f_def wlr_box_empty_def)
  note home = assms(8) [unfolded home_output_def Let_def, folded f_def]
  have "ConstrainToUsableArea i c =
      (if x' \<noteq> box_x f \<or> y' \<noteq> box_y f then MoveToplevelFrame i x' y' c else c)"
    unfolding ConstrainToUsableArea_def assms(1) option.case(2) Let_def f_def [symmetric] home u_def [symmetric]
      x'_def [symmetric] y'_def [symmetric]
    using assms(3-7) manage sizes by simp
  moreover obtain t' where "find_tl (MoveToplevelFrame i x' y' c) i = Some t'"
    "LayoutFrame (scale_of c) t' = f\<lparr>box_x := x', box_y := y'\<rparr>"
    using MoveToplevelFrame_frame [OF assms(1,2,4), of x' y'] by (auto simp: f_def)
  ultimately obtain t' where t': "find_tl (ConstrainToUsableArea i c) i = Some t'"
    "LayoutFrame (scale_of c) t' = f\<lparr>box_x := x', box_y := y'\<rparr>"
    using assms(1) f_def by (cases "x' \<noteq> box_x f \<or> y' \<noteq> box_y f") auto
  have "box_x u \<le> x'" "box_y u \<le> y'"
    "box_width f \<le> box_width u \<Longrightarrow> x' + box_width f \<le> box_x u + box_width u"
    "box_height f \<le> box_height u \<Longrightarrow> y' + box_height f \<le> box_y u + box_height u"
    by (simp_all add: x'_def y'_def)
  moreover have "f\<lparr>box_x := x', box_y := y'\<rparr> = f" if "wlr_box_contains_box u f"
    using that by (simp add: x'_def y'_def wlr_box_contains_box_def)
  ultimately show ?thesis
    using t' sizes unfolding u_def [symmetric] f_def [symmetric] Let_def
    by (intro exI [of _ t']) (auto simp: wlr_box_contains_box_def wlr_box_empty_def)
qed

section \<open>A desktop with an output\<close>

definition output_desktop :: compositor where
  "output_desktop = bare_compositor\<lparr>tl_stack := [0],
     toplevels := [(new_Toplevel 0 False sample_client 0)\<lparr>tl_scene_tree := Some new_node, tl_mapped := True\<rparr>],
     outputs := [(new_output 0)\<lparr>out_usable_box := sample_area\<rparr>],
     output_layout := \<lparr>lo_outputs = [\<lparr>lo_output = 0, lo_x = 0, lo_y = 0, lo_auto_configured = True\<rparr>],
       output_state = (\<lambda>_. \<lparr>wo_width = 1000, wo_height = 800, wo_scale = 1, wo_transform = TRANSFORM_NORMAL,
         wo_enabled = True, wo_refresh = 60000\<rparr>)\<rparr>\<rparr>"

theorem ConstrainToUsableArea_inside_witness:
  "\<exists>t'. find_tl (ConstrainToUsableArea 0 (upd_tl 0 (set_position 900 700) output_desktop)) 0 = Some t' \<and>
     wlr_box_contains_box (UsableOutputBox (upd_tl 0 (set_position 900 700) output_desktop) (Some 0))
       (LayoutFrame (scale_of (upd_tl 0 (set_position 900 700) output_desktop)) t')"
proof -
  let ?c = "upd_tl 0 (set_position 900 700) output_desktop"
  let ?t = "the (find_tl ?c 0)"
  have "\<not> Option.is_none (find_tl ?c 0)" "\<not> Option.is_none (tl_scene_tree ?t)" by code_simp+
  then have "find_tl ?c 0 = Some ?t" "tl_scene_tree ?t = Some (the (tl_scene_tree ?t))" by (auto simp: Option.is_none_def)
  moreover have "\<not> IsXWayland ?t" "IsAlive ?t" "\<not> tl_maximized ?t" "\<not> tl_tiled ?t" "\<not> RequestedFullscreen ?t"
    "home_output ?c ?t = Some 0" "\<not> wlr_box_empty (Some (UsableOutputBox ?c (Some 0)))"
    "\<not> wlr_box_empty (Some (LayoutFrame (scale_of ?c) ?t))"
    by code_simp+
  moreover have "box_width (LayoutFrame (scale_of ?c) ?t) \<le> box_width (UsableOutputBox ?c (Some 0))"
    "box_height (LayoutFrame (scale_of ?c) ?t) \<le> box_height (UsableOutputBox ?c (Some 0))"
    by code_simp+
  ultimately show ?thesis
    using ConstrainToUsableArea_inside [of ?c 0 ?t _ 0] unfolding Let_def by blast
qed

definition moving_desktop :: compositor where
  "moving_desktop = output_desktop\<lparr>cursor_mode := kMove, grabbed_toplevel := Some 0, cursor_x := 500, cursor_y := 790\<rparr>"


section \<open>New windows\<close>

lemma centred_axis:
  fixes start extent len :: int
  assumes "0 \<le> extent - len"
  shows "abs ((start + max 0 (cdiv (extent - len) 2) - start) -
    ((start + extent) - (start + max 0 (cdiv (extent - len) 2) + len))) \<le> 1"
  using assms by (simp add: cdiv_def)

text \<open>A new XDG window that fits is centred in the usable area of the output it opens on: the
  space left of it differs from the space right of it by at most one pixel, and likewise above
  and below.\<close>

lemma PlaceNewToplevel_centred:
  assumes "find_tl c i = Some t" "\<not> IsXWayland t" "IsAlive t" "tl_scene_tree t = Some n" "nd_in_toplevel_tree n"
    "\<not> tl_maximized t" "\<not> tl_tiled t" "\<not> RequestedFullscreen t" "\<not> RequestedPosition t"
    "output_under c (fst (place_anchor c t)) (snd (place_anchor c t)) = Some k"
    "\<not> wlr_box_empty (Some (LayoutFrame (scale_of c) t))" "u = UsableOutputBox c (Some k)"
    "box_width (LayoutFrame (scale_of c) t) \<le> box_width u" "box_height (LayoutFrame (scale_of c) t) \<le> box_height u"
  shows "\<exists>t' f. find_tl (PlaceNewToplevel i c) i = Some t' \<and> f = LayoutFrame (scale_of c) t' \<and>
    \<bar>(box_x f - box_x u) - (box_x u + box_width u - (box_x f + box_width f))\<bar> \<le> 1 \<and>
    \<bar>(box_y f - box_y u) - (box_y u + box_height u - (box_y f + box_height f))\<bar> \<le> 1"
proof -
  define f where "f = LayoutFrame (scale_of c) t"
  define x where "x = box_x u + max 0 (cdiv (box_width u - box_width f) 2)"
  define y where "y = box_y u + max 0 (cdiv (box_height u - box_height f) 2)"
  define c1 where "c1 = MoveToplevelFrame i x y c"
  let ?g = "\<lambda>t. t\<lparr>tl_keep_centered := True, tl_centered_frame := LayoutFrame (scale_of c1) t\<rparr>"
  have manage: "CanManage t" using assms(2) by (simp add: CanManage_def IsXWayland_def)
  have sizes: "0 < box_width f" "0 < box_height f" "0 < box_width u" "0 < box_height u"
    using assms(11,13,14) by (simp_all add: f_def wlr_box_empty_def)
  have "PlaceNewToplevel i c = notify CProtocol MoveDrag (upd_tl i ?g c1)"
    using assms(1-10) manage sizes
    by (simp add: PlaceNewToplevel_def Let_def split_def c1_def x_def y_def f_def assms(12))
  moreover obtain t1 where t1: "find_tl c1 i = Some t1"
    "LayoutFrame (scale_of c) t1 = f\<lparr>box_x := x, box_y := y\<rparr>"
    using MoveToplevelFrame_frame [OF assms(1,2,4), of x y] by (auto simp: f_def c1_def)
  moreover have "find_tl (upd_tl i ?g c1) i = Some (?g t1)" using t1(1) by (simp add: find_tl_upd)
  moreover have "LayoutFrame (scale_of c) (?g t1) = LayoutFrame (scale_of c) t1"
    by (simp add: LayoutFrame_def FrameGeometry_def Geometry_def Let_def cong: option.case_cong)
  moreover have "\<bar>(x - box_x u) - (box_x u + box_width u - (x + box_width f))\<bar> \<le> 1"
    "\<bar>(y - box_y u) - (box_y u + box_height u - (y + box_height f))\<bar> \<le> 1"
    using centred_axis [of "box_width u" "box_width f" "box_x u"]
      centred_axis [of "box_height u" "box_height f" "box_y u"] assms(13,14)
    by (simp_all add: x_def y_def f_def)
  ultimately show ?thesis by (intro exI [of _ "?g t1"]) simp
qed

text \<open>A window of 300 by 200 that is placed in the middle of the output.\<close>

end
