(* ===== verification/Restore_Laws.thy ===== *)
theory Restore_Laws
  imports Placement_Laws
begin

text \<open>
  Maximising a window and restoring it: \<open>restorable\<close> says what the window keeps while it is
  maximised, every setter in between preserves it, and unmaximising brings the content back.
\<close>

section \<open>What a maximised window keeps\<close>

text \<open>What a maximised XDG window keeps of its floating place: the box to restore, and whether it is
  decorated.\<close>

definition restorable :: "wlr_box \<Rightarrow> bool \<Rightarrow> Toplevel \<Rightarrow> bool" where
  "restorable b deco t =
     (tl_restore_box t = b \<and> tl_has_restore_box t \<and> \<not> tl_xwayland t \<and> tl_scene_tree t \<noteq> None \<and>
      CanConfigure t \<and> (tl_ssd t \<noteq> None) = deco)"

lemma CanConfigure_on_handle [simp]:
  "(\<And>h. cl_initialized (f h) = cl_initialized h) \<Longrightarrow> CanConfigure (on_handle f t) = CanConfigure t"
  by (simp add: CanConfigure_def xdg_handle_def on_handle_def split: option.splits)

lemma CanConfigure_fields [simp]:
  "CanConfigure (on_ssd g t) = CanConfigure t" "CanConfigure (set_position x y t) = CanConfigure t"
  "CanConfigure (set_enabled e t) = CanConfigure t" "CanConfigure (t\<lparr>tl_maximized := m\<rparr>) = CanConfigure t"
  "CanConfigure (t\<lparr>tl_minimized := m\<rparr>) = CanConfigure t" "CanConfigure (t\<lparr>tl_tiled := m\<rparr>) = CanConfigure t"
  "CanConfigure (t\<lparr>tl_maximized_output := k\<rparr>) = CanConfigure t"
  "CanConfigure (t\<lparr>tl_maximized_box := bx\<rparr>) = CanConfigure t"
  "CanConfigure (t\<lparr>tl_restore_box := bx\<rparr>) = CanConfigure t"
  "CanConfigure (t\<lparr>tl_has_restore_box := m\<rparr>) = CanConfigure t"
  "CanConfigure (t\<lparr>tl_tile_position_pending := m\<rparr>) = CanConfigure t"
  "CanConfigure (t\<lparr>tl_csd_shadow := sh\<rparr>) = CanConfigure t"
  by (simp_all add: CanConfigure_def xdg_handle_def on_ssd_def set_position_def set_enabled_def)

lemma configure_now: "CanConfigure t \<Longrightarrow> configure_or_defer f g t = on_handle f t"
  by (simp add: configure_or_defer_def)

lemma find_tl_RebuildSurfaceClip [simp]: "find_tl (RebuildSurfaceClip i c) j = find_tl c j"
  by (simp add: RebuildSurfaceClip_def find_tl_def RefreshRoundedCornerState_def UpdateBackdropBlurState_def Let_def
      split: option.splits)

lemma restorable_frame [simp]:
  "restorable b d (on_ssd g t) = restorable b d t"
  "restorable b d (t\<lparr>tl_maximized := m\<rparr>) = restorable b d t"
  "restorable b d (t\<lparr>tl_tiled := m\<rparr>) = restorable b d t"
  "restorable b d (t\<lparr>tl_minimized := m\<rparr>) = restorable b d t"
  "restorable b d (t\<lparr>tl_restore_position_pending := m\<rparr>) = restorable b d t"
  "restorable b d (t\<lparr>tl_maximized_output := k\<rparr>) = restorable b d t"
  "restorable b d (t\<lparr>tl_maximized_box := bx\<rparr>) = restorable b d t"
  "restorable b d (t\<lparr>tl_tile_position_pending := m\<rparr>) = restorable b d t"
  "restorable b d (t\<lparr>tl_csd_shadow := sh\<rparr>) = restorable b d t"
  "restorable b d (set_position x y t) = restorable b d t"
  "restorable b d (set_enabled e t) = restorable b d t"
  by (auto simp: restorable_def on_ssd_def set_position_def set_enabled_def CanConfigure_def xdg_handle_def)

lemma restorable_on_handle:
  "(\<And>h. cl_initialized (f h) = cl_initialized h) \<Longrightarrow> restorable b d (on_handle f t) = restorable b d t"
  by (simp add: restorable_def) (simp add: on_handle_def)

lemma restorable_setters:
  assumes "restorable b d t"
  shows "restorable b d (update_csd_shadow c t)" "restorable b d (SetTiledState e t)"
    "restorable b d (SetMaximizedState m t)" "restorable b d (Configure scale b' t)"
    "restorable b d (leave_tile t)" "restorable b d (enter_maximized c t)"
proof -
  have can: "CanConfigure t" "\<not> tl_xwayland t" using assms by (simp_all add: restorable_def)
  show "restorable b d (update_csd_shadow c t)" using assms by (simp add: update_csd_shadow_def Let_def)
  have tiled: "restorable b d (SetTiledState e t')" if "restorable b d t'" for e t'
    using that by (simp add: SetTiledState_def configure_now restorable_def) (simp add: on_handle_def)
  show "restorable b d (SetMaximizedState m t)"
    using assms can by (simp add: SetMaximizedState_def configure_now restorable_on_handle)
  have conf: "restorable b d (Configure scale b' t')" if t': "restorable b d t'" for scale b' t'
  proof -
    have "CanConfigure t'" "\<not> tl_xwayland t'" using t' by (simp_all add: restorable_def)
    with t' show ?thesis by (simp add: Configure_def configure_now Let_def restorable_on_handle)
  qed
  show "restorable b d (SetTiledState e t)" "restorable b d (Configure scale b' t)"
    using assms by (rule tiled, rule conf)
  show "restorable b d (leave_tile t)" using assms by (simp add: leave_tile_def ssd_set_tiled_def tiled)
  show "restorable b d (enter_maximized c t)" using assms by (simp add: enter_maximized_def Let_def conf)
qed


lemma find_tl_upd_Some:
  assumes "find_tl c i = Some t" "\<And>t. tl_id (f t) = tl_id t"
  shows "find_tl (upd_tl i f c) i = Some (f t)"
  using assms by (simp add: find_tl_upd)

lemma id_placement [simp]:
  "tl_id (leave_tile t) = tl_id t" "tl_id (save_restore_box scale t) = tl_id t"
  "tl_id (ssd_set_maximized m t) = tl_id t" "tl_id (SetMaximizedState m t) = tl_id t"
  "tl_id (update_csd_shadow c t) = tl_id t" "tl_id (restore_configure scale t) = tl_id t"
  "tl_id (Configure scale b t) = tl_id t" "tl_id (set_enabled e t) = tl_id t"
  by (simp_all only: window_view_sel(1) [symmetric] view_frame) (simp add: set_enabled_def)

lemma id_enter_maximized [simp]: "tl_id (enter_maximized c t) = tl_id t"
  by (simp add: enter_maximized_def Let_def)

text \<open>The maximised flag through the setters.\<close>

lemma maximized_frame [simp]:
  "tl_maximized (on_handle f t) = tl_maximized t" "tl_maximized (on_pending p t) = tl_maximized t"
  "tl_maximized (set_position x y t) = tl_maximized t" "tl_maximized (set_enabled e t) = tl_maximized t"
  "tl_maximized (on_ssd g t) = tl_maximized t"
  by (simp_all add: on_handle_def on_pending_def set_position_def set_enabled_def on_ssd_def)

lemma maximized_setters [simp]:
  "tl_maximized (configure_or_defer f g t) = tl_maximized t"
  "tl_maximized (SetMaximizedState m t) = tl_maximized t" "tl_maximized (Configure scale b t) = tl_maximized t"
  "tl_maximized (update_csd_shadow c t) = tl_maximized t" "tl_maximized (enter_maximized c t) = tl_maximized t"
  "tl_maximized (restore_configure scale t) = tl_maximized t" "tl_maximized (ssd_set_maximized m t) = tl_maximized t"
proof -
  show sent: "tl_maximized (configure_or_defer f g t) = tl_maximized t" for f g t
    by (simp add: configure_or_defer_def)
  show conf: "tl_maximized (Configure scale b t) = tl_maximized t" for scale b t
    by (simp add: Configure_def Let_def sent)
  show "tl_maximized (SetMaximizedState m t) = tl_maximized t" by (simp add: SetMaximizedState_def sent)
  show "tl_maximized (update_csd_shadow c t) = tl_maximized t" by (simp add: update_csd_shadow_def Let_def)
  show "tl_maximized (enter_maximized c t) = tl_maximized t" by (simp add: enter_maximized_def Let_def conf)
  show "tl_maximized (restore_configure scale t) = tl_maximized t" by (simp add: restore_configure_def conf)
  show "tl_maximized (ssd_set_maximized m t) = tl_maximized t" by (simp add: ssd_set_maximized_def)
qed

lemma find_tl_UpdateCsdShadow:
  "find_tl c i = Some t \<Longrightarrow> find_tl (UpdateCsdShadow i c) i = Some (update_csd_shadow c t)"
  unfolding UpdateCsdShadow_def by (rule find_tl_upd_Some) simp_all

lemma save_restorable:
  assumes "tl_scene_tree t = Some n" "\<not> tl_xwayland t" "CanConfigure t"
    "0 < box_width (FrameGeometry scale t)" "0 < box_height (FrameGeometry scale t)"
  shows "restorable ((FrameGeometry scale t)\<lparr>box_x := nd_x n + box_x (FrameGeometry scale t),
      box_y := nd_y n + box_y (FrameGeometry scale t)\<rparr>) (tl_ssd t \<noteq> None) (save_restore_box scale t)"
  using assms by (simp add: save_restore_box_def restorable_def Let_def)

lemma SetMaximized_remembers:
  assumes "find_tl c i = Some t" "IsAlive t" "tl_scene_tree t = Some n" "\<not> tl_xwayland t" "CanConfigure t"
    "\<not> tl_maximized t" "\<not> tl_tiled t"
    "0 < box_width (FrameGeometry (scale_of c) t)" "0 < box_height (FrameGeometry (scale_of c) t)"
  defines "f \<equiv> FrameGeometry (scale_of c) t"
  shows "\<exists>t'. find_tl (SetMaximized i True c) i = Some t' \<and> tl_maximized t' \<and>
    restorable (f\<lparr>box_x := nd_x n + box_x f, box_y := nd_y n + box_y f\<rparr>) (tl_ssd t \<noteq> None) t'"
proof -
  let ?g = "\<lambda>t. ssd_set_maximized True
    ((leave_tile (if \<not> tl_tiled t then save_restore_box (scale_of c) t else t))\<lparr>tl_maximized := True\<rparr>)"
  define c1 where "c1 = upd_tl i ?g (notify CTileAnimation (Cancel CTileAnimation) c)"
  define c2 where "c2 = UpdateCsdShadow i (RebuildSurfaceClip i c1)"
  let ?t2 = "update_csd_shadow (RebuildSurfaceClip i c1) (?g t)"
  let ?t3 = "SetMaximizedState True (enter_maximized c2 ?t2)"
  have f1: "find_tl c1 i = Some (?g t)"
    unfolding c1_def using assms(1) by (intro find_tl_upd_Some) simp_all
  have f2: "find_tl c2 i = Some ?t2"
    unfolding c2_def using f1 by (intro find_tl_UpdateCsdShadow) simp
  have "SetMaximized i True c = notify CProtocol (UpdateToplevel (Surface t))
      (upd_tl i (\<lambda>t. SetMaximizedState True (enter_maximized c2 t)) c2)"
    using assms(1-3,6) by (simp add: SetMaximized_def Let_def c1_def c2_def)
  moreover have "find_tl (upd_tl i (\<lambda>t. SetMaximizedState True (enter_maximized c2 t)) c2) i = Some ?t3"
    using f2 by (intro find_tl_upd_Some) simp_all
  moreover have "restorable (f\<lparr>box_x := nd_x n + box_x f, box_y := nd_y n + box_y f\<rparr>) (tl_ssd t \<noteq> None) ?t3"
    using save_restorable [OF assms(3-5,8,9)] assms(7)
    by (intro restorable_setters) (simp add: ssd_set_maximized_def restorable_setters f_def)
  ultimately show ?thesis by simp
qed


text \<open>Unmaximising: the content box that goes with the restored frame.\<close>

definition restored_content :: "wlr_box \<Rightarrow> bool \<Rightarrow> wlr_box" where
  "restored_content b deco =
     (if deco then \<lparr>box_x = box_x b + kBorderWidth, box_y = box_y b + kTitlebarHeight + kBorderWidth,
                   box_width = max 1 (box_width b - kBorderWidth * 2),
                   box_height = max 1 (box_height b - kTitlebarHeight - kBorderWidth * 2)\<rparr>
      else b)"

definition floating_deco :: "Toplevel \<Rightarrow> bool" where
  "floating_deco t = (case tl_ssd t of None \<Rightarrow> True | Some s \<Rightarrow> \<not> ssd_maximized s \<and> \<not> ssd_tiled s)"

lemma content_floating:
  assumes "floating_deco t"
  shows "(case tl_ssd t of None \<Rightarrow> b | Some s \<Rightarrow> ContentGeometry s b) = restored_content b (tl_ssd t \<noteq> None)"
  using assms
  by (cases "tl_ssd t") (simp_all add: floating_deco_def restored_content_def ContentGeometry_def BorderWidth_def Let_def)

lemma Configure_places:
  assumes "restorable b d t" "floating_deco t" "0 < box_width b'" "0 < box_height b'"
  shows "\<exists>h n. tl_handle (Configure scale b' t) = Some h \<and> tl_scene_tree (Configure scale b' t) = Some n \<and>
    sent_size h = Some (box_width (restored_content b' d), box_height (restored_content b' d)) \<and>
    nd_x n + box_x (cl_geometry h) = box_x (restored_content b' d) \<and>
    nd_y n + box_y (cl_geometry h) = box_y (restored_content b' d)"
proof -
  from assms(1) obtain h n where t: "tl_handle t = Some h" "tl_scene_tree t = Some n" "\<not> tl_xwayland t"
    "CanConfigure t" "(tl_ssd t \<noteq> None) = d"
    by (auto simp: restorable_def CanConfigure_def xdg_handle_def split: option.splits)
  let ?c = "restored_content b' d"
  have "Configure scale b' t = on_handle (\<lambda>h. h\<lparr>sent_size := Some (box_width ?c, box_height ?c)\<rparr>)
      (set_position (box_x ?c - box_x (cl_geometry h)) (box_y ?c - box_y (cl_geometry h)) t)"
    using t assms(3,4) content_floating [OF assms(2), of b']
    by (simp add: Configure_def Let_def configure_now Geometry_def)
  then show ?thesis using t by (simp add: on_handle_def set_position_def)
qed

lemma floating_after:
  "floating_deco (ssd_set_maximized False ((leave_tile t)\<lparr>tl_maximized := m\<rparr>))"
proof -
  have "\<not> ssd_tiled (Ssd_SetMaximized (SetTiled s False) False)"
    "\<not> ssd_maximized (Ssd_SetMaximized (SetTiled s False) False)" for s
    by (simp_all add: Ssd_SetMaximized_def SetTiled_def Arrange_def)
  moreover have "tl_ssd (ssd_set_maximized False ((leave_tile t)\<lparr>tl_maximized := m\<rparr>)) =
      map_option (\<lambda>s. Ssd_SetMaximized (SetTiled s False) False) (tl_ssd t)"
    by (simp add: ssd_set_maximized_def leave_tile_def ssd_set_tiled_def SetTiledState_def configure_or_defer_def
        on_handle_def on_pending_def on_ssd_def option.map_comp comp_def)
  ultimately show ?thesis by (simp add: floating_deco_def split: option.splits)
qed

lemma SetMaximizedState_fields:
  assumes "restorable b d t" "tl_handle t = Some h" "tl_scene_tree t = Some n"
  shows "\<exists>h'. tl_handle (SetMaximizedState m t) = Some h' \<and> sent_size h' = sent_size h \<and>
    cl_geometry h' = cl_geometry h \<and> tl_scene_tree (SetMaximizedState m t) = Some n"
  using assms by (auto simp: SetMaximizedState_def restorable_def configure_now on_handle_def)


lemma SetMaximized_restores:
  assumes "find_tl c i = Some t" "IsAlive t" "restorable b d t" "tl_maximized t" "0 < box_width b" "0 < box_height b"
  shows "\<exists>t' h n. find_tl (SetMaximized i False c) i = Some t' \<and> \<not> tl_maximized t' \<and>
    tl_handle t' = Some h \<and> tl_scene_tree t' = Some n \<and>
    sent_size h = Some (box_width (restored_content b d), box_height (restored_content b d)) \<and>
    nd_x n + box_x (cl_geometry h) = box_x (restored_content b d) \<and>
    nd_y n + box_y (cl_geometry h) = box_y (restored_content b d)"
proof -
  let ?g = "\<lambda>t. ssd_set_maximized False ((leave_tile t)\<lparr>tl_maximized := False\<rparr>)"
  let ?r = "\<lambda>t. SetMaximizedState False ((restore_configure (scale_of c) t)\<lparr>tl_maximized_output := None\<rparr>)"
  define c1 where "c1 = upd_tl i ?g (notify CTileAnimation (Cancel CTileAnimation) c)"
  define c2 where "c2 = UpdateCsdShadow i (RebuildSurfaceClip i c1)"
  define t2 where "t2 = update_csd_shadow (RebuildSurfaceClip i c1) (?g t)"
  have "find_tl c1 i = Some (?g t)"
    unfolding c1_def using assms(1) by (intro find_tl_upd_Some) simp_all
  then have "find_tl c2 i = Some t2"
    unfolding c2_def t2_def by (intro find_tl_UpdateCsdShadow) simp
  then have "find_tl (upd_tl i ?r c2) i = Some (?r t2)" by (intro find_tl_upd_Some) simp_all
  moreover have node: "tl_scene_tree t \<noteq> None" using assms(3) by (simp add: restorable_def)
  have "SetMaximized i False c = notify CProtocol (UpdateToplevel (Surface t)) (upd_tl i ?r c2)"
    using assms(1,2,4) node by (auto simp: SetMaximized_def Let_def c1_def c2_def)
  moreover have r2: "restorable b d t2"
    unfolding t2_def using assms(3) by (intro restorable_setters) (simp add: ssd_set_maximized_def restorable_setters)
  have "tl_ssd t2 = tl_ssd (?g t)" by (simp add: t2_def update_csd_shadow_def Let_def)
  then have "floating_deco t2" using floating_after [where t = t and m = False] by (simp add: floating_deco_def)
  from Configure_places [OF r2 this assms(5,6), of "scale_of c"] obtain h n where
    hn: "tl_handle (Configure (scale_of c) b t2) = Some h" "tl_scene_tree (Configure (scale_of c) b t2) = Some n"
      "sent_size h = Some (box_width (restored_content b d), box_height (restored_content b d))"
      "nd_x n + box_x (cl_geometry h) = box_x (restored_content b d)"
      "nd_y n + box_y (cl_geometry h) = box_y (restored_content b d)"
    by blast
  let ?t3 = "(restore_configure (scale_of c) t2)\<lparr>tl_maximized_output := None\<rparr>"
  have t3: "?t3 = (Configure (scale_of c) b t2)\<lparr>tl_restore_position_pending := True, tl_maximized_output := None\<rparr>"
    using r2 by (simp add: restore_configure_def restorable_def)
  have "restorable b d ?t3"
    unfolding t3 using restorable_setters(4) [OF r2, of "scale_of c" b]
    by simp
  from SetMaximizedState_fields [OF this, of h n False] hn obtain h' where
    "tl_handle (?r t2) = Some h'" "sent_size h' = sent_size h" "cl_geometry h' = cl_geometry h"
    "tl_scene_tree (?r t2) = Some n"
    unfolding t3 by auto
  moreover have "\<not> tl_maximized (?r t2)" by (simp add: t2_def)
  ultimately show ?thesis using hn by auto
qed

lemma frame_restored:
  fixes scale :: real
  assumes "floating_deco t" "\<not> tl_xwayland t" "tl_handle t = Some h"
    "1 \<le> box_width (cl_geometry h)" "1 \<le> box_height (cl_geometry h)"
  defines "f \<equiv> FrameGeometry scale t"
  shows "restored_content (f\<lparr>box_x := x + box_x f, box_y := y + box_y f\<rparr>) (tl_ssd t \<noteq> None) =
    (cl_geometry h)\<lparr>box_x := x + box_x (cl_geometry h), box_y := y + box_y (cl_geometry h)\<rparr> \<and>
    0 < box_width f \<and> 0 < box_height f"
  using assms
  by (cases "tl_ssd t") (simp_all add: FrameGeometry_def Geometry_def restored_content_def floating_deco_def
      Ssd_FrameGeometry_def BorderWidth_def kBorderWidth_def kTitlebarHeight_def Let_def)




end
