(* ===== verification/Lock_Laws.thy ===== *)
theory Lock_Laws
  imports Desktop_Reachable
begin

text \<open>
  A locked session: no event of the window manager moves the keyboard focus.
\<close>

section \<open>What the focus depends on\<close>

named_theorems kb_frame "operations that keep the keyboard focus of a locked session"

definition kb :: "compositor \<Rightarrow> nat option \<times> (component \<Rightarrow> bool) \<times> bool" where
  "kb c = (focused_surface c, has_component c, session_locked c)"

definition kb_locked :: "nat option \<times> (component \<Rightarrow> bool) \<times> bool \<Rightarrow> bool" where
  "kb_locked k = (fst (snd k) CProtocol \<and> snd (snd k))"

lemma locked_kb: "SessionLocked c = kb_locked (kb c)"
  by (simp add: SessionLocked_def kb_def kb_locked_def)

lemma kb_control [kb_frame]:
  "(P \<Longrightarrow> kb a = k) \<Longrightarrow> (\<not> P \<Longrightarrow> kb b = k) \<Longrightarrow> kb (if P then a else b) = k"
  "kb (f a') = k \<Longrightarrow> kb (Let a' f) = k"
  "(q = None \<Longrightarrow> kb a = k) \<Longrightarrow> (\<And>x. q = Some x \<Longrightarrow> kb (g x) = k) \<Longrightarrow> kb (case_option a g q) = k"
  "kb (h x y) = k \<Longrightarrow> kb (case_prod h (x, y)) = k"
  "kb a = k \<Longrightarrow> kb b = k \<Longrightarrow> kb (case_bool a b P) = k"
  by (simp_all split: option.splits bool.splits)

lemma kb_pair: "(\<And>x y. kb (h x y) = k) \<Longrightarrow> kb (case_prod h p) = k"
  by (simp split: prod.splits)

lemma kb_control_snd [kb_frame]:
  "kb (snd a) = k \<Longrightarrow> kb (snd b) = k \<Longrightarrow> kb (snd (if P then a else b)) = k"
  "kb (snd (f a')) = k \<Longrightarrow> kb (snd (Let a' f)) = k"
  "kb (snd a) = k \<Longrightarrow> (\<And>x. kb (snd (g x)) = k) \<Longrightarrow> kb (snd (case_option a g q)) = k"
  "(\<And>x y. kb (snd (h x y)) = k) \<Longrightarrow> kb (snd (case_prod h p)) = k"
  "kb c = k \<Longrightarrow> kb (snd (r, c)) = k"
  by (simp_all split: option.splits prod.splits)

lemma kb_fold [kb_frame]:
  assumes "\<And>x c. kb c = k \<Longrightarrow> kb (f x c) = k" "kb c = k"
  shows "kb (fold f xs c) = k"
  using assms(2) by (induction xs arbitrary: c) (simp_all add: assms(1))

lemma kb_apply [kb_frame]:
  "kb c = k \<Longrightarrow> kb (id c) = k"
  "kb (f c) = k \<Longrightarrow> kb (g c) = k \<Longrightarrow> kb ((if P then f else g) c) = k"
  by simp_all

lemma kb_fields [kb_frame]:
  "kb c = k \<Longrightarrow> kb (c\<lparr>toplevels := x0\<rparr>) = k"
  "kb c = k \<Longrightarrow> kb (c\<lparr>tl_stack := x1\<rparr>) = k"
  "kb c = k \<Longrightarrow> kb (c\<lparr>workspace_count := x2\<rparr>) = k"
  "kb c = k \<Longrightarrow> kb (c\<lparr>current_workspace := x3\<rparr>) = k"
  "kb c = k \<Longrightarrow> kb (c\<lparr>multitasking_sources_hidden := x4\<rparr>) = k"
  "kb c = k \<Longrightarrow> kb (c\<lparr>window_previews_sources_hidden := x5\<rparr>) = k"
  "kb c = k \<Longrightarrow> kb (c\<lparr>cursor_mode := x6\<rparr>) = k"
  "kb c = k \<Longrightarrow> kb (c\<lparr>grabbed_toplevel := x7\<rparr>) = k"
  "kb c = k \<Longrightarrow> kb (c\<lparr>pointer_focus := x8\<rparr>) = k"
  "kb c = k \<Longrightarrow> kb (c\<lparr>seat_keyboard := x9\<rparr>) = k"
  "kb c = k \<Longrightarrow> kb (c\<lparr>xwayland := x10\<rparr>) = k"
  "kb c = k \<Longrightarrow> kb (c\<lparr>blur_renderer := x11\<rparr>) = k"
  "kb c = k \<Longrightarrow> kb (c\<lparr>scene_blur_active := x12\<rparr>) = k"
  "kb c = k \<Longrightarrow> kb (c\<lparr>scene_rounded_corners_active := x13\<rparr>) = k"
  "kb c = k \<Longrightarrow> kb (c\<lparr>scene_direct_scanout := x14\<rparr>) = k"
  "kb c = k \<Longrightarrow> kb (c\<lparr>scene_calculate_visibility := x15\<rparr>) = k"
  "kb c = k \<Longrightarrow> kb (c\<lparr>cursor_x := x16\<rparr>) = k"
  "kb c = k \<Longrightarrow> kb (c\<lparr>cursor_y := x17\<rparr>) = k"
  "kb c = k \<Longrightarrow> kb (c\<lparr>grab_x := x18\<rparr>) = k"
  "kb c = k \<Longrightarrow> kb (c\<lparr>grab_y := x19\<rparr>) = k"
  "kb c = k \<Longrightarrow> kb (c\<lparr>grab_box := x20\<rparr>) = k"
  "kb c = k \<Longrightarrow> kb (c\<lparr>resize_edges := x21\<rparr>) = k"
  "kb c = k \<Longrightarrow> kb (c\<lparr>maximize_on_release := x22\<rparr>) = k"
  "kb c = k \<Longrightarrow> kb (c\<lparr>cursor_state := x23\<rparr>) = k"
  "kb c = k \<Longrightarrow> kb (c\<lparr>no_titlebar_surfaces := x24\<rparr>) = k"
  "kb c = k \<Longrightarrow> kb (c\<lparr>outputs := x25\<rparr>) = k"
  "kb c = k \<Longrightarrow> kb (c\<lparr>output_layout := x26\<rparr>) = k"
  "kb c = k \<Longrightarrow> kb (c\<lparr>qt_frame_interval_ms := x27\<rparr>) = k"
  "kb c = k \<Longrightarrow> kb (c\<lparr>layer_surfaces := x28\<rparr>) = k"
  "kb c = k \<Longrightarrow> kb (c\<lparr>pending_window_menu := x29\<rparr>) = k"
  "kb c = k \<Longrightarrow> kb (upd_tl i f c) = k"
  "kb c = k \<Longrightarrow> kb (notify cp cl c) = k"
  "kb c = k \<Longrightarrow> kb (raise_to_top i c) = k"
  "kb c = k \<Longrightarrow> kb (upd_layer i lf c) = k"
  by (simp_all add: kb_def upd_tl_def notify_def raise_to_top_def upd_layer_def)

lemma kb_focus [kb_frame]:
  "kb_locked k \<Longrightarrow> kb c = k \<Longrightarrow> kb (FocusToplevel w c) = k"
  "kb_locked k \<Longrightarrow> kb c = k \<Longrightarrow> kb (FocusNextToplevel w c) = k"
  "kb_locked k \<Longrightarrow> kb c = k \<Longrightarrow> kb (FocusLayerSurface l c) = k"
  by (auto simp: FocusToplevel_def FocusNextToplevel_def FocusLayerSurface_def focusable_def locked_kb
      split: option.splits)

lemma kb_SwitchWorkspace [kb_frame]: "kb_locked k \<Longrightarrow> kb c = k \<Longrightarrow> kb (SwitchWorkspace n c) = k"
  by (simp add: SwitchWorkspace_def locked_kb)

section \<open>Every operation\<close>

lemma kb_basic [kb_frame]:
  "kb c = k \<Longrightarrow> kb (ParkXWaylandFocus c) = k"
  "kb c = k \<Longrightarrow> kb (deactivate_previous p c) = k"
  "kb c = k \<Longrightarrow> kb (UpdateBackdropBlurState c) = k"
  "kb c = k \<Longrightarrow> kb (UpdateCsdShadow i c) = k"
  "kb c = k \<Longrightarrow> kb (ResetCursorMode c) = k"
  "kb c = k \<Longrightarrow> kb (refresh_all c) = k"
  unfolding ParkXWaylandFocus_def deactivate_previous_def UpdateBackdropBlurState_def UpdateCsdShadow_def ResetCursorMode_def refresh_all_def by (intro kb_frame kb_pair; assumption)+

lemma kb_basic2 [kb_frame]:
  "kb c = k \<Longrightarrow> kb (SetActivated i a c) = k"
  "kb c = k \<Longrightarrow> kb (RefreshRoundedCornerState c) = k"
  unfolding SetActivated_def RefreshRoundedCornerState_def by (intro kb_frame kb_pair; assumption)+

lemma kb_update_mapped [kb_frame]:
  "kb c = k \<Longrightarrow> kb (update_mapped_toplevels c) = k"
  unfolding update_mapped_toplevels_def by (intro kb_frame kb_pair; assumption)+

lemma kb_corners [kb_frame]:
  "kb c = k \<Longrightarrow> kb (RebuildSurfaceClip i c) = k"
  "kb c = k \<Longrightarrow> kb (ClearSurfaceRoundCorner c s) = k"
  "kb c = k \<Longrightarrow> kb (AttachSsd i c) = k"
  unfolding RebuildSurfaceClip_def ClearSurfaceRoundCorner_def AttachSsd_def by (intro kb_frame kb_pair; assumption)+

lemma kb_decor [kb_frame]:
  "kb c = k \<Longrightarrow> kb (SetCsdShadow i b c) = k"
  "kb c = k \<Longrightarrow> kb (SetRoundCorner i r c) = k"
  "kb c = k \<Longrightarrow> kb (SetSsdEnabled i b c) = k"
  unfolding SetCsdShadow_def SetRoundCorner_def SetSsdEnabled_def by (intro kb_frame kb_pair; assumption)+

lemma kb_workspaces [kb_frame]:
  "kb_locked k \<Longrightarrow> kb c = k \<Longrightarrow> kb (snd (MoveToplevelToWorkspace i n c)) = k"
  "kb_locked k \<Longrightarrow> kb c = k \<Longrightarrow> kb (snd (AddWorkspace c)) = k"
  "kb_locked k \<Longrightarrow> kb c = k \<Longrightarrow> kb (snd (RemoveWorkspace n c)) = k"
  "kb_locked k \<Longrightarrow> kb c = k \<Longrightarrow> kb (snd (ReorderWorkspace n m c)) = k"
  "kb_locked k \<Longrightarrow> kb c = k \<Longrightarrow> kb (SetKeptAbove i b c) = k"
  "kb_locked k \<Longrightarrow> kb c = k \<Longrightarrow> kb (SetAllWorkspaces i b c) = k"
  "kb_locked k \<Longrightarrow> kb c = k \<Longrightarrow> kb (SetMultitaskingSourcesHidden b c) = k"
  "kb_locked k \<Longrightarrow> kb c = k \<Longrightarrow> kb (SetWindowPreviewsSourcesHidden b c) = k"
  unfolding MoveToplevelToWorkspace_def AddWorkspace_def RemoveWorkspace_def ReorderWorkspace_def SetKeptAbove_def SetAllWorkspaces_def SetMultitaskingSourcesHidden_def SetWindowPreviewsSourcesHidden_def by (intro kb_frame kb_pair; assumption)+

lemma kb_place [kb_frame]:
  "kb c = k \<Longrightarrow> kb (MoveToplevelFrame i x y c) = k"
  "kb c = k \<Longrightarrow> kb (ConstrainToUsableArea i c) = k"
  "kb c = k \<Longrightarrow> kb (PlaceNewToplevel i c) = k"
  "kb c = k \<Longrightarrow> kb (KeepCentered i c) = k"
  unfolding MoveToplevelFrame_def ConstrainToUsableArea_def PlaceNewToplevel_def KeepCentered_def by (intro kb_frame kb_pair; assumption)+

lemma kb_fit [kb_frame]:
  "kb c = k \<Longrightarrow> kb (fit_toplevel o' b1 b2 i c) = k"
  unfolding fit_toplevel_def by (intro kb_frame kb_pair; assumption)+

lemma kb_fit2 [kb_frame]:
  "kb c = k \<Longrightarrow> kb (FitToplevelsToUsableArea o' b1 c) = k"
  unfolding FitToplevelsToUsableArea_def by (intro kb_frame kb_pair; assumption)+

lemma kb_arrange [kb_frame]:
  "kb c = k \<Longrightarrow> kb (ArrangeLayers w c) = k"
  unfolding ArrangeLayers_def by (intro kb_frame kb_pair; assumption)+

lemma kb_maximize [kb_frame]:
  "kb_locked k \<Longrightarrow> kb c = k \<Longrightarrow> kb (SetMaximized i m c) = k"
  "kb_locked k \<Longrightarrow> kb c = k \<Longrightarrow> kb (TileToplevel i tile c) = k"
  "kb_locked k \<Longrightarrow> kb c = k \<Longrightarrow> kb (Minimize w c) = k"
  unfolding SetMaximized_def TileToplevel_def Minimize_def by (intro kb_frame kb_pair; assumption)+

lemma kb_toggle [kb_frame]:
  "kb_locked k \<Longrightarrow> kb c = k \<Longrightarrow> kb (ToggleMaximized w c) = k"
  "kb_locked k \<Longrightarrow> kb c = k \<Longrightarrow> kb (RestoreForMove i c) = k"
  unfolding ToggleMaximized_def RestoreForMove_def by (intro kb_frame kb_pair; assumption)+

lemma kb_cursor [kb_frame]:
  "kb c = k \<Longrightarrow> kb (set_cursor_name nm c) = k"
  "kb c = k \<Longrightarrow> kb (begin_resize i e c) = k"
  "kb c = k \<Longrightarrow> kb (surface_unavailable s i c) = k"
  "kb c = k \<Longrightarrow> kb (forget_menu i c) = k"
  unfolding set_cursor_name_def begin_resize_def surface_unavailable_def forget_menu_def by (intro kb_frame kb_pair; assumption)+

lemma kb_interactive [kb_frame]:
  "kb_locked k \<Longrightarrow> kb c = k \<Longrightarrow> kb (EndInteractive c) = k"
  "kb_locked k \<Longrightarrow> kb c = k \<Longrightarrow> kb (BeginInteractive w mode e c) = k"
  "kb_locked k \<Longrightarrow> kb c = k \<Longrightarrow> kb (ProcessInteractiveMotion c) = k"
  unfolding EndInteractive_def BeginInteractive_def ProcessInteractiveMotion_def by (intro kb_frame kb_pair; assumption)+

lemma kb_new [kb_frame]:
  "kb_locked k \<Longrightarrow> kb c = k \<Longrightarrow> kb (OnNewToplevel i h c) = k"
  unfolding OnNewToplevel_def by (intro kb_frame kb_pair; assumption)+

lemma kb_map [kb_frame]:
  "kb_locked k \<Longrightarrow> kb c = k \<Longrightarrow> kb (OnMap i c) = k"
  "kb_locked k \<Longrightarrow> kb c = k \<Longrightarrow> kb (OnUnmap i c) = k"
  unfolding OnMap_def OnUnmap_def by (intro kb_frame kb_pair; assumption)+

lemma kb_commit [kb_frame]:
  "kb_locked k \<Longrightarrow> kb c = k \<Longrightarrow> kb (OnCommit i c) = k"
  unfolding OnCommit_def by (intro kb_frame kb_pair; assumption)+

lemma kb_destroy [kb_frame]:
  "kb_locked k \<Longrightarrow> kb c = k \<Longrightarrow> kb (OnDestroy i c) = k"
  unfolding OnDestroy_def by (intro kb_frame kb_pair; assumption)+

lemma kb_requests [kb_frame]:
  "kb_locked k \<Longrightarrow> kb c = k \<Longrightarrow> kb (OnRequestMaximize i c) = k"
  "kb_locked k \<Longrightarrow> kb c = k \<Longrightarrow> kb (OnRequestMinimize i c) = k"
  "kb_locked k \<Longrightarrow> kb c = k \<Longrightarrow> kb (OnRequestFullscreen i c) = k"
  "kb_locked k \<Longrightarrow> kb c = k \<Longrightarrow> kb (OnRequestMove i c) = k"
  "kb_locked k \<Longrightarrow> kb c = k \<Longrightarrow> kb (OnRequestResize i e c) = k"
  "kb_locked k \<Longrightarrow> kb c = k \<Longrightarrow> kb (snd (ShowWindowMenu w x y c)) = k"
  unfolding OnRequestMaximize_def OnRequestMinimize_def OnRequestFullscreen_def OnRequestMove_def OnRequestResize_def ShowWindowMenu_def by (intro kb_frame kb_pair; assumption)+

lemma kb_menu [kb_frame]:
  "kb_locked k \<Longrightarrow> kb c = k \<Longrightarrow> kb (OnRequestShowWindowMenu i ex ey c) = k"
  unfolding OnRequestShowWindowMenu_def by (intro kb_frame kb_pair; assumption)+

lemma kb_titles [kb_frame]:
  "kb_locked k \<Longrightarrow> kb c = k \<Longrightarrow> kb (OnSetTitle i c) = k"
  "kb_locked k \<Longrightarrow> kb c = k \<Longrightarrow> kb (OnSetAppId i c) = k"
  "kb_locked k \<Longrightarrow> kb c = k \<Longrightarrow> kb (OnSetParent i c) = k"
  unfolding OnSetTitle_def OnSetAppId_def OnSetParent_def by (intro kb_frame kb_pair; assumption)+

lemma kb_x [kb_frame]:
  "kb_locked k \<Longrightarrow> kb c = k \<Longrightarrow> kb (OnAssociate i b c) = k"
  "kb_locked k \<Longrightarrow> kb c = k \<Longrightarrow> kb (xw_OnNewSurface i h b c) = k"
  "kb_locked k \<Longrightarrow> kb c = k \<Longrightarrow> kb (Dissociate i c) = k"
  "kb_locked k \<Longrightarrow> kb c = k \<Longrightarrow> kb (x_OnRequestConfigure i bx c) = k"
  "kb_locked k \<Longrightarrow> kb c = k \<Longrightarrow> kb (x_OnRequestMinimize i b c) = k"
  "kb_locked k \<Longrightarrow> kb c = k \<Longrightarrow> kb (x_OnRequestActivate i c) = k"
  "kb_locked k \<Longrightarrow> kb c = k \<Longrightarrow> kb (x_OnSetGeometry i c) = k"
  "kb_locked k \<Longrightarrow> kb c = k \<Longrightarrow> kb (UpdateScale c) = k"
  unfolding OnAssociate_def xw_OnNewSurface_def Dissociate_def x_OnRequestConfigure_def x_OnRequestMinimize_def x_OnRequestActivate_def x_OnSetGeometry_def UpdateScale_def by (intro kb_frame kb_pair; assumption)+

lemma kb_xdestroy [kb_frame]:
  "kb_locked k \<Longrightarrow> kb c = k \<Longrightarrow> kb (x_OnDestroy i c) = k"
  unfolding x_OnDestroy_def by (intro kb_frame kb_pair; assumption)+

lemma kb_exclusive [kb_frame]:
  "kb_locked k \<Longrightarrow> kb c = k \<Longrightarrow> kb (focus_if_exclusive i c) = k"
  unfolding focus_if_exclusive_def by (intro kb_frame kb_pair; assumption)+

lemma kb_layers [kb_frame]:
  "kb_locked k \<Longrightarrow> kb c = k \<Longrightarrow> kb (layer_OnMap i c) = k"
  "kb_locked k \<Longrightarrow> kb c = k \<Longrightarrow> kb (layer_OnUnmap i c) = k"
  "kb_locked k \<Longrightarrow> kb c = k \<Longrightarrow> kb (layer_OnCommit i c) = k"
  "kb_locked k \<Longrightarrow> kb c = k \<Longrightarrow> kb (layer_OnDestroy i c) = k"
  "kb_locked k \<Longrightarrow> kb c = k \<Longrightarrow> kb (OnNewLayerSurface i lh c) = k"
  unfolding layer_OnMap_def layer_OnUnmap_def layer_OnCommit_def layer_OnDestroy_def OnNewLayerSurface_def by (intro kb_frame kb_pair; assumption)+

lemma kb_outputs [kb_frame]:
  "kb c = k \<Longrightarrow> kb (UpdateQtFrameInterval c) = k"
  "kb c = k \<Longrightarrow> kb (upd_output k' fo c) = k"
  "kb c = k \<Longrightarrow> kb (snd (wlr_output_commit_state acc k' rq c)) = k"
  unfolding UpdateQtFrameInterval_def upd_output_def wlr_output_commit_state_def by (intro kb_frame kb_pair; assumption)+

lemma kb_commit_state [kb_frame]:
  assumes "kb c = k" "\<And>committed c'. kb c' = k \<Longrightarrow> kb (h committed c') = k"
  shows "kb (case_prod h (wlr_output_commit_state acc o' rq c)) = k"
  using assms kb_outputs(3) [of c k acc o' rq] by (cases "wlr_output_commit_state acc o' rq c") simp

lemma kb_mode [kb_frame]:
  "(\<And>m. kb (f m) = k) \<Longrightarrow> (\<And>w h r. kb (g w h r) = k) \<Longrightarrow> kb (case_mode_request f g q) = k"
  by (simp split: mode_request.splits)

lemma kb_hotplug [kb_frame]:
  "kb_locked k \<Longrightarrow> kb c = k \<Longrightarrow> kb (ApplyDeferredMode acc n c) = k"
  "kb_locked k \<Longrightarrow> kb c = k \<Longrightarrow> kb (OnRequestState acc n rq c) = k"
  "kb_locked k \<Longrightarrow> kb c = k \<Longrightarrow> kb (OnNewOutput b acc o' modes c) = k"
  "kb_locked k \<Longrightarrow> kb c = k \<Longrightarrow> kb (wlr_layer_surface_v1_destroy i c) = k"
  unfolding ApplyDeferredMode_def OnRequestState_def OnNewOutput_def wlr_layer_surface_v1_destroy_def
  by (intro kb_frame; assumption)+

lemma kb_state_requests [kb_frame]:
  "kb_locked k \<Longrightarrow> kb c = k \<Longrightarrow> kb (fold (\<lambda>(ok, rq). OnRequestState ok n rq) rqs c) = k"
  by (intro kb_fold) (auto intro: kb_frame split: prod.splits)

lemma kb_frames [kb_frame]:
  "kb_locked k \<Longrightarrow> kb c = k \<Longrightarrow> kb (OnFrame acc n rqs c) = k"
  "kb_locked k \<Longrightarrow> kb c = k \<Longrightarrow> kb (Output_OnDestroy n c) = k"
  unfolding OnFrame_def Output_OnDestroy_def Let_def
   apply (rule kb_control(1) | rule kb_state_requests kb_hotplug(1) | intro kb_fields kb_outputs | assumption)+
  apply (intro kb_frame; assumption)+
  done

lemma kb_overlays [kb_frame]:
  "kb_locked k \<Longrightarrow> kb c = k \<Longrightarrow> kb (switcher_activate s c) = k"
  "kb_locked k \<Longrightarrow> kb c = k \<Longrightarrow> kb (multitasking_activate s c) = k"
  "kb_locked k \<Longrightarrow> kb c = k \<Longrightarrow> kb (previews_activate s c) = k"
  "kb_locked k \<Longrightarrow> kb c = k \<Longrightarrow> kb (overview_close s c) = k"
  "kb_locked k \<Longrightarrow> kb c = k \<Longrightarrow> kb (overview_toggle_above s c) = k"
  unfolding switcher_activate_def multitasking_activate_def previews_activate_def overview_close_def overview_toggle_above_def
  by (intro kb_frame kb_pair; assumption)+

section \<open>The focus of a locked session\<close>

lemma locked_step: "wm_step c c' \<Longrightarrow> SessionLocked c \<Longrightarrow> focused_surface c' = focused_surface c"
proof -
  have focus: "kb c' = kb c \<Longrightarrow> focused_surface c' = focused_surface c" for c c'
    by (simp add: kb_def)
  show "wm_step c c' \<Longrightarrow> SessionLocked c \<Longrightarrow> focused_surface c' = focused_surface c"
    unfolding locked_kb
  proof (induction rule: wm_step.induct)
    case (Lock c b)
    then show ?case by simp
  qed (rule focus, intro kb_frame refl; assumption)+
qed

end
