(* ===== verification/Input_Laws.thy ===== *)
theory Input_Laws
  imports Session_Laws Lock_Laws Placement_Laws
begin

text \<open>
  Input events under a locked session and at the edges of the screen: the keyboard focus does not
  move while the session is locked, and the pointer stays on an output.
\<close>

section \<open>Input events of a locked session\<close>

definition kbd :: "nat option \<times> (component \<Rightarrow> bool) \<times> bool \<Rightarrow> desktop \<Rightarrow> bool" where
  "kbd k d = (kb (core d) = k)"

lemma kbd_control [kb_frame]:
  "(P \<Longrightarrow> kbd k a) \<Longrightarrow> (\<not> P \<Longrightarrow> kbd k b) \<Longrightarrow> kbd k (if P then a else b)"
  "kbd k (f a') \<Longrightarrow> kbd k (Let a' f)"
  "(q = None \<Longrightarrow> kbd k a) \<Longrightarrow> (\<And>x. q = Some x \<Longrightarrow> kbd k (g x)) \<Longrightarrow> kbd k (case_option a g q)"
  "(\<And>x y. p = (x, y) \<Longrightarrow> kbd k (h x y)) \<Longrightarrow> kbd k (case_prod h p)"
  by (simp_all split: option.splits prod.splits)

lemma kbd_basic [kb_frame]:
  "(kb (core d) = k \<Longrightarrow> kb (f (core d)) = k) \<Longrightarrow> kbd k d \<Longrightarrow> kbd k (on_core f d)"
  "kbd k d \<Longrightarrow> kbd k (send ev d)" "kbd k d \<Longrightarrow> kbd k (d\<lparr>suppress_button_release := a2\<rparr>)"
  "kbd k d \<Longrightarrow> kbd k (d\<lparr>cursor_hidden_by_touch := a2\<rparr>)" "kbd k d \<Longrightarrow> kbd k (d\<lparr>touch_pointer_frame_pending := a2\<rparr>)"
  "kbd k d \<Longrightarrow> kbd k (d\<lparr>touch_points := a3\<rparr>)" "kb c = k \<Longrightarrow> kbd k (d\<lparr>core := c\<rparr>)"
  "kbd k d \<Longrightarrow> kbd k (add_point t1 t2 m d)"
  by (simp_all add: kbd_def on_core_def send_def add_point_def)

lemma kb_pointer [kb_frame]:
  "kb c = k \<Longrightarrow> kb (unset_cursor c) = k" "kb c = k \<Longrightarrow> kb (clear_pointer_focus c) = k"
  "kb c = k \<Longrightarrow> kb (hover_ssd w hit c) = k" "kb c = k \<Longrightarrow> kb (hover_hints w hit c) = k"
  "kb c = k \<Longrightarrow> kb (overlay_touch cp b c) = k"
  unfolding unset_cursor_def clear_pointer_focus_def hover_ssd_def hover_hints_def overlay_touch_def
  by (intro kb_frame kb_pair; assumption)+

lemma kb_default [kb_frame]: "kb c = k \<Longrightarrow> kb (default_cursor_no_focus c) = k"
  unfolding default_cursor_no_focus_def by (intro kb_frame; assumption)

lemma kb_warp [kb_frame]: "kb c = k \<Longrightarrow> kb (wlr_cursor_warp_closest m x y c) = k"
  unfolding wlr_cursor_warp_closest_def by (intro kb_frame kb_pair; assumption)

lemma kb_warps [kb_frame]:
  "kb c = k \<Longrightarrow> kb (wlr_cursor_move m x y c) = k" "kb c = k \<Longrightarrow> kb (wlr_cursor_warp_absolute m x y c) = k"
  "kb c = k \<Longrightarrow> kb (menu_warp r t c) = k"
  unfolding wlr_cursor_move_def wlr_cursor_warp_absolute_def menu_warp_def by (intro kb_frame kb_pair; assumption)+

lemma kb_touch [kb_frame]: "kb c = k \<Longrightarrow> kb (MoveTouchCursor e x y c) = k"
  unfolding MoveTouchCursor_def by (intro kb_frame; assumption)

lemma kbd_passthrough [kb_frame]:
  assumes "kbd k d"
  shows "kbd k (pointer_passthrough e time d)"
proof -
  have "kb (core d) = k" using assms by (simp add: kbd_def)
  with assms show ?thesis unfolding pointer_passthrough_def by - (intro kb_frame; assumption)
qed

lemma kbd_motion [kb_frame]:
  "kb_locked k \<Longrightarrow> kbd k d \<Longrightarrow> kbd k (ProcessCursorMotion e time d)"
  "kb_locked k \<Longrightarrow> kbd k d \<Longrightarrow> kbd k (show_cursor_again d)"
  unfolding ProcessCursorMotion_def show_cursor_again_def by (intro kb_frame; assumption)+

lemma kbd_locked: "kb_locked k \<Longrightarrow> kbd k d \<Longrightarrow> SessionLocked (core d)"
  by (simp add: kbd_def locked_kb)

lemma kbd_button [kb_frame]:
  assumes "kb_locked k" "kbd k d"
  shows "kbd k (OnCursorButton e time fp button pressed d)"
proof -
  define d' where "d' = on_core (notify CProtocol (NotifyPointer time)) (if fp then show_cursor_again d else d)"
  have d': "kbd k d'" unfolding d'_def using assms by - (intro kb_frame; assumption)
  then have "OnCursorButton e time fp button pressed d = send (SeatButton time button pressed) d'"
    using kbd_locked [OF assms(1) d'] by (simp add: OnCursorButton_def Let_def d'_def)
  with d' show ?thesis by (simp add: kbd_basic)
qed

lemma kbd_pointer [kb_frame]:
  "kb_locked k \<Longrightarrow> kbd k d \<Longrightarrow> kbd k (OnCursorMotion e time dx dy d)"
  "kb_locked k \<Longrightarrow> kbd k d \<Longrightarrow> kbd k (OnCursorMotionAbsolute e time x y d)"
  "kb_locked k \<Longrightarrow> kbd k d \<Longrightarrow> kbd k (OnCursorAxis e time fp d)" "kbd k d \<Longrightarrow> kbd k (OnCursorFrame d)"
  "kb_locked k \<Longrightarrow> kbd k d \<Longrightarrow> kbd k (SendPointerTouchButton e time pressed d)"
  unfolding OnCursorMotion_def OnCursorMotionAbsolute_def OnCursorAxis_def OnCursorFrame_def SendPointerTouchButton_def
  by (intro kb_frame; assumption)+

lemma kb_menu_move [kb_frame]: "kb_locked k \<Longrightarrow> kb c = k \<Longrightarrow> kb (menu_move_workspace i r c) = k"
  unfolding menu_move_workspace_def by (intro kb_frame; assumption)

lemma kb_Close [kb_frame]: "kb c = k \<Longrightarrow> kb (upd_tl i Close c) = k"
  by (rule kb_fields)

lemma kbd_menu_action [kb_frame]:
  assumes "kb_locked k" "kbd k d"
  shows "kbd k (HandleWindowMenuAction e sf a d)"
  using assms unfolding HandleWindowMenuAction_def Let_def
  by (cases a) (simp_all only: MenuAction.case, (intro kb_frame; assumption)+)

lemma kbd_native:
  assumes "kb_locked k" "kbd k d"
  shows "kbd k (snd (native_touch e time touch_id w sf sx sy d))"
  using assms unfolding native_touch_def Let_def
  by (auto split: option.splits prod.splits intro!: kb_frame)

lemma kbd_down [kb_frame]:
  assumes "kb_locked k" "kbd k d"
  shows "kbd k (OnTouchDown e time touch touch_id ex ey d)"
proof -
  define d1 where "d1 = on_core (\<lambda>c. MoveTouchCursor e ex ey (notify CProtocol (TouchGesture touch touch_id) c)) d"
  define d2 where "d2 = (on_core unset_cursor d1)\<lparr>cursor_hidden_by_touch := True\<rparr>"
  have d1: "kbd k d1" unfolding d1_def using assms by - (intro kb_frame; assumption)
  have d2: "kbd k d2" unfolding d2_def using d1 by - (intro kb_frame; assumption)
  obtain w sf sx sy where hit: "ev_hit e (cursor_x (core d2)) (cursor_y (core d2)) = (w, sf, sx, sy)"
    by (cases "ev_hit e (cursor_x (core d2)) (cursor_y (core d2))") auto
  obtain mode d3 where nat: "native_touch e time touch_id w sf sx sy d2 = (mode, d3)"
    by (cases "native_touch e time touch_id w sf sx sy d2")
  have d3: "kbd k d3" using kbd_native [OF assms(1) d2, of e time touch_id w sf sx sy] nat by simp
  show ?thesis
    unfolding OnTouchDown_def Let_def d1_def [symmetric] d2_def [symmetric] hit nat prod.case if_distrib [of "case_prod _"]
    using d1 d3 assms(1) by - (intro kb_frame; assumption)
qed

lemma kbd_mode [kb_frame]:
  "kbd k a \<Longrightarrow> kbd k b \<Longrightarrow> kbd k c \<Longrightarrow> kbd k d \<Longrightarrow> kbd k f \<Longrightarrow> kbd k g \<Longrightarrow> kbd k (case_TouchPointMode a b c d f g m)"
  by (simp split: TouchPointMode.splits)

lemma kb_fold_notify [kb_frame]: "kb c = k \<Longrightarrow> kb (fold (\<lambda>p. notify (h p) (g p)) ps c) = k"
  by (intro kb_frame)

lemma kbd_fold_send [kb_frame]: "kbd k d \<Longrightarrow> kbd k (fold (\<lambda>p. send (g p)) ps d)"
  by (induction ps arbitrary: d) (simp_all add: kbd_basic)

lemma kbd_touch [kb_frame]:
  "kb_locked k \<Longrightarrow> kbd k d \<Longrightarrow> kbd k (OnTouchUp e time touch touch_id d)"
  "kb_locked k \<Longrightarrow> kbd k d \<Longrightarrow> kbd k (OnTouchMotion e time touch touch_id ex ey d)"
  "kb_locked k \<Longrightarrow> kbd k d \<Longrightarrow> kbd k (OnTouchCancel e time touch touch_id d)"
  "kb_locked k \<Longrightarrow> kbd k d \<Longrightarrow> kbd k (OnTouchFrame d)"
  "kb_locked k \<Longrightarrow> kbd k d \<Longrightarrow> kbd k (CancelTouchDevice e touch d)"
  unfolding OnTouchUp_def OnTouchMotion_def OnTouchCancel_def OnTouchFrame_def CancelTouchDevice_def
  by (intro kb_frame; assumption)+

section \<open>A locked session\<close>

definition kbs :: "nat option \<times> (component \<Rightarrow> bool) \<times> bool \<Rightarrow> session \<Rightarrow> bool" where
  "kbs k s = kbd k (desk s)"

lemma kbs_basic [kb_frame]:
  "(kbd k (desk s) \<Longrightarrow> kbd k (f (desk s))) \<Longrightarrow> kbs k s \<Longrightarrow> kbs k (on_desk f s)"
  "kbs k s \<Longrightarrow> kbs k (s\<lparr>active_keyboard := b1\<rparr>)" "kbs k s \<Longrightarrow> kbs k (s\<lparr>keyboards := b2\<rparr>)"
  "kbs k s \<Longrightarrow> kbs k (s\<lparr>touch_devices := b3\<rparr>)" "kbs k s \<Longrightarrow> kbs k (s\<lparr>key_binding_manager := b4\<rparr>)"
  "kbs k s \<Longrightarrow> kbs k (UpdateSeatCapabilities s)"
  by (simp_all add: kbs_def on_desk_def UpdateSeatCapabilities_def)

lemma kbs_set_keyboard [kb_frame]: "kbs k s \<Longrightarrow> kbs k (set_keyboard b s)"
  unfolding set_keyboard_def by (intro kb_frame; assumption)

lemma kbs_add_keyboard [kb_frame]:
  assumes "kb_locked k" "kbs k s"
  shows "kbs k (AddKeyboard keymap b s)"
proof -
  define s' where "s' = UpdateSeatCapabilities ((set_keyboard b s)\<lparr>keyboards := keyboards (set_keyboard b s) @ [Some b]\<rparr>)"
  have s': "kbs k s'" unfolding s'_def using assms by - (intro kb_frame; assumption)
  have "kbs k (on_desk (on_core (keyboard_enter sf)) s')" if "focused_surface (core (desk s')) = Some sf" for sf
    using s' that by (simp add: kbs_def kbd_def on_desk_def on_core_def keyboard_enter_def kb_def)
  moreover have "kbs k (on_desk (on_core (FocusNextToplevel None)) s')"
    using s' assms(1) by - (intro kb_frame; assumption)
  ultimately show ?thesis
    using assms(2) by (simp add: AddKeyboard_def Let_def s'_def [symmetric] split: option.splits)
qed

lemma kbs_devices [kb_frame]:
  assumes "kb_locked k" "kbs k s"
  shows "kbs k (OnNewInput type keymap b s)" "kbs k (OnNewVirtualKeyboard own keymap b s)"
    "kbs k (keyboard_destroyed b s)" "kbs k (TouchDevice_OnDestroy e b s)"
proof -
  define s1 where "s1 = on_desk (on_core (\<lambda>c. notify CProtocol (InputAdded b) (notify CDbus (InputAdded b) c))) s"
  have s1: "kbs k s1" unfolding s1_def using assms by - (intro kb_frame; assumption)
  then show "kbs k (OnNewInput type keymap b s)"
    unfolding OnNewInput_def Let_def s1_def [symmetric] AddTouch_def
    using kbs_add_keyboard [OF assms(1) s1] kbs_basic by (simp split: device_type.splits)
  show "kbs k (OnNewVirtualKeyboard own keymap b s)"
    using assms kbs_add_keyboard by (simp add: OnNewVirtualKeyboard_def)
  have "kbs k (Keyboard_OnDestroy b s)"
    unfolding Keyboard_OnDestroy_def using assms by - (intro kb_frame; assumption)
  then show "kbs k (keyboard_destroyed b s)"
    unfolding keyboard_destroyed_def handle_keyboard_destroy_def by (auto intro!: kb_frame)
  show "kbs k (TouchDevice_OnDestroy e b s)"
    unfolding TouchDevice_OnDestroy_def using assms by - (intro kb_frame; assumption)
qed

lemma kbs_key [kb_frame]:
  assumes "kb_locked k" "kbs k s"
  shows "kbs k (OnKey x other ans time kb' event s)"
proof (cases kb')
  case (Some b)
  define s1 where "s1 = on_desk (on_core (notify CProtocol (NotifyKeyboard time))) s"
  have s1: "kbs k s1" unfolding s1_def using assms by - (intro kb_frame; assumption)
  have "SessionLocked (core (desk s1))" using s1 assms(1) by (simp add: kbs_def kbd_locked)
  then have "OnKey x other ans time kb' event s =
      (if overlay_takes_key (core (desk s1)) ans then s1 else deliver_key ans time b event s1)"
    by (simp add: OnKey_def Some Let_def s1_def [symmetric] offer_shortcuts_def split: option.splits)
  moreover have "kbs k (deliver_key ans time b event s1)"
    unfolding deliver_key_def using s1 by (auto intro!: kb_frame)
  ultimately show ?thesis using s1 by simp
qed (use assms in \<open>simp add: OnKey_def\<close>)

lemma locked_session_step:
  assumes "session_step s s'" "SessionLocked (core (desk s))"
  shows "focused_surface (core (desk s')) = focused_surface (core (desk s))"
proof -
  have start: "kb_locked (kb (core (desk s)))" "kbs (kb (core (desk s))) s"
    using assms(2) by (simp_all add: locked_kb kbs_def kbd_def)
  have focus: "kbs (kb (core (desk s))) s' \<Longrightarrow> focused_surface (core (desk s')) = focused_surface (core (desk s))" for s'
    by (simp add: kbs_def kbd_def kb_def)
  from assms(1) show ?thesis
  proof cases
    case (Window c)
    with assms(2) locked_step show ?thesis by (simp add: on_desk_def on_core_def)
  qed (rule focus, (hypsubst)?, insert start, intro kb_frame; assumption)+
qed


text \<open>A window is opened and asks for the focus, and a button is pressed, while the session is locked.\<close>

definition locked_session :: session where
  "locked_session = new_session None
     ((open_window 0 10 ((new_compositor (\<lambda>_. True) (\<lambda>_ _. True))\<lparr>seat_keyboard := True\<rparr>))\<lparr>session_locked := True\<rparr>)"

definition locked_later :: session where
  "locked_later = on_desk (OnCursorButton quiet_env 7 True BTN_LEFT True)
     (on_desk (on_core (\<lambda>_. OnNewToplevel 1 (sample_client\<lparr>cl_surface := Some 11\<rparr>) (core (desk locked_session))))
       locked_session)"


section \<open>The pointer stays on an output\<close>

named_theorems cur_frame "operations that keep the pointer and the output layout"

definition cur :: "compositor \<Rightarrow> real \<times> real \<times> wlr_output_layout" where
  "cur c = (cursor_x c, cursor_y c, output_layout c)"

definition curd :: "real \<times> real \<times> wlr_output_layout \<Rightarrow> desktop \<Rightarrow> bool" where
  "curd k d = (cur (core d) = k)"

lemma cur_control [cur_frame]:
  "(P \<Longrightarrow> cur a = k) \<Longrightarrow> (\<not> P \<Longrightarrow> cur b = k) \<Longrightarrow> cur (if P then a else b) = k"
  "cur (f a') = k \<Longrightarrow> cur (Let a' f) = k"
  "(q = None \<Longrightarrow> cur a = k) \<Longrightarrow> (\<And>x. q = Some x \<Longrightarrow> cur (g x) = k) \<Longrightarrow> cur (case_option a g q) = k"
  "(\<And>x y. p = (x, y) \<Longrightarrow> cur (h x y) = k) \<Longrightarrow> cur (case_prod h p) = k"
  by (simp_all split: option.splits prod.splits)

lemma curd_control [cur_frame]:
  "(P \<Longrightarrow> curd k a) \<Longrightarrow> (\<not> P \<Longrightarrow> curd k b) \<Longrightarrow> curd k (if P then a else b)"
  "curd k (f a') \<Longrightarrow> curd k (Let a' f)"
  "(q = None \<Longrightarrow> curd k a) \<Longrightarrow> (\<And>x. q = Some x \<Longrightarrow> curd k (g x)) \<Longrightarrow> curd k (case_option a g q)"
  "(\<And>x y. p = (x, y) \<Longrightarrow> curd k (h x y)) \<Longrightarrow> curd k (case_prod h p)"
  by (simp_all split: option.splits prod.splits)

lemma cur_fields [cur_frame]:
  "cur c = k \<Longrightarrow> cur (notify cp cl c) = k" "cur c = k \<Longrightarrow> cur (upd_tl i f c) = k"
  "cur c = k \<Longrightarrow> cur (c\<lparr>maximize_on_release := a1\<rparr>) = k" "cur c = k \<Longrightarrow> cur (c\<lparr>cursor_mode := a2\<rparr>) = k"
  "cur c = k \<Longrightarrow> cur (c\<lparr>grabbed_toplevel := a3\<rparr>) = k" "cur c = k \<Longrightarrow> cur (c\<lparr>pointer_focus := a4\<rparr>) = k"
  "cur c = k \<Longrightarrow> cur (set_cursor_name nm c) = k" "cur c = k \<Longrightarrow> cur (clear_pointer_focus c) = k"
  "cur c = k \<Longrightarrow> cur (hover_ssd w hit c) = k"
  by (simp_all add: cur_def notify_def upd_tl_def set_cursor_name_def clear_pointer_focus_def hover_ssd_def)

lemma cur_motion [cur_frame]:
  "cur c = k \<Longrightarrow> cur (default_cursor_no_focus c) = k" "cur c = k \<Longrightarrow> cur (hover_hints w hit c) = k"
  "cur c = k \<Longrightarrow> cur (ResetCursorMode c) = k"
  unfolding default_cursor_no_focus_def hover_hints_def ResetCursorMode_def
  by (intro cur_frame; assumption)+

lemma cur_interactive [cur_frame]: "cur c = k \<Longrightarrow> cur (ProcessInteractiveMotion c) = k"
  unfolding ProcessInteractiveMotion_def by (intro cur_frame; assumption)

lemma curd_basic [cur_frame]:
  "(cur (core d) = k \<Longrightarrow> cur (f (core d)) = k) \<Longrightarrow> curd k d \<Longrightarrow> curd k (on_core f d)"
  "curd k d \<Longrightarrow> curd k (send ev d)" "curd k d \<Longrightarrow> curd k (d\<lparr>cursor_hidden_by_touch := a2\<rparr>)"
  "cur c = k \<Longrightarrow> curd k (d\<lparr>core := c\<rparr>)"
  by (simp_all add: curd_def on_core_def send_def)

lemma curd_passthrough [cur_frame]: "curd k d \<Longrightarrow> curd k (pointer_passthrough e time d)"
proof -
  assume d: "curd k d"
  then have "cur (core d) = k" by (simp add: curd_def)
  with d show ?thesis unfolding pointer_passthrough_def by - (intro cur_frame; assumption)
qed

lemma curd_motion [cur_frame]: "curd k d \<Longrightarrow> curd k (ProcessCursorMotion e time d)"
  unfolding ProcessCursorMotion_def by (intro cur_frame; assumption)

lemma curd_show [cur_frame]: "curd k d \<Longrightarrow> curd k (show_cursor_again d)"
  unfolding show_cursor_again_def by (intro cur_frame; assumption)

definition on_output :: "real \<times> real \<times> wlr_output_layout \<Rightarrow> bool" where
  "on_output k = (wlr_output_layout_output_at (snd (snd k)) (fst k) (fst (snd k)) \<noteq> None)"

lemma warp_on_output:
  assumes "l \<in> set (lo_outputs (output_layout c))"
    "\<not> wlr_box_empty (Some (output_layout_output_get_box (output_layout c) l))"
  shows "on_output (cur (wlr_cursor_warp_closest None lx ly c))"
proof -
  let ?lay = "output_layout c"
  obtain rx ry rd where r: "closest_point_loop ?lay None lx ly (lo_outputs ?lay) (lx, ly, None) = (rx, ry, rd)"
    by (cases "closest_point_loop ?lay None lx ly (lo_outputs ?lay) (lx, ly, None)") auto
  have "rd \<noteq> None" using closest_loop_some [OF r] assms by blast
  then obtain l' where "l' \<in> set (lo_outputs ?lay)" "wlr_box_contains_point (output_layout_output_get_box ?lay l') rx ry"
    using closest_loop_inside [OF r] by auto
  from output_at_member [OF this] have at: "wlr_output_layout_output_at ?lay rx ry \<noteq> None" by auto
  have "wlr_cursor_warp_closest None lx ly c = c\<lparr>cursor_x := rx, cursor_y := ry\<rparr>"
    using assms(1) r by (auto simp: wlr_cursor_warp_closest_def get_mapping_def wlr_box_closest_point_def
        wlr_box_empty_def zero_box_def wlr_output_layout_closest_point_def Let_def)
  with at show ?thesis by (simp add: on_output_def cur_def)
qed

lemma after_warp:
  assumes "curd (cur (core d)) d1"
  shows "\<exists>lx ly c. output_layout c = output_layout (core d) \<and>
    cur (core (on_core (notify CShakeCursor ShakeMotion) (ProcessCursorMotion e time
      (on_core (\<lambda>c. notify CProtocol MoveDrag (wlr_cursor_warp_closest None (f c) (g c) c)) d1)))) =
      cur (wlr_cursor_warp_closest None lx ly c)"
proof -
  let ?d2 = "on_core (\<lambda>c. notify CProtocol MoveDrag (wlr_cursor_warp_closest None (f c) (g c) c)) d1"
  have "curd (cur (core ?d2)) (on_core (notify CShakeCursor ShakeMotion) (ProcessCursorMotion e time ?d2))"
    by (rule cur_frame, rule cur_frame, assumption, rule cur_frame) (simp add: curd_def)
  moreover have "cur (core ?d2) = cur (wlr_cursor_warp_closest None (f (core d1)) (g (core d1)) (core d1))"
    by (simp add: on_core_def cur_def notify_def)
  moreover have "output_layout (core d1) = output_layout (core d)"
    using assms(1) by (simp add: curd_def cur_def)
  ultimately show ?thesis unfolding curd_def by metis
qed

lemma motion_warps:
  assumes "mapped_output e = None"
  shows "\<exists>lx ly c. output_layout c = output_layout (core d) \<and>
      cur (core (OnCursorMotion e time dx dy d)) = cur (wlr_cursor_warp_closest None lx ly c)"
    "\<exists>lx ly c. output_layout c = output_layout (core d) \<and>
      cur (core (OnCursorMotionAbsolute e time x y d)) = cur (wlr_cursor_warp_closest None lx ly c)"
proof -
  have self: "curd (cur (core d)) d" by (simp add: curd_def)
  show "\<exists>lx ly c. output_layout c = output_layout (core d) \<and>
      cur (core (OnCursorMotion e time dx dy d)) = cur (wlr_cursor_warp_closest None lx ly c)"
    unfolding OnCursorMotion_def Let_def split_def assms wlr_cursor_move_def
    by (rule after_warp) (intro cur_frame self; assumption)
  show "\<exists>lx ly c. output_layout c = output_layout (core d) \<and>
      cur (core (OnCursorMotionAbsolute e time x y d)) = cur (wlr_cursor_warp_closest None lx ly c)"
    unfolding OnCursorMotionAbsolute_def Let_def split_def assms
    by (rule after_warp) (intro cur_frame self; assumption)
qed

text \<open>C33: With a non-empty output in the layout, the pointer is on an output after every motion of a
  device that is not mapped to one, however far the device moves.\<close>

theorem pointer_on_output:
  assumes "l \<in> set (lo_outputs (output_layout (core d)))"
    "\<not> wlr_box_empty (Some (output_layout_output_get_box (output_layout (core d)) l))" "mapped_output e = None"
    "d' = OnCursorMotion e time dx dy d \<or> d' = OnCursorMotionAbsolute e time x y d"
  shows "\<exists>k. wlr_output_layout_output_at (output_layout (core d')) (cursor_x (core d')) (cursor_y (core d')) = Some k"
proof -
  obtain lx ly c where c: "output_layout c = output_layout (core d)"
    "cur (core d') = cur (wlr_cursor_warp_closest None lx ly c)"
    using assms(4) motion_warps [OF assms(3), of d] by metis
  have "on_output (cur (core d'))"
    unfolding c(2) using assms(1,2) c(1) by (intro warp_on_output) simp_all
  then show ?thesis by (auto simp: on_output_def cur_def)
qed

theorem pointer_on_output_witness:
  "\<exists>k. wlr_output_layout_output_at
     (output_layout (core (OnCursorMotion quiet_env 5 90000 (- 7) (desk (new_session None output_desktop)))))
     (cursor_x (core (OnCursorMotion quiet_env 5 90000 (- 7) (desk (new_session None output_desktop)))))
     (cursor_y (core (OnCursorMotion quiet_env 5 90000 (- 7) (desk (new_session None output_desktop))))) = Some k"
proof -
  let ?d = "desk (new_session None output_desktop)"
  let ?l = "hd (lo_outputs (output_layout (core ?d)))"
  have "?l \<in> set (lo_outputs (output_layout (core ?d)))"
    by (simp add: new_session_def output_desktop_def)
  moreover have "\<not> wlr_box_empty (Some (output_layout_output_get_box (output_layout (core ?d)) ?l))" by code_simp
  moreover have "mapped_output quiet_env = None" by (simp add: quiet_env_def)
  ultimately show ?thesis by (rule pointer_on_output) (rule disjI1, rule refl)
qed

end
