(* ===== verification/Output_Laws.thy ===== *)
theory Output_Laws
  imports Desktop_Reachable
begin

text \<open>
  Outputs: the mode a new output gets, and modes that a backend requests in the middle of a frame.
\<close>

section \<open>The native mode with the highest refresh rate\<close>

lemma better_mode_fold:
  "om_width (fold better_mode ms s) = om_width s \<and> om_height (fold better_mode ms s) = om_height s \<and>
   om_refresh s \<le> om_refresh (fold better_mode ms s) \<and> fold better_mode ms s \<in> insert s (set ms) \<and>
   (\<forall>m\<in>set ms. om_width m = om_width s \<and> om_height m = om_height s \<longrightarrow> om_refresh m \<le> om_refresh (fold better_mode ms s))"
proof (induction ms arbitrary: s)
  case (Cons m ms)
  have s: "om_width (better_mode m s) = om_width s" "om_height (better_mode m s) = om_height s"
    "om_refresh s \<le> om_refresh (better_mode m s)" "better_mode m s \<in> {m, s}"
    "om_width m = om_width s \<and> om_height m = om_height s \<longrightarrow> om_refresh m \<le> om_refresh (better_mode m s)"
    by (auto simp: better_mode_def)
  show ?case using Cons.IH [of "better_mode m s"] s by auto
qed simp

text \<open>An output that offers modes gets one of them: it has the resolution of the preferred mode
  and the highest refresh rate that any mode of this resolution has.\<close>

lemma HighestNativeRefreshMode_best:
  assumes "modes \<noteq> []"
  shows "\<exists>p m. wlr_output_preferred_mode modes = Some p \<and> HighestNativeRefreshMode modes = Some m \<and>
    m \<in> set modes \<and> om_width m = om_width p \<and> om_height m = om_height p \<and>
    (\<forall>m'\<in>set modes. om_width m' = om_width p \<and> om_height m' = om_height p \<longrightarrow> om_refresh m' \<le> om_refresh m)"
proof -
  have "wlr_output_preferred_mode modes \<noteq> None"
    using assms by (simp add: wlr_output_preferred_mode_def split: list.splits option.splits)
  then obtain p where p: "wlr_output_preferred_mode modes = Some p" by blast
  then have "p \<in> set modes"
    by (auto simp: wlr_output_preferred_mode_def split: list.splits option.splits if_splits dest: find_SomeD)
  then have "insert p (set modes) = set modes" by auto
  with p better_mode_fold [where s = p and ms = modes] show ?thesis
    unfolding HighestNativeRefreshMode_def by (intro exI [of _ p] exI [of _ "fold better_mode modes p"]) auto
qed

section \<open>Modes requested during a frame\<close>

text \<open>What a frame needs of an output, apart from its usable area.\<close>

definition signature :: "Output \<Rightarrow> nat option \<times> bool \<times> bool \<times> bool \<times> int \<times> int" where
  "signature s = (out_handle s, out_scene_output s, out_in_frame s, out_has_deferred_mode s, out_deferred_width s,
     out_deferred_height s)"

definition sigs :: "compositor \<Rightarrow> (nat option \<times> bool \<times> bool \<times> bool \<times> int \<times> int) list" where
  "sigs c = map signature (outputs c)"

lemma sigs_frame [simp]:
  "sigs (notify cp cl c) = sigs c" "sigs (upd_tl i f c) = sigs c" "sigs (UpdateQtFrameInterval c) = sigs c"
  "sigs (snd (wlr_output_commit_state acc k rq c)) = sigs c"
  by (simp_all add: sigs_def notify_def upd_tl_def UpdateQtFrameInterval_def wlr_output_commit_state_def Let_def)

lemma layout_interval [simp]: "output_layout (UpdateQtFrameInterval c) = output_layout c"
  by (simp add: UpdateQtFrameInterval_def Let_def)

lemma sigs_fold: "(\<And>x c. sigs (f x c) = sigs c) \<Longrightarrow> sigs (fold f xs c) = sigs c"
  by (induction xs arbitrary: c) simp_all

lemma sigs_fit: "sigs (fit_toplevel k u o' i c) = sigs c"
  by (simp add: fit_toplevel_def MoveToplevelFrame_def Let_def split: option.splits)

lemma map_update_first: "(\<And>x. g (f x) = g x) \<Longrightarrow> map g (update_first P f xs) = map g xs"
  by (induction xs) auto

lemma sigs_arrange [simp]: "sigs (ArrangeLayers output c) = sigs c"
proof (cases "output = None \<or> FindOutput c output = None")
  case False
  then obtain k state where k: "output = Some k" "FindOutput c output = Some state" by auto
  have fit: "sigs (FitToplevelsToUsableArea k old c') = sigs c'" for old c'
    by (simp add: FitToplevelsToUsableArea_def Let_def sigs_fold sigs_fit split: option.splits)
  have "map signature (update_first P (\<lambda>s. s\<lparr>out_usable_box := b, out_layer_pos := ps\<rparr>) os) = map signature os" for P b ps os
    by (rule map_update_first) (simp add: signature_def)
  then have set: "sigs (c\<lparr>layer_surfaces := ls,
      outputs := update_first P (\<lambda>s. s\<lparr>out_usable_box := b, out_layer_pos := ps\<rparr>) (outputs c)\<rparr>) = sigs c" for ls P b ps
    by (simp add: sigs_def)
  show ?thesis
    using k by (simp add: ArrangeLayers_def Let_def fit set split: prod.splits)
qed (auto simp: ArrangeLayers_def split: option.splits)

lemma state_arrange [simp]: "output_layout (ArrangeLayers output c) = output_layout c"
proof -
  have fit: "output_layout (fit_toplevel k u o' i c) = output_layout c" for k u o' i c
    by (simp add: fit_toplevel_def MoveToplevelFrame_def Let_def notify_def upd_tl_def split: option.splits)
  have "output_layout (fold (fit_toplevel k u o') is c) = output_layout c" for k u o' "is" c
    by (induction "is" arbitrary: c) (simp_all add: fit)
  then show ?thesis
    by (simp add: ArrangeLayers_def FitToplevelsToUsableArea_def Let_def notify_def split: option.splits prod.splits)
qed

text \<open>The custom mode that a sequence of requests asks for last.\<close>

fun last_custom :: "(bool \<times> output_request) list \<Rightarrow> (int \<times> int) option" where
  "last_custom [] = None"
| "last_custom ((ok, rq) # rs) =
     (case last_custom rs of
        Some m \<Rightarrow> Some m
      | None \<Rightarrow> (case rq_mode rq of Some (CustomMode w h _) \<Rightarrow> Some (w, h) | _ \<Rightarrow> None))"

lemma sigs_nth: "n < length (outputs c) \<Longrightarrow> sigs c ! n = signature (outputs c ! n)"
  "length (sigs c) = length (outputs c)"
  by (simp_all add: sigs_def)

lemma sigs_upd: "sigs (upd_output n f c) = (if n < length (outputs c) then (sigs c)[n := signature (f (outputs c ! n))] else sigs c)"
  by (simp add: upd_output_def sigs_def map_update)

lemma request_in_frame:
  assumes "n < length (outputs c)" "out_in_frame (outputs c ! n)"
  shows "sigs (OnRequestState ok n rq c) = (case rq_mode rq of
      Some (CustomMode w h _) \<Rightarrow> (sigs c)[n := signature ((outputs c ! n)\<lparr>out_deferred_width := w,
        out_deferred_height := h, out_has_deferred_mode := True\<rparr>)]
    | _ \<Rightarrow> sigs c)"
proof -
  have "sigs (let (committed, c1) = wlr_output_commit_state acc k rq c
      in if committed then UpdateQtFrameInterval (ArrangeLayers (Some k) c1) else c1) = sigs c" for acc k
    using sigs_frame(4) [of acc k rq c] by (simp add: split_def Let_def)
  then show ?thesis
    using assms by (simp add: OnRequestState_def Let_def sigs_upd split: option.splits mode_request.splits)
qed

lemma requests_deferred:
  assumes "n < length (outputs c)" "sigs c ! n = (handle, scene, True, pending, w0, h0)"
  shows "n < length (outputs (fold (\<lambda>(ok, rq). OnRequestState ok n rq) rs c)) \<and>
    sigs (fold (\<lambda>(ok, rq). OnRequestState ok n rq) rs c) ! n =
      (case last_custom rs of None \<Rightarrow> (handle, scene, True, pending, w0, h0)
       | Some (w, h) \<Rightarrow> (handle, scene, True, True, w, h))"
  using assms
proof (induction rs arbitrary: c pending w0 h0)
  case (Cons r rs)
  obtain ok rq where r: "r = (ok, rq)" by (cases r)
  let ?c = "OnRequestState ok n rq c"
  have frame: "out_in_frame (outputs c ! n)" "out_handle (outputs c ! n) = handle"
    "out_scene_output (outputs c ! n) = scene"
    using Cons.prems by (simp_all add: sigs_nth signature_def)
  have s: "sigs ?c ! n = (case rq_mode rq of Some (CustomMode w h _) \<Rightarrow> (handle, scene, True, True, w, h)
      | _ \<Rightarrow> (handle, scene, True, pending, w0, h0))"
    using Cons.prems frame
    by (auto simp: request_in_frame sigs_nth signature_def split: option.splits mode_request.splits)
  have "length (sigs ?c) = length (sigs c)"
    using request_in_frame [OF Cons.prems(1) frame(1), of ok rq] by (simp split: option.splits mode_request.splits)
  then have n: "n < length (outputs ?c)" using Cons.prems(1) by (simp add: sigs_nth)
  show ?case
  proof (cases "\<exists>w h q. rq_mode rq = Some (CustomMode w h q)")
    case True
    then obtain w h q where rq: "rq_mode rq = Some (CustomMode w h q)" by blast
    with Cons.IH [OF n, of True w h] s show ?thesis by (auto simp: r split: option.splits)
  next
    case False
    then have "sigs ?c ! n = (handle, scene, True, pending, w0, h0)"
      using s by (simp split: option.splits mode_request.splits)
    with Cons.IH [OF n] False show ?thesis by (auto simp: r split: option.splits mode_request.splits)
  qed
qed simp

lemma ApplyDeferredMode_applies:
  assumes "n < length (outputs c)" "sigs c ! n = (Some k, scene, False, True, w, h)"
  shows "wo_width (output_state (output_layout (ApplyDeferredMode True n c)) k) = w \<and>
    wo_height (output_state (output_layout (ApplyDeferredMode True n c)) k) = h \<and>
    sigs (ApplyDeferredMode True n c) ! n = (Some k, scene, False, False, w, h)"
proof -
  have f: "out_handle (outputs c ! n) = Some k" "out_has_deferred_mode (outputs c ! n)"
    "out_deferred_width (outputs c ! n) = w" "out_deferred_height (outputs c ! n) = h"
    "out_scene_output (outputs c ! n) = scene" "\<not> out_in_frame (outputs c ! n)"
    using assms by (simp_all add: sigs_nth signature_def)
  have keep: "output_state (output_layout_reconfigure lay) = output_state lay" for lay
    by (simp add: output_layout_reconfigure_def split: prod.splits)
  let ?c1 = "upd_output n (\<lambda>s. s\<lparr>out_has_deferred_mode := False\<rparr>) c"
  let ?r = "wlr_output_commit_state True k \<lparr>rq_mode = Some (CustomMode w h 0), rq_enabled = None\<rparr> ?c1"
  have "ApplyDeferredMode True n c = UpdateQtFrameInterval (ArrangeLayers (Some k) (snd ?r))"
    using assms(1) f by (simp add: ApplyDeferredMode_def Let_def split_def wlr_output_commit_state_def)
  moreover have "output_state (output_layout (snd ?r)) k = (output_state (output_layout c) k)\<lparr>wo_width := w,
      wo_height := h, wo_refresh := 0\<rparr>"
    by (simp add: wlr_output_commit_state_def Let_def handle_output_commit_def keep apply_request_def apply_mode_def
        upd_output_def)
  ultimately show ?thesis
    using assms(1) f by (simp add: sigs_upd sigs_nth signature_def)
qed


definition one_output :: compositor where
  "one_output = bare_compositor\<lparr>outputs := [new_output 0]\<rparr>"

definition two_requests :: "(bool \<times> output_request) list" where
  "two_requests = [(True, \<lparr>rq_mode = Some (CustomMode 800 600 0), rq_enabled = None\<rparr>),
     (True, \<lparr>rq_mode = Some (CustomMode 1024 768 0), rq_enabled = None\<rparr>)]"


end
