(* ===== verification/Text_Input.thy ===== *)
theory Text_Input
  imports Wlr_Geometry
begin

text \<open>
  Text-input endpoints (\<open>src/protocol/text_input\<close>): the version-neutral interface of
  \<open>TextInput\<close>, its three implementations and, for version 3, the part of wlroots'
  \<open>wlr_text_input_v3.c\<close> behind it.  Surfaces, clients and seats are numbers; the client a
  surface belongs to is the argument \<open>client_of\<close>.  Requests that call back into the relay are
  in the theory of the input method relay.
\<close>

section \<open>Data\<close>

text \<open>\<open>TextInput::State\<close>.\<close>

record ti_state =
  st_surrounding_text :: string
  st_surrounding_cursor :: "32 word"
  st_surrounding_anchor :: "32 word"
  st_content_hint :: "32 word"
  st_content_purpose :: "32 word"
  st_text_change_cause :: "32 word"
  st_cursor_rectangle :: wlr_box
  has_surrounding_text :: bool
  has_content_type :: bool
  has_cursor_rectangle :: bool

definition empty_state :: ti_state where
  "empty_state = \<lparr>st_surrounding_text = [], st_surrounding_cursor = 0, st_surrounding_anchor = 0,
     st_content_hint = 0, st_content_purpose = 0, st_text_change_cause = 0,
     st_cursor_rectangle = zero_box, has_surrounding_text = False, has_content_type = False,
     has_cursor_rectangle = False\<rparr>"

text \<open>What a text-input client is sent.  \<open>EvAbort\<close> is a failed assertion of wlroots.\<close>

datatype ti_event =
    EvEnter "32 word option" nat
  | EvLeave "32 word option" "nat option"
  | EvPreeditCursor int
  | EvPreeditStyling "32 word" "32 word"
  | EvPreeditString "32 word option" string
  | EvPreeditV3 string int int
  | EvCommitString "32 word option" string
  | EvDelete "32 word" "32 word"
  | EvDone "32 word"
  | EvAbort

text \<open>The members of \<open>TextInputV1\<close> and \<open>TextInputV2\<close>, which agree: \<open>lg_resource\<close> holds the client of
  the resource, \<open>lg_enabled\<close> is \<open>activated_\<close> of version 1 and \<open>enabled_\<close> of version 2.\<close>

record legacy_input =
  lg_resource :: "nat option"
  lg_seat :: "nat option"
  lg_surface :: "nat option"
  lg_text :: string
  lg_cursor :: "32 word"
  lg_anchor :: "32 word"
  lg_hint :: "32 word"
  lg_purpose :: "32 word"
  lg_serial :: "32 word"
  lg_rectangle :: wlr_box
  lg_surrounding_pending :: bool
  lg_content_type_pending :: bool
  lg_cursor_rectangle_pending :: bool
  lg_enabled :: bool

definition new_legacy :: "nat \<Rightarrow> nat option \<Rightarrow> legacy_input" where
  "new_legacy client seat = \<lparr>lg_resource = Some client, lg_seat = seat, lg_surface = None, lg_text = [],
     lg_cursor = 0, lg_anchor = 0, lg_hint = 0, lg_purpose = 0, lg_serial = 0, lg_rectangle = zero_box,
     lg_surrounding_pending = False, lg_content_type_pending = False,
     lg_cursor_rectangle_pending = False, lg_enabled = False\<rparr>"

text \<open>\<open>wlr_text_input_v3_state\<close> and \<open>wlr_text_input_v3\<close>.\<close>

record v3_state =
  s3_text :: "string option"
  s3_cursor :: "32 word"
  s3_anchor :: "32 word"
  s3_cause :: "32 word"
  s3_hint :: "32 word"
  s3_purpose :: "32 word"
  s3_rectangle :: wlr_box
  s3_features :: "32 word"

definition v3_defaults :: v3_state where
  "v3_defaults = \<lparr>s3_text = None, s3_cursor = 0, s3_anchor = 0, s3_cause = 0, s3_hint = 0,
     s3_purpose = 0, s3_rectangle = zero_box, s3_features = 0\<rparr>"

record v3_handle =
  h_seat :: nat
  h_client :: nat
  h_focused :: "nat option"
  h_pending :: v3_state
  h_current :: v3_state
  h_serial :: "32 word"
  h_pending_enabled :: bool
  h_current_enabled :: bool
  h_active_features :: "32 word"

definition new_v3 :: "nat \<Rightarrow> nat \<Rightarrow> v3_handle" where
  "new_v3 client seat = \<lparr>h_seat = seat, h_client = client, h_focused = None, h_pending = v3_defaults,
     h_current = v3_defaults, h_serial = 0, h_pending_enabled = False, h_current_enabled = False,
     h_active_features = 0\<rparr>"

definition FEATURE_SURROUNDING_TEXT :: "32 word" where "FEATURE_SURROUNDING_TEXT = 1"
definition FEATURE_CONTENT_TYPE :: "32 word" where "FEATURE_CONTENT_TYPE = 2"
definition FEATURE_CURSOR_RECTANGLE :: "32 word" where "FEATURE_CURSOR_RECTANGLE = 4"

text \<open>The classes derived from \<open>TextInput\<close>, and the base class with the member the relay uses.
  \<open>ti_sent\<close> lists what the client was sent, oldest first.\<close>

datatype ti_impl = V1 legacy_input | V2 legacy_input | V3 "v3_handle option"

record TextInput =
  ti_id :: nat
  ti_impl :: ti_impl
  ti_relay_surface :: "nat option"
  ti_sent :: "ti_event list"

section \<open>Versions 1 and 2\<close>

definition legacy_state :: "legacy_input \<Rightarrow> ti_state" where
  "legacy_state l = \<lparr>st_surrounding_text = lg_text l, st_surrounding_cursor = lg_cursor l,
     st_surrounding_anchor = lg_anchor l, st_content_hint = lg_hint l, st_content_purpose = lg_purpose l,
     st_text_change_cause = 0, st_cursor_rectangle = lg_rectangle l,
     has_surrounding_text = lg_surrounding_pending l, has_content_type = lg_content_type_pending l,
     has_cursor_rectangle = lg_cursor_rectangle_pending l\<rparr>"

definition legacy_matches :: "legacy_input \<Rightarrow> nat option \<Rightarrow> bool" where
  "legacy_matches l surface = (lg_surface l \<noteq> None \<and> lg_surface l = surface)"

definition v1_SendEnter :: "nat option \<Rightarrow> legacy_input \<Rightarrow> legacy_input \<times> ti_event list" where
  "v1_SendEnter surface l =
     (case surface of
        Some s \<Rightarrow> (l, if lg_resource l = None \<or> lg_surface l \<noteq> surface then [] else [EvEnter None s])
      | None \<Rightarrow> (l, []))"

definition v1_SendLeave :: "legacy_input \<Rightarrow> legacy_input \<times> ti_event list" where
  "v1_SendLeave l =
     (if lg_resource l = None \<or> lg_surface l = None then (l, [])
      else (l\<lparr>lg_surface := None\<rparr>, [EvLeave None None]))"

definition v2_SendEnter :: "nat option \<Rightarrow> legacy_input \<Rightarrow> legacy_input \<times> ti_event list" where
  "v2_SendEnter surface l =
     (case surface of
        Some s \<Rightarrow> (l, if lg_resource l = None then [] else [EvEnter (Some (lg_serial l)) s])
      | None \<Rightarrow> (l, []))"

definition v2_SendLeave :: "legacy_input \<Rightarrow> legacy_input \<times> ti_event list" where
  "v2_SendLeave l =
     (if lg_resource l = None \<or> lg_surface l = None then (l, [])
      else (l\<lparr>lg_surface := None\<rparr>, [EvLeave (Some (lg_serial l)) (lg_surface l)]))"

text \<open>The composed text; \<open>serial\<close> is the argument only version 1 sends.\<close>

definition legacy_preedit :: "32 word option \<Rightarrow> string \<Rightarrow> int \<Rightarrow> legacy_input \<Rightarrow> ti_event list" where
  "legacy_preedit serial text cursor_begin l =
     (if lg_resource l = None then []
      else [EvPreeditCursor cursor_begin, EvPreeditStyling 0 (of_nat (length text)),
            EvPreeditString serial text])"

definition legacy_commit :: "32 word option \<Rightarrow> string \<Rightarrow> legacy_input \<Rightarrow> ti_event list" where
  "legacy_commit serial text l = (if lg_resource l = None then [] else [EvCommitString serial text])"

definition legacy_delete :: "32 word \<Rightarrow> 32 word \<Rightarrow> legacy_input \<Rightarrow> ti_event list" where
  "legacy_delete before_length after_length l =
     (if lg_resource l = None then []
      else let size = of_nat (length (lg_text l));
               index = (if size > before_length then size - before_length else 0)
           in [EvDelete index (before_length + after_length)])"

definition MakeInert :: "legacy_input \<Rightarrow> legacy_input" where
  "MakeInert l = l\<lparr>lg_seat := None, lg_surface := None, lg_enabled := False, lg_resource := None\<rparr>"

section \<open>Version 3\<close>

definition v3_matches :: "(nat \<Rightarrow> nat) \<Rightarrow> v3_handle option \<Rightarrow> nat option \<Rightarrow> bool" where
  "v3_matches client_of handle surface =
     (case (surface, handle) of
        (Some s, Some h) \<Rightarrow> h_client h = client_of s
      | _ \<Rightarrow> False)"

definition v3_CurrentState :: "v3_handle option \<Rightarrow> ti_state" where
  "v3_CurrentState handle =
     (case handle of
        None \<Rightarrow> empty_state
      | Some h \<Rightarrow>
          let s = h_current h
          in \<lparr>st_surrounding_text = (case s3_text s of None \<Rightarrow> [] | Some t \<Rightarrow> t),
              st_surrounding_cursor = s3_cursor s, st_surrounding_anchor = s3_anchor s,
              st_content_hint = s3_hint s, st_content_purpose = s3_purpose s,
              st_text_change_cause = s3_cause s, st_cursor_rectangle = s3_rectangle s,
              has_surrounding_text = (h_active_features h AND FEATURE_SURROUNDING_TEXT \<noteq> 0),
              has_content_type = (h_active_features h AND FEATURE_CONTENT_TYPE \<noteq> 0),
              has_cursor_rectangle = (s3_features s AND FEATURE_CURSOR_RECTANGLE \<noteq> 0)\<rparr>)"

definition wlr_text_input_v3_send_enter ::
  "(nat \<Rightarrow> nat) \<Rightarrow> nat \<Rightarrow> v3_handle \<Rightarrow> v3_handle \<times> ti_event list" where
  "wlr_text_input_v3_send_enter client_of s h =
     (if h_client h \<noteq> client_of s \<or> h_focused h \<noteq> None then (h, [EvAbort])
      else (h\<lparr>h_focused := Some s\<rparr>, [EvEnter None s]))"

definition wlr_text_input_v3_send_leave :: "v3_handle \<Rightarrow> v3_handle \<times> ti_event list" where
  "wlr_text_input_v3_send_leave h =
     (case h_focused h of
        None \<Rightarrow> (h, [EvAbort])
      | Some s \<Rightarrow> (h\<lparr>h_focused := None\<rparr>, [EvLeave None (Some s)]))"

definition v3_SendEnter ::
  "(nat \<Rightarrow> nat) \<Rightarrow> nat option \<Rightarrow> v3_handle option \<Rightarrow> v3_handle option \<times> ti_event list" where
  "v3_SendEnter client_of surface handle =
     (case (handle, surface) of
        (Some h, Some s) \<Rightarrow>
          (let (h', evs) = wlr_text_input_v3_send_enter client_of s h in (Some h', evs))
      | _ \<Rightarrow> (handle, []))"

definition v3_SendLeave :: "v3_handle option \<Rightarrow> v3_handle option \<times> ti_event list" where
  "v3_SendLeave handle =
     (case handle of
        None \<Rightarrow> (None, [])
      | Some h \<Rightarrow>
          if h_focused h = None then (Some h, [])
          else (let (h', evs) = wlr_text_input_v3_send_leave h in (Some h', evs)))"

text \<open>The requests of version 3 gather a pending state.  \<open>text_input_commit\<close> makes it current and
  says which signal it emits.\<close>

datatype v3_signal = SigEnable | SigDisable | SigCommit

definition text_input_enable :: "v3_handle \<Rightarrow> v3_handle" where
  "text_input_enable h = h\<lparr>h_pending := v3_defaults, h_pending_enabled := True\<rparr>"

definition text_input_disable :: "v3_handle \<Rightarrow> v3_handle" where
  "text_input_disable h = h\<lparr>h_pending_enabled := False\<rparr>"

definition text_input_set_surrounding_text :: "string \<Rightarrow> 32 word \<Rightarrow> 32 word \<Rightarrow> v3_handle \<Rightarrow> v3_handle" where
  "text_input_set_surrounding_text text cursor anchor h =
     h\<lparr>h_pending := (h_pending h)\<lparr>s3_text := Some text,
         s3_features := s3_features (h_pending h) OR FEATURE_SURROUNDING_TEXT,
         s3_cursor := cursor, s3_anchor := anchor\<rparr>\<rparr>"

definition text_input_set_text_change_cause :: "32 word \<Rightarrow> v3_handle \<Rightarrow> v3_handle" where
  "text_input_set_text_change_cause cause h = h\<lparr>h_pending := (h_pending h)\<lparr>s3_cause := cause\<rparr>\<rparr>"

definition text_input_set_content_type :: "32 word \<Rightarrow> 32 word \<Rightarrow> v3_handle \<Rightarrow> v3_handle" where
  "text_input_set_content_type hint purpose h =
     h\<lparr>h_pending := (h_pending h)\<lparr>s3_features := s3_features (h_pending h) OR FEATURE_CONTENT_TYPE,
         s3_hint := hint, s3_purpose := purpose\<rparr>\<rparr>"

definition text_input_set_cursor_rectangle :: "wlr_box \<Rightarrow> v3_handle \<Rightarrow> v3_handle" where
  "text_input_set_cursor_rectangle box h =
     h\<lparr>h_pending := (h_pending h)\<lparr>s3_features := s3_features (h_pending h) OR FEATURE_CURSOR_RECTANGLE,
         s3_rectangle := box\<rparr>\<rparr>"

definition text_input_commit :: "v3_handle \<Rightarrow> v3_handle \<times> v3_signal" where
  "text_input_commit h =
     (let h1 = h\<lparr>h_current := h_pending h, h_current_enabled := h_pending_enabled h,
                 h_serial := h_serial h + 1\<rparr>
      in if \<not> h_current_enabled h \<and> h_pending_enabled h
         then (h1\<lparr>h_active_features := s3_features (h_pending h)\<rparr>, SigEnable)
         else if h_current_enabled h \<and> \<not> h_pending_enabled h
         then (h1\<lparr>h_active_features := 0\<rparr>, SigDisable)
         else (h1, SigCommit))"

definition text_input_clear_focused_surface :: "v3_handle \<Rightarrow> v3_handle" where
  "text_input_clear_focused_surface h = h\<lparr>h_focused := None\<rparr>"

section \<open>The interface\<close>

definition Seat :: "TextInput \<Rightarrow> nat option" where
  "Seat t = (case ti_impl t of V1 l \<Rightarrow> lg_seat l | V2 l \<Rightarrow> lg_seat l | V3 h \<Rightarrow> map_option h_seat h)"

definition MatchesSurface :: "(nat \<Rightarrow> nat) \<Rightarrow> TextInput \<Rightarrow> nat option \<Rightarrow> bool" where
  "MatchesSurface client_of t surface =
     (case ti_impl t of
        V1 l \<Rightarrow> legacy_matches l surface
      | V2 l \<Rightarrow> legacy_matches l surface
      | V3 h \<Rightarrow> v3_matches client_of h surface)"

definition v3_Enabled :: "v3_handle option \<Rightarrow> bool" where
  "v3_Enabled handle = (case handle of None \<Rightarrow> False | Some h \<Rightarrow> h_current_enabled h)"

definition Enabled :: "TextInput \<Rightarrow> bool" where
  "Enabled t = (case ti_impl t of V1 l \<Rightarrow> lg_enabled l | V2 l \<Rightarrow> lg_enabled l | V3 h \<Rightarrow> v3_Enabled h)"

definition CurrentState :: "TextInput \<Rightarrow> ti_state" where
  "CurrentState t =
     (case ti_impl t of V1 l \<Rightarrow> legacy_state l | V2 l \<Rightarrow> legacy_state l | V3 h \<Rightarrow> v3_CurrentState h)"

definition ti_send :: "ti_event list \<Rightarrow> TextInput \<Rightarrow> TextInput" where
  "ti_send evs t = t\<lparr>ti_sent := ti_sent t @ evs\<rparr>"

definition SendEnter :: "(nat \<Rightarrow> nat) \<Rightarrow> nat option \<Rightarrow> TextInput \<Rightarrow> TextInput" where
  "SendEnter client_of surface t =
     (case ti_impl t of
        V1 l \<Rightarrow> let (l', evs) = v1_SendEnter surface l in ti_send evs (t\<lparr>ti_impl := V1 l'\<rparr>)
      | V2 l \<Rightarrow> let (l', evs) = v2_SendEnter surface l in ti_send evs (t\<lparr>ti_impl := V2 l'\<rparr>)
      | V3 h \<Rightarrow> let (h', evs) = v3_SendEnter client_of surface h in ti_send evs (t\<lparr>ti_impl := V3 h'\<rparr>))"

definition SendLeave :: "TextInput \<Rightarrow> TextInput" where
  "SendLeave t =
     (case ti_impl t of
        V1 l \<Rightarrow> let (l', evs) = v1_SendLeave l in ti_send evs (t\<lparr>ti_impl := V1 l'\<rparr>)
      | V2 l \<Rightarrow> let (l', evs) = v2_SendLeave l in ti_send evs (t\<lparr>ti_impl := V2 l'\<rparr>)
      | V3 h \<Rightarrow> let (h', evs) = v3_SendLeave h in ti_send evs (t\<lparr>ti_impl := V3 h'\<rparr>))"

definition SendPreedit :: "string \<Rightarrow> int \<Rightarrow> int \<Rightarrow> TextInput \<Rightarrow> TextInput" where
  "SendPreedit text cursor_begin cursor_end t =
     ti_send (case ti_impl t of
                V1 l \<Rightarrow> legacy_preedit (Some (lg_serial l)) text cursor_begin l
              | V2 l \<Rightarrow> legacy_preedit None text cursor_begin l
              | V3 h \<Rightarrow> if h = None then [] else [EvPreeditV3 text cursor_begin cursor_end]) t"

definition SendCommit :: "string \<Rightarrow> TextInput \<Rightarrow> TextInput" where
  "SendCommit text t =
     ti_send (case ti_impl t of
                V1 l \<Rightarrow> legacy_commit (Some (lg_serial l)) text l
              | V2 l \<Rightarrow> legacy_commit None text l
              | V3 h \<Rightarrow> if h = None then [] else [EvCommitString None text]) t"

definition SendDelete :: "32 word \<Rightarrow> 32 word \<Rightarrow> TextInput \<Rightarrow> TextInput" where
  "SendDelete before_length after_length t =
     ti_send (case ti_impl t of
                V1 l \<Rightarrow> legacy_delete before_length after_length l
              | V2 l \<Rightarrow> legacy_delete before_length after_length l
              | V3 h \<Rightarrow> if h = None then [] else [EvDelete before_length after_length]) t"

definition SendDone :: "TextInput \<Rightarrow> TextInput" where
  "SendDone t =
     ti_send (case ti_impl t of V3 (Some h) \<Rightarrow> [EvDone (h_serial h)] | _ \<Rightarrow> []) t"

section \<open>What the relay relies on\<close>

text \<open>Sending an enter or a leave changes neither whether the endpoint is enabled nor, for an enter,
  which surfaces it belongs to; a leave only makes it belong to fewer.\<close>

locale text_input =
  fixes enabled :: "'t \<Rightarrow> bool"
    and matches :: "'t \<Rightarrow> nat option \<Rightarrow> bool"
    and enter :: "nat option \<Rightarrow> 't \<Rightarrow> 't"
    and leave :: "'t \<Rightarrow> 't"
  assumes enabled_enter: "enabled (enter s t) = enabled t"
    and enabled_leave: "enabled (leave t) = enabled t"
    and matches_enter: "matches (enter s t) s' = matches t s'"
    and matches_leave: "matches (leave t) s' \<Longrightarrow> matches t s'"
    and matches_some: "matches t s \<Longrightarrow> s \<noteq> None"
begin

text \<open>A series of focus changes: each leaves the endpoint and enters it again if it still belongs
  to the surface.\<close>

lemma enabled_refocus:
  "enabled (fold (\<lambda>s t. let t' = leave t in if matches t' s then enter s t' else t') ss t) = enabled t"
  by (induction ss arbitrary: t) (auto simp: Let_def enabled_enter enabled_leave)

lemma matches_refocus:
  "matches (fold (\<lambda>s t. let t' = leave t in if matches t' s then enter s t' else t') ss t) s' \<Longrightarrow> matches t s'"
proof (induction ss arbitrary: t)
  case (Cons s ss)
  then have "matches (if matches (leave t) s then enter s (leave t) else leave t) s'"
    by (simp add: Let_def)
  then show ?case by (simp add: matches_enter matches_leave split: if_splits)
qed simp

end

interpretation ti_v1: text_input lg_enabled legacy_matches
  "\<lambda>s l. fst (v1_SendEnter s l)" "\<lambda>l. fst (v1_SendLeave l)"
  by unfold_locales
    (auto simp: v1_SendEnter_def v1_SendLeave_def legacy_matches_def split: option.splits if_splits)

interpretation ti_v2: text_input lg_enabled legacy_matches
  "\<lambda>s l. fst (v2_SendEnter s l)" "\<lambda>l. fst (v2_SendLeave l)"
  by unfold_locales
    (auto simp: v2_SendEnter_def v2_SendLeave_def legacy_matches_def split: option.splits if_splits)

interpretation ti_v3: text_input v3_Enabled "v3_matches client_of"
  "\<lambda>s h. fst (v3_SendEnter client_of s h)" "\<lambda>h. fst (v3_SendLeave h)" for client_of
  by unfold_locales
    (auto simp: v3_SendEnter_def v3_SendLeave_def v3_matches_def v3_Enabled_def
       wlr_text_input_v3_send_enter_def wlr_text_input_v3_send_leave_def split: option.splits if_splits)

lemmas send_defs = SendEnter_def SendLeave_def Enabled_def MatchesSurface_def ti_send_def

interpretation ti: text_input Enabled "MatchesSurface client_of" "SendEnter client_of" SendLeave
  for client_of
proof unfold_locales
  fix s s' :: "nat option" and t :: TextInput
  show "Enabled (SendEnter client_of s t) = Enabled t"
    by (simp add: send_defs split_beta ti_v1.enabled_enter ti_v2.enabled_enter ti_v3.enabled_enter
        split: ti_impl.split)
  show "Enabled (SendLeave t) = Enabled t"
    by (simp add: send_defs split_beta ti_v1.enabled_leave ti_v2.enabled_leave ti_v3.enabled_leave
        split: ti_impl.split)
  show "MatchesSurface client_of (SendEnter client_of s t) s' = MatchesSurface client_of t s'"
    by (simp add: send_defs split_beta ti_v1.matches_enter ti_v2.matches_enter ti_v3.matches_enter
        split: ti_impl.split)
  show "MatchesSurface client_of t s'" if m: "MatchesSurface client_of (SendLeave t) s'"
  proof (cases "ti_impl t")
    case (V1 l)
    with m have "legacy_matches (fst (v1_SendLeave l)) s'" by (simp add: send_defs split_beta)
    then have "legacy_matches l s'" by (rule ti_v1.matches_leave)
    with V1 show ?thesis by (simp add: MatchesSurface_def)
  next
    case (V2 l)
    with m have "legacy_matches (fst (v2_SendLeave l)) s'" by (simp add: send_defs split_beta)
    then have "legacy_matches l s'" by (rule ti_v2.matches_leave)
    with V2 show ?thesis by (simp add: MatchesSurface_def)
  next
    case (V3 l)
    with m have "v3_matches client_of (fst (v3_SendLeave l)) s'" by (simp add: send_defs split_beta)
    then have "v3_matches client_of l s'" by (rule ti_v3.matches_leave)
    with V3 show ?thesis by (simp add: MatchesSurface_def)
  qed
  show "s \<noteq> None" if "MatchesSurface client_of t s"
    using that ti_v1.matches_some ti_v3.matches_some
    by (auto simp: MatchesSurface_def split: ti_impl.splits)
qed

end
