(* ===== verification/Input_Method.thy ===== *)
theory Input_Method
  imports Text_Input
begin

text \<open>
  The input method relay (\<open>src/protocol/input_method\<close>): it connects the text-input endpoints of
  all clients to the one input method, moves enter and leave with the keyboard focus, activates the
  endpoint that is enabled on the focused surface and places the candidate popups.  The part of
  wlroots' \<open>wlr_input_method_v2.c\<close> behind it is included.  Allocation failures are not modelled.
\<close>

section \<open>Data\<close>

text \<open>What the input method is sent, oldest first in \<open>im_sent\<close>.\<close>

datatype im_event =
    ImActivate
  | ImDeactivate
  | ImSurroundingText string "32 word" "32 word"
  | ImTextChangeCause "32 word"
  | ImContentType "32 word" "32 word"
  | ImDone
  | ImGrabKeyboard nat

text \<open>\<open>wlr_input_method_v2_state\<close>: the text being composed with its cursor, the text to insert and
  the text to delete around the cursor.\<close>

record im_state =
  ims_preedit :: "(string \<times> int \<times> int) option"
  ims_commit_text :: "string option"
  ims_before_length :: "32 word"
  ims_after_length :: "32 word"

definition im_state_reset :: im_state where
  "im_state_reset = \<lparr>ims_preedit = None, ims_commit_text = None, ims_before_length = 0, ims_after_length = 0\<rparr>"

text \<open>\<open>wlr_input_method_v2\<close>; \<open>im_grab\<close> says that it has a keyboard grab.\<close>

record input_method =
  im_client :: nat
  im_active :: bool
  im_client_active :: bool
  im_serial :: "32 word"
  im_pending :: im_state
  im_current :: im_state
  im_grab :: bool
  im_sent :: "im_event list"

definition new_input_method :: "nat \<Rightarrow> input_method" where
  "new_input_method client = \<lparr>im_client = client, im_active = False, im_client_active = False, im_serial = 0,
     im_pending = im_state_reset, im_current = im_state_reset, im_grab = False, im_sent = []\<rparr>"

text \<open>\<open>InputMethodPopup\<close> with its surface: \<open>pp_enabled\<close> and the position belong to the scene node,
  \<open>pp_rectangle\<close> is the last cursor rectangle sent.\<close>

record popup =
  pp_id :: nat
  pp_has_buffer :: bool
  pp_mapped :: bool
  pp_width :: int
  pp_height :: int
  pp_enabled :: bool
  pp_x :: int
  pp_y :: int
  pp_rectangle :: "wlr_box option"

record relay =
  rl_seat :: nat
  rl_im :: "input_method option"
  rl_focused :: "nat option"
  rl_active :: "nat option"
  rl_pending :: "nat option"
  rl_inputs :: "TextInput list"
  rl_popups :: "popup list"

definition new_relay :: "nat \<Rightarrow> nat option \<Rightarrow> relay" where
  "new_relay seat focused = \<lparr>rl_seat = seat, rl_im = None, rl_focused = focused, rl_active = None,
     rl_pending = None, rl_inputs = [], rl_popups = []\<rparr>"

text \<open>The surroundings of the relay: the client of a surface, where the scene shows a surface, and the
  output layout.\<close>

record im_env =
  ie_client :: "nat \<Rightarrow> nat"
  ie_position :: "nat \<Rightarrow> (int \<times> int) option"
  ie_layout :: wlr_output_layout

section \<open>Lookups\<close>

definition find_ti :: "relay \<Rightarrow> nat \<Rightarrow> TextInput option" where
  "find_ti r i = find (\<lambda>t. ti_id t = i) (rl_inputs r)"

definition upd_ti :: "nat \<Rightarrow> (TextInput \<Rightarrow> TextInput) \<Rightarrow> relay \<Rightarrow> relay" where
  "upd_ti i f r = r\<lparr>rl_inputs := map (\<lambda>t. if ti_id t = i then f t else t) (rl_inputs r)\<rparr>"

definition find_popup :: "relay \<Rightarrow> nat \<Rightarrow> popup option" where
  "find_popup r i = find (\<lambda>p. pp_id p = i) (rl_popups r)"

definition upd_popup :: "nat \<Rightarrow> (popup \<Rightarrow> popup) \<Rightarrow> relay \<Rightarrow> relay" where
  "upd_popup i f r = r\<lparr>rl_popups := map (\<lambda>p. if pp_id p = i then f p else p) (rl_popups r)\<rparr>"

definition upd_im :: "(input_method \<Rightarrow> input_method) \<Rightarrow> relay \<Rightarrow> relay" where
  "upd_im f r = r\<lparr>rl_im := map_option f (rl_im r)\<rparr>"

definition im_send :: "im_event list \<Rightarrow> input_method \<Rightarrow> input_method" where
  "im_send evs im = im\<lparr>im_sent := im_sent im @ evs\<rparr>"

section \<open>Popups\<close>

text \<open>The cursor rectangle in layout coordinates, and the popup below it, moved into the output.\<close>

definition popup_position :: "wlr_box \<Rightarrow> wlr_box \<Rightarrow> int \<Rightarrow> int \<Rightarrow> int \<times> int" where
  "popup_position output_box cursor width height =
     (let x0 = box_x cursor;
          y0 = box_y cursor + box_height cursor;
          x1 = (if x0 + width > box_x output_box + box_width output_box
                then box_x output_box + box_width output_box - width else x0);
          x2 = (if x1 < box_x output_box then box_x output_box else x1);
          y1 = (if y0 + height > box_y output_box + box_height output_box
                then box_y cursor - height else y0);
          y2 = (if y1 < box_y output_box then box_y output_box else y1)
      in (x2, y2))"

definition popup_cursor :: "im_env \<Rightarrow> relay \<Rightarrow> wlr_box option" where
  "popup_cursor e r =
     (case (Option.bind (rl_active r) (find_ti r), Option.bind (rl_focused r) (ie_position e)) of
        (Some t, Some (x, y)) \<Rightarrow>
          let state = CurrentState t;
              cursor = (if has_cursor_rectangle state then st_cursor_rectangle state else zero_box)
          in Some (cursor\<lparr>box_x := box_x cursor + x, box_y := box_y cursor + y\<rparr>)
      | _ \<Rightarrow> None)"

definition UpdatePopup :: "im_env \<Rightarrow> nat \<Rightarrow> relay \<Rightarrow> relay" where
  "UpdatePopup e i r =
     (case (find_popup r i, popup_cursor e r) of
        (Some p, Some cursor) \<Rightarrow>
          if \<not> pp_mapped p then r
          else let output = wlr_output_layout_output_at (ie_layout e) (of_int (box_x cursor)) (of_int (box_y cursor));
                   output_box = wlr_output_layout_get_box (ie_layout e) output
               in if box_width output_box \<le> 0 \<or> box_height output_box \<le> 0 then r
                  else let (x, y) = popup_position output_box cursor (pp_width p) (pp_height p)
                       in upd_popup i (\<lambda>p. p\<lparr>pp_x := x, pp_y := y,
                            pp_rectangle := Some \<lparr>box_x = box_x cursor - x, box_y = box_y cursor - y,
                              box_width = box_width cursor, box_height = box_height cursor\<rparr>\<rparr>) r
      | _ \<Rightarrow> r)"

definition UpdatePopups :: "im_env \<Rightarrow> relay \<Rightarrow> relay" where
  "UpdatePopups e r = fold (UpdatePopup e) (map pp_id (rl_popups r)) r"

definition RemovePopup :: "nat \<Rightarrow> relay \<Rightarrow> relay" where
  "RemovePopup i r = r\<lparr>rl_popups := erase_if (\<lambda>p. pp_id p = i) (rl_popups r)\<rparr>"

text \<open>\<open>wlr_surface_map\<close> and \<open>wlr_surface_unmap\<close> of a popup's surface with the listeners of the popup.\<close>

definition popup_map :: "im_env \<Rightarrow> nat \<Rightarrow> relay \<Rightarrow> relay" where
  "popup_map e i r =
     (case find_popup r i of
        None \<Rightarrow> r
      | Some p \<Rightarrow> if pp_mapped p then r
                  else UpdatePopup e i (upd_popup i (\<lambda>p. p\<lparr>pp_mapped := True, pp_enabled := True\<rparr>) r))"

definition popup_unmap :: "nat \<Rightarrow> relay \<Rightarrow> relay" where
  "popup_unmap i r =
     (case find_popup r i of
        None \<Rightarrow> r
      | Some p \<Rightarrow> if \<not> pp_mapped p then r
                  else upd_popup i (\<lambda>p. p\<lparr>pp_mapped := False, pp_enabled := False\<rparr>) r)"

definition popup_surface_update_mapped :: "im_env \<Rightarrow> nat \<Rightarrow> relay \<Rightarrow> relay" where
  "popup_surface_update_mapped e i r =
     (case (rl_im r, find_popup r i) of
        (Some im, Some p) \<Rightarrow>
          if im_client_active im then (if pp_has_buffer p then popup_map e i r else r)
          else popup_unmap i r
      | _ \<Rightarrow> r)"

text \<open>A client commits the popup's surface: the role, then the popup's listener.\<close>

definition popup_committed :: "im_env \<Rightarrow> bool \<Rightarrow> int \<Rightarrow> int \<Rightarrow> nat \<Rightarrow> relay \<Rightarrow> relay" where
  "popup_committed e has_buffer width height i r =
     UpdatePopup e i
       (popup_surface_update_mapped e i
         (upd_popup i (\<lambda>p. p\<lparr>pp_has_buffer := has_buffer, pp_width := width, pp_height := height\<rparr>) r))"

text \<open>\<open>im_get_input_popup_surface\<close> maps a new popup before the relay hears of it.\<close>

definition OnInputMethodNewPopup :: "im_env \<Rightarrow> nat \<Rightarrow> bool \<Rightarrow> int \<Rightarrow> int \<Rightarrow> relay \<Rightarrow> relay" where
  "OnInputMethodNewPopup e i has_buffer width height r =
     (case rl_im r of
        None \<Rightarrow> r
      | Some im \<Rightarrow>
          let mapped = (im_client_active im \<and> has_buffer);
              p = \<lparr>pp_id = i, pp_has_buffer = has_buffer, pp_mapped = mapped, pp_width = width,
                   pp_height = height, pp_enabled = mapped, pp_x = 0, pp_y = 0, pp_rectangle = None\<rparr>
          in UpdatePopup e i (r\<lparr>rl_popups := rl_popups r @ [p]\<rparr>))"

section \<open>Messages to the input method\<close>

definition wlr_input_method_v2_send_done :: "im_env \<Rightarrow> relay \<Rightarrow> relay" where
  "wlr_input_method_v2_send_done e r =
     (let r1 = upd_im (\<lambda>im. im_send [ImDone] (im\<lparr>im_client_active := im_active im,
                                                im_serial := im_serial im + 1\<rparr>)) r
      in fold (popup_surface_update_mapped e) (map pp_id (rl_popups r1)) r1)"

definition state_events :: "ti_state \<Rightarrow> im_event list" where
  "state_events s =
     (if has_surrounding_text s
      then [ImSurroundingText (st_surrounding_text s) (st_surrounding_cursor s) (st_surrounding_anchor s)] else []) @
     [ImTextChangeCause (st_text_change_cause s)] @
     (if has_content_type s then [ImContentType (st_content_hint s) (st_content_purpose s)] else [])"

definition SendState :: "im_env \<Rightarrow> nat \<Rightarrow> relay \<Rightarrow> relay" where
  "SendState e i r =
     (case (rl_im r, find_ti r i) of
        (Some im, Some t) \<Rightarrow>
          UpdatePopups e (wlr_input_method_v2_send_done e (upd_im (im_send (state_events (CurrentState t))) r))
      | _ \<Rightarrow> r)"

section \<open>Activation and focus\<close>

definition relay_Deactivate :: "im_env \<Rightarrow> nat \<Rightarrow> relay \<Rightarrow> relay" where
  "relay_Deactivate e i r =
     (let r1 = (if rl_im r \<noteq> None \<and> rl_active r = Some i
                then SendState e i (upd_im (\<lambda>im. im_send [ImDeactivate] (im\<lparr>im_active := False\<rparr>)) r) else r)
      in if rl_active r1 = Some i then r1\<lparr>rl_active := None\<rparr> else r1)"

definition relay_Activate :: "im_env \<Rightarrow> nat \<Rightarrow> relay \<Rightarrow> relay" where
  "relay_Activate e i r =
     (case find_ti r i of
        None \<Rightarrow> r
      | Some t \<Rightarrow>
          if rl_focused r = None \<or> \<not> Enabled t \<or> ti_relay_surface t \<noteq> rl_focused r then r
          else if rl_im r = None then r\<lparr>rl_pending := Some i\<rparr>
          else let r1 = (case rl_active r of
                           Some a \<Rightarrow> if a \<noteq> i then relay_Deactivate e a r else r
                         | None \<Rightarrow> r);
                   r2 = r1\<lparr>rl_active := Some i, rl_pending := None\<rparr>
               in SendState e i (upd_im (\<lambda>im. im_send [ImActivate] (im\<lparr>im_active := True\<rparr>)) r2))"

definition AcceptsFocus :: "im_env \<Rightarrow> relay \<Rightarrow> TextInput \<Rightarrow> nat option \<Rightarrow> bool" where
  "AcceptsFocus e r t surface =
     (surface \<noteq> None \<and> (Seat t = None \<or> Seat t = Some (rl_seat r)) \<and> MatchesSurface (ie_client e) t surface)"

text \<open>The two loops of \<open>UpdateFocus\<close>: endpoints of other surfaces are left, then those of the new surface
  are entered and the first enabled one is remembered.\<close>

definition leave_step :: "im_env \<Rightarrow> nat option \<Rightarrow> nat \<Rightarrow> relay \<Rightarrow> relay" where
  "leave_step e surface i r =
     (case find_ti r i of
        None \<Rightarrow> r
      | Some t \<Rightarrow>
          if ti_relay_surface t \<noteq> None \<and> ti_relay_surface t \<noteq> surface
          then let r1 = (if rl_active r = Some i then relay_Deactivate e i r else r)
               in upd_ti i (\<lambda>t. (SendLeave t)\<lparr>ti_relay_surface := None\<rparr>) r1
          else r)"

definition enter_step ::
  "im_env \<Rightarrow> nat option \<Rightarrow> nat \<Rightarrow> nat option \<times> relay \<Rightarrow> nat option \<times> relay" where
  "enter_step e surface i cr =
     (let (candidate, r) = cr
      in case find_ti r i of
           None \<Rightarrow> cr
         | Some t \<Rightarrow>
             let r1 = (if ti_relay_surface t = None \<and> AcceptsFocus e r t surface
                       then upd_ti i (\<lambda>t. (SendEnter (ie_client e) surface t)\<lparr>ti_relay_surface := surface\<rparr>) r
                       else r)
             in case find_ti r1 i of
                  None \<Rightarrow> (candidate, r1)
                | Some t1 \<Rightarrow>
                    (if candidate = None \<and> Enabled t1 \<and> ti_relay_surface t1 = surface then Some i else candidate,
                     r1))"

definition UpdateFocus :: "im_env \<Rightarrow> nat option \<Rightarrow> relay \<Rightarrow> relay" where
  "UpdateFocus e surface r =
     (let r0 = r\<lparr>rl_focused := surface\<rparr>;
          r1 = fold (leave_step e surface) (map ti_id (rl_inputs r0)) r0;
          (candidate, r2) = fold (enter_step e surface) (map ti_id (rl_inputs r1)) (None, r1);
          r3 = (case candidate of
                  Some i \<Rightarrow> if surface \<noteq> None \<and> candidate \<noteq> rl_active r2 then relay_Activate e i r2 else r2
                | None \<Rightarrow> r2)
      in UpdatePopups e r3)"

section \<open>Notifications of the endpoints\<close>

definition AddTextInput :: "im_env \<Rightarrow> TextInput \<Rightarrow> relay \<Rightarrow> relay" where
  "AddTextInput e t r =
     (if Seat t \<noteq> None \<and> Seat t \<noteq> Some (rl_seat r) then r
      else let t' = (if rl_focused r \<noteq> None \<and> MatchesSurface (ie_client e) t (rl_focused r)
                     then (SendEnter (ie_client e) (rl_focused r) t)\<lparr>ti_relay_surface := rl_focused r\<rparr> else t)
           in r\<lparr>rl_inputs := rl_inputs r @ [t']\<rparr>)"

text \<open>A new object of each version, and the relay's share in creating it.\<close>

definition new_TextInput :: "nat \<Rightarrow> ti_impl \<Rightarrow> TextInput" where
  "new_TextInput i impl = \<lparr>ti_id = i, ti_impl = impl, ti_relay_surface = None, ti_sent = []\<rparr>"

definition CreateTextInput :: "im_env \<Rightarrow> nat \<Rightarrow> nat \<Rightarrow> relay \<Rightarrow> relay" where
  "CreateTextInput e client i = AddTextInput e (new_TextInput i (V1 (new_legacy client None)))"

definition GetTextInput :: "im_env \<Rightarrow> nat \<Rightarrow> nat \<Rightarrow> nat \<Rightarrow> relay \<Rightarrow> relay" where
  "GetTextInput e client seat i = AddTextInput e (new_TextInput i (V2 (new_legacy client (Some seat))))"

definition OnNewTextInputV3 :: "im_env \<Rightarrow> nat \<Rightarrow> nat \<Rightarrow> nat \<Rightarrow> relay \<Rightarrow> relay" where
  "OnNewTextInputV3 e client seat i r =
     (if seat = rl_seat r then AddTextInput e (new_TextInput i (V3 (Some (new_v3 client seat)))) r else r)"

definition HandleEnable :: "im_env \<Rightarrow> nat \<Rightarrow> relay \<Rightarrow> relay" where
  "HandleEnable e i r =
     (let r1 = UpdateFocus e (rl_focused r) r
      in case find_ti r1 i of
           None \<Rightarrow> r1
         | Some t \<Rightarrow> if ti_relay_surface t \<noteq> rl_focused r1 then r1 else relay_Activate e i r1)"

definition HandleCommit :: "im_env \<Rightarrow> nat \<Rightarrow> relay \<Rightarrow> relay" where
  "HandleCommit e i r =
     (case find_ti r i of
        None \<Rightarrow> r
      | Some t \<Rightarrow> if rl_active r \<noteq> Some i \<or> \<not> Enabled t then r
                  else UpdatePopups e (if rl_im r \<noteq> None then SendState e i r else r))"

definition HandleDisable :: "im_env \<Rightarrow> nat \<Rightarrow> relay \<Rightarrow> relay" where
  "HandleDisable e i r =
     (let r1 = (if rl_pending r = Some i then r\<lparr>rl_pending := None\<rparr> else r)
      in if rl_active r1 = Some i then relay_Deactivate e i r1 else r1)"

definition HandleDestroy :: "im_env \<Rightarrow> nat \<Rightarrow> relay \<Rightarrow> relay" where
  "HandleDestroy e i r =
     (let r2 = HandleDisable e i r
      in r2\<lparr>rl_inputs := erase_if (\<lambda>t. ti_id t = i) (rl_inputs r2)\<rparr>)"

section \<open>Requests of the text-input clients\<close>

text \<open>A request on an object that is gone, or of another version, finds no endpoint.\<close>

definition on_v1 :: "(legacy_input \<Rightarrow> legacy_input) \<Rightarrow> TextInput \<Rightarrow> TextInput" where
  "on_v1 f t = (case ti_impl t of V1 l \<Rightarrow> t\<lparr>ti_impl := V1 (f l)\<rparr> | _ \<Rightarrow> t)"

definition on_v2 :: "(legacy_input \<Rightarrow> legacy_input) \<Rightarrow> TextInput \<Rightarrow> TextInput" where
  "on_v2 f t = (case ti_impl t of V2 l \<Rightarrow> t\<lparr>ti_impl := V2 (f l)\<rparr> | _ \<Rightarrow> t)"

definition on_v3 :: "(v3_handle \<Rightarrow> v3_handle) \<Rightarrow> TextInput \<Rightarrow> TextInput" where
  "on_v3 f t = (case ti_impl t of V3 h \<Rightarrow> t\<lparr>ti_impl := V3 (map_option f h)\<rparr> | _ \<Rightarrow> t)"

definition v1_of :: "relay \<Rightarrow> nat \<Rightarrow> legacy_input option" where
  "v1_of r i = Option.bind (find_ti r i) (\<lambda>t. case ti_impl t of V1 l \<Rightarrow> Some l | _ \<Rightarrow> None)"

definition v2_of :: "relay \<Rightarrow> nat \<Rightarrow> legacy_input option" where
  "v2_of r i = Option.bind (find_ti r i) (\<lambda>t. case ti_impl t of V2 l \<Rightarrow> Some l | _ \<Rightarrow> None)"

definition v3_of :: "relay \<Rightarrow> nat \<Rightarrow> v3_handle option" where
  "v3_of r i = Option.bind (find_ti r i) (\<lambda>t. case ti_impl t of V3 h \<Rightarrow> h | _ \<Rightarrow> None)"

definition v1_Activate :: "im_env \<Rightarrow> nat \<Rightarrow> nat option \<Rightarrow> nat option \<Rightarrow> nat \<Rightarrow> relay \<Rightarrow> relay" where
  "v1_Activate e client seat surface i r =
     (case (v1_of r i, seat, surface) of
        (Some l, Some seat', Some s) \<Rightarrow>
          if ie_client e s \<noteq> client then r
          else HandleEnable e i (upd_ti i (on_v1 (\<lambda>l. l\<lparr>lg_seat := Some seat', lg_surface := Some s,
                                                        lg_enabled := True\<rparr>)) r)
      | _ \<Rightarrow> r)"

definition v1_Deactivate :: "im_env \<Rightarrow> nat option \<Rightarrow> nat \<Rightarrow> relay \<Rightarrow> relay" where
  "v1_Deactivate e seat i r =
     (case (v1_of r i, seat) of
        (Some l, Some seat') \<Rightarrow>
          if lg_seat l \<noteq> Some seat' then r
          else upd_ti i (on_v1 (\<lambda>l. l\<lparr>lg_seat := None, lg_surface := None\<rparr>))
                 (HandleDisable e i (upd_ti i (on_v1 (\<lambda>l. l\<lparr>lg_enabled := False\<rparr>)) r))
      | _ \<Rightarrow> r)"

definition v1_Reset :: "nat \<Rightarrow> relay \<Rightarrow> relay" where
  "v1_Reset i = upd_ti i (on_v1 (\<lambda>l. l\<lparr>lg_surrounding_pending := False, lg_content_type_pending := False\<rparr>))"

definition v1_SetSurroundingText :: "string option \<Rightarrow> 32 word \<Rightarrow> 32 word \<Rightarrow> nat \<Rightarrow> relay \<Rightarrow> relay" where
  "v1_SetSurroundingText text cursor anchor i =
     upd_ti i (on_v1 (\<lambda>l. l\<lparr>lg_text := (case text of None \<Rightarrow> [] | Some s \<Rightarrow> s), lg_cursor := cursor,
                            lg_anchor := anchor, lg_surrounding_pending := True\<rparr>))"

definition CONTENT_HINT_DEFAULT :: "32 word" where "CONTENT_HINT_DEFAULT = 0x7"
definition CONTENT_HINT_NONE :: "32 word" where "CONTENT_HINT_NONE = 0x0"
definition CONTENT_PURPOSE_PASSWORD :: "32 word" where "CONTENT_PURPOSE_PASSWORD = 8"

definition shift_purpose :: "32 word \<Rightarrow> 32 word" where
  "shift_purpose purpose = (if purpose > CONTENT_PURPOSE_PASSWORD then purpose + 1 else purpose)"

definition v1_SetContentType :: "32 word \<Rightarrow> 32 word \<Rightarrow> nat \<Rightarrow> relay \<Rightarrow> relay" where
  "v1_SetContentType hint purpose i =
     upd_ti i (on_v1 (\<lambda>l. l\<lparr>lg_hint := (if hint = CONTENT_HINT_DEFAULT then CONTENT_HINT_NONE else hint),
                            lg_purpose := shift_purpose purpose, lg_content_type_pending := True\<rparr>))"

definition v1_SetCursorRectangle :: "wlr_box \<Rightarrow> nat \<Rightarrow> relay \<Rightarrow> relay" where
  "v1_SetCursorRectangle box i =
     upd_ti i (on_v1 (\<lambda>l. l\<lparr>lg_rectangle := box, lg_cursor_rectangle_pending := True\<rparr>))"

definition v1_CommitState :: "im_env \<Rightarrow> 32 word \<Rightarrow> nat \<Rightarrow> relay \<Rightarrow> relay" where
  "v1_CommitState e serial i r =
     (if v1_of r i = None then r
      else HandleCommit e i (upd_ti i (on_v1 (\<lambda>l. l\<lparr>lg_serial := serial\<rparr>)) r))"

text \<open>The resource, the seat or the surface of a version 1 object goes away.\<close>

definition v1_OnResourceDestroy :: "im_env \<Rightarrow> nat \<Rightarrow> relay \<Rightarrow> relay" where
  "v1_OnResourceDestroy e i r =
     (if v1_of r i = None then r
      else HandleDestroy e i (upd_ti i (on_v1 (\<lambda>l. l\<lparr>lg_resource := None\<rparr>)) r))"

definition v1_OnSeatDestroy :: "im_env \<Rightarrow> nat \<Rightarrow> relay \<Rightarrow> relay" where
  "v1_OnSeatDestroy e i r =
     (if v1_of r i = None then r else HandleDestroy e i (upd_ti i (on_v1 MakeInert) r))"

definition v1_OnSurfaceDestroy :: "im_env \<Rightarrow> nat \<Rightarrow> relay \<Rightarrow> relay" where
  "v1_OnSurfaceDestroy e i r =
     (if v1_of r i = None then r else HandleDestroy e i (upd_ti i (on_v1 MakeInert) r))"

definition v2_Enable :: "im_env \<Rightarrow> nat \<Rightarrow> nat option \<Rightarrow> nat \<Rightarrow> relay \<Rightarrow> relay" where
  "v2_Enable e client surface i r =
     (case (v2_of r i, surface) of
        (Some l, Some s) \<Rightarrow>
          if ie_client e s \<noteq> client then r
          else HandleEnable e i (upd_ti i (on_v2 (\<lambda>l. l\<lparr>lg_surface := Some s, lg_enabled := True\<rparr>)) r)
      | _ \<Rightarrow> r)"

definition v2_Disable :: "im_env \<Rightarrow> nat option \<Rightarrow> nat \<Rightarrow> relay \<Rightarrow> relay" where
  "v2_Disable e surface i r =
     (case v2_of r i of
        None \<Rightarrow> r
      | Some l \<Rightarrow>
          if lg_surface l = None \<or> lg_surface l \<noteq> surface then r
          else upd_ti i (on_v2 (\<lambda>l. l\<lparr>lg_surface := None\<rparr>))
                 (HandleDisable e i (upd_ti i (on_v2 (\<lambda>l. l\<lparr>lg_enabled := False\<rparr>)) r)))"

text \<open>The cursor and the anchor of version 2 are signed.\<close>

definition v2_SetSurroundingText :: "string option \<Rightarrow> int \<Rightarrow> int \<Rightarrow> nat \<Rightarrow> relay \<Rightarrow> relay" where
  "v2_SetSurroundingText text cursor anchor i =
     upd_ti i (on_v2 (\<lambda>l. l\<lparr>lg_text := (case text of None \<Rightarrow> [] | Some s \<Rightarrow> s),
                            lg_cursor := (if cursor < 0 then 0 else of_int cursor),
                            lg_anchor := (if anchor < 0 then 0 else of_int anchor),
                            lg_surrounding_pending := True\<rparr>))"

definition v2_SetContentType :: "32 word \<Rightarrow> 32 word \<Rightarrow> nat \<Rightarrow> relay \<Rightarrow> relay" where
  "v2_SetContentType hint purpose i =
     upd_ti i (on_v2 (\<lambda>l. l\<lparr>lg_hint := hint, lg_purpose := shift_purpose purpose,
                            lg_content_type_pending := True\<rparr>))"

definition v2_SetCursorRectangle :: "wlr_box \<Rightarrow> nat \<Rightarrow> relay \<Rightarrow> relay" where
  "v2_SetCursorRectangle box i =
     upd_ti i (on_v2 (\<lambda>l. l\<lparr>lg_rectangle := box, lg_cursor_rectangle_pending := True\<rparr>))"

definition v2_UpdateState :: "im_env \<Rightarrow> 32 word \<Rightarrow> nat \<Rightarrow> relay \<Rightarrow> relay" where
  "v2_UpdateState e serial i r =
     (if v2_of r i = None then r
      else upd_ti i (on_v2 (\<lambda>l. l\<lparr>lg_surrounding_pending := False, lg_content_type_pending := False\<rparr>))
             (HandleCommit e i (upd_ti i (on_v2 (\<lambda>l. l\<lparr>lg_serial := serial\<rparr>)) r)))"

definition v2_OnResourceDestroy :: "im_env \<Rightarrow> nat \<Rightarrow> relay \<Rightarrow> relay" where
  "v2_OnResourceDestroy e i r =
     (if v2_of r i = None then r
      else HandleDestroy e i (upd_ti i (on_v2 (\<lambda>l. l\<lparr>lg_resource := None\<rparr>)) r))"

definition v2_OnSeatDestroy :: "im_env \<Rightarrow> nat \<Rightarrow> relay \<Rightarrow> relay" where
  "v2_OnSeatDestroy e i r =
     (if v2_of r i = None then r else HandleDestroy e i (upd_ti i (on_v2 MakeInert) r))"

definition v2_OnSurfaceDestroy :: "nat \<Rightarrow> relay \<Rightarrow> relay" where
  "v2_OnSurfaceDestroy i = upd_ti i (on_v2 (\<lambda>l. l\<lparr>lg_surface := None\<rparr>))"

text \<open>Version 3: the setters only touch the pending state, which \<open>f\<close> stands for; a commit emits the
  signal that wlroots chooses.\<close>

definition v3_request :: "(v3_handle \<Rightarrow> v3_handle) \<Rightarrow> nat \<Rightarrow> relay \<Rightarrow> relay" where
  "v3_request f i = upd_ti i (on_v3 f)"

definition v3_commit :: "im_env \<Rightarrow> nat \<Rightarrow> relay \<Rightarrow> relay" where
  "v3_commit e i r =
     (case v3_of r i of
        None \<Rightarrow> r
      | Some h \<Rightarrow>
          let r1 = upd_ti i (on_v3 (\<lambda>h. fst (text_input_commit h))) r
          in case snd (text_input_commit h) of
               SigEnable \<Rightarrow> HandleEnable e i r1
             | SigDisable \<Rightarrow> HandleDisable e i r1
             | SigCommit \<Rightarrow> HandleCommit e i r1)"

definition v3_OnDestroy :: "im_env \<Rightarrow> nat \<Rightarrow> relay \<Rightarrow> relay" where
  "v3_OnDestroy e i r =
     (if v3_of r i = None then r
      else HandleDestroy e i (upd_ti i (\<lambda>t. t\<lparr>ti_impl := V3 None\<rparr>) r))"

section \<open>The input method\<close>

definition OnNewInputMethod :: "im_env \<Rightarrow> nat \<Rightarrow> nat \<Rightarrow> relay \<Rightarrow> relay" where
  "OnNewInputMethod e client seat r =
     (if seat \<noteq> rl_seat r \<or> rl_im r \<noteq> None then r
      else let r1 = UpdateFocus e (rl_focused r) (r\<lparr>rl_im := Some (new_input_method client)\<rparr>);
               candidate = (case rl_pending r1 of
                              Some i \<Rightarrow> Some i
                            | None \<Rightarrow> map_option ti_id
                                (find (\<lambda>t. Enabled t \<and> ti_relay_surface t = rl_focused r1) (rl_inputs r1)));
               r2 = r1\<lparr>rl_pending := None\<rparr>
           in case candidate of None \<Rightarrow> r2 | Some i \<Rightarrow> relay_Activate e i r2)"

definition OnKeyboardFocusChange :: "im_env \<Rightarrow> nat option \<Rightarrow> relay \<Rightarrow> relay" where
  "OnKeyboardFocusChange e new_surface r = UpdateFocus e new_surface r"

definition commit_events :: "im_state \<Rightarrow> TextInput \<Rightarrow> TextInput" where
  "commit_events s t =
     (let t1 = (case ims_preedit s of Some (text, b, en) \<Rightarrow> SendPreedit text b en t | None \<Rightarrow> t);
          t2 = (case ims_commit_text s of Some text \<Rightarrow> SendCommit text t1 | None \<Rightarrow> t1);
          t3 = (if ims_before_length s \<noteq> 0 \<or> ims_after_length s \<noteq> 0
                then SendDelete (ims_before_length s) (ims_after_length s) t2 else t2)
      in SendDone t3)"

definition OnInputMethodCommit :: "relay \<Rightarrow> relay" where
  "OnInputMethodCommit r =
     (case (rl_im r, rl_active r) of
        (Some im, Some i) \<Rightarrow> upd_ti i (commit_events (im_current im)) r
      | _ \<Rightarrow> r)"

text \<open>The requests of the input method.  A commit names the number of \<open>done\<close> events the input method
  has seen; one that is out of date is dropped.\<close>

definition im_commit_string :: "string \<Rightarrow> relay \<Rightarrow> relay" where
  "im_commit_string text = upd_im (\<lambda>im. im\<lparr>im_pending := (im_pending im)\<lparr>ims_commit_text := Some text\<rparr>\<rparr>)"

definition im_set_preedit_string :: "string \<Rightarrow> int \<Rightarrow> int \<Rightarrow> relay \<Rightarrow> relay" where
  "im_set_preedit_string text b en =
     upd_im (\<lambda>im. im\<lparr>im_pending := (im_pending im)\<lparr>ims_preedit := Some (text, b, en)\<rparr>\<rparr>)"

definition im_delete_surrounding_text :: "32 word \<Rightarrow> 32 word \<Rightarrow> relay \<Rightarrow> relay" where
  "im_delete_surrounding_text before_length after_length =
     upd_im (\<lambda>im. im\<lparr>im_pending := (im_pending im)\<lparr>ims_before_length := before_length,
                                                   ims_after_length := after_length\<rparr>\<rparr>)"

definition im_commit :: "32 word \<Rightarrow> relay \<Rightarrow> relay" where
  "im_commit serial r =
     (case rl_im r of
        None \<Rightarrow> r
      | Some im \<Rightarrow>
          if serial \<noteq> im_serial im then upd_im (\<lambda>im. im\<lparr>im_pending := im_state_reset\<rparr>) r
          else OnInputMethodCommit
                 (upd_im (\<lambda>im. im\<lparr>im_current := im_pending im, im_pending := im_state_reset\<rparr>) r))"

text \<open>A keyboard grab; \<open>keyboard\<close> is the seat's keyboard.\<close>

definition im_grab_keyboard :: "nat option \<Rightarrow> relay \<Rightarrow> relay" where
  "im_grab_keyboard keyboard =
     upd_im (\<lambda>im. if im_grab im then im
                  else im_send (case keyboard of Some k \<Rightarrow> [ImGrabKeyboard k] | None \<Rightarrow> [])
                         (im\<lparr>im_grab := True\<rparr>))"

definition im_grab_destroyed :: "relay \<Rightarrow> relay" where
  "im_grab_destroyed = upd_im (\<lambda>im. im\<lparr>im_grab := False\<rparr>)"

text \<open>Whether a key of a keyboard goes to the grab; \<open>virtual_client\<close> is the client of a virtual keyboard.\<close>

definition GrabForKeyboard :: "nat option \<Rightarrow> relay \<Rightarrow> bool" where
  "GrabForKeyboard virtual_client r =
     (case rl_im r of
        None \<Rightarrow> False
      | Some im \<Rightarrow> im_grab im \<and> virtual_client \<noteq> Some (im_client im))"

text \<open>wlroots destroys the popups and the grab before it tells the relay.\<close>

definition OnInputMethodDestroy :: "relay \<Rightarrow> relay" where
  "OnInputMethodDestroy r =
     (if rl_im r = None then r
      else r\<lparr>rl_im := None, rl_pending := rl_active r, rl_active := None, rl_popups := []\<rparr>)"

end
