(* ===== verification/Input_Method_Laws.thy ===== *)
theory Input_Method_Laws
  imports Input_Method
begin

text \<open>
  The relay in every order of focus changes, requests of text-input clients and of the input method:
  which endpoint is active, what the clients and the input method are told, when popups are shown,
  and that text composed for one endpoint never reaches another.
\<close>

named_theorems relay_frame \<open>fields of the relay that an operation keeps\<close>

section \<open>Popups and messages keep the endpoints\<close>

text \<open>Everything but the popups, and everything but the popups and the input method.\<close>

definition but_popups :: "relay \<Rightarrow> relay" where
  "but_popups r = r\<lparr>rl_popups := []\<rparr>"

definition but_im :: "relay \<Rightarrow> relay" where
  "but_im r = r\<lparr>rl_popups := [], rl_im := None\<rparr>"

lemma but_popups_im: "but_popups r = but_popups r' \<Longrightarrow> but_im r = but_im r'"
  by (cases r; cases r') (simp add: but_popups_def but_im_def)

lemma but_popupsD:
  assumes "but_popups r = but_popups r'"
  shows "rl_seat r = rl_seat r'" "rl_im r = rl_im r'" "rl_focused r = rl_focused r'"
    "rl_active r = rl_active r'" "rl_pending r = rl_pending r'" "rl_inputs r = rl_inputs r'"
  using assms by (cases r; cases r'; simp add: but_popups_def)+

lemma but_imD:
  assumes "but_im r = but_im r'"
  shows "rl_seat r = rl_seat r'" "rl_focused r = rl_focused r'"
    "rl_active r = rl_active r'" "rl_pending r = rl_pending r'" "rl_inputs r = rl_inputs r'"
  using assms by (cases r; cases r'; simp add: but_im_def)+

lemma upd_popup_but [simp]: "but_popups (upd_popup i f r) = but_popups r"
  by (simp add: upd_popup_def but_popups_def)

lemma UpdatePopup_but [simp]: "but_popups (UpdatePopup e i r) = but_popups r"
  by (auto simp: UpdatePopup_def Let_def split: option.split prod.split)

lemma fold_but:
  assumes "\<And>i r. but_popups (f i r) = but_popups r"
  shows "but_popups (fold f xs r) = but_popups r"
  by (induction xs arbitrary: r) (simp_all add: assms)

lemma UpdatePopups_but [simp]: "but_popups (UpdatePopups e r) = but_popups r"
  by (simp add: UpdatePopups_def fold_but)

lemma popup_map_but [simp]: "but_popups (popup_map e i r) = but_popups r"
  by (auto simp: popup_map_def split: option.split)

lemma popup_unmap_but [simp]: "but_popups (popup_unmap i r) = but_popups r"
  by (auto simp: popup_unmap_def split: option.split)

lemma update_mapped_but [simp]: "but_popups (popup_surface_update_mapped e i r) = but_popups r"
  by (auto simp: popup_surface_update_mapped_def split: option.split)

lemma upd_im_but [simp]: "but_im (upd_im f r) = but_im r"
  by (simp add: upd_im_def but_im_def)

lemma send_done_but:
  "but_popups (wlr_input_method_v2_send_done e r) = but_popups (upd_im (\<lambda>im. im_send [ImDone]
     (im\<lparr>im_client_active := im_active im, im_serial := im_serial im + 1\<rparr>)) r)"
  by (simp add: wlr_input_method_v2_send_done_def Let_def fold_but)

lemma SendState_but [simp]: "but_im (SendState e i r) = but_im r"
proof -
  have "but_im (wlr_input_method_v2_send_done e r) = but_im r" for r
    using but_popups_im [OF send_done_but] by simp
  moreover have "but_im (UpdatePopups e r) = but_im r" for r
    by (rule but_popups_im) simp
  ultimately show ?thesis by (simp add: SendState_def split: option.split)
qed

lemma upd_im_fields [simp]:
  "rl_inputs (upd_im f r) = rl_inputs r" "rl_active (upd_im f r) = rl_active r"
  "rl_focused (upd_im f r) = rl_focused r" "rl_pending (upd_im f r) = rl_pending r"
  "rl_popups (upd_im f r) = rl_popups r" "rl_seat (upd_im f r) = rl_seat r"
  "rl_im (upd_im f r) = map_option f (rl_im r)" "find_ti (upd_im f r) i = find_ti r i"
  by (simp_all add: upd_im_def find_ti_def)

lemma UpdatePopup_fields [simp]:
  "rl_inputs (UpdatePopup e i r) = rl_inputs r" "rl_active (UpdatePopup e i r) = rl_active r"
  "rl_focused (UpdatePopup e i r) = rl_focused r" "rl_pending (UpdatePopup e i r) = rl_pending r"
  "rl_seat (UpdatePopup e i r) = rl_seat r" "rl_im (UpdatePopup e i r) = rl_im r"
  using but_popupsD [OF UpdatePopup_but] by metis+

lemma UpdatePopups_fields [simp]:
  "rl_inputs (UpdatePopups e r) = rl_inputs r" "rl_active (UpdatePopups e r) = rl_active r"
  "rl_focused (UpdatePopups e r) = rl_focused r" "rl_pending (UpdatePopups e r) = rl_pending r"
  "rl_seat (UpdatePopups e r) = rl_seat r" "rl_im (UpdatePopups e r) = rl_im r"
  using but_popupsD [OF UpdatePopups_but] by metis+

lemma SendState_fields [simp]:
  "rl_inputs (SendState e i r) = rl_inputs r" "rl_active (SendState e i r) = rl_active r"
  "rl_focused (SendState e i r) = rl_focused r" "rl_pending (SendState e i r) = rl_pending r"
  "rl_seat (SendState e i r) = rl_seat r"
  using but_imD [OF SendState_but] by metis+

text \<open>What the input method has after a state was sent.\<close>

definition told :: "im_event list \<Rightarrow> input_method \<Rightarrow> input_method" where
  "told evs im = im\<lparr>im_sent := im_sent im @ evs @ [ImDone], im_client_active := im_active im,
                   im_serial := im_serial im + 1\<rparr>"

lemma SendState_im:
  assumes "find_ti r i = Some t"
  shows "rl_im (SendState e i r) = map_option (told (state_events (CurrentState t))) (rl_im r)"
  using assms
  by (cases "rl_im r")
    (simp_all add: SendState_def but_popupsD(2) [OF send_done_but] told_def im_send_def)

lemma find_ti_inputs: "rl_inputs r = rl_inputs r' \<Longrightarrow> find_ti r i = find_ti r' i"
  by (simp add: find_ti_def)

lemma find_ti_SendState [simp]: "find_ti (SendState e j r) i = find_ti r i"
  by (simp add: find_ti_def)

lemma find_ti_Some: "find_ti r i = Some t \<Longrightarrow> t \<in> set (rl_inputs r) \<and> ti_id t = i"
  by (auto simp: find_ti_def dest: find_SomeD)

lemma find_ti_None: "find_ti r i = None \<Longrightarrow> t \<in> set (rl_inputs r) \<Longrightarrow> ti_id t \<noteq> i"
  by (auto simp: find_ti_def find_None_iff)

lemma Deactivate_fields [simp]:
  "rl_inputs (relay_Deactivate e i r) = rl_inputs r" "rl_focused (relay_Deactivate e i r) = rl_focused r"
  "rl_pending (relay_Deactivate e i r) = rl_pending r" "rl_seat (relay_Deactivate e i r) = rl_seat r"
  "rl_active (relay_Deactivate e i r) = (if rl_active r = Some i then None else rl_active r)"
  by (simp_all add: relay_Deactivate_def Let_def)

lemma Activate_fields [simp]:
  "rl_inputs (relay_Activate e i r) = rl_inputs r" "rl_focused (relay_Activate e i r) = rl_focused r"
  "rl_seat (relay_Activate e i r) = rl_seat r"
  by (simp_all add: relay_Activate_def Let_def split: option.split)

lemma upd_ti_fields [simp]:
  "rl_active (upd_ti i f r) = rl_active r" "rl_focused (upd_ti i f r) = rl_focused r"
  "rl_pending (upd_ti i f r) = rl_pending r" "rl_popups (upd_ti i f r) = rl_popups r"
  "rl_seat (upd_ti i f r) = rl_seat r" "rl_im (upd_ti i f r) = rl_im r"
  by (simp_all add: upd_ti_def)

lemma upd_ti_ids [simp]:
  "(\<And>t. ti_id (f t) = ti_id t) \<Longrightarrow> map ti_id (rl_inputs (upd_ti i f r)) = map ti_id (rl_inputs r)"
  by (simp add: upd_ti_def comp_def if_distrib cong: if_cong)

section \<open>The invariant\<close>

text \<open>An endpoint: wlroots' object knows at most the surface the relay has entered, so no assertion
  of wlroots failed.\<close>

definition ti_ok :: "TextInput \<Rightarrow> bool" where
  "ti_ok t = (EvAbort \<notin> set (ti_sent t) \<and>
     (\<forall>h. ti_impl t = V3 (Some h) \<longrightarrow> h_focused h \<noteq> None \<longrightarrow> h_focused h = ti_relay_surface t))"

text \<open>The input method is told that it is active exactly while an endpoint is.\<close>

definition im_ok :: "relay \<Rightarrow> bool" where
  "im_ok r = ((rl_im r = None \<longrightarrow> rl_active r = None) \<and>
     (\<forall>im. rl_im r = Some im \<longrightarrow>
        im_active im = (rl_active r \<noteq> None) \<and> im_client_active im = (rl_active r \<noteq> None)))"

text \<open>A popup is shown only while it is mapped, and mapped only if \<open>b\<close>.\<close>

definition popups_ok :: "bool \<Rightarrow> relay \<Rightarrow> bool" where
  "popups_ok b r = (distinct (map pp_id (rl_popups r)) \<and>
     (\<forall>p\<in>set (rl_popups r). pp_enabled p = pp_mapped p \<and> (pp_mapped p \<longrightarrow> b)))"

text \<open>The active endpoint, apart from those in \<open>ex\<close> that a handler has just disabled.\<close>

definition active_ok :: "nat set \<Rightarrow> relay \<Rightarrow> bool" where
  "active_ok ex r = (\<forall>i. rl_active r = Some i \<longrightarrow>
     (\<exists>t\<in>set (rl_inputs r). ti_id t = i \<and> (i \<notin> ex \<longrightarrow> Enabled t \<and> ti_relay_surface t \<noteq> None)))"

definition base_ok :: "nat set \<Rightarrow> relay \<Rightarrow> bool" where
  "base_ok ex r = (distinct (map ti_id (rl_inputs r)) \<and> list_all ti_ok (rl_inputs r) \<and> active_ok ex r \<and>
     (\<forall>i. rl_pending r = Some i \<longrightarrow> i \<in> ti_id ` set (rl_inputs r)) \<and> im_ok r \<and>
     popups_ok (rl_active r \<noteq> None) r)"

text \<open>Which endpoints have been left or entered: all of them have the focused surface or none.\<close>

definition settled :: "nat set \<Rightarrow> nat option \<Rightarrow> relay \<Rightarrow> bool" where
  "settled ids s r = (\<forall>t\<in>set (rl_inputs r). ti_id t \<in> ids \<longrightarrow> ti_relay_surface t = None \<or> ti_relay_surface t = s)"

definition relay_ok :: "relay \<Rightarrow> bool" where
  "relay_ok r = (base_ok {} r \<and> settled UNIV (rl_focused r) r)"

section \<open>Popups\<close>

lemma popups_ok_mono: "popups_ok b r \<Longrightarrow> (b \<Longrightarrow> b') \<Longrightarrow> popups_ok b' r"
  by (auto simp: popups_ok_def)

lemma popups_ok_cong: "rl_popups r = rl_popups r' \<Longrightarrow> popups_ok b r = popups_ok b r'"
  by (simp add: popups_ok_def)

lemma upd_popup_ids:
  "(\<And>p. pp_id (f p) = pp_id p) \<Longrightarrow> map pp_id (rl_popups (upd_popup i f r)) = map pp_id (rl_popups r)"
  by (simp add: upd_popup_def comp_def if_distrib cong: if_cong)

lemma popups_ok_upd:
  assumes "popups_ok b r" "\<And>p. pp_id (f p) = pp_id p"
    "\<And>p. pp_enabled p = pp_mapped p \<and> (pp_mapped p \<longrightarrow> b) \<Longrightarrow> pp_enabled (f p) = pp_mapped (f p) \<and> (pp_mapped (f p) \<longrightarrow> b)"
  shows "popups_ok b (upd_popup i f r)"
  unfolding popups_ok_def upd_popup_ids [OF assms(2)]
  using assms(1,3) by (auto simp: popups_ok_def upd_popup_def)

lemma UpdatePopup_ok: "popups_ok b r \<Longrightarrow> popups_ok b (UpdatePopup e i r)"
  by (auto simp: UpdatePopup_def Let_def intro!: popups_ok_upd split: option.split prod.split)

lemma UpdatePopups_ok: "popups_ok b r \<Longrightarrow> popups_ok b (UpdatePopups e r)"
proof -
  have "popups_ok b (fold (UpdatePopup e) xs r)" if "popups_ok b r" for xs r
    using that by (induction xs arbitrary: r) (simp_all add: UpdatePopup_ok)
  then show "popups_ok b r \<Longrightarrow> popups_ok b (UpdatePopups e r)" by (simp add: UpdatePopups_def)
qed

lemma update_mapped_shown:
  "popups_ok True r \<Longrightarrow> popups_ok True (popup_surface_update_mapped e i r)"
  by (auto simp: popup_surface_update_mapped_def popup_map_def popup_unmap_def
      intro!: UpdatePopup_ok popups_ok_upd split: option.split)

lemma update_mapped_im [simp]: "rl_im (popup_surface_update_mapped e i r) = rl_im r"
  by (rule but_popupsD) simp

text \<open>Without an active input method the popup is hidden and the others keep their state.\<close>

lemma update_mapped_hides:
  assumes "rl_im r = Some im" "\<not> im_client_active im" "popups_ok True r"
    and p: "p \<in> set (rl_popups (popup_surface_update_mapped e i r))" "pp_mapped p"
  shows "pp_id p \<noteq> i \<and> p \<in> set (rl_popups r)"
proof (cases "find_popup r i")
  case None
  then have "p \<in> set (rl_popups r)" using assms by (simp add: popup_surface_update_mapped_def)
  with None show ?thesis by (auto simp: find_popup_def find_None_iff)
next
  case (Some q)
  then have q: "q \<in> set (rl_popups r)" "pp_id q = i" by (auto simp: find_popup_def dest: find_SomeD)
  have "\<And>p. p \<in> set (rl_popups r) \<Longrightarrow> pp_id p = i \<Longrightarrow> p = q"
    using assms(3) q by (auto simp: popups_ok_def distinct_map dest: inj_onD)
  then show ?thesis using assms Some
    by (auto simp: popup_surface_update_mapped_def popup_unmap_def upd_popup_def split: if_splits)
qed

lemma fold_update_mapped:
  assumes "popups_ok True r"
  shows "popups_ok True (fold (popup_surface_update_mapped e) xs r)"
    "rl_im r = Some im \<Longrightarrow> \<not> im_client_active im \<Longrightarrow>
       p \<in> set (rl_popups (fold (popup_surface_update_mapped e) xs r)) \<Longrightarrow> pp_mapped p \<Longrightarrow>
       pp_id p \<notin> set xs \<and> p \<in> set (rl_popups r)"
  using assms
proof (induction xs arbitrary: r)
  case (Cons i xs)
  case 1
  then show ?case using Cons.IH(1) update_mapped_shown by simp
next
  case (Cons i xs)
  case 2
  let ?r = "popup_surface_update_mapped e i r"
  have "pp_id p \<notin> set xs \<and> p \<in> set (rl_popups ?r)"
    by (rule Cons.IH(2)) (use 2 update_mapped_shown in simp_all)
  moreover from this have "pp_id p \<noteq> i \<and> p \<in> set (rl_popups r)"
    using update_mapped_hides [OF 2(1,2,5)] 2(4) by blast
  ultimately show ?case by simp
qed simp_all

lemma send_done_popups:
  assumes "popups_ok True r" "rl_im r = Some im"
  shows "popups_ok (im_active im) (wlr_input_method_v2_send_done e r)"
proof -
  define r1 where "r1 = upd_im (\<lambda>im. im_send [ImDone] (im\<lparr>im_client_active := im_active im,
                                  im_serial := im_serial im + 1\<rparr>)) r"
  define r2 where "r2 = fold (popup_surface_update_mapped e) (map pp_id (rl_popups r1)) r1"
  have r1: "popups_ok True r1" using assms(1) by (simp add: r1_def popups_ok_def)
  have shown: "popups_ok True r2" unfolding r2_def by (rule fold_update_mapped(1) [OF r1])
  have "\<not> pp_mapped p" if "\<not> im_active im" "p \<in> set (rl_popups r2)" for p
    using fold_update_mapped(2) [OF r1, of _ p e "map pp_id (rl_popups r1)"] assms(2) that
    by (fastforce simp: r1_def r2_def im_send_def)
  with shown have "popups_ok (im_active im) r2" by (auto simp: popups_ok_def)
  then show ?thesis by (simp add: wlr_input_method_v2_send_done_def r1_def r2_def Let_def)
qed

lemma SendState_popups:
  assumes "popups_ok True r" "rl_im r = Some im" "find_ti r i = Some t"
  shows "popups_ok (im_active im) (SendState e i r)"
proof -
  have "popups_ok True (upd_im (im_send (state_events (CurrentState t))) r)"
    using assms(1) by (simp add: popups_ok_def)
  moreover have "rl_im (upd_im (im_send (state_events (CurrentState t))) r) = Some (im_send (state_events (CurrentState t)) im)"
    using assms(2) by simp
  ultimately have "popups_ok (im_active (im_send (state_events (CurrentState t)) im))
      (wlr_input_method_v2_send_done e (upd_im (im_send (state_events (CurrentState t))) r))"
    by (rule send_done_popups)
  then show ?thesis using assms by (simp add: SendState_def im_send_def UpdatePopups_ok)
qed

section \<open>Activation\<close>

lemma base_okD:
  assumes "base_ok ex r"
  shows "distinct (map ti_id (rl_inputs r))" "list_all ti_ok (rl_inputs r)" "active_ok ex r" "im_ok r"
    "popups_ok (rl_active r \<noteq> None) r" "rl_pending r = Some i \<Longrightarrow> i \<in> ti_id ` set (rl_inputs r)"
  using assms by (auto simp: base_ok_def)

lemma active_found:
  assumes "base_ok ex r" "rl_active r = Some i"
  obtains t im where "find_ti r i = Some t" "rl_im r = Some im" "im_active im" "im_client_active im"
proof -
  obtain t0 where t0: "t0 \<in> set (rl_inputs r)" "ti_id t0 = i"
    using base_okD(3) [OF assms(1)] assms(2) by (auto simp: active_ok_def)
  then obtain t where "find_ti r i = Some t" using find_ti_None [of r i t0] by (cases "find_ti r i") auto
  moreover obtain im where "rl_im r = Some im" "im_active im" "im_client_active im"
    using base_okD(4) [OF assms(1)] assms(2) by (cases "rl_im r") (auto simp: im_ok_def)
  ultimately show ?thesis by (rule that)
qed

lemma Deactivate_ok:
  assumes "base_ok ex r"
  shows "base_ok (ex - {i}) (relay_Deactivate e i r)"
proof (cases "rl_active r = Some i")
  case True
  obtain t im where t: "find_ti r i = Some t" and im: "rl_im r = Some im"
    by (rule active_found [OF assms True])
  define r1 where "r1 = upd_im (\<lambda>im. im_send [ImDeactivate] (im\<lparr>im_active := False\<rparr>)) r"
  have r1: "find_ti r1 i = Some t" "rl_im r1 = Some (im_send [ImDeactivate] (im\<lparr>im_active := False\<rparr>))"
    using t im by (simp_all add: r1_def)
  have "popups_ok True r1"
    using popups_ok_mono [OF base_okD(5) [OF assms], of True] by (simp add: r1_def popups_ok_def)
  from SendState_popups [OF this r1(2,1), of e] have p: "popups_ok False (SendState e i r1)"
    by (simp add: im_send_def)
  have d: "relay_Deactivate e i r = (SendState e i r1)\<lparr>rl_active := None\<rparr>"
    using True im by (simp add: relay_Deactivate_def r1_def)
  have "rl_im (SendState e i r1) =
      Some (told (state_events (CurrentState t)) (im_send [ImDeactivate] (im\<lparr>im_active := False\<rparr>)))"
    using SendState_im [OF r1(1)] r1(2) by simp
  then have "im_ok ((SendState e i r1)\<lparr>rl_active := None\<rparr>)" by (simp add: im_ok_def told_def im_send_def)
  with p base_okD [OF assms] show ?thesis
    unfolding d by (simp add: base_ok_def active_ok_def popups_ok_def r1_def)
next
  case False
  then have "relay_Deactivate e i r = r" by (simp add: relay_Deactivate_def)
  with assms False show ?thesis by (auto simp: base_ok_def active_ok_def)
qed

lemma Activate_ok:
  assumes "base_ok {} r"
  shows "base_ok {} (relay_Activate e i r)"
proof (cases "find_ti r i")
  case None
  then show ?thesis using assms by (simp add: relay_Activate_def)
next
  case (Some t)
  note mem = find_ti_Some [OF Some]
  consider (keep) "rl_focused r = None \<or> \<not> Enabled t \<or> ti_relay_surface t \<noteq> rl_focused r"
    | (pend) "rl_im r = None" "relay_Activate e i r = r\<lparr>rl_pending := Some i\<rparr>"
    | (act) im where "rl_im r = Some im" "rl_focused r \<noteq> None" "Enabled t" "ti_relay_surface t = rl_focused r"
    using Some
    by (cases "rl_focused r = None \<or> \<not> Enabled t \<or> ti_relay_surface t \<noteq> rl_focused r"; cases "rl_im r")
      (auto simp: relay_Activate_def)
  then show ?thesis
  proof cases
    case keep
    then show ?thesis using assms Some by (auto simp: relay_Activate_def)
  next
    case pend
    have "i \<in> ti_id ` set (rl_inputs r)" using mem by blast
    with assms pend(1) show ?thesis
      unfolding pend(2) by (auto simp: base_ok_def active_ok_def im_ok_def popups_ok_def)
  next
    case act
    define r1 where "r1 = (case rl_active r of
        Some a \<Rightarrow> if a \<noteq> i then relay_Deactivate e a r else r | None \<Rightarrow> r)"
    have r1: "base_ok {} r1" using Deactivate_ok [OF assms, of _ e] assms by (simp add: r1_def split: option.split)
    have inp: "rl_inputs r1 = rl_inputs r" by (simp add: r1_def split: option.split)
    then have t1: "find_ti r1 i = Some t" using Some by (simp add: find_ti_def)
    have "rl_im r1 \<noteq> None"
    proof (cases "rl_active r")
      case (Some a)
      then obtain ta where "find_ti r a = Some ta" by (rule active_found [OF assms]) blast
      with Some act(1) show ?thesis by (simp add: r1_def relay_Deactivate_def SendState_im)
    qed (simp add: r1_def act(1))
    then obtain im1 where im1: "rl_im r1 = Some im1" by blast
    define r2 where "r2 = upd_im (\<lambda>im. im_send [ImActivate] (im\<lparr>im_active := True\<rparr>))
      (r1\<lparr>rl_active := Some i, rl_pending := None\<rparr>)"
    have a: "relay_Activate e i r = SendState e i r2"
      using act Some by (auto simp: relay_Activate_def r1_def r2_def Let_def)
    have r2: "find_ti r2 i = Some t" "rl_im r2 = Some (im_send [ImActivate] (im1\<lparr>im_active := True\<rparr>))"
      using t1 im1 by (simp_all add: r2_def find_ti_def)
    have "popups_ok True r2"
      using popups_ok_mono [OF base_okD(5) [OF r1], of True] by (simp add: r2_def popups_ok_def)
    from SendState_popups [OF this r2(2,1), of e] have "popups_ok True (SendState e i r2)"
      by (simp add: im_send_def)
    moreover have "im_ok (SendState e i r2)"
      using SendState_im [OF r2(1), of e] r2(2)
      by (simp add: im_ok_def told_def im_send_def) (simp add: r2_def)
    moreover have "active_ok {} (SendState e i r2)"
      using mem act by (auto simp: active_ok_def r2_def inp)
    ultimately show ?thesis
      using base_okD(1,2) [OF r1] by (simp add: a base_ok_def) (simp add: r2_def)
  qed
qed

lemma Activate_settled: "settled ids s r \<Longrightarrow> settled ids s (relay_Activate e i r)"
  by (simp add: settled_def)

section \<open>The keyboard focus\<close>

lemma leave_ti_ok: "ti_ok t \<Longrightarrow> ti_ok ((SendLeave t)\<lparr>ti_relay_surface := None\<rparr>)"
  by (auto simp: ti_ok_def SendLeave_def ti_send_def v1_SendLeave_def v2_SendLeave_def v3_SendLeave_def
      wlr_text_input_v3_send_leave_def split_beta split: ti_impl.splits option.splits if_splits)

lemma enter_ti_ok:
  assumes "ti_ok t" "ti_relay_surface t = None" "MatchesSurface client_of t surface"
  shows "ti_ok ((SendEnter client_of surface t)\<lparr>ti_relay_surface := surface\<rparr>)"
proof (cases "ti_impl t")
  case (V3 handle)
  then show ?thesis using assms
    by (auto simp: ti_ok_def SendEnter_def ti_send_def v3_SendEnter_def MatchesSurface_def v3_matches_def
        wlr_text_input_v3_send_enter_def split: option.splits)
qed (use assms in \<open>auto simp: ti_ok_def SendEnter_def ti_send_def v1_SendEnter_def v2_SendEnter_def
       split: option.splits if_splits\<close>)

lemma SendLeave_id [simp]: "ti_id (SendLeave t) = ti_id t"
  by (simp add: SendLeave_def ti_send_def split_beta split: ti_impl.split)

lemma SendEnter_id [simp]: "ti_id (SendEnter client_of s t) = ti_id t"
  by (simp add: SendEnter_def ti_send_def split_beta split: ti_impl.split)

text \<open>Changing one endpoint, which stays enabled and entered if it is the active one.\<close>

lemma upd_ti_ok:
  assumes "base_ok ex r" "\<And>t. ti_id (f t) = ti_id t"
    and "\<And>t. t \<in> set (rl_inputs r) \<Longrightarrow> ti_id t = i \<Longrightarrow> ti_ok t \<Longrightarrow> ti_ok (f t)"
    and "\<And>t. t \<in> set (rl_inputs r) \<Longrightarrow> ti_id t = i \<Longrightarrow> rl_active r = Some i \<Longrightarrow> i \<notin> ex' \<Longrightarrow>
           i \<notin> ex \<and> (Enabled t \<longrightarrow> Enabled (f t)) \<and> (ti_relay_surface t \<noteq> None \<longrightarrow> ti_relay_surface (f t) \<noteq> None)"
    and "ex - {i} \<subseteq> ex'"
  shows "base_ok ex' (upd_ti i f r)"
proof -
  have ids: "map ti_id (rl_inputs (upd_ti i f r)) = map ti_id (rl_inputs r)" by (simp add: assms(2))
  then have ids': "ti_id ` set (rl_inputs (upd_ti i f r)) = ti_id ` set (rl_inputs r)" by (metis set_map)
  have "list_all ti_ok (rl_inputs (upd_ti i f r))"
    using base_okD(2) [OF assms(1)] assms(3) by (auto simp: upd_ti_def list_all_iff)
  moreover have "active_ok ex' (upd_ti i f r)"
    unfolding active_ok_def upd_ti_fields
  proof (intro allI impI)
    fix j assume j: "rl_active r = Some j"
    then obtain t where t: "t \<in> set (rl_inputs r)" "ti_id t = j"
      "j \<notin> ex \<longrightarrow> Enabled t \<and> ti_relay_surface t \<noteq> None"
      using base_okD(3) [OF assms(1)] by (auto simp: active_ok_def)
    let ?t = "if ti_id t = i then f t else t"
    have "?t \<in> set (rl_inputs (upd_ti i f r))" using t(1) by (auto simp: upd_ti_def)
    moreover have "ti_id ?t = j" using t(2) assms(2) by simp
    moreover have "j \<notin> ex' \<longrightarrow> Enabled ?t \<and> ti_relay_surface ?t \<noteq> None"
      using t assms(4) [OF t(1)] assms(5) j by auto
    ultimately show "\<exists>t\<in>set (rl_inputs (upd_ti i f r)). ti_id t = j \<and>
        (j \<notin> ex' \<longrightarrow> Enabled t \<and> ti_relay_surface t \<noteq> None)" by blast
  qed
  moreover have "im_ok (upd_ti i f r)" "popups_ok (rl_active (upd_ti i f r) \<noteq> None) (upd_ti i f r)"
    using base_okD(4,5) [OF assms(1)] by (simp_all add: im_ok_def popups_ok_def)
  ultimately show ?thesis
    using base_okD(1,6) [OF assms(1)] unfolding base_ok_def ids ids' by simp
qed

lemma leave_step_ok:
  assumes "base_ok {} r" "settled ids s r"
  shows "base_ok {} (leave_step e s i r) \<and> settled (insert i ids) s (leave_step e s i r)"
proof (cases "find_ti r i")
  case None
  with assms show ?thesis
    by (auto simp: leave_step_def settled_def dest: find_ti_None)
next
  case (Some t)
  show ?thesis
  proof (cases "ti_relay_surface t \<noteq> None \<and> ti_relay_surface t \<noteq> s")
    case False
    have "u = t" if "u \<in> set (rl_inputs r)" "ti_id u = i" for u
      using that find_ti_Some [OF Some] base_okD(1) [OF assms(1)] by (auto simp: distinct_map dest: inj_onD)
    then have "settled (insert i ids) s r" using assms(2) False by (auto simp: settled_def)
    with Some False assms show ?thesis by (auto simp: leave_step_def)
  next
    case True
    define r1 where "r1 = (if rl_active r = Some i then relay_Deactivate e i r else r)"
    have r1: "base_ok {} r1" using Deactivate_ok [OF assms(1), of i e] assms(1) by (simp add: r1_def)
    have na: "rl_active r1 \<noteq> Some i" by (simp add: r1_def)
    have step: "leave_step e s i r = upd_ti i (\<lambda>t. (SendLeave t)\<lparr>ti_relay_surface := None\<rparr>) r1"
      using Some True by (auto simp: leave_step_def r1_def Let_def)
    have "settled ids s r1" using assms(2) by (simp add: settled_def r1_def)
    then have "settled (insert i ids) s (leave_step e s i r)"
      unfolding step by (auto simp: settled_def upd_ti_def)
    moreover have "base_ok {} (leave_step e s i r)"
      unfolding step by (rule upd_ti_ok [OF r1]) (use na leave_ti_ok in auto)
    ultimately show ?thesis by blast
  qed
qed

lemma leave_step_ids [simp]: "map ti_id (rl_inputs (leave_step e s i r)) = map ti_id (rl_inputs r)"
  by (simp add: leave_step_def Let_def split: option.split)

lemma leave_loop_ok:
  assumes "base_ok {} r" "settled ids s r"
  shows "base_ok {} (fold (leave_step e s) xs r) \<and> settled (ids \<union> set xs) s (fold (leave_step e s) xs r) \<and>
    map ti_id (rl_inputs (fold (leave_step e s) xs r)) = map ti_id (rl_inputs r)"
  using assms
proof (induction xs arbitrary: r ids)
  case (Cons i xs)
  then have "base_ok {} (leave_step e s i r)" "settled (insert i ids) s (leave_step e s i r)"
    using leave_step_ok by blast+
  from Cons.IH [OF this] show ?case by (simp add: Un_commute insert_commute)
qed simp

lemma leave_loop_settled:
  assumes "base_ok {} r"
  shows "base_ok {} (fold (leave_step e s) (map ti_id (rl_inputs r)) r)"
    "settled UNIV s (fold (leave_step e s) (map ti_id (rl_inputs r)) r)"
proof -
  let ?r = "fold (leave_step e s) (map ti_id (rl_inputs r)) r"
  have 1: "base_ok {} ?r" "settled (ti_id ` set (rl_inputs r)) s ?r"
    "map ti_id (rl_inputs ?r) = map ti_id (rl_inputs r)"
    using leave_loop_ok [OF assms, of "{}" s e "map ti_id (rl_inputs r)"] by (auto simp: settled_def)
  from 1(3) have "ti_id ` set (rl_inputs ?r) = ti_id ` set (rl_inputs r)" by (metis set_map)
  then have "\<forall>t\<in>set (rl_inputs ?r). ti_id t \<in> ti_id ` set (rl_inputs r)" by blast
  with 1(2) show "settled UNIV s ?r" by (simp add: settled_def)
  show "base_ok {} ?r" by (rule 1)
qed

lemma enter_step_ok:
  assumes "base_ok {} r" "settled UNIV s r"
  shows "base_ok {} (snd (enter_step e s i (c, r))) \<and> settled UNIV s (snd (enter_step e s i (c, r)))"
proof (cases "find_ti r i")
  case (Some t)
  note mem = find_ti_Some [OF Some]
  define r1 where "r1 = (if ti_relay_surface t = None \<and> AcceptsFocus e r t s
    then upd_ti i (\<lambda>t. (SendEnter (ie_client e) s t)\<lparr>ti_relay_surface := s\<rparr>) r else r)"
  have step: "snd (enter_step e s i (c, r)) = r1"
    using Some by (simp add: enter_step_def r1_def Let_def split: option.split)
  have eq: "u = t" if "u \<in> set (rl_inputs r)" "ti_id u = i" for u
    using that mem base_okD(1) [OF assms(1)] by (auto simp: distinct_map dest: inj_onD)
  have "settled UNIV s r1" using assms(2) by (auto simp: r1_def settled_def upd_ti_def)
  moreover have "base_ok {} r1"
  proof (cases "ti_relay_surface t = None \<and> AcceptsFocus e r t s")
    case True
    then have acc: "ti_relay_surface t = None" "MatchesSurface (ie_client e) t s" "s \<noteq> None"
      by (auto simp: AcceptsFocus_def)
    have "base_ok {} (upd_ti i (\<lambda>t. (SendEnter (ie_client e) s t)\<lparr>ti_relay_surface := s\<rparr>) r)"
    proof (rule upd_ti_ok [OF assms(1)])
      fix u assume u: "u \<in> set (rl_inputs r)" "ti_id u = i"
      then have "u = t" by (rule eq)
      then show "ti_ok u \<Longrightarrow> ti_ok ((SendEnter (ie_client e) s u)\<lparr>ti_relay_surface := s\<rparr>)"
        using acc enter_ti_ok by simp
      show "i \<notin> {} \<and> (Enabled u \<longrightarrow> Enabled ((SendEnter (ie_client e) s u)\<lparr>ti_relay_surface := s\<rparr>)) \<and>
          (ti_relay_surface u \<noteq> None \<longrightarrow> ti_relay_surface ((SendEnter (ie_client e) s u)\<lparr>ti_relay_surface := s\<rparr>) \<noteq> None)"
        using ti.enabled_enter [of "ie_client e" s u] acc by (simp add: Enabled_def)
    qed auto
    with True show ?thesis by (simp add: r1_def)
  qed (use assms(1) in \<open>auto simp: r1_def\<close>)
  ultimately show ?thesis by (simp add: step)
qed (use assms in \<open>simp add: enter_step_def\<close>)

lemma enter_loop_ok:
  assumes "base_ok {} (snd cr)" "settled UNIV s (snd cr)"
  shows "base_ok {} (snd (fold (enter_step e s) xs cr)) \<and> settled UNIV s (snd (fold (enter_step e s) xs cr))"
  using assms
proof (induction xs arbitrary: cr)
  case (Cons i xs)
  then show ?case using enter_step_ok [of "snd cr" s e i "fst cr"] by simp
qed simp

lemma enter_loop_focused [simp]:
  "rl_focused (snd (fold (enter_step e s) xs cr)) = rl_focused (snd cr)"
proof (induction xs arbitrary: cr)
  case (Cons i xs)
  have "rl_focused (snd (enter_step e s i cr)) = rl_focused (snd cr)"
    by (simp add: enter_step_def split_beta Let_def split: option.split)
  with Cons show ?case by simp
qed simp

lemma leave_loop_focused [simp]: "rl_focused (fold (leave_step e s) xs r) = rl_focused r"
proof (induction xs arbitrary: r)
  case (Cons i xs)
  have "rl_focused (leave_step e s i r) = rl_focused r"
    by (simp add: leave_step_def Let_def split: option.split)
  with Cons show ?case by simp
qed simp

lemma UpdatePopups_base: "base_ok ex r \<Longrightarrow> base_ok ex (UpdatePopups e r)"
  using UpdatePopups_ok [of _ r e]
  by (simp add: base_ok_def active_ok_def im_ok_def)

lemma UpdateFocus_ok:
  assumes "base_ok {} r"
  shows "relay_ok (UpdateFocus e s r)" "rl_focused (UpdateFocus e s r) = s"
proof -
  define r0 where "r0 = r\<lparr>rl_focused := s\<rparr>"
  define r1 where "r1 = fold (leave_step e s) (map ti_id (rl_inputs r0)) r0"
  define cr where "cr = fold (enter_step e s) (map ti_id (rl_inputs r1)) (None, r1)"
  define r3 where "r3 = (case fst cr of
      Some i \<Rightarrow> if s \<noteq> None \<and> fst cr \<noteq> rl_active (snd cr) then relay_Activate e i (snd cr) else snd cr
    | None \<Rightarrow> snd cr)"
  have eq: "UpdateFocus e s r = UpdatePopups e r3"
    unfolding UpdateFocus_def r0_def r1_def r3_def cr_def Let_def by (simp only: split_beta fst_conv snd_conv)
  have "base_ok {} r0" using assms by (simp add: r0_def base_ok_def active_ok_def im_ok_def popups_ok_def)
  then have "base_ok {} r1" "settled UNIV s r1" using leave_loop_settled by (simp_all add: r1_def)
  then have cr: "base_ok {} (snd cr)" "settled UNIV s (snd cr)"
    using enter_loop_ok [of "(None, r1)" s e] by (auto simp: cr_def)
  then have r3: "base_ok {} r3" "settled UNIV s r3"
    using Activate_ok Activate_settled by (auto simp: r3_def split: option.split)
  have foc: "rl_focused r3 = s" by (simp add: r3_def cr_def r1_def r0_def split: option.split)
  show "rl_focused (UpdateFocus e s r) = s" by (simp add: eq foc)
  show "relay_ok (UpdateFocus e s r)"
    using UpdatePopups_base [OF r3(1)] r3(2) foc by (simp add: relay_ok_def eq settled_def)
qed

section \<open>The handlers keep the invariant\<close>

lemma relay_okD: "relay_ok r \<Longrightarrow> base_ok {} r" "relay_ok r \<Longrightarrow> settled UNIV (rl_focused r) r"
  by (simp_all add: relay_ok_def)

lemma SendState_ok:
  assumes "base_ok ex r"
  shows "base_ok ex (SendState e i r)"
proof (cases "rl_im r = None \<or> find_ti r i = None")
  case False
  then obtain im t where im: "rl_im r = Some im" "find_ti r i = Some t" by auto
  have active: "im_active im = (rl_active r \<noteq> None)" using base_okD(4) [OF assms] im by (simp add: im_ok_def)
  have "popups_ok True r" using base_okD(5) [OF assms] by (rule popups_ok_mono) simp
  from SendState_popups [OF this im, of e] active
  have "popups_ok (rl_active r \<noteq> None) (SendState e i r)" by simp
  moreover have "im_ok (SendState e i r)"
    using active im by (simp add: im_ok_def SendState_im told_def)
  ultimately show ?thesis using assms by (simp add: base_ok_def active_ok_def)
qed (use assms in \<open>auto simp: SendState_def split: option.split\<close>)

lemma Activate_relay_ok: "relay_ok r \<Longrightarrow> relay_ok (relay_Activate e i r)"
  by (simp add: relay_ok_def Activate_ok settled_def)

lemma HandleEnable_ok: "base_ok {} r \<Longrightarrow> relay_ok (HandleEnable e i r)"
  using UpdateFocus_ok(1) [of r e "rl_focused r"]
  by (auto simp: HandleEnable_def Let_def Activate_relay_ok split: option.split)

lemma HandleCommit_ok: "relay_ok r \<Longrightarrow> relay_ok (HandleCommit e i r)"
  by (auto simp: HandleCommit_def relay_ok_def settled_def
      intro!: UpdatePopups_base SendState_ok split: option.split)

lemma HandleDisable_ok:
  assumes "base_ok {i} r"
  shows "base_ok {} (HandleDisable e i r)" "rl_inputs (HandleDisable e i r) = rl_inputs r"
    "rl_active (HandleDisable e i r) \<noteq> Some i" "rl_pending (HandleDisable e i r) \<noteq> Some i"
    "rl_focused (HandleDisable e i r) = rl_focused r"
proof -
  define r1 where "r1 = (if rl_pending r = Some i then r\<lparr>rl_pending := None\<rparr> else r)"
  have r1: "base_ok {i} r1" using assms by (auto simp: r1_def base_ok_def active_ok_def im_ok_def popups_ok_def)
  have eq: "HandleDisable e i r = (if rl_active r1 = Some i then relay_Deactivate e i r1 else r1)"
    by (simp add: HandleDisable_def r1_def Let_def)
  show "base_ok {} (HandleDisable e i r)"
    using Deactivate_ok [OF r1, of i e] r1 by (auto simp: eq base_ok_def active_ok_def)
qed (auto simp: HandleDisable_def Let_def)

lemma HandleDisable_settled: "base_ok {i} r \<Longrightarrow> settled ids s r \<Longrightarrow> settled ids s (HandleDisable e i r)"
  by (simp add: settled_def HandleDisable_ok(2))

lemma HandleDestroy_ok:
  assumes "base_ok {i} r" "settled UNIV (rl_focused r) r"
  shows "relay_ok (HandleDestroy e i r)"
proof -
  define r2 where "r2 = HandleDisable e i r"
  have r2: "base_ok {} r2" "rl_active r2 \<noteq> Some i" "rl_pending r2 \<noteq> Some i" "rl_focused r2 = rl_focused r"
    and s: "settled UNIV (rl_focused r) r2"
    using HandleDisable_ok [OF assms(1), of e] HandleDisable_settled [OF assms, of e] by (simp_all add: r2_def)
  let ?r = "r2\<lparr>rl_inputs := erase_if (\<lambda>t. ti_id t = i) (rl_inputs r2)\<rparr>"
  have "active_ok {} ?r" using base_okD(3) [OF r2(1)] r2(2) by (fastforce simp: active_ok_def)
  moreover have "j \<in> ti_id ` set (rl_inputs ?r)" if "rl_pending ?r = Some j" for j
    using base_okD(6) [OF r2(1), of j] r2(3) that by auto
  moreover have "im_ok ?r" "popups_ok (rl_active ?r \<noteq> None) ?r"
    using base_okD(4,5) [OF r2(1)] by (simp_all add: im_ok_def popups_ok_def)
  moreover have "list_all ti_ok (rl_inputs ?r)" "distinct (map ti_id (rl_inputs ?r))"
    using base_okD(1,2) [OF r2(1)] distinct_erase_if by (auto simp: list_all_iff)
  ultimately have "base_ok {} ?r" by (simp add: base_ok_def)
  moreover have "settled UNIV (rl_focused ?r) ?r" using s r2(4) by (simp add: settled_def)
  ultimately show ?thesis by (simp add: HandleDestroy_def relay_ok_def r2_def Let_def)
qed

lemma AddTextInput_ok:
  assumes "relay_ok r" "ti_ok t" "ti_relay_surface t = None" "ti_id t \<notin> ti_id ` set (rl_inputs r)"
  shows "relay_ok (AddTextInput e t r)"
proof -
  define t' where "t' = (if rl_focused r \<noteq> None \<and> MatchesSurface (ie_client e) t (rl_focused r)
    then (SendEnter (ie_client e) (rl_focused r) t)\<lparr>ti_relay_surface := rl_focused r\<rparr> else t)"
  have t': "ti_ok t'" "ti_id t' = ti_id t" "ti_relay_surface t' = None \<or> ti_relay_surface t' = rl_focused r"
    using assms enter_ti_ok by (auto simp: t'_def)
  have "base_ok {} (r\<lparr>rl_inputs := rl_inputs r @ [t']\<rparr>)"
    using relay_okD(1) [OF assms(1)] t' assms(4)
    by (auto simp: base_ok_def active_ok_def im_ok_def popups_ok_def)
  then have "relay_ok (r\<lparr>rl_inputs := rl_inputs r @ [t']\<rparr>)"
    using relay_okD(2) [OF assms(1)] t'(3) by (auto simp: relay_ok_def settled_def)
  then show ?thesis using assms(1) by (simp add: AddTextInput_def t'_def Let_def)
qed

section \<open>Requests\<close>

lemma on_v_fields [simp]:
  "ti_id (on_v1 f t) = ti_id t" "ti_relay_surface (on_v1 f t) = ti_relay_surface t"
  "ti_id (on_v2 f t) = ti_id t" "ti_relay_surface (on_v2 f t) = ti_relay_surface t"
  "ti_id (on_v3 g t) = ti_id t" "ti_relay_surface (on_v3 g t) = ti_relay_surface t"
  by (simp_all add: on_v1_def on_v2_def on_v3_def split: ti_impl.split)

lemma on_v1_ok: "ti_ok t \<Longrightarrow> ti_ok (on_v1 f t)" and on_v2_ok: "ti_ok t \<Longrightarrow> ti_ok (on_v2 f t)"
  by (auto simp: ti_ok_def on_v1_def on_v2_def split: ti_impl.splits)

lemma on_v3_ok:
  assumes "ti_ok t" "\<And>h. h_focused (g h) = h_focused h \<or> h_focused (g h) = None"
  shows "ti_ok (on_v3 g t)"
proof (cases "ti_impl t")
  case (V3 handle)
  then show ?thesis using assms(1) assms(2) [of "the handle"]
    by (cases handle) (auto simp: ti_ok_def on_v3_def)
qed (use assms(1) in \<open>simp_all add: on_v3_def\<close>)

lemma on_v1_Enabled: "(\<And>l. lg_enabled l \<Longrightarrow> lg_enabled (f l)) \<Longrightarrow> Enabled t \<Longrightarrow> Enabled (on_v1 f t)"
  and on_v2_Enabled: "(\<And>l. lg_enabled l \<Longrightarrow> lg_enabled (f l)) \<Longrightarrow> Enabled t \<Longrightarrow> Enabled (on_v2 f t)"
  and on_v3_Enabled: "(\<And>h. h_current_enabled (g h) = h_current_enabled h) \<Longrightarrow> Enabled (on_v3 g t) = Enabled t"
  by (auto simp: Enabled_def v3_Enabled_def on_v1_def on_v2_def on_v3_def split: ti_impl.splits option.splits)

text \<open>A change to one endpoint that keeps its surface; it may disable the endpoint if \<open>ex\<close> says so.\<close>

lemma upd_ti_relay_ok:
  assumes "relay_ok r" "\<And>t. ti_id (f t) = ti_id t" "\<And>t. ti_relay_surface (f t) = ti_relay_surface t"
    "\<And>t. ti_ok t \<Longrightarrow> ti_ok (f t)" "\<And>t. i \<notin> ex \<Longrightarrow> Enabled t \<Longrightarrow> Enabled (f t)"
  shows "base_ok ex (upd_ti i f r)" "settled UNIV (rl_focused (upd_ti i f r)) (upd_ti i f r)"
proof -
  show "base_ok ex (upd_ti i f r)"
    by (rule upd_ti_ok [OF relay_okD(1) [OF assms(1)]]) (use assms in auto)
  show "settled UNIV (rl_focused (upd_ti i f r)) (upd_ti i f r)"
    using relay_okD(2) [OF assms(1)] assms(3) by (auto simp: settled_def upd_ti_def)
qed

lemma upd_ti_keeps:
  assumes "relay_ok r" "\<And>t. ti_id (f t) = ti_id t" "\<And>t. ti_relay_surface (f t) = ti_relay_surface t"
    "\<And>t. ti_ok t \<Longrightarrow> ti_ok (f t)" "\<And>t. Enabled t \<Longrightarrow> Enabled (f t)"
  shows "relay_ok (upd_ti i f r)"
  using upd_ti_relay_ok [OF assms(1-4), of i "{}"] assms(5) by (simp add: relay_ok_def)

lemma v1_setter_ok: "relay_ok r \<Longrightarrow> (\<And>l. lg_enabled l \<Longrightarrow> lg_enabled (f l)) \<Longrightarrow> relay_ok (upd_ti i (on_v1 f) r)"
  and v2_setter_ok: "relay_ok r \<Longrightarrow> (\<And>l. lg_enabled l \<Longrightarrow> lg_enabled (f l)) \<Longrightarrow> relay_ok (upd_ti i (on_v2 f) r)"
  by (rule upd_ti_keeps; auto intro: on_v1_ok on_v2_ok on_v1_Enabled on_v2_Enabled)+

lemma v3_setter_ok:
  "relay_ok r \<Longrightarrow> (\<And>h. h_focused (g h) = h_focused h \<or> h_focused (g h) = None) \<Longrightarrow>
   (\<And>h. h_current_enabled (g h) = h_current_enabled h) \<Longrightarrow> relay_ok (upd_ti i (on_v3 g) r)"
  by (rule upd_ti_keeps) (simp_all add: on_v3_ok on_v3_Enabled)

text \<open>Disabling an endpoint, and then forgetting its surface.\<close>

lemma disable_ok:
  assumes "base_ok {i} r" "settled UNIV (rl_focused r) r"
  shows "relay_ok (HandleDisable e i r)"
  using HandleDisable_ok [OF assms(1), of e] HandleDisable_settled [OF assms, of e] by (simp add: relay_ok_def)

lemma v1_disable_ok: "relay_ok r \<Longrightarrow> relay_ok (HandleDisable e i (upd_ti i (on_v1 f) r))"
  and v2_disable_ok: "relay_ok r \<Longrightarrow> relay_ok (HandleDisable e i (upd_ti i (on_v2 f) r))"
  by (rule disable_ok; rule upd_ti_relay_ok; auto intro: on_v1_ok on_v2_ok)+

lemma v1_destroy_ok: "relay_ok r \<Longrightarrow> relay_ok (HandleDestroy e i (upd_ti i (on_v1 f) r))"
  and v2_destroy_ok: "relay_ok r \<Longrightarrow> relay_ok (HandleDestroy e i (upd_ti i (on_v2 f) r))"
  by (rule HandleDestroy_ok; rule upd_ti_relay_ok; auto intro: on_v1_ok on_v2_ok)+

lemma v3_destroy_ok: "relay_ok r \<Longrightarrow> relay_ok (HandleDestroy e i (upd_ti i (\<lambda>t. t\<lparr>ti_impl := V3 None\<rparr>) r))"
  by (rule HandleDestroy_ok; rule upd_ti_relay_ok) (auto simp: ti_ok_def)

text \<open>A commit of version 3: an endpoint that it disables is handed to \<open>HandleDisable\<close>, any other stays
  enabled if it was.\<close>

lemma v3_commit_base:
  assumes "relay_ok r" "v3_of r i = Some h"
  defines "r1 \<equiv> upd_ti i (on_v3 (\<lambda>h. fst (text_input_commit h))) r"
  shows "base_ok {i} r1" "settled UNIV (rl_focused r1) r1"
    "snd (text_input_commit h) \<noteq> SigDisable \<Longrightarrow> base_ok {} r1"
proof -
  let ?f = "\<lambda>h. fst (text_input_commit h)"
  have foc: "h_focused (?f h) = h_focused h" for h by (simp add: text_input_commit_def Let_def)
  have ids: "ti_ok t \<Longrightarrow> ti_ok (on_v3 ?f t)" for t using foc by (intro on_v3_ok) auto
  show "base_ok {i} r1" "settled UNIV (rl_focused r1) r1"
    unfolding r1_def by (rule upd_ti_relay_ok [OF assms(1), where ex = "{i}"]; simp add: ids)+
  have one: "ti_impl t = V3 (Some h)" if t: "t \<in> set (rl_inputs r)" "ti_id t = i" for t
  proof -
    obtain u where u: "find_ti r i = Some u" using assms(2) by (cases "find_ti r i") (auto simp: v3_of_def)
    then have impl: "ti_impl u = V3 (Some h)" using assms(2) by (cases "ti_impl u") (auto simp: v3_of_def)
    from t find_ti_Some [OF u] base_okD(1) [OF relay_okD(1) [OF assms(1)]]
    have "t = u" by (auto simp: distinct_map dest: inj_onD)
    with impl show "ti_impl t = V3 (Some h)" by simp
  qed
  assume sig: "snd (text_input_commit h) \<noteq> SigDisable"
  show "base_ok {} r1" unfolding r1_def
  proof (rule upd_ti_ok [OF relay_okD(1) [OF assms(1)]])
    fix t assume t: "t \<in> set (rl_inputs r)" "ti_id t = i"
    show "ti_ok t \<Longrightarrow> ti_ok (on_v3 ?f t)" by (rule ids)
    have "Enabled (on_v3 ?f t) = h_current_enabled (?f h)" "Enabled t = h_current_enabled h"
      using one [OF t] by (simp_all add: Enabled_def v3_Enabled_def on_v3_def)
    with sig show "i \<notin> {} \<and> (Enabled t \<longrightarrow> Enabled (on_v3 ?f t)) \<and>
        (ti_relay_surface t \<noteq> None \<longrightarrow> ti_relay_surface (on_v3 ?f t) \<noteq> None)"
      by (auto simp: text_input_commit_def Let_def split: if_splits)
  qed simp_all
qed

lemma v3_commit_ok:
  assumes "relay_ok r"
  shows "relay_ok (v3_commit e i r)"
proof (cases "v3_of r i")
  case (Some h)
  note ok = v3_commit_base [OF assms Some]
  show ?thesis
  proof (cases "snd (text_input_commit h)")
    case SigEnable
    then show ?thesis using Some HandleEnable_ok [OF ok(3)] by (simp add: v3_commit_def)
  next
    case SigDisable
    then show ?thesis using Some disable_ok [OF ok(1,2), of e] by (simp add: v3_commit_def)
  next
    case SigCommit
    then show ?thesis using Some ok HandleCommit_ok by (simp add: v3_commit_def relay_ok_def)
  qed
qed (use assms in \<open>simp add: v3_commit_def\<close>)

text \<open>Text sent to an endpoint.\<close>

lemma ti_send_fields [simp]:
  "ti_id (ti_send evs t) = ti_id t" "ti_relay_surface (ti_send evs t) = ti_relay_surface t"
  "Enabled (ti_send evs t) = Enabled t" "ti_impl (ti_send evs t) = ti_impl t"
  "ti_sent (ti_send evs t) = ti_sent t @ evs"
  by (simp_all add: ti_send_def Enabled_def)

lemma ti_send_ok: "ti_ok t \<Longrightarrow> EvAbort \<notin> set evs \<Longrightarrow> ti_ok (ti_send evs t)"
  by (simp add: ti_ok_def)

lemma SendText_ok:
  "ti_ok t \<Longrightarrow> ti_ok (SendPreedit text b en t)" "ti_ok t \<Longrightarrow> ti_ok (SendCommit text t)"
  "ti_ok t \<Longrightarrow> ti_ok (SendDelete x y t)" "ti_ok t \<Longrightarrow> ti_ok (SendDone t)"
  by (auto simp: SendPreedit_def SendCommit_def SendDelete_def SendDone_def legacy_preedit_def
      legacy_commit_def legacy_delete_def Let_def intro!: ti_send_ok split: ti_impl.split option.split)

lemma commit_events_ok: "ti_ok t \<Longrightarrow> ti_ok (commit_events s t)"
  by (auto simp: commit_events_def Let_def intro!: SendText_ok split: option.split)

lemma commit_events_fields [simp]:
  "ti_id (commit_events s t) = ti_id t" "ti_relay_surface (commit_events s t) = ti_relay_surface t"
  "Enabled (commit_events s t) = Enabled t"
  by (simp_all add: commit_events_def Let_def SendPreedit_def SendCommit_def SendDelete_def SendDone_def
      split: option.split)

lemma upd_im_ok:
  assumes "relay_ok r" "\<And>im. im_active (f im) = im_active im" "\<And>im. im_client_active (f im) = im_client_active im"
  shows "relay_ok (upd_im f r)"
  using assms by (auto simp: relay_ok_def base_ok_def active_ok_def im_ok_def popups_ok_def settled_def)

lemma OnInputMethodCommit_ok: "relay_ok r \<Longrightarrow> relay_ok (OnInputMethodCommit r)"
  by (auto simp: OnInputMethodCommit_def commit_events_ok intro!: upd_ti_keeps split: option.split)

lemma im_commit_ok: "relay_ok r \<Longrightarrow> relay_ok (im_commit serial r)"
  by (auto simp: im_commit_def intro!: upd_im_ok OnInputMethodCommit_ok split: option.split)

lemma popups_relay_ok:
  assumes "relay_ok r" "but_popups r' = but_popups r" "popups_ok (rl_active r' \<noteq> None) r'"
  shows "relay_ok r'"
  using assms(1,3) but_popupsD [OF assms(2)]
  by (auto simp: relay_ok_def base_ok_def active_ok_def im_ok_def settled_def)

lemma UpdatePopup_relay_ok:
  assumes "relay_ok r"
  shows "relay_ok (UpdatePopup e i r)"
proof (rule popups_relay_ok [OF assms])
  show "popups_ok (rl_active (UpdatePopup e i r) \<noteq> None) (UpdatePopup e i r)"
    using UpdatePopup_ok [OF base_okD(5) [OF relay_okD(1) [OF assms]]] by simp
qed simp

lemma update_mapped_ok:
  assumes "relay_ok r"
  shows "relay_ok (popup_surface_update_mapped e i r)"
proof (rule popups_relay_ok [OF assms])
  let ?r = "popup_surface_update_mapped e i r"
  have act: "rl_active ?r = rl_active r" by (rule but_popupsD) simp
  have p: "popups_ok (rl_active r \<noteq> None) r" "im_ok r" using relay_okD(1) [OF assms] base_okD by auto
  show "popups_ok (rl_active ?r \<noteq> None) ?r" unfolding act
  proof (cases "rl_active r")
    case None
    with p show "popups_ok (rl_active r \<noteq> None) ?r"
      by (cases "rl_im r")
        (auto simp: popup_surface_update_mapped_def popup_unmap_def im_ok_def intro!: popups_ok_upd split: option.split)
  next
    case (Some a)
    with p(1) show "popups_ok (rl_active r \<noteq> None) ?r" using update_mapped_shown [of r e i] by simp
  qed
qed simp

lemma popup_committed_ok:
  assumes "relay_ok r"
  shows "relay_ok (popup_committed e b w h i r)"
proof -
  let ?f = "\<lambda>p. p\<lparr>pp_has_buffer := b, pp_width := w, pp_height := h\<rparr>"
  have "popups_ok (rl_active r \<noteq> None) (upd_popup i ?f r)"
    by (rule popups_ok_upd [OF base_okD(5) [OF relay_okD(1) [OF assms]]]) simp_all
  then have "relay_ok (upd_popup i ?f r)"
    by (intro popups_relay_ok [OF assms]) (simp_all add: but_popupsD(4) [OF upd_popup_but])
  then show ?thesis unfolding popup_committed_def by (intro UpdatePopup_relay_ok update_mapped_ok)
qed

lemma RemovePopup_ok: "relay_ok r \<Longrightarrow> relay_ok (RemovePopup i r)"
  by (rule popups_relay_ok)
    (use distinct_erase_if in \<open>auto simp: RemovePopup_def but_popups_def relay_ok_def base_ok_def popups_ok_def\<close>)

lemma NewPopup_ok:
  assumes "relay_ok r" "i \<notin> pp_id ` set (rl_popups r)"
  shows "relay_ok (OnInputMethodNewPopup e i b w h r)"
proof (cases "rl_im r")
  case (Some im)
  have "popups_ok (rl_active r \<noteq> None) r" "im_ok r" using relay_okD(1) [OF assms(1)] base_okD by auto
  with Some assms(2) show ?thesis
    by (auto simp: OnInputMethodNewPopup_def Let_def popups_ok_def im_ok_def but_popups_def
        intro!: UpdatePopup_relay_ok popups_relay_ok [OF assms(1)])
qed (use assms in \<open>simp add: OnInputMethodNewPopup_def\<close>)

lemma OnInputMethodDestroy_ok: "relay_ok r \<Longrightarrow> relay_ok (OnInputMethodDestroy r)"
  by (auto simp: OnInputMethodDestroy_def relay_ok_def base_ok_def active_ok_def im_ok_def popups_ok_def settled_def)

lemma OnNewInputMethod_ok:
  assumes "relay_ok r"
  shows "relay_ok (OnNewInputMethod e client seat r)"
proof (cases "seat \<noteq> rl_seat r \<or> rl_im r \<noteq> None")
  case False
  then have "base_ok {} (r\<lparr>rl_im := Some (new_input_method client)\<rparr>)"
    using relay_okD(1) [OF assms]
    by (auto simp: base_ok_def active_ok_def im_ok_def popups_ok_def new_input_method_def)
  then have "relay_ok (UpdateFocus e (rl_focused r) (r\<lparr>rl_im := Some (new_input_method client)\<rparr>))"
    by (rule UpdateFocus_ok)
  then have "relay_ok ((UpdateFocus e (rl_focused r) (r\<lparr>rl_im := Some (new_input_method client)\<rparr>))\<lparr>rl_pending := None\<rparr>)"
    by (auto simp: relay_ok_def base_ok_def active_ok_def im_ok_def popups_ok_def settled_def)
  with False show ?thesis
    by (auto simp: OnNewInputMethod_def Let_def intro: Activate_relay_ok split: option.split)
qed (use assms in \<open>auto simp: OnNewInputMethod_def\<close>)

section \<open>Steps\<close>

text \<open>Everything that can happen to the relay while the input method, if there is one, stays.\<close>

inductive relay_step :: "im_env \<Rightarrow> relay \<Rightarrow> relay \<Rightarrow> bool" for e where
  FocusChange: "relay_step e r (OnKeyboardFocusChange e s r)"
| NewInputMethod: "relay_step e r (OnNewInputMethod e client seat r)"
| NewV1: "i \<notin> ti_id ` set (rl_inputs r) \<Longrightarrow> relay_step e r (CreateTextInput e client i r)"
| NewV2: "i \<notin> ti_id ` set (rl_inputs r) \<Longrightarrow> relay_step e r (GetTextInput e client seat i r)"
| NewV3: "i \<notin> ti_id ` set (rl_inputs r) \<Longrightarrow> relay_step e r (OnNewTextInputV3 e client seat i r)"
| V1Activate: "relay_step e r (v1_Activate e client sopt surface i r)"
| V1Deactivate: "relay_step e r (v1_Deactivate e sopt i r)"
| V1Reset: "relay_step e r (v1_Reset i r)"
| V1Surrounding: "relay_step e r (v1_SetSurroundingText text c a i r)"
| V1Content: "relay_step e r (v1_SetContentType hint purpose i r)"
| V1Rectangle: "relay_step e r (v1_SetCursorRectangle box i r)"
| V1Commit: "relay_step e r (v1_CommitState e serial i r)"
| V1Resource: "relay_step e r (v1_OnResourceDestroy e i r)"
| V1Seat: "relay_step e r (v1_OnSeatDestroy e i r)"
| V1Surface: "relay_step e r (v1_OnSurfaceDestroy e i r)"
| V2Enable: "relay_step e r (v2_Enable e client surface i r)"
| V2Disable: "relay_step e r (v2_Disable e surface i r)"
| V2Surrounding: "relay_step e r (v2_SetSurroundingText text c2 a2 i r)"
| V2Content: "relay_step e r (v2_SetContentType hint purpose i r)"
| V2Rectangle: "relay_step e r (v2_SetCursorRectangle box i r)"
| V2Update: "relay_step e r (v2_UpdateState e serial i r)"
| V2Resource: "relay_step e r (v2_OnResourceDestroy e i r)"
| V2Seat: "relay_step e r (v2_OnSeatDestroy e i r)"
| V2Surface: "relay_step e r (v2_OnSurfaceDestroy i r)"
| V3Enable: "relay_step e r (v3_request text_input_enable i r)"
| V3Disable: "relay_step e r (v3_request text_input_disable i r)"
| V3Surrounding: "relay_step e r (v3_request (text_input_set_surrounding_text txt c a) i r)"
| V3Cause: "relay_step e r (v3_request (text_input_set_text_change_cause cause) i r)"
| V3Content: "relay_step e r (v3_request (text_input_set_content_type hint purpose) i r)"
| V3Rectangle: "relay_step e r (v3_request (text_input_set_cursor_rectangle box) i r)"
| V3Commit: "relay_step e r (v3_commit e i r)"
| V3Surface: "relay_step e r (v3_request text_input_clear_focused_surface i r)"
| V3Destroy: "relay_step e r (v3_OnDestroy e i r)"
| CommitString: "relay_step e r (im_commit_string txt r)"
| PreeditString: "relay_step e r (im_set_preedit_string txt b en r)"
| DeleteText: "relay_step e r (im_delete_surrounding_text x y r)"
| Commit: "relay_step e r (im_commit serial r)"
| Grab: "relay_step e r (im_grab_keyboard keyboard r)"
| GrabDestroyed: "relay_step e r (im_grab_destroyed r)"
| NewPopup: "i \<notin> pp_id ` set (rl_popups r) \<Longrightarrow> relay_step e r (OnInputMethodNewPopup e i buf w h r)"
| PopupCommit: "relay_step e r (popup_committed e buf w h i r)"
| PopupDestroy: "relay_step e r (RemovePopup i r)"

inductive relay_reachable :: "im_env \<Rightarrow> relay \<Rightarrow> bool" for e where
  Start: "relay_reachable e (new_relay seat focused)"
| Step: "relay_reachable e r \<Longrightarrow> relay_step e r r' \<Longrightarrow> relay_reachable e r'"
| InputMethodGone: "relay_reachable e r \<Longrightarrow> relay_reachable e (OnInputMethodDestroy r)"

lemma relay_step_ok: "relay_step e r r' \<Longrightarrow> relay_ok r \<Longrightarrow> relay_ok r'"
proof (induction rule: relay_step.induct)
  case (FocusChange r s)
  then show ?case by (simp add: OnKeyboardFocusChange_def UpdateFocus_ok relay_okD)
next
  case (NewV1 i r client)
  then show ?case by (auto simp: CreateTextInput_def new_TextInput_def ti_ok_def intro!: AddTextInput_ok)
next
  case (NewV2 i r client seat)
  then show ?case by (auto simp: GetTextInput_def new_TextInput_def ti_ok_def intro!: AddTextInput_ok)
next
  case (NewV3 i r client seat)
  then show ?case
    by (auto simp: OnNewTextInputV3_def new_TextInput_def ti_ok_def new_v3_def intro!: AddTextInput_ok)
next
  case (V1Activate r client sopt surface i)
  have "relay_ok (upd_ti i (on_v1 (\<lambda>l. l\<lparr>lg_seat := a, lg_surface := b, lg_enabled := True\<rparr>)) r)" for a b
    using V1Activate by (rule v1_setter_ok) simp
  then show ?case using V1Activate
    by (auto simp: v1_Activate_def intro!: HandleEnable_ok relay_okD(1) split: option.split)
next
  case (V1Deactivate r sopt i)
  then show ?case
    by (auto simp: v1_Deactivate_def intro!: v1_setter_ok v1_disable_ok split: option.split)
next
  case (V2Enable r client surface i)
  have "relay_ok (upd_ti i (on_v2 (\<lambda>l. l\<lparr>lg_surface := b, lg_enabled := True\<rparr>)) r)" for b
    using V2Enable by (rule v2_setter_ok) simp
  then show ?case using V2Enable
    by (auto simp: v2_Enable_def intro!: HandleEnable_ok relay_okD(1) split: option.split)
next
  case (V2Disable r surface i)
  then show ?case
    by (auto simp: v2_Disable_def intro!: v2_setter_ok v2_disable_ok split: option.split)
next
  case (V2Update r serial i)
  then show ?case by (auto simp: v2_UpdateState_def intro!: v2_setter_ok HandleCommit_ok)
next
  case (Grab r keyboard)
  then show ?case by (auto simp: im_grab_keyboard_def im_send_def intro!: upd_im_ok split: if_splits)
next
  case (V1Commit r serial i)
  then show ?case by (auto simp: v1_CommitState_def intro!: v1_setter_ok HandleCommit_ok)
qed (auto simp: v1_Reset_def v1_SetSurroundingText_def v1_SetContentType_def v1_SetCursorRectangle_def
      v1_OnResourceDestroy_def v1_OnSeatDestroy_def v1_OnSurfaceDestroy_def v2_SetSurroundingText_def
      v2_SetContentType_def v2_SetCursorRectangle_def v2_OnResourceDestroy_def v2_OnSeatDestroy_def
      v2_OnSurfaceDestroy_def v3_request_def v3_OnDestroy_def im_commit_string_def
      im_set_preedit_string_def im_delete_surrounding_text_def im_grab_keyboard_def im_grab_destroyed_def
      text_input_enable_def text_input_disable_def text_input_set_surrounding_text_def
      text_input_set_text_change_cause_def text_input_set_content_type_def
      text_input_set_cursor_rectangle_def text_input_clear_focused_surface_def im_send_def
    intro!: v1_setter_ok v2_setter_ok v3_setter_ok v1_destroy_ok v2_destroy_ok v3_destroy_ok v3_commit_ok
      upd_im_ok im_commit_ok NewPopup_ok popup_committed_ok RemovePopup_ok OnNewInputMethod_ok)

lemma relay_reachable_ok: "relay_reachable e r \<Longrightarrow> relay_ok r"
proof (induction rule: relay_reachable.induct)
  case (Start seat focused)
  then show ?case
    by (simp add: new_relay_def relay_ok_def base_ok_def active_ok_def im_ok_def popups_ok_def settled_def)
qed (auto intro: relay_step_ok OnInputMethodDestroy_ok)

end
