(* ===== verification/Input_Method_Safety.thy ===== *)
theory Input_Method_Safety
  imports Input_Method_Laws
begin

text \<open>
  What the invariant of the input method relay means for clients, and why text composed for one
  endpoint never reaches another: every change of the active endpoint is followed by a \<open>done\<close> event,
  which makes the commits that the input method prepared before out of date.
\<close>

section \<open>Counting done events\<close>

definition dones :: "input_method \<Rightarrow> nat" where
  "dones im = length (filter (\<lambda>x. x = ImDone) (im_sent im))"

text \<open>From \<open>r\<close> to \<open>r'\<close> the input method stays, its serial counts the \<open>done\<close> events, and without one the
  active endpoint is the same.\<close>

definition ticks :: "relay \<Rightarrow> relay \<Rightarrow> bool" where
  "ticks r r' = (\<forall>m. rl_im r = Some m \<longrightarrow> (\<exists>m'. rl_im r' = Some m' \<and> dones m \<le> dones m' \<and>
     im_serial m' = im_serial m + of_nat (dones m' - dones m) \<and>
     (dones m' = dones m \<longrightarrow> rl_active r' = rl_active r)))"

lemma ticks_refl [simp]: "ticks r r"
  by (simp add: ticks_def)

lemma ticks_trans:
  assumes "ticks r1 r2" "ticks r2 r3"
  shows "ticks r1 r3"
  unfolding ticks_def
proof (intro allI impI)
  fix m assume "rl_im r1 = Some m"
  then obtain m2 where 2: "rl_im r2 = Some m2" "dones m \<le> dones m2"
    "im_serial m2 = im_serial m + of_nat (dones m2 - dones m)" "dones m2 = dones m \<longrightarrow> rl_active r2 = rl_active r1"
    using assms(1) by (auto simp: ticks_def)
  then obtain m3 where 3: "rl_im r3 = Some m3" "dones m2 \<le> dones m3"
    "im_serial m3 = im_serial m2 + of_nat (dones m3 - dones m2)" "dones m3 = dones m2 \<longrightarrow> rl_active r3 = rl_active r2"
    using assms(2) by (auto simp: ticks_def)
  have "dones m3 - dones m = (dones m2 - dones m) + (dones m3 - dones m2)" using 2(2) 3(2) by simp
  then have "im_serial m3 = im_serial m + of_nat (dones m3 - dones m)"
    unfolding 3(3) 2(3) by (simp only: of_nat_add add.assoc)
  with 2 3 show "\<exists>m'. rl_im r3 = Some m' \<and> dones m \<le> dones m' \<and>
      im_serial m' = im_serial m + of_nat (dones m' - dones m) \<and> (dones m' = dones m \<longrightarrow> rl_active r3 = rl_active r1)"
    by auto
qed

lemma ticks_same: "rl_im r' = rl_im r \<Longrightarrow> rl_active r' = rl_active r \<Longrightarrow> ticks r r'"
  by (simp add: ticks_def)

lemma ticks_upd_im:
  "(\<And>m. dones (f m) = dones m) \<Longrightarrow> (\<And>m. im_serial (f m) = im_serial m) \<Longrightarrow> ticks r (upd_im f r)"
  by (simp add: ticks_def)

lemma ticks_upd_ti [simp]: "ticks r (upd_ti i f r)"
  by (rule ticks_same) simp_all

lemma ticks_popups: "but_popups r' = but_popups r \<Longrightarrow> ticks r r'"
  by (rule ticks_same) (auto dest: but_popupsD)

text \<open>Sending a state counts, whatever happened to the active endpoint before.\<close>

lemma ticks_told:
  assumes "rl_im r' = map_option (\<lambda>m. told evs (f m)) (rl_im r)" "\<And>m. dones (f m) = dones m"
    "\<And>m. im_serial (f m) = im_serial m" "ImDone \<notin> set evs"
  shows "ticks r r'"
proof -
  have "filter (\<lambda>x. x = ImDone) evs = []" using assms(4) by (auto simp: filter_empty_conv)
  then have "dones (told evs (f m)) = Suc (dones m)" for m
    using assms(2) [of m] by (simp add: dones_def told_def)
  then show ?thesis using assms(1,3) by (auto simp: ticks_def told_def)
qed

lemma state_events_no_done: "ImDone \<notin> set (state_events s)"
  by (auto simp: state_events_def)

section \<open>Every operation counts\<close>

lemma SendState_ticks:
  assumes "base_ok ex r"
  shows "ticks r (SendState e i r)"
proof (cases "find_ti r i")
  case (Some t)
  show ?thesis
    by (rule ticks_told [where f = "\<lambda>m. m"]) (auto simp: SendState_im [OF Some] state_events_no_done option.map_ident)
qed (simp add: SendState_def split: option.split)

lemma Deactivate_ticks:
  assumes "base_ok ex r"
  shows "ticks r (relay_Deactivate e i r)"
proof (cases "rl_active r = Some i")
  case True
  obtain t im where t: "find_ti r i = Some t" "rl_im r = Some im" by (rule active_found [OF assms True])
  let ?r = "upd_im (\<lambda>im. im_send [ImDeactivate] (im\<lparr>im_active := False\<rparr>)) r"
  have "rl_im (SendState e i ?r) = map_option (told (state_events (CurrentState t))) (rl_im ?r)"
    by (rule SendState_im) (simp add: t)
  with t True have "rl_im (relay_Deactivate e i r) =
      map_option (\<lambda>m. told (state_events (CurrentState t)) (im_send [ImDeactivate] (m\<lparr>im_active := False\<rparr>))) (rl_im r)"
    by (simp add: relay_Deactivate_def Let_def)
  then show ?thesis
    by (rule ticks_told) (simp_all add: state_events_no_done dones_def im_send_def)
next
  case False
  then show ?thesis by (simp add: relay_Deactivate_def)
qed

lemma Activate_ticks:
  assumes "base_ok {} r"
  shows "ticks r (relay_Activate e i r)"
proof (cases "find_ti r i")
  case (Some t)
  define r1 where "r1 = (case rl_active r of
      Some a \<Rightarrow> if a \<noteq> i then relay_Deactivate e a r else r | None \<Rightarrow> r)"
  define r2 where "r2 = upd_im (\<lambda>im. im_send [ImActivate] (im\<lparr>im_active := True\<rparr>))
      (r1\<lparr>rl_active := Some i, rl_pending := None\<rparr>)"
  have r1: "ticks r r1" using Deactivate_ticks [OF assms] by (simp add: r1_def split: option.split)
  have "rl_inputs r1 = rl_inputs r" by (simp add: r1_def split: option.split)
  then have "find_ti r2 i = Some t" using Some by (simp add: r2_def find_ti_def)
  from SendState_im [OF this] have "rl_im (SendState e i r2) =
      map_option (\<lambda>m. told (state_events (CurrentState t)) (im_send [ImActivate] (m\<lparr>im_active := True\<rparr>))) (rl_im r1)"
    by (simp add: r2_def option.map_comp comp_def)
  then have "ticks r1 (SendState e i r2)"
    by (rule ticks_told) (simp_all add: state_events_no_done dones_def im_send_def)
  with r1 have "ticks r (SendState e i r2)" by (rule ticks_trans)
  moreover have "ticks r (r\<lparr>rl_pending := Some i\<rparr>)" by (rule ticks_same) simp_all
  ultimately show ?thesis using Some by (auto simp: relay_Activate_def r1_def r2_def Let_def)
qed (simp add: relay_Activate_def)

lemma leave_step_ticks: "base_ok {} r \<Longrightarrow> ticks r (leave_step e s i r)"
  by (auto simp: leave_step_def Let_def intro: ticks_trans [OF Deactivate_ticks ticks_upd_ti] split: option.split)

lemma leave_loop_ticks: "base_ok {} r \<Longrightarrow> ticks r (fold (leave_step e s) xs r)"
proof (induction xs arbitrary: r)
  case (Cons i xs)
  have "base_ok {} (leave_step e s i r)" using leave_step_ok [OF Cons.prems, of "{}" s e i] by (simp add: settled_def)
  from Cons.IH [OF this] leave_step_ticks [OF Cons.prems] show ?case by (auto intro: ticks_trans)
qed simp

lemma enter_loop_ticks: "ticks (snd cr) (snd (fold (enter_step e s) xs cr))"
proof (induction xs arbitrary: cr)
  case (Cons i xs)
  have "ticks (snd cr) (snd (enter_step e s i cr))"
    by (auto simp: enter_step_def split_beta Let_def split: option.split)
  from ticks_trans [OF this Cons] show ?case by simp
qed simp

lemma UpdatePopups_ticks: "ticks r (UpdatePopups e r)"
  by (rule ticks_popups) simp

lemma UpdateFocus_ticks:
  assumes "base_ok {} r"
  shows "ticks r (UpdateFocus e s r)"
proof -
  define r0 where "r0 = r\<lparr>rl_focused := s\<rparr>"
  define r1 where "r1 = fold (leave_step e s) (map ti_id (rl_inputs r0)) r0"
  define cr where "cr = fold (enter_step e s) (map ti_id (rl_inputs r1)) (None, r1)"
  define r3 where "r3 = (case fst cr of
      Some i \<Rightarrow> if s \<noteq> None \<and> fst cr \<noteq> rl_active (snd cr) then relay_Activate e i (snd cr) else snd cr
    | None \<Rightarrow> snd cr)"
  have eq: "UpdateFocus e s r = UpdatePopups e r3"
    unfolding UpdateFocus_def r0_def r1_def r3_def cr_def Let_def by (simp only: split_beta fst_conv snd_conv)
  have r0: "base_ok {} r0" using assms by (simp add: r0_def base_ok_def active_ok_def im_ok_def popups_ok_def)
  have r1: "base_ok {} r1" "settled UNIV s r1"
    using leave_loop_settled [OF r0] by (simp_all add: r1_def)
  then have cr: "base_ok {} (snd cr)" using enter_loop_ok [of "(None, r1)" s e] by (simp add: cr_def)
  have "ticks r r0" by (rule ticks_same) (simp_all add: r0_def)
  moreover have "ticks r0 r1" unfolding r1_def by (rule leave_loop_ticks [OF r0])
  moreover have "ticks r1 (snd cr)" using enter_loop_ticks [of "(None, r1)"] by (simp add: cr_def)
  moreover have "ticks (snd cr) r3" using Activate_ticks [OF cr] by (simp add: r3_def split: option.split)
  moreover have "ticks r3 (UpdatePopups e r3)" by (rule UpdatePopups_ticks)
  ultimately show ?thesis unfolding eq by (meson ticks_trans)
qed

text \<open>The handlers, after a step that already counts.\<close>

lemma HandleEnable_ticks:
  assumes "ticks r0 r" "base_ok {} r"
  shows "ticks r0 (HandleEnable e i r)"
proof -
  define r1 where "r1 = UpdateFocus e (rl_focused r) r"
  have "ticks r r1" unfolding r1_def by (rule UpdateFocus_ticks [OF assms(2)])
  moreover have "base_ok {} r1" unfolding r1_def using UpdateFocus_ok(1) [OF assms(2)] by (rule relay_okD)
  then have "ticks r1 (HandleEnable e i r)"
    by (simp add: HandleEnable_def r1_def [symmetric] Let_def Activate_ticks split: option.split)
  ultimately show ?thesis using assms(1) by (meson ticks_trans)
qed

lemma HandleCommit_ticks:
  assumes "ticks r0 r" "base_ok ex r"
  shows "ticks r0 (HandleCommit e i r)"
proof -
  have "ticks r (SendState e i r)" by (rule SendState_ticks [OF assms(2)])
  then have "ticks r (UpdatePopups e (SendState e i r))" by (rule ticks_trans) (rule UpdatePopups_ticks)
  then have "ticks r (HandleCommit e i r)" by (simp add: HandleCommit_def UpdatePopups_ticks split: option.split)
  with assms(1) show ?thesis by (rule ticks_trans)
qed

lemma HandleDisable_ticks: "ticks r0 r \<Longrightarrow> base_ok {i} r \<Longrightarrow> ticks r0 (HandleDisable e i r)"
proof -
  assume t: "ticks r0 r" and r: "base_ok {i} r"
  define r1 where "r1 = (if rl_pending r = Some i then r\<lparr>rl_pending := None\<rparr> else r)"
  have r1: "base_ok {i} r1" using r by (auto simp: r1_def base_ok_def active_ok_def im_ok_def popups_ok_def)
  have "ticks r r1" by (rule ticks_same) (simp_all add: r1_def)
  moreover have "ticks r1 (HandleDisable e i r)"
    using Deactivate_ticks [OF r1] by (simp add: HandleDisable_def r1_def Let_def)
  ultimately show ?thesis using t by (meson ticks_trans)
qed

lemma HandleDestroy_ticks: "ticks r0 r \<Longrightarrow> base_ok {i} r \<Longrightarrow> ticks r0 (HandleDestroy e i r)"
  using HandleDisable_ticks [of r0 r i e] ticks_same [of "HandleDestroy e i r" "HandleDisable e i r"]
  by (auto simp: HandleDestroy_def Let_def intro: ticks_trans)

lemma setters_tick:
  "ticks r (v1_Reset i r)" "ticks r (v1_SetSurroundingText text c a i r)" "ticks r (v1_SetContentType hint purpose i r)"
  "ticks r (v1_SetCursorRectangle box i r)" "ticks r (v2_SetSurroundingText text c2 a2 i r)"
  "ticks r (v2_SetContentType hint purpose i r)" "ticks r (v2_SetCursorRectangle box i r)"
  "ticks r (v2_OnSurfaceDestroy i r)" "ticks r (v3_request g i r)"
  by (simp_all add: v1_Reset_def v1_SetSurroundingText_def v1_SetContentType_def v1_SetCursorRectangle_def
      v2_SetSurroundingText_def v2_SetContentType_def v2_SetCursorRectangle_def v2_OnSurfaceDestroy_def v3_request_def)

lemma im_requests_tick:
  "ticks r (im_commit_string txt r)" "ticks r (im_set_preedit_string txt b en r)"
  "ticks r (im_delete_surrounding_text x y r)" "ticks r (im_grab_destroyed r)" "ticks r (im_grab_keyboard k r)"
  by (auto simp: im_commit_string_def im_set_preedit_string_def im_delete_surrounding_text_def
      im_grab_destroyed_def im_grab_keyboard_def dones_def im_send_def intro!: ticks_upd_im split: option.split)

lemma im_commit_ticks: "ticks r (im_commit serial r)"
proof -
  have 1: "ticks r (upd_im (\<lambda>im. im\<lparr>im_pending := im_state_reset\<rparr>) r)"
    and 2: "ticks r (upd_im (\<lambda>im. im\<lparr>im_current := im_pending im, im_pending := im_state_reset\<rparr>) r)"
    by (rule ticks_upd_im; simp add: dones_def)+
  have "ticks r' (OnInputMethodCommit r')" for r' by (simp add: OnInputMethodCommit_def split: option.split)
  with 1 2 show ?thesis by (auto simp: im_commit_def intro: ticks_trans split: option.split)
qed

text \<open>Disabling and destroying after a change to the endpoint.\<close>

lemma v_disable_ticks:
  "relay_ok r \<Longrightarrow> ticks r (HandleDisable e i (upd_ti i (on_v1 f) r))"
  "relay_ok r \<Longrightarrow> ticks r (HandleDisable e i (upd_ti i (on_v2 f) r))"
  "relay_ok r \<Longrightarrow> ticks r (HandleDestroy e i (upd_ti i (on_v1 f) r))"
  "relay_ok r \<Longrightarrow> ticks r (HandleDestroy e i (upd_ti i (on_v2 f) r))"
  "relay_ok r \<Longrightarrow> ticks r (HandleDestroy e i (upd_ti i (\<lambda>t. t\<lparr>ti_impl := V3 None\<rparr>) r))"
proof -
  assume r: "relay_ok r"
  have 1: "base_ok {i} (upd_ti i (on_v1 f) r)" "base_ok {i} (upd_ti i (on_v2 f) r)"
    by (rule upd_ti_relay_ok [OF r]; simp add: on_v1_ok on_v2_ok)+
  have 2: "base_ok {i} (upd_ti i (\<lambda>t. t\<lparr>ti_impl := V3 None\<rparr>) r)"
    by (rule upd_ti_relay_ok [OF r]) (simp_all add: ti_ok_def)
  show "ticks r (HandleDisable e i (upd_ti i (on_v1 f) r))" "ticks r (HandleDisable e i (upd_ti i (on_v2 f) r))"
    "ticks r (HandleDestroy e i (upd_ti i (on_v1 f) r))" "ticks r (HandleDestroy e i (upd_ti i (on_v2 f) r))"
    "ticks r (HandleDestroy e i (upd_ti i (\<lambda>t. t\<lparr>ti_impl := V3 None\<rparr>) r))"
    using 1 2 by (simp_all add: HandleDisable_ticks HandleDestroy_ticks)
qed

lemma v_enable_ticks:
  "relay_ok r \<Longrightarrow> (\<And>l. lg_enabled l \<Longrightarrow> lg_enabled (f l)) \<Longrightarrow> ticks r (HandleEnable e i (upd_ti i (on_v1 f) r))"
  "relay_ok r \<Longrightarrow> (\<And>l. lg_enabled l \<Longrightarrow> lg_enabled (f l)) \<Longrightarrow> ticks r (HandleEnable e i (upd_ti i (on_v2 f) r))"
  "relay_ok r \<Longrightarrow> (\<And>l. lg_enabled l \<Longrightarrow> lg_enabled (f l)) \<Longrightarrow> ticks r (HandleCommit e i (upd_ti i (on_v1 f) r))"
  "relay_ok r \<Longrightarrow> (\<And>l. lg_enabled l \<Longrightarrow> lg_enabled (f l)) \<Longrightarrow> ticks r (HandleCommit e i (upd_ti i (on_v2 f) r))"
  by (blast intro: HandleEnable_ticks HandleCommit_ticks ticks_upd_ti relay_okD(1) v1_setter_ok v2_setter_ok)+

lemma v3_commit_ticks:
  assumes "relay_ok r"
  shows "ticks r (v3_commit e i r)"
proof (cases "v3_of r i")
  case (Some h)
  note ok = v3_commit_base [OF assms Some]
  show ?thesis
    using Some ok HandleEnable_ticks HandleDisable_ticks HandleCommit_ticks
    by (cases "snd (text_input_commit h)") (auto simp: v3_commit_def)
qed (simp add: v3_commit_def)

lemma relay_step_ticks: "relay_step e r r' \<Longrightarrow> relay_ok r \<Longrightarrow> ticks r r'"
proof (induction rule: relay_step.induct)
  case (FocusChange r s)
  then show ?case by (simp add: OnKeyboardFocusChange_def UpdateFocus_ticks relay_okD)
next
  case (NewInputMethod r client seat)
  then show ?case by (cases "rl_im r") (simp_all add: ticks_def OnNewInputMethod_def)
next
  case (V1Activate r client sopt surface i)
  then show ?case by (auto simp: v1_Activate_def intro!: v_enable_ticks split: option.split)
next
  case (V1Deactivate r sopt i)
  then show ?case
    by (auto simp: v1_Deactivate_def intro!: ticks_trans [OF v_disable_ticks(1) ticks_upd_ti] split: option.split)
next
  case (V2Enable r client surface i)
  then show ?case by (auto simp: v2_Enable_def intro!: v_enable_ticks split: option.split)
next
  case (V2Disable r surface i)
  then show ?case
    by (auto simp: v2_Disable_def intro!: ticks_trans [OF v_disable_ticks(2) ticks_upd_ti] split: option.split)
next
  case (V2Update r serial i)
  then show ?case by (auto simp: v2_UpdateState_def intro!: ticks_trans [OF v_enable_ticks(4) ticks_upd_ti])
next
  case (V1Commit r serial i)
  then show ?case by (auto simp: v1_CommitState_def intro!: v_enable_ticks)
next
  case (NewPopup i r buf w h)
  then show ?case
    by (cases "rl_im r")
      (auto simp: OnInputMethodNewPopup_def Let_def but_popups_def [of "rl_popups_update _ _"] but_popups_def [of r]
        intro!: ticks_popups)
next
  case (PopupCommit r buf w h i)
  then show ?case by (auto simp: popup_committed_def intro!: ticks_popups)
next
  case (PopupDestroy r i)
  then show ?case by (auto simp: RemovePopup_def but_popups_def intro!: ticks_popups)
next
  case (NewV1 i r client)
  show ?case by (rule ticks_same) (simp_all add: CreateTextInput_def AddTextInput_def Let_def)
next
  case (NewV2 i r client seat)
  show ?case by (rule ticks_same) (simp_all add: GetTextInput_def AddTextInput_def Let_def)
next
  case (NewV3 i r client seat)
  show ?case by (rule ticks_same) (simp_all add: OnNewTextInputV3_def AddTextInput_def Let_def)
qed (auto simp: setters_tick im_requests_tick im_commit_ticks v_disable_ticks v3_commit_ticks
      v1_OnResourceDestroy_def v1_OnSeatDestroy_def v1_OnSurfaceDestroy_def v2_OnResourceDestroy_def
      v2_OnSeatDestroy_def v3_OnDestroy_def)

lemma relay_steps_ticks:
  assumes "(relay_step e)\<^sup>*\<^sup>* r r'" "relay_ok r"
  shows "ticks r r' \<and> relay_ok r'"
  using assms(1)
proof (induction rule: rtranclp_induct)
  case (step r1 r2)
  then show ?case using relay_step_ok relay_step_ticks ticks_trans by blast
qed (simp add: assms(2))

section \<open>The relay as its clients see it\<close>

text \<open>Surface \<open>n\<close> belongs to client \<open>n\<close> and is shown at (100, 50) on an output of 800 by 600.\<close>

definition sample_env :: im_env where
  "sample_env = \<lparr>ie_client = (\<lambda>s. s), ie_position = (\<lambda>_. Some (100, 50)),
     ie_layout = \<lparr>lo_outputs = [\<lparr>lo_output = 0, lo_x = 0, lo_y = 0, lo_auto_configured = False\<rparr>],
                  output_state = (\<lambda>_. \<lparr>wo_width = 800, wo_height = 600, wo_scale = 1,
                                         wo_transform = TRANSFORM_NORMAL, wo_enabled = True, wo_refresh = 60000\<rparr>)\<rparr>\<rparr>"

text \<open>An input method, two clients with an endpoint each; the first is focused and enabled, then the
  second.\<close>

definition relay_start :: relay where
  "relay_start = OnNewTextInputV3 sample_env 2 0 12 (OnNewTextInputV3 sample_env 1 0 11
     (OnNewInputMethod sample_env 9 0 (new_relay 0 None)))"

definition relay_first :: relay where
  "relay_first = v3_commit sample_env 11 (v3_request text_input_enable 11
     (OnKeyboardFocusChange sample_env (Some 1) relay_start))"

definition relay_second :: relay where
  "relay_second = v3_commit sample_env 12 (v3_request text_input_enable 12
     (OnKeyboardFocusChange sample_env (Some 2) relay_first))"

lemma relay_first_reachable: "relay_reachable sample_env relay_first"
proof -
  have start: "relay_reachable sample_env (OnNewInputMethod sample_env 9 0 (new_relay 0 None))"
    by (rule relay_reachable.Step [OF relay_reachable.Start relay_step.NewInputMethod])
  have "map ti_id (rl_inputs (OnNewInputMethod sample_env 9 0 (new_relay 0 None))) = []" by code_simp
  then have one: "relay_reachable sample_env (OnNewTextInputV3 sample_env 1 0 11
      (OnNewInputMethod sample_env 9 0 (new_relay 0 None)))"
    by (intro relay_reachable.Step [OF start relay_step.NewV3]) simp
  have "map ti_id (rl_inputs (OnNewTextInputV3 sample_env 1 0 11
      (OnNewInputMethod sample_env 9 0 (new_relay 0 None)))) = [11]" by code_simp
  then have "12 \<notin> ti_id ` set (rl_inputs (OnNewTextInputV3 sample_env 1 0 11
      (OnNewInputMethod sample_env 9 0 (new_relay 0 None))))" by (simp flip: set_map)
  then have "relay_reachable sample_env relay_start"
    unfolding relay_start_def by (rule relay_reachable.Step [OF one relay_step.NewV3])
  then show ?thesis unfolding relay_first_def
    by (intro relay_reachable.Step [OF _ relay_step.V3Commit] relay_reachable.Step [OF _ relay_step.V3Enable]
        relay_reachable.Step [OF _ relay_step.FocusChange])
qed

lemma relay_second_steps: "(relay_step sample_env)\<^sup>*\<^sup>* relay_first relay_second"
  unfolding relay_second_def
  by (rule rtranclp.rtrancl_into_rtrancl, rule rtranclp.rtrancl_into_rtrancl, rule r_into_rtranclp)
    (rule relay_step.intros)+

text \<open>C5: In every state of the input method relay the active text input is an enabled one that was
  entered on the focused surface, endpoints are entered on the focused surface only, the input method
  knows that it is active exactly while there is an active text input, candidate popups are shown only
  then, and no assertion of wlroots about enter and leave ever fails.\<close>

theorem relay_consistent:
  assumes "relay_reachable e r"
  shows "(\<forall>i. rl_active r = Some i \<longrightarrow> (\<exists>t. find_ti r i = Some t \<and> Enabled t \<and>
       ti_relay_surface t = rl_focused r \<and> rl_focused r \<noteq> None)) \<and>
    (\<forall>t\<in>set (rl_inputs r). (ti_relay_surface t = None \<or> ti_relay_surface t = rl_focused r) \<and>
       EvAbort \<notin> set (ti_sent t)) \<and>
    (\<forall>i. rl_pending r = Some i \<longrightarrow> find_ti r i \<noteq> None) \<and>
    (\<forall>im. rl_im r = Some im \<longrightarrow> im_client_active im = (rl_active r \<noteq> None)) \<and>
    (\<forall>p\<in>set (rl_popups r). pp_enabled p \<longrightarrow> rl_active r \<noteq> None)"
proof -
  note ok = relay_reachable_ok [OF assms]
  note base = base_okD [OF relay_okD(1) [OF ok]]
  have settled: "ti_relay_surface t = None \<or> ti_relay_surface t = rl_focused r" if "t \<in> set (rl_inputs r)" for t
    using relay_okD(2) [OF ok] that by (simp add: settled_def)
  have uniq: "t = u" if "t \<in> set (rl_inputs r)" "u \<in> set (rl_inputs r)" "ti_id t = ti_id u" for t u
    using base(1) that by (auto simp: distinct_map dest: inj_onD)
  have active: "\<exists>t. find_ti r i = Some t \<and> Enabled t \<and> ti_relay_surface t = rl_focused r \<and> rl_focused r \<noteq> None"
    if a: "rl_active r = Some i" for i
  proof -
    obtain t where t: "t \<in> set (rl_inputs r)" "ti_id t = i" "Enabled t" "ti_relay_surface t \<noteq> None"
      using base(3) a unfolding active_ok_def by blast
    moreover have "find_ti r i = Some t"
      unfolding find_ti_def using t(1,2) uniq by (intro find_unique) auto
    ultimately show ?thesis using settled [of t] by auto
  qed
  have pending: "find_ti r i \<noteq> None" if "rl_pending r = Some i" for i
    using base(6) [OF that] find_ti_None [of r i] by (cases "find_ti r i") auto
  have abort: "EvAbort \<notin> set (ti_sent t)" if "t \<in> set (rl_inputs r)" for t
    using base(2) that by (simp add: list_all_iff ti_ok_def)
  show ?thesis
    using active pending settled abort base(4,5) by (simp add: im_ok_def popups_ok_def)
qed

theorem relay_consistent_witness:
  "rl_active relay_first = Some 11 \<and>
   (\<exists>t. find_ti relay_first 11 = Some t \<and> Enabled t \<and> ti_relay_surface t = rl_focused relay_first \<and>
     rl_focused relay_first \<noteq> None)"
proof
  show a: "rl_active relay_first = Some 11" by code_simp
  from relay_consistent [OF relay_first_reachable] a
  show "\<exists>t. find_ti relay_first 11 = Some t \<and> Enabled t \<and> ti_relay_surface t = rl_focused relay_first \<and>
     rl_focused relay_first \<noteq> None" by blast
qed

text \<open>C4: Text that the input method composed for one text input never reaches another: when the
  active text input has changed since the input method last synchronised, in whatever way, a commit
  with the serial it knew then is dropped and no client is sent anything.  (Unless there were \<open>2 ^ 32\<close>
  synchronisations in between, after which serials repeat.)\<close>

theorem composed_text_not_misdelivered:
  assumes "relay_reachable e r" "(relay_step e)\<^sup>*\<^sup>* r r'" "rl_im r = Some m" "rl_im r' = Some m'"
    "dones m' < dones m + 2 ^ 32" "rl_active r' \<noteq> rl_active r"
  shows "rl_inputs (im_commit (im_serial m) r') = rl_inputs r'"
proof -
  have "ticks r r'" using relay_steps_ticks [OF assms(2) relay_reachable_ok [OF assms(1)]] by simp
  with assms(3,4,6) have d: "dones m \<le> dones m'" "im_serial m' = im_serial m + of_nat (dones m' - dones m)"
    "dones m' \<noteq> dones m" by (auto simp: ticks_def)
  have "(of_nat k :: 32 word) \<noteq> 0" if "0 < k" "k < 2 ^ 32" for k
    using that by (auto simp: word_of_nat_eq_0_iff dest: nat_dvd_not_less)
  from this [of "dones m' - dones m"] have "(of_nat (dones m' - dones m) :: 32 word) \<noteq> 0"
    using d(1,3) assms(5) by linarith
  with d(2) have "im_serial m \<noteq> im_serial m'" by simp
  with assms(4) show ?thesis by (simp add: im_commit_def)
qed

theorem composed_text_not_misdelivered_witness:
  "rl_active relay_first = Some 11 \<and> rl_active relay_second = Some 12 \<and>
   (\<exists>m. rl_im relay_first = Some m \<and>
     rl_inputs (im_commit (im_serial m) (im_commit_string ''secret'' relay_second)) =
     rl_inputs (im_commit_string ''secret'' relay_second))"
proof -
  define r' where "r' = im_commit_string ''secret'' relay_second"
  have a: "rl_active relay_first = Some 11" "rl_active relay_second = Some 12" "rl_active r' = Some 12"
    unfolding r'_def by code_simp+
  have d: "map_option dones (rl_im relay_first) = Some 2" "map_option dones (rl_im r') = Some 5"
    unfolding r'_def by code_simp+
  then obtain m m' where m: "rl_im relay_first = Some m" "rl_im r' = Some m'" "dones m = 2" "dones m' = 5"
    by auto
  have "(relay_step sample_env)\<^sup>*\<^sup>* relay_first r'"
    unfolding r'_def using relay_second_steps relay_step.CommitString by (rule rtranclp.rtrancl_into_rtrancl)
  from composed_text_not_misdelivered [OF relay_first_reachable this m(1,2)] a m
  have "rl_inputs (im_commit (im_serial m) r') = rl_inputs r'" by simp
  with a m(1) show ?thesis unfolding r'_def by blast
qed

lemma find_popup_upd:
  assumes "find_popup r i = Some p" "\<And>p. pp_id (f p) = pp_id p"
  shows "find_popup (upd_popup i f r) i = Some (f p)"
proof -
  have "find (\<lambda>p. pp_id p = i) (map (\<lambda>p. if pp_id p = i then f p else p) ps) = map_option f (find (\<lambda>p. pp_id p = i) ps)" for ps
    by (induction ps) (auto simp: assms(2))
  with assms(1) show ?thesis by (simp add: find_popup_def upd_popup_def)
qed

lemma popup_position_inside:
  assumes "popup_position b cursor w h = (x, y)" "w \<le> box_width b" "h \<le> box_height b"
    "box_y cursor \<le> box_y b + box_height b"
  shows "box_x b \<le> x \<and> x + w \<le> box_x b + box_width b \<and> box_y b \<le> y \<and> y + h \<le> box_y b + box_height b"
  using assms by (auto simp: popup_position_def Let_def split: if_splits)

text \<open>The output found at a point is not empty and contains it.\<close>

lemma output_at_box:
  assumes "wlr_output_layout_output_at lay x y = Some out" "distinct (map lo_output (lo_outputs lay))"
  shows "wlr_box_contains_point (wlr_output_layout_get_box lay (Some out)) x y"
proof -
  obtain l where l: "find (\<lambda>l. wlr_box_contains_point (output_layout_output_get_box lay l) x y) (lo_outputs lay) = Some l"
    "lo_output l = out" using assms(1) by (auto simp: wlr_output_layout_output_at_def)
  note mem = find_SomeD [OF l(1)]
  have "wlr_output_layout_get lay out = Some l"
    unfolding wlr_output_layout_get_def
    using mem l(2) assms(2) by (intro find_unique) (auto simp: distinct_map dest: inj_onD)
  then show ?thesis using mem by (simp add: wlr_output_layout_get_box_def)
qed

text \<open>C40: A candidate popup that fits on the output of the text cursor is placed wholly on it.\<close>

theorem popup_on_output:
  assumes "find_popup r i = Some p" "pp_mapped p" "popup_cursor e r = Some cursor"
    "wlr_output_layout_output_at (ie_layout e) (of_int (box_x cursor)) (of_int (box_y cursor)) = Some out"
    "distinct (map lo_output (lo_outputs (ie_layout e)))"
    "b = wlr_output_layout_get_box (ie_layout e) (Some out)"
    "pp_width p \<le> box_width b" "pp_height p \<le> box_height b"
  shows "\<exists>q. find_popup (UpdatePopup e i r) i = Some q \<and>
    box_x b \<le> pp_x q \<and> pp_x q + pp_width q \<le> box_x b + box_width b \<and>
    box_y b \<le> pp_y q \<and> pp_y q + pp_height q \<le> box_y b + box_height b"
proof -
  have c: "wlr_box_contains_point b (of_int (box_x cursor)) (of_int (box_y cursor))"
    using output_at_box [OF assms(4,5)] by (simp add: assms(6))
  then have dims: "0 < box_width b" "0 < box_height b" "box_y cursor \<le> box_y b + box_height b"
    by (auto simp: wlr_box_contains_point_def wlr_box_empty_def)
  obtain x y where xy: "popup_position b cursor (pp_width p) (pp_height p) = (x, y)" by (cases "popup_position b cursor (pp_width p) (pp_height p)")
  define f :: "popup \<Rightarrow> popup" where "f = (\<lambda>p. p\<lparr>pp_x := x, pp_y := y, pp_rectangle := Some \<lparr>box_x = box_x cursor - x,
     box_y = box_y cursor - y, box_width = box_width cursor, box_height = box_height cursor\<rparr>\<rparr>)"
  have "UpdatePopup e i r = upd_popup i f r"
    using assms(1-4) dims(1,2) xy by (simp add: UpdatePopup_def Let_def f_def flip: assms(6))
  then have "find_popup (UpdatePopup e i r) i = Some (f p)"
    using find_popup_upd [OF assms(1), of f] by (simp add: f_def)
  then show ?thesis using popup_position_inside [OF xy assms(7,8) dims(3)] by (simp add: f_def)
qed

definition popup_shown :: relay where
  "popup_shown = OnInputMethodNewPopup sample_env 5 True 200 100 relay_first"

theorem popup_on_output_witness:
  "\<exists>q. find_popup (UpdatePopup sample_env 5 popup_shown) 5 = Some q \<and>
     0 \<le> pp_x q \<and> pp_x q + pp_width q \<le> 800 \<and> 0 \<le> pp_y q \<and> pp_y q + pp_height q \<le> 600"
proof -
  have "map_option (\<lambda>p. (pp_mapped p, pp_width p, pp_height p)) (find_popup popup_shown 5) = Some (True, 200, 100)"
    by code_simp
  then obtain p where p: "find_popup popup_shown 5 = Some p" "pp_mapped p" "pp_width p = 200" "pp_height p = 100"
    by auto
  have cursor: "popup_cursor sample_env popup_shown = Some \<lparr>box_x = 100, box_y = 50, box_width = 0, box_height = 0\<rparr>"
    by code_simp
  have layout: "wlr_output_layout_output_at (ie_layout sample_env) 100 50 = Some 0"
    "wlr_output_layout_get_box (ie_layout sample_env) (Some 0) = \<lparr>box_x = 0, box_y = 0, box_width = 800, box_height = 600\<rparr>"
    "distinct (map lo_output (lo_outputs (ie_layout sample_env)))"
    by code_simp+
  show ?thesis using popup_on_output [OF p(1,2) cursor _ layout(3) layout(2) [symmetric]] layout(1) p(3,4) by simp
qed

end
