(* ===== verification/Shake_Cursor.thy ===== *)
theory Shake_Cursor
  imports Flake_Prelude
begin

text \<open>
  The shake-to-find cursor (\<open>src/view/shake_cursor\<close>): the detector over a ring buffer of pointer
  positions, and the stages of the enlarged image.  Times are the 32-bit millisecond counter of
  \<open>NowMsec\<close>, an argument here, as are the pointer position and the image of the cursor theme.
\<close>

section \<open>Data\<close>

datatype Stage = kHidden | kShowing | kShown | kHiding

record Point =
  pt_x :: real
  pt_y :: real
  pt_time :: "32 word"

text \<open>The enlarged image with its hotspot and the regular cursor size.\<close>

record shake_image =
  si_width :: int
  si_height :: int
  si_hotspot_x :: int
  si_hotspot_y :: int
  si_cursor_size :: int

text \<open>\<open>sk_node\<close> is what the scene shows: width, height and position of the image.  \<open>sk_locks\<close> lists the
  calls of \<open>lock_cursor_\<close>, oldest first; \<open>sk_timer\<close> says that the timer is armed.\<close>

record ShakeCursor =
  sk_enabled :: bool
  sk_points :: "Point list"
  sk_head :: nat
  sk_tail :: nat
  sk_count :: nat
  sk_stage :: Stage
  sk_cursor_locked :: bool
  sk_last_shake_time :: "32 word"
  sk_last_motion_time :: "32 word"
  sk_animation_start :: "32 word"
  sk_image :: "shake_image option"
  sk_node :: "(int \<times> int \<times> int \<times> int) option"
  sk_locks :: "bool list"
  sk_timer :: bool

definition kPointCount :: nat where "kPointCount = 64"
definition kInterval :: "32 word" where "kInterval = 500"
definition kDuration :: "32 word" where "kDuration = 150"
definition kMinDiagonal :: real where "kMinDiagonal = 100"
definition kShakeFactor :: real where "kShakeFactor = 4"

definition new_ShakeCursor :: ShakeCursor where
  "new_ShakeCursor = \<lparr>sk_enabled = False,
     sk_points = replicate kPointCount \<lparr>pt_x = 0, pt_y = 0, pt_time = 0\<rparr>, sk_head = 0, sk_tail = 0,
     sk_count = 0, sk_stage = kHidden, sk_cursor_locked = False, sk_last_shake_time = 0,
     sk_last_motion_time = 0, sk_animation_start = 0, sk_image = None, sk_node = None, sk_locks = [],
     sk_timer = False\<rparr>"

section \<open>The ring buffer\<close>

definition point_at :: "nat \<Rightarrow> ShakeCursor \<Rightarrow> Point" where
  "point_at i s = sk_points s ! (i mod kPointCount)"

text \<open>Dropping the oldest point, adding a point, replacing the newest one, forgetting all.\<close>

definition ring_pop :: "ShakeCursor \<Rightarrow> ShakeCursor" where
  "ring_pop s = s\<lparr>sk_head := (sk_head s + 1) mod kPointCount, sk_count := sk_count s - 1\<rparr>"

definition ring_push :: "Point \<Rightarrow> ShakeCursor \<Rightarrow> ShakeCursor" where
  "ring_push p s = s\<lparr>sk_points := (sk_points s)[sk_tail s := p],
     sk_tail := (sk_tail s + 1) mod kPointCount, sk_count := sk_count s + 1\<rparr>"

definition ring_set_last :: "Point \<Rightarrow> ShakeCursor \<Rightarrow> ShakeCursor" where
  "ring_set_last p s = s\<lparr>sk_points := (sk_points s)[(sk_tail s + kPointCount - 1) mod kPointCount := p]\<rparr>"

definition ring_clear :: "ShakeCursor \<Rightarrow> ShakeCursor" where
  "ring_clear s = s\<lparr>sk_head := sk_tail s, sk_count := 0\<rparr>"

section \<open>The detector\<close>

function drop_old :: "32 word \<Rightarrow> ShakeCursor \<Rightarrow> ShakeCursor" where
  "drop_old time s =
     (if sk_count s > 0 \<and> time - pt_time (point_at (sk_head s) s) \<ge> kInterval then drop_old time (ring_pop s) else s)"
  by pat_completeness auto
termination
  by (relation "measure (\<lambda>(time, s). sk_count s)") (auto simp: ring_pop_def)

declare drop_old.simps [simp del]

definition InSameSign :: "real \<Rightarrow> real \<Rightarrow> bool" where
  "InSameSign a b = ((a \<ge> -1 \<and> b \<ge> -1) \<or> (a \<le> 1 \<and> b \<le> 1))"

definition continues :: "Point \<Rightarrow> Point \<Rightarrow> real \<Rightarrow> real \<Rightarrow> bool" where
  "continues prev newest x y =
     (InSameSign (pt_x newest - pt_x prev) (x - pt_x newest) \<and> InSameSign (pt_y newest - pt_y prev) (y - pt_y newest))"

definition hypot :: "real \<Rightarrow> real \<Rightarrow> real" where
  "hypot x y = sqrt (x\<^sup>2 + y\<^sup>2)"

text \<open>The loop over the trail: \<open>i\<close> runs to \<open>count_\<close>, \<open>index\<close> around the ring.\<close>

record trail =
  tr_left :: real
  tr_right :: real
  tr_top :: real
  tr_bottom :: real
  tr_distance :: real

definition trail_step :: "Point \<Rightarrow> Point \<Rightarrow> trail \<Rightarrow> trail" where
  "trail_step current next t = t\<lparr>tr_distance := tr_distance t + hypot (pt_x next - pt_x current) (pt_y next - pt_y current),
     tr_left := min (tr_left t) (pt_x next), tr_right := max (tr_right t) (pt_x next),
     tr_top := min (tr_top t) (pt_y next), tr_bottom := max (tr_bottom t) (pt_y next)\<rparr>"

fun trail_loop :: "ShakeCursor \<Rightarrow> nat \<Rightarrow> nat \<Rightarrow> trail \<Rightarrow> trail" where
  "trail_loop s 0 index t = t"
| "trail_loop s (Suc n) index t =
     (let next_index = (index + 1) mod kPointCount
      in trail_loop s n next_index (trail_step (point_at index s) (point_at next_index s) t))"

definition trail_start :: "Point \<Rightarrow> trail" where
  "trail_start p = \<lparr>tr_left = pt_x p, tr_right = pt_x p, tr_top = pt_y p, tr_bottom = pt_y p, tr_distance = 0\<rparr>"

definition shaken :: "trail \<Rightarrow> bool" where
  "shaken t = (let diagonal = hypot (tr_right t - tr_left t) (tr_bottom t - tr_top t)
     in \<not> (diagonal < kMinDiagonal \<or> tr_distance t / diagonal \<le> kShakeFactor))"

definition DetectShake :: "real \<Rightarrow> real \<Rightarrow> 32 word \<Rightarrow> ShakeCursor \<Rightarrow> bool \<times> ShakeCursor" where
  "DetectShake x y time s0 =
     (let s = drop_old time s0;
          p = \<lparr>pt_x = x, pt_y = y, pt_time = time\<rparr>
      in if sk_count s \<ge> 2 \<and>
            continues (point_at (sk_tail s + kPointCount - 2) s) (point_at (sk_tail s + kPointCount - 1) s) x y
         then (False, ring_set_last p s)
         else let s1 = (if sk_count s = kPointCount then ring_pop s else s);
                  s2 = ring_push p s1
              in if sk_count s2 < 2 then (False, s2)
                 else if shaken (trail_loop s2 (sk_count s2 - 1) (sk_head s2) (trail_start (point_at (sk_head s2) s2)))
                 then (True, ring_clear s2) else (False, s2))"

section \<open>The image\<close>

text \<open>\<open>EaseInOut\<close>: 24 steps of bisection on the Bezier curve.\<close>

definition bezier :: "real \<Rightarrow> real \<Rightarrow> real \<Rightarrow> real" where
  "bezier p1 p2 t = (let u = 1 - t in 3 * u * u * t * p1 + 3 * u * t * t * p2 + t * t * t)"

fun ease_loop :: "nat \<Rightarrow> real \<Rightarrow> real \<Rightarrow> real \<Rightarrow> real \<times> real" where
  "ease_loop 0 progress low high = (low, high)"
| "ease_loop (Suc n) progress low high =
     (let mid = (low + high) / 2
      in if bezier (42 / 100) (58 / 100) mid < progress then ease_loop n progress mid high
         else ease_loop n progress low mid)"

definition EaseInOut :: "real \<Rightarrow> real" where
  "EaseInOut progress = (let (low, high) = ease_loop 24 (cclamp progress 0 1) 0 1 in bezier 0 1 ((low + high) / 2))"

definition lock_cursor :: "bool \<Rightarrow> ShakeCursor \<Rightarrow> ShakeCursor" where
  "lock_cursor locked s = s\<lparr>sk_locks := sk_locks s @ [locked]\<rparr>"

definition Hide :: "ShakeCursor \<Rightarrow> ShakeCursor" where
  "Hide s =
     (let s1 = s\<lparr>sk_timer := False, sk_node := None, sk_stage := kHidden\<rparr>
      in if sk_cursor_locked s1 then lock_cursor False (s1\<lparr>sk_cursor_locked := False\<rparr>) else s1)"

definition DropImage :: "ShakeCursor \<Rightarrow> ShakeCursor" where
  "DropImage s = (if sk_image s = None then s else s\<lparr>sk_image := None, sk_node := None\<rparr>)"

text \<open>\<open>load\<close> is what the cursor theme has to offer when no image is loaded.\<close>

definition EnsureImage :: "shake_image option \<Rightarrow> ShakeCursor \<Rightarrow> bool \<times> ShakeCursor" where
  "EnsureImage load s =
     (if sk_image s \<noteq> None then (True, s)
      else case load of None \<Rightarrow> (False, s) | Some im \<Rightarrow> (True, s\<lparr>sk_image := Some im, sk_node := None\<rparr>))"

definition next_stage :: "32 word \<Rightarrow> ShakeCursor \<Rightarrow> ShakeCursor" where
  "next_stage now s =
     (if now - sk_last_shake_time s < kInterval
      then (if sk_stage s = kHidden \<or> sk_stage s = kHiding
            then s\<lparr>sk_stage := kShowing, sk_animation_start := now\<rparr>
            else if sk_stage s = kShowing \<and> now - sk_animation_start s > kDuration then s\<lparr>sk_stage := kShown\<rparr> else s)
      else if now - sk_last_motion_time s > kInterval div 2
      then (if sk_stage s = kShowing \<or> sk_stage s = kShown
            then s\<lparr>sk_stage := kHiding, sk_animation_start := now\<rparr>
            else if sk_stage s = kHiding \<and> now - sk_animation_start s > kDuration then s\<lparr>sk_stage := kHidden\<rparr> else s)
      else s)"

definition image_scale :: "32 word \<Rightarrow> shake_image \<Rightarrow> ShakeCursor \<Rightarrow> real" where
  "image_scale now im s =
     (let min_scale = min 1 (of_int (si_cursor_size im) / of_int (si_height im));
          progress = of_nat (unat (now - sk_animation_start s)) / of_nat (unat kDuration)
      in case sk_stage s of
           kShowing \<Rightarrow> min_scale + (1 - min_scale) * EaseInOut progress
         | kHiding \<Rightarrow> 1 - (1 - min_scale) * EaseInOut progress
         | _ \<Rightarrow> 1)"

definition place_image :: "32 word \<Rightarrow> real \<Rightarrow> real \<Rightarrow> shake_image \<Rightarrow> ShakeCursor \<Rightarrow> ShakeCursor" where
  "place_image now x y im s =
     (let scale = image_scale now im s
      in s\<lparr>sk_node := Some (max 1 (ctrunc (of_int (si_width im) * scale)), max 1 (ctrunc (of_int (si_height im) * scale)),
             clround (x - of_int (si_hotspot_x im) * scale), clround (y - of_int (si_hotspot_y im) * scale)),
           sk_timer := True\<rparr>)"

definition shake_Update :: "32 word \<Rightarrow> real \<Rightarrow> real \<Rightarrow> shake_image option \<Rightarrow> ShakeCursor \<Rightarrow> ShakeCursor" where
  "shake_Update now x y load s =
     (let old_stage = sk_stage s;
          s1 = next_stage now s;
          (loaded, s2) = (if sk_stage s1 \<noteq> kHidden then EnsureImage load s1 else (True, s1));
          s3 = (if loaded then s2 else s2\<lparr>sk_stage := kHidden\<rparr>)
      in if sk_stage s3 = kHidden then (if old_stage \<noteq> kHidden then Hide s3 else s3)
         else let s4 = (if sk_cursor_locked s3 then s3 else lock_cursor True (s3\<lparr>sk_cursor_locked := True\<rparr>))
              in case sk_image s4 of None \<Rightarrow> s4 | Some im \<Rightarrow> place_image now x y im s4)"

text \<open>The timer is a one-shot timer: it fires when it is armed, and \<open>Update\<close> arms it again.\<close>

definition OnTimer :: "32 word \<Rightarrow> real \<Rightarrow> real \<Rightarrow> shake_image option \<Rightarrow> ShakeCursor \<Rightarrow> ShakeCursor" where
  "OnTimer now x y load s = (if sk_timer s then shake_Update now x y load (s\<lparr>sk_timer := False\<rparr>) else s)"

definition SetEnabled :: "bool \<Rightarrow> ShakeCursor \<Rightarrow> ShakeCursor" where
  "SetEnabled enabled s =
     (if sk_enabled s = enabled then s
      else let s1 = s\<lparr>sk_enabled := enabled, sk_count := 0, sk_head := 0, sk_tail := 0\<rparr>
           in if enabled then s1 else Hide s1)"

definition HandleMotion :: "32 word \<Rightarrow> real \<Rightarrow> real \<Rightarrow> shake_image option \<Rightarrow> ShakeCursor \<Rightarrow> ShakeCursor" where
  "HandleMotion now x y load s =
     (if \<not> sk_enabled s then s
      else let (shake, s1) = DetectShake x y now (s\<lparr>sk_last_motion_time := now\<rparr>)
           in shake_Update now x y load (if shake then s1\<lparr>sk_last_shake_time := now\<rparr> else s1))"

definition ReloadImage :: "32 word \<Rightarrow> real \<Rightarrow> real \<Rightarrow> shake_image option \<Rightarrow> ShakeCursor \<Rightarrow> ShakeCursor" where
  "ReloadImage now x y load s =
     (let s1 = DropImage s in if sk_stage s1 \<noteq> kHidden then shake_Update now x y load s1 else s1)"

text \<open>What reaches the shake cursor, in the order of the events.\<close>

datatype shake_op =
    Motion "32 word" real real "shake_image option"
  | Timer "32 word" real real "shake_image option"
  | Enable bool
  | Reload "32 word" real real "shake_image option"

fun shake_apply :: "shake_op \<Rightarrow> ShakeCursor \<Rightarrow> ShakeCursor" where
  "shake_apply (Motion now x y load) s = HandleMotion now x y load s"
| "shake_apply (Timer now x y load) s = OnTimer now x y load s"
| "shake_apply (Enable enabled) s = SetEnabled enabled s"
| "shake_apply (Reload now x y load) s = ReloadImage now x y load s"

end
