(* ===== verification/Shake_Cursor_Laws.thy ===== *)
theory Shake_Cursor_Laws
  imports Shake_Cursor
begin

text \<open>
  The detector's ring buffer is a bounded list of pointer positions, and the enlarged cursor always
  goes away: the lock on the regular cursor is held exactly while the image is shown and is given
  back once the pointer rests.
\<close>

section \<open>A bounded history\<close>

locale bounded_history =
  fixes items :: "'q \<Rightarrow> 'a list"
    and ok :: "'q \<Rightarrow> bool"
    and capacity :: nat
    and pop :: "'q \<Rightarrow> 'q"
    and push :: "'a \<Rightarrow> 'q \<Rightarrow> 'q"
    and set_last :: "'a \<Rightarrow> 'q \<Rightarrow> 'q"
    and clear :: "'q \<Rightarrow> 'q"
  assumes items_bounded: "ok q \<Longrightarrow> length (items q) \<le> capacity"
    and pop: "ok q \<Longrightarrow> items q \<noteq> [] \<Longrightarrow> ok (pop q) \<and> items (pop q) = tl (items q)"
    and push: "ok q \<Longrightarrow> length (items q) < capacity \<Longrightarrow> ok (push x q) \<and> items (push x q) = items q @ [x]"
    and set_last: "ok q \<Longrightarrow> items q \<noteq> [] \<Longrightarrow> ok (set_last x q) \<and> items (set_last x q) = butlast (items q) @ [x]"
    and clear: "ok q \<Longrightarrow> ok (clear q) \<and> items (clear q) = []"
begin

text \<open>Pushing onto a full history drops the oldest item.\<close>

lemma push_dropping:
  assumes "ok q" "0 < capacity"
  defines "q' \<equiv> (if length (items q) = capacity then pop q else q)"
  shows "ok (push x q') \<and> items (push x q') = (if length (items q) = capacity then tl (items q) else items q) @ [x]"
proof (cases "length (items q) = capacity")
  case True
  then have "items q \<noteq> []" using assms(2) by auto
  then have "ok (pop q)" "items (pop q) = tl (items q)" using pop [OF assms(1)] by auto
  then show ?thesis using True assms(2) push [of "pop q" x] by (simp add: q'_def)
next
  case False
  then have "length (items q) < capacity" using items_bounded [OF assms(1)] by simp
  then show ?thesis using False push [OF assms(1)] by (simp add: q'_def)
qed

end

text \<open>The points of the ring from the oldest to the newest.\<close>

definition history :: "ShakeCursor \<Rightarrow> Point list" where
  "history s = map (\<lambda>i. point_at (sk_head s + i) s) [0..<sk_count s]"

definition ring_ok :: "ShakeCursor \<Rightarrow> bool" where
  "ring_ok s = (length (sk_points s) = kPointCount \<and> sk_head s < kPointCount \<and> sk_count s \<le> kPointCount \<and>
     sk_tail s = (sk_head s + sk_count s) mod kPointCount)"

lemma length_history [simp]: "length (history s) = sk_count s"
  by (simp add: history_def)

lemma point_at_mod [simp]: "point_at (i mod kPointCount) s = point_at i s"
  "point_at (i mod kPointCount + j) s = point_at (i + j) s"
  by (simp_all add: point_at_def mod_add_left_eq)

lemma nth_history: "i < sk_count s \<Longrightarrow> history s ! i = point_at (sk_head s + i) s"
  by (simp add: history_def)

lemma ring_slot:
  "h < kPointCount \<Longrightarrow> k \<le> kPointCount \<Longrightarrow> (h + k) mod kPointCount = (if h + k < kPointCount then h + k else h + k - kPointCount)"
  by (auto simp: kPointCount_def mod_if)

lemma ring_slots_differ:
  assumes "h < kPointCount" "i < k" "k < kPointCount"
  shows "(h + i) mod kPointCount \<noteq> (h + k) mod kPointCount"
  using assms ring_slot [of h i] ring_slot [of h k] by (auto split: if_splits)

lemma ring_back_slot:
  assumes "ring_ok s" "d \<le> sk_count s"
  shows "(sk_tail s + kPointCount - d) mod kPointCount = (sk_head s + (sk_count s - d)) mod kPointCount"
proof -
  have d: "d \<le> kPointCount" and tail: "sk_tail s = (sk_head s + sk_count s) mod kPointCount"
    using assms by (auto simp: ring_ok_def)
  have "(sk_tail s + kPointCount - d) mod kPointCount = (sk_tail s + (kPointCount - d)) mod kPointCount"
    using d by simp
  also have "\<dots> = (sk_head s + sk_count s + (kPointCount - d)) mod kPointCount"
    unfolding tail by (rule mod_add_left_eq)
  also have "\<dots> = (sk_head s + (sk_count s - d) + kPointCount) mod kPointCount"
    using d assms(2) by simp
  finally show ?thesis by simp
qed

lemma ring_pop_history:
  assumes "ring_ok s" "history s \<noteq> []"
  shows "ring_ok (ring_pop s) \<and> history (ring_pop s) = tl (history s)"
proof
  have c: "0 < sk_count s" using assms(2) by (simp add: history_def)
  show "ring_ok (ring_pop s)"
  proof -
    have "((sk_head s + 1) mod kPointCount + (sk_count s - 1)) mod kPointCount = (sk_head s + 1 + (sk_count s - 1)) mod kPointCount"
      by (rule mod_add_left_eq)
    also have "sk_head s + 1 + (sk_count s - 1) = sk_head s + sk_count s" using c by simp
    finally show ?thesis using assms(1) c by (auto simp: ring_ok_def ring_pop_def kPointCount_def)
  qed
  show "history (ring_pop s) = tl (history s)"
    by (rule nth_equalityI) (simp_all add: nth_history nth_tl ring_pop_def point_at_def mod_add_left_eq)
qed

lemma ring_push_history:
  assumes "ring_ok s" "length (history s) < kPointCount"
  shows "ring_ok (ring_push p s) \<and> history (ring_push p s) = history s @ [p]"
proof
  have tail: "sk_tail s = (sk_head s + sk_count s) mod kPointCount" "length (sk_points s) = kPointCount"
    using assms(1) by (simp_all add: ring_ok_def)
  show "ring_ok (ring_push p s)"
    using assms by (simp add: ring_ok_def ring_push_def mod_Suc_eq)
  show "history (ring_push p s) = history s @ [p]"
  proof (rule nth_equalityI)
    fix i assume "i < length (history (ring_push p s))"
    then have i: "i \<le> sk_count s" by (simp add: ring_push_def)
    have t: "sk_tail s < length (sk_points s)" using tail by (simp add: kPointCount_def)
    show "history (ring_push p s) ! i = (history s @ [p]) ! i"
    proof (cases "i = sk_count s")
      case True
      then show ?thesis using tail t
        by (simp add: nth_append nth_history ring_push_def point_at_def)
    next
      case False
      with i have "i < sk_count s" by simp
      then show ?thesis using tail assms ring_slots_differ [of "sk_head s" i "sk_count s"]
        by (simp add: nth_append nth_history ring_push_def point_at_def ring_ok_def)
    qed
  qed (simp add: ring_push_def)
qed

lemma ring_set_last_history:
  assumes "ring_ok s" "history s \<noteq> []"
  shows "ring_ok (ring_set_last p s) \<and> history (ring_set_last p s) = butlast (history s) @ [p]"
proof
  have c: "0 < sk_count s" using assms(2) by (simp add: history_def)
  have slot: "(sk_tail s + kPointCount - 1) mod kPointCount = (sk_head s + (sk_count s - 1)) mod kPointCount"
    by (rule ring_back_slot [OF assms(1)]) (use c in simp)
  show "ring_ok (ring_set_last p s)" using assms(1) by (simp add: ring_ok_def ring_set_last_def)
  show "history (ring_set_last p s) = butlast (history s) @ [p]"
  proof (rule nth_equalityI)
    fix i assume "i < length (history (ring_set_last p s))"
    then have i: "i < sk_count s" by (simp add: ring_set_last_def)
    show "history (ring_set_last p s) ! i = (butlast (history s) @ [p]) ! i"
    proof (cases "i = sk_count s - 1")
      case True
      then show ?thesis using i slot assms(1)
        by (simp add: nth_append nth_history ring_set_last_def point_at_def ring_ok_def kPointCount_def)
    next
      case False
      with i have j: "i < sk_count s - 1" by simp
      then have "(sk_head s + i) mod kPointCount \<noteq> (sk_head s + (sk_count s - 1)) mod kPointCount"
        using assms(1) by (intro ring_slots_differ) (auto simp: ring_ok_def)
      then show ?thesis using j i
        unfolding slot [symmetric]
        by (simp add: nth_append nth_history nth_butlast ring_set_last_def point_at_def)
    qed
  qed (use c in \<open>simp add: ring_set_last_def\<close>)
qed

interpretation ring: bounded_history history ring_ok kPointCount ring_pop ring_push ring_set_last ring_clear
proof unfold_locales
  show "ring_ok q \<Longrightarrow> ring_ok (ring_clear q) \<and> history (ring_clear q) = []" for q
    by (simp add: ring_ok_def ring_clear_def history_def kPointCount_def)
qed (simp_all add: ring_pop_history ring_push_history ring_set_last_history, simp add: ring_ok_def)

section \<open>The detector on lists\<close>

fun walk :: "Point \<Rightarrow> Point list \<Rightarrow> trail \<Rightarrow> trail" where
  "walk p [] t = t"
| "walk p (q # qs) t = walk q qs (trail_step p q t)"

definition detect_spec :: "real \<Rightarrow> real \<Rightarrow> 32 word \<Rightarrow> Point list \<Rightarrow> bool \<times> Point list" where
  "detect_spec x y time h0 =
     (let h = dropWhile (\<lambda>p. time - pt_time p \<ge> kInterval) h0;
          p = \<lparr>pt_x = x, pt_y = y, pt_time = time\<rparr>
      in if length h \<ge> 2 \<and> continues (h ! (length h - 2)) (last h) x y then (False, butlast h @ [p])
         else let h' = (if length h = kPointCount then tl h else h) @ [p]
              in if length h' \<ge> 2 \<and> shaken (walk (hd h') (tl h') (trail_start (hd h'))) then (True, [])
                 else (False, h'))"

lemma drop_old_history:
  assumes "ring_ok s"
  shows "ring_ok (drop_old time s) \<and> history (drop_old time s) = dropWhile (\<lambda>p. time - pt_time p \<ge> kInterval) (history s)"
  using assms
proof (induction time s rule: drop_old.induct)
  case (1 time s)
  show ?case
  proof (cases "sk_count s")
    case 0
    then show ?thesis using 1 by (simp add: drop_old.simps [of time s] history_def)
  next
    case (Suc n)
    then have ne: "history s \<noteq> []" and hd: "hd (history s) = point_at (sk_head s) s"
      by (simp_all add: history_def upt_conv_Cons del: upt_Suc)
    then have eq: "history s = point_at (sk_head s) s # tl (history s)" by (metis list.collapse)
    show ?thesis
    proof (cases "time - pt_time (point_at (sk_head s) s) \<ge> kInterval")
      case True
      with Suc have d: "drop_old time s = drop_old time (ring_pop s)" by (simp add: drop_old.simps [of time s])
      have p: "ring_ok (ring_pop s)" "history (ring_pop s) = tl (history s)"
        using ring.pop [OF "1.prems" ne] by auto
      from "1.IH" [OF _ p(1)] Suc True p(2)
      have "ring_ok (drop_old time s) \<and> history (drop_old time s) =
          dropWhile (\<lambda>p. time - pt_time p \<ge> kInterval) (tl (history s))" by (simp add: d)
      then show ?thesis using True by (subst eq) simp
    next
      case False
      then have "drop_old time s = s" by (simp add: drop_old.simps [of time s])
      moreover have "dropWhile (\<lambda>p. time - pt_time p \<ge> kInterval) (history s) = history s"
        using False by (subst (1 2) eq) simp
      ultimately show ?thesis using "1.prems" by simp
    qed
  qed
qed

lemma trail_loop_walk:
  "trail_loop s n index t = walk (point_at index s) (map (\<lambda>i. point_at (index + 1 + i) s) [0..<n]) t"
proof (induction n arbitrary: index t)
  case (Suc n)
  have "map (\<lambda>i. point_at (index + 1 + i) s) [0..<Suc n] =
      point_at (index + 1) s # map (\<lambda>i. point_at (index + 1 + 1 + i) s) [0..<n]"
    by (simp add: upt_conv_Cons map_Suc_upt [symmetric] comp_def del: upt_Suc)
  moreover have "point_at (Suc (Suc index mod kPointCount + i)) s = point_at (Suc (Suc (index + i))) s" for i
    using point_at_mod(2) [of "Suc index" "Suc i" s] by simp
  ultimately show ?case by (simp add: Suc Let_def del: upt_Suc)
qed simp

lemma DetectShake_list:
  assumes "ring_ok s"
  shows "ring_ok (snd (DetectShake x y time s)) \<and>
    (fst (DetectShake x y time s), history (snd (DetectShake x y time s))) = detect_spec x y time (history s)"
proof -
  define s1 where "s1 = drop_old time s"
  define p where "p = \<lparr>pt_x = x, pt_y = y, pt_time = time\<rparr>"
  define s3 where "s3 = ring_push p (if length (history s1) = kPointCount then ring_pop s1 else s1)"
  have s1: "ring_ok s1" "history s1 = dropWhile (\<lambda>p. time - pt_time p \<ge> kInterval) (history s)"
    using drop_old_history [OF assms] by (simp_all add: s1_def)
  have s3: "ring_ok s3" "history s3 = (if length (history s1) = kPointCount then tl (history s1) else history s1) @ [p]"
    using ring.push_dropping [OF s1(1), of p] by (simp_all add: s3_def kPointCount_def)
  have last2: "point_at (sk_tail s1 + kPointCount - 2) s1 = history s1 ! (length (history s1) - 2)"
    "point_at (sk_tail s1 + kPointCount - 1) s1 = last (history s1)" if "2 \<le> sk_count s1"
    using ring_back_slot [OF s1(1) that] ring_back_slot [OF s1(1), of 1] that
    by (auto simp: nth_history last_conv_nth point_at_def simp flip: length_0_conv)
  have loop: "trail_loop s3 (sk_count s3 - 1) (sk_head s3) t = walk (hd (history s3)) (tl (history s3)) t" for t
  proof -
    have "history s3 \<noteq> []" by (simp add: s3(2))
    then have "0 < sk_count s3" by (simp add: history_def)
    then have "history s3 = point_at (sk_head s3) s3 # map (\<lambda>i. point_at (sk_head s3 + 1 + i) s3) [0..<sk_count s3 - 1]"
      by (intro nth_equalityI) (auto simp: nth_history nth_Cons split: nat.split)
    then show ?thesis by (simp add: trail_loop_walk)
  qed
  have D: "DetectShake x y time s =
      (if sk_count s1 \<ge> 2 \<and> continues (point_at (sk_tail s1 + kPointCount - 2) s1) (point_at (sk_tail s1 + kPointCount - 1) s1) x y
       then (False, ring_set_last p s1)
       else if sk_count s3 < 2 then (False, s3)
       else if shaken (trail_loop s3 (sk_count s3 - 1) (sk_head s3) (trail_start (point_at (sk_head s3) s3)))
       then (True, ring_clear s3) else (False, s3))"
    unfolding DetectShake_def Let_def s3_def p_def s1_def length_history by (rule refl)
  have head: "point_at (sk_head s3) s3 = hd (history s3)" if "\<not> sk_count s3 < 2"
    using that by (simp add: hd_conv_nth nth_history flip: length_0_conv)
  have eq: "DetectShake x y time s =
      (if length (history s1) \<ge> 2 \<and> continues (history s1 ! (length (history s1) - 2)) (last (history s1)) x y
       then (False, ring_set_last p s1)
       else if length (history s3) < 2 then (False, s3)
       else if shaken (walk (hd (history s3)) (tl (history s3)) (trail_start (hd (history s3))))
       then (True, ring_clear s3) else (False, s3))"
    unfolding D length_history loop using last2 head by (simp cong: conj_cong if_cong)
  have spec: "detect_spec x y time (history s) =
      (if length (history s1) \<ge> 2 \<and> continues (history s1 ! (length (history s1) - 2)) (last (history s1)) x y
       then (False, butlast (history s1) @ [p])
       else if length (history s3) \<ge> 2 \<and> shaken (walk (hd (history s3)) (tl (history s3)) (trail_start (hd (history s3))))
       then (True, []) else (False, history s3))"
    unfolding detect_spec_def Let_def s1(2) [symmetric] p_def [symmetric] s3(2) [symmetric] by (rule refl)
  have "ring_ok (ring_set_last p s1)" "history (ring_set_last p s1) = butlast (history s1) @ [p]" if "2 \<le> length (history s1)"
    using ring.set_last [OF s1(1), of p] that by (cases "history s1"; simp del: length_history)+
  moreover have "ring_ok (ring_clear s3)" "history (ring_clear s3) = []"
    using ring.clear [OF s3(1)] by auto
  ultimately show ?thesis unfolding eq spec using s3(1) by (simp del: length_history)
qed

text \<open>The answers of the detector along a trail of pointer motions, on the ring and on the list.\<close>

fun detect_run :: "(real \<times> real \<times> 32 word) list \<Rightarrow> ShakeCursor \<Rightarrow> bool list" where
  "detect_run [] s = []"
| "detect_run ((x, y, time) # ms) s = (let (b, s') = DetectShake x y time s in b # detect_run ms s')"

fun spec_run :: "(real \<times> real \<times> 32 word) list \<Rightarrow> Point list \<Rightarrow> bool list" where
  "spec_run [] h = []"
| "spec_run ((x, y, time) # ms) h = (let (b, h') = detect_spec x y time h in b # spec_run ms h')"

lemma detect_run_spec: "ring_ok s \<Longrightarrow> detect_run ms s = spec_run ms (history s)"
proof (induction ms arbitrary: s)
  case (Cons m ms)
  obtain x y time where m: "m = (x, y, time)" by (cases m)
  obtain b s' where d: "DetectShake x y time s = (b, s')" by fastforce
  with DetectShake_list [OF Cons.prems, of x y time]
  have "ring_ok s'" "detect_spec x y time (history s) = (b, history s')" by simp_all
  with Cons.IH [of s'] show ?case by (simp add: m d)
qed simp

lemma ring_ok_new: "ring_ok new_ShakeCursor" "history new_ShakeCursor = []"
  by (simp_all add: ring_ok_def new_ShakeCursor_def history_def kPointCount_def)

section \<open>The lock on the regular cursor\<close>

fun alternating :: "bool \<Rightarrow> bool list \<Rightarrow> bool" where
  "alternating b [] = True"
| "alternating b (c # cs) = (c = b \<and> alternating (\<not> b) cs)"

lemma alternating_snoc: "alternating b (cs @ [c]) = (alternating b cs \<and> c = (b = even (length cs)))"
  by (induction b cs rule: alternating.induct) auto

text \<open>The enlarged image is on screen, the timer armed and the regular cursor locked in the same
  states; the lock calls alternate, and the last one is the current state.\<close>

definition shake_ok :: "ShakeCursor \<Rightarrow> bool" where
  "shake_ok s = ((sk_cursor_locked s = (sk_stage s \<noteq> kHidden)) \<and> (sk_timer s = (sk_stage s \<noteq> kHidden)) \<and>
     ((sk_node s = None) = (sk_stage s = kHidden)) \<and> (sk_image s = None \<longrightarrow> sk_stage s = kHidden) \<and>
     alternating True (sk_locks s) \<and> odd (length (sk_locks s)) = sk_cursor_locked s)"

text \<open>The same before an update, when timer and image may be gone.\<close>

definition shake_pre :: "ShakeCursor \<Rightarrow> bool" where
  "shake_pre s = ((sk_cursor_locked s = (sk_stage s \<noteq> kHidden)) \<and> (sk_stage s = kHidden \<longrightarrow> \<not> sk_timer s \<and> sk_node s = None) \<and>
     alternating True (sk_locks s) \<and> odd (length (sk_locks s)) = sk_cursor_locked s)"

lemma shake_ok_pre: "shake_ok s \<Longrightarrow> shake_pre s"
  by (auto simp: shake_ok_def shake_pre_def)

lemma next_stage_keeps [simp]:
  "sk_cursor_locked (next_stage now s) = sk_cursor_locked s" "sk_timer (next_stage now s) = sk_timer s"
  "sk_node (next_stage now s) = sk_node s" "sk_locks (next_stage now s) = sk_locks s"
  "sk_image (next_stage now s) = sk_image s" "sk_last_shake_time (next_stage now s) = sk_last_shake_time s"
  "sk_last_motion_time (next_stage now s) = sk_last_motion_time s"
  by (simp_all add: next_stage_def)

lemma EnsureImage_keeps:
  assumes "EnsureImage load s = (b, s')"
  shows "sk_cursor_locked s' = sk_cursor_locked s" "sk_timer s' = sk_timer s" "sk_locks s' = sk_locks s"
    "sk_stage s' = sk_stage s" "b = (sk_image s' \<noteq> None)" "sk_node s = None \<Longrightarrow> sk_node s' = None"
    "sk_last_shake_time s' = sk_last_shake_time s" "sk_last_motion_time s' = sk_last_motion_time s"
    "sk_animation_start s' = sk_animation_start s"
  using assms by (auto simp: EnsureImage_def split: if_splits option.splits)

lemma place_image_keeps [simp]:
  "sk_cursor_locked (place_image now x y im s) = sk_cursor_locked s" "sk_timer (place_image now x y im s) = True"
  "(sk_node (place_image now x y im s) = None) = False" "sk_locks (place_image now x y im s) = sk_locks s"
  "sk_stage (place_image now x y im s) = sk_stage s" "sk_image (place_image now x y im s) = sk_image s"
  "sk_last_shake_time (place_image now x y im s) = sk_last_shake_time s"
  "sk_last_motion_time (place_image now x y im s) = sk_last_motion_time s"
  "sk_animation_start (place_image now x y im s) = sk_animation_start s"
  by (simp_all add: place_image_def Let_def)

lemma shake_Update_ok:
  assumes "shake_pre s"
  shows "shake_ok (shake_Update now x y load s)"
proof (cases "sk_stage (next_stage now s) = kHidden")
  case True
  then show ?thesis using assms
    by (auto simp: shake_Update_def Hide_def lock_cursor_def shake_pre_def shake_ok_def alternating_snoc Let_def)
next
  case False
  obtain b s2 where e: "EnsureImage load (next_stage now s) = (b, s2)" by fastforce
  note k = EnsureImage_keeps [OF e]
  show ?thesis using False assms k
    by (auto simp: shake_Update_def e Hide_def lock_cursor_def shake_pre_def shake_ok_def alternating_snoc Let_def
        simp del: not_None_eq split: option.splits)
qed

lemma DetectShake_keeps:
  assumes "DetectShake x y time s = (b, s')"
  shows "sk_cursor_locked s' = sk_cursor_locked s" "sk_timer s' = sk_timer s" "sk_locks s' = sk_locks s"
    "sk_stage s' = sk_stage s" "sk_image s' = sk_image s" "sk_node s' = sk_node s"
proof -
  have d: "sk_cursor_locked (drop_old time s) = sk_cursor_locked s \<and> sk_timer (drop_old time s) = sk_timer s \<and>
      sk_locks (drop_old time s) = sk_locks s \<and> sk_stage (drop_old time s) = sk_stage s \<and>
      sk_image (drop_old time s) = sk_image s \<and> sk_node (drop_old time s) = sk_node s" for time s
  proof (induction time s rule: drop_old.induct)
    case (1 time s)
    then show ?case
      by (subst (1 2 3 4 5 6) drop_old.simps) (simp add: ring_pop_def)
  qed
  have s': "s' = snd (DetectShake x y time s)" by (simp add: assms)
  show "sk_cursor_locked s' = sk_cursor_locked s" "sk_timer s' = sk_timer s" "sk_locks s' = sk_locks s"
    "sk_stage s' = sk_stage s" "sk_image s' = sk_image s" "sk_node s' = sk_node s"
    unfolding s'
    by (simp_all add: d DetectShake_def Let_def ring_set_last_def ring_push_def ring_pop_def ring_clear_def)
qed

lemma shake_apply_ok:
  assumes "shake_ok s"
  shows "shake_ok (shake_apply e s)"
proof (cases e)
  case (Motion now x y load)
  obtain b s' where d: "DetectShake x y now (s\<lparr>sk_last_motion_time := now\<rparr>) = (b, s')" by fastforce
  have "shake_pre s'" using DetectShake_keeps [OF d] assms by (simp add: shake_pre_def shake_ok_def)
  then have "shake_pre (if b then s'\<lparr>sk_last_shake_time := now\<rparr> else s')" by (simp add: shake_pre_def)
  then show ?thesis using assms shake_Update_ok unfolding Motion by (simp add: HandleMotion_def d)
next
  case (Timer now x y load)
  have "shake_pre (s\<lparr>sk_timer := False\<rparr>)" using assms by (auto simp: shake_pre_def shake_ok_def)
  then show ?thesis using assms shake_Update_ok unfolding Timer by (simp add: OnTimer_def)
next
  case (Enable b)
  then show ?thesis using assms
    by (auto simp: SetEnabled_def Hide_def lock_cursor_def shake_ok_def alternating_snoc Let_def)
next
  case (Reload now x y load)
  have "shake_pre (DropImage s)" using assms by (auto simp: shake_pre_def shake_ok_def DropImage_def)
  moreover have "sk_stage (DropImage s) = sk_stage s" by (simp add: DropImage_def)
  moreover have "shake_ok (DropImage s)" if "sk_stage s = kHidden"
    using assms that by (simp add: shake_ok_def DropImage_def)
  ultimately show ?thesis using shake_Update_ok unfolding Reload by (simp add: ReloadImage_def Let_def)
qed

lemma fold_shake_ok: "shake_ok s \<Longrightarrow> shake_ok (fold shake_apply es s)"
  by (induction es arbitrary: s) (simp_all add: shake_apply_ok)

lemma shake_ok_new: "shake_ok new_ShakeCursor"
  by (simp add: shake_ok_def new_ShakeCursor_def)

section \<open>The image goes away\<close>

lemma msec_diff:
  assumes "a \<le> t" "t < a + 2 ^ 32"
  shows "unat (of_nat t - of_nat a :: 32 word) = t - a"
proof -
  have "(of_nat t - of_nat a :: 32 word) = of_nat (t - a)" using assms(1) by (simp add: of_nat_diff)
  moreover have "t - a < 2 ^ 32" using assms by simp
  ultimately show ?thesis by (simp add: unat_of_nat take_bit_nat_eq_self)
qed

lemma shake_Update_times:
  "sk_last_shake_time (shake_Update now x y load s) = sk_last_shake_time s"
  "sk_last_motion_time (shake_Update now x y load s) = sk_last_motion_time s"
  by (auto simp: shake_Update_def EnsureImage_def Hide_def lock_cursor_def Let_def split: option.splits)

text \<open>At rest: the last shake and the last motion are at least 500 ms ago, and the clock did not wrap.\<close>

definition resting :: "nat \<Rightarrow> nat \<Rightarrow> ShakeCursor \<Rightarrow> bool" where
  "resting S M s = (shake_ok s \<and> sk_last_shake_time s = of_nat S \<and> sk_last_motion_time s = of_nat M \<and> S \<le> M)"

lemma next_stage_resting:
  assumes "resting S M s" "M + 500 \<le> t" "t < S + 2 ^ 32"
  shows "next_stage (of_nat t) s =
    (if sk_stage s = kShowing \<or> sk_stage s = kShown then s\<lparr>sk_stage := kHiding, sk_animation_start := of_nat t\<rparr>
     else if sk_stage s = kHiding \<and> 150 < unat (of_nat t - sk_animation_start s) then s\<lparr>sk_stage := kHidden\<rparr> else s)"
proof -
  have "unat (of_nat t - of_nat S :: 32 word) = t - S" "unat (of_nat t - of_nat M :: 32 word) = t - M"
    using assms by (auto intro!: msec_diff simp: resting_def)
  moreover have "\<not> t - S < 500" "250 < t - M" using assms by (auto simp: resting_def)
  ultimately show ?thesis using assms
    by (simp add: next_stage_def resting_def kInterval_def kDuration_def word_less_nat_alt)
qed

lemma OnTimer_resting:
  fixes x y :: real and load :: "shake_image option"
  assumes "resting S M s" "M + 500 \<le> t" "t < S + 2 ^ 32"
  defines "s' \<equiv> OnTimer (of_nat t) x y load s"
  shows "resting S M s'"
    and "sk_stage s' = kHidden \<or> sk_stage s' = kHiding \<and>
      (sk_stage s = kHiding \<and> sk_animation_start s' = sk_animation_start s \<and> \<not> 150 < unat (of_nat t - sk_animation_start s)
       \<or> sk_stage s \<noteq> kHiding \<and> sk_stage s \<noteq> kHidden \<and> sk_animation_start s' = of_nat t)"
proof -
  have "shake_ok s'" using shake_apply_ok [of s "Timer (of_nat t) x y load"] assms by (simp add: resting_def)
  then show "resting S M s'" using assms(1) by (simp add: resting_def s'_def OnTimer_def shake_Update_times)
  have n: "next_stage (of_nat t) (s\<lparr>sk_timer := False\<rparr>) = (next_stage (of_nat t) s)\<lparr>sk_timer := False\<rparr>"
    by (simp add: next_stage_def)
  have "sk_timer s = (sk_stage s \<noteq> kHidden)" using assms(1) by (simp add: resting_def shake_ok_def)
  then show "sk_stage s' = kHidden \<or> sk_stage s' = kHiding \<and>
      (sk_stage s = kHiding \<and> sk_animation_start s' = sk_animation_start s \<and> \<not> 150 < unat (of_nat t - sk_animation_start s)
       \<or> sk_stage s \<noteq> kHiding \<and> sk_stage s \<noteq> kHidden \<and> sk_animation_start s' = of_nat t)"
    unfolding s'_def OnTimer_def shake_Update_def n next_stage_resting [OF assms(1-3)]
    by (cases "sk_stage s") (auto simp: EnsureImage_def Hide_def lock_cursor_def Let_def split: option.splits)
qed

text \<open>A run of the timer with the pointer at rest.\<close>

type_synonym tick = "nat \<times> real \<times> real \<times> shake_image option"

definition timer_run :: "tick list \<Rightarrow> ShakeCursor \<Rightarrow> ShakeCursor" where
  "timer_run ts = fold (\<lambda>(t, x, y, load). OnTimer (of_nat t) x y load) ts"

lemma timer_run_ok: "shake_ok s \<Longrightarrow> shake_ok (timer_run ts s)"
proof (induction ts arbitrary: s)
  case (Cons m ts)
  obtain t x y load where m: "m = (t, x, y, load)" by (cases m)
  have "shake_ok (OnTimer (of_nat t) x y load s)"
    using shake_apply_ok [OF Cons.prems, of "Timer (of_nat t) x y load"] by simp
  then show ?case using Cons.IH by (simp add: timer_run_def m)
qed (simp add: timer_run_def)

text \<open>Hiding started at \<open>t0\<close> or before.\<close>

definition hiding_since :: "nat \<Rightarrow> nat \<Rightarrow> ShakeCursor \<Rightarrow> bool" where
  "hiding_since t0 bound s = (sk_stage s = kHidden \<or> sk_stage s = kHiding \<and>
     (\<exists>A. A \<le> t0 \<and> bound \<le> A + 2 ^ 32 \<and> sk_animation_start s = of_nat A))"

lemma hiding_since_step:
  assumes "resting S M s" "hiding_since t0 bound s" "M + 500 \<le> t0" "t0 \<le> t" "t < bound" "bound \<le> S + 2 ^ 32"
  shows "hiding_since t0 bound (OnTimer (of_nat t) x y load s)"
    and "t0 + 150 < t \<Longrightarrow> sk_stage (OnTimer (of_nat t) x y load s) = kHidden"
proof -
  have r: "M + 500 \<le> t" "t < S + 2 ^ 32" using assms by simp_all
  note step = OnTimer_resting(2) [OF assms(1) r, of x y load]
  have long: "150 < unat (of_nat t - of_nat A :: 32 word)" if "A \<le> t0" "bound \<le> A + 2 ^ 32" "t0 + 150 < t" for A
    using that assms(4,5) by (subst msec_diff) simp_all
  show "hiding_since t0 bound (OnTimer (of_nat t) x y load s)"
    using assms(2) step unfolding hiding_since_def by metis
  show "sk_stage (OnTimer (of_nat t) x y load s) = kHidden" if "t0 + 150 < t"
    using assms(2) step long [OF _ _ that] unfolding hiding_since_def by metis
qed

lemma hidden_stays:
  "resting S M s \<Longrightarrow> sk_stage s = kHidden \<Longrightarrow> timer_run ts s = s"
  by (induction ts) (auto simp: timer_run_def OnTimer_def resting_def shake_ok_def)

lemma timer_run_hides:
  assumes "resting S M s" "hiding_since t0 bound s" "M + 500 \<le> t0" "bound \<le> S + 2 ^ 32"
    and "list_all (\<lambda>(t, _). t0 \<le> t \<and> t < bound) ts" "list_ex (\<lambda>(t, _). t0 + 150 < t) ts"
  shows "sk_stage (timer_run ts s) = kHidden"
  using assms
proof (induction ts arbitrary: s)
  case (Cons m ts)
  obtain t x y load where m: "m = (t, x, y, load)" by (cases m)
  define s' where "s' = OnTimer (of_nat t) x y load s"
  have run: "timer_run (m # ts) s = timer_run ts s'" by (simp add: timer_run_def m s'_def)
  have t: "t0 \<le> t" "t < bound" and r: "M + 500 \<le> t" "t < S + 2 ^ 32" using Cons.prems by (auto simp: m)
  have s': "resting S M s'" unfolding s'_def by (rule OnTimer_resting(1) [OF Cons.prems(1) r])
  note step = hiding_since_step [OF Cons.prems(1,2,3) t Cons.prems(4), of x y load, folded s'_def]
  show ?case
  proof (cases "t0 + 150 < t")
    case True
    then show ?thesis using step(2) hidden_stays [OF s'] by (simp add: run)
  next
    case False
    then have "list_ex (\<lambda>(t, _). t0 + 150 < t) ts" using Cons.prems(6) by (simp add: m)
    then show ?thesis using Cons.IH [OF s' step(1) Cons.prems(3,4)] Cons.prems(5) by (simp add: run)
  qed
qed simp

section \<open>Properties\<close>

text \<open>C20: the detector over its ring buffer of 64 slots, with heads and tails that wrap, answers along
  every trail of pointer motions as the detector over a list does: expired points dropped from the
  front, a point that continues the direction replacing the newest one, the oldest point given up
  when the list is full, and the history forgotten once a shake is recognised.\<close>

theorem detect_shake_refines: "detect_run ms new_ShakeCursor = spec_run ms []"
  using detect_run_spec [OF ring_ok_new(1)] by (simp add: ring_ok_new(2))

text \<open>C21: in every run of motions, timer events, reloads of the theme and changes of the setting, the
  regular cursor is locked, the timer armed and the enlarged image on screen in exactly the same
  states, all but \<open>kHidden\<close>; the calls that lock and unlock the regular cursor alternate, and the last
  of them is the current state.\<close>

theorem shake_lock_balanced:
  fixes es :: "shake_op list"
  defines "s \<equiv> fold shake_apply es new_ShakeCursor"
  shows "sk_cursor_locked s = (sk_stage s \<noteq> kHidden) \<and> sk_timer s = (sk_stage s \<noteq> kHidden) \<and>
    (sk_node s = None) = (sk_stage s = kHidden) \<and> alternating True (sk_locks s) \<and>
    odd (length (sk_locks s)) = sk_cursor_locked s"
  using fold_shake_ok [OF shake_ok_new, of es] unfolding s_def shake_ok_def by blast

text \<open>C19: the enlarged cursor always goes away.  When the last motion is 500 ms ago and the timer goes
  on firing, the image is hidden, the regular cursor given back and the timer off at the latest with the
  first timer event that comes more than 150 ms after the first one, in every reachable state and
  whatever the theme offers, as long as the millisecond clock does not wrap meanwhile.\<close>

theorem shake_cursor_hides:
  fixes es :: "shake_op list"
  defines "s \<equiv> fold shake_apply es new_ShakeCursor"
  assumes "sk_last_motion_time s = of_nat M" "sk_last_shake_time s = of_nat S" "sk_animation_start s = of_nat A"
    and "S \<le> M" "M + 500 \<le> t0" "A \<le> t0"
    and "list_all (\<lambda>(t, _). t0 \<le> t \<and> t < min S A + 2 ^ 32) ((t0, x, y, load) # ts)"
    and "list_ex (\<lambda>(t, _). t0 + 150 < t) ts"
  defines "s' \<equiv> timer_run ((t0, x, y, load) # ts) s"
  shows "sk_stage s' = kHidden \<and> \<not> sk_cursor_locked s' \<and> \<not> sk_timer s' \<and> sk_node s' = None"
proof -
  define s1 where "s1 = OnTimer (of_nat t0) x y load s"
  have r: "resting S M s" using fold_shake_ok [OF shake_ok_new, of es] assms by (simp add: resting_def)
  have t0: "t0 < S + 2 ^ 32" using assms(8) by (simp add: min_def split: if_splits)
  have r1: "resting S M s1" unfolding s1_def by (rule OnTimer_resting(1) [OF r assms(6) t0])
  have "hiding_since t0 (min S A + 2 ^ 32) s1"
  proof -
    have "A \<le> t0 \<and> min S A + 2 ^ 32 \<le> A + 2 ^ 32" "t0 \<le> t0 \<and> min S A + 2 ^ 32 \<le> t0 + 2 ^ 32"
      using assms(5-7) by auto
    then show ?thesis using OnTimer_resting(2) [OF r assms(6) t0, of x y load, folded s1_def]
      unfolding hiding_since_def assms(4) by blast
  qed
  then have "sk_stage s' = kHidden"
    using timer_run_hides [OF r1 _ assms(6), of "min S A + 2 ^ 32" ts] assms(8,9)
    by (simp add: s'_def timer_run_def s1_def)
  moreover have "shake_ok s'" using r timer_run_ok by (simp add: s'_def resting_def)
  ultimately show ?thesis by (simp add: shake_ok_def)
qed

definition sample_image :: shake_image where
  "sample_image = \<lparr>si_width = 96, si_height = 96, si_hotspot_x = 8, si_hotspot_y = 8, si_cursor_size = 24\<rparr>"

definition sample_shake :: "shake_op list" where
  "sample_shake = [Enable True, Motion 100 0 0 (Some sample_image)]"

lemma sample_shake_state:
  "sk_last_motion_time (fold shake_apply sample_shake new_ShakeCursor) = of_nat 100"
  "sk_last_shake_time (fold shake_apply sample_shake new_ShakeCursor) = of_nat 0"
  "sk_animation_start (fold shake_apply sample_shake new_ShakeCursor) = of_nat 100"
  "sk_stage (fold shake_apply sample_shake new_ShakeCursor) = kShowing"
  by (simp_all add: sample_shake_def new_ShakeCursor_def SetEnabled_def HandleMotion_def DetectShake_def drop_old.simps
      ring_push_def kPointCount_def shake_Update_def next_stage_def kInterval_def EnsureImage_def lock_cursor_def Let_def)

theorem shake_cursor_hides_witness:
  "sk_stage (fold shake_apply sample_shake new_ShakeCursor) = kShowing \<and>
   sk_stage (timer_run [(600, 0, 0, None), (616, 0, 0, None), (751, 0, 0, None)] (fold shake_apply sample_shake new_ShakeCursor)) = kHidden"
  using shake_cursor_hides [of sample_shake 100 0 100 600 0 0 None "[(616, 0, 0, None), (751, 0, 0, None)]"]
  by (simp add: sample_shake_state)

end
