(* ===== verification/Multitasking_Layout.thy ===== *)
theory Multitasking_Layout
  imports Wlr_Geometry
begin

text \<open>
  The layout of the window previews in the multitasking view
  (\<open>src/view/multitasking/multitasking_layout.cc\<close>).  The previews keep the aspect of their windows and
  share one row height, which shrinks until the windows fit into the rows.  Doubles are reals; the loop
  on the row height is a partial function, so that its termination is a theorem.
\<close>

section \<open>Spacing and preview sizes\<close>

definition kFirstWindowScale :: real where "kFirstWindowScale = 720 / 1080"

definition spacing_x :: "wlr_box \<Rightarrow> int" where
  "spacing_x screen = max 1 (clround (of_int (box_width screen) * (20 / 1920)))"

definition spacing_y :: "wlr_box \<Rightarrow> int" where
  "spacing_y screen = max 1 (clround (of_int (box_height screen) * (20 / 1080)))"

definition preview_width :: "real \<Rightarrow> wlr_box \<Rightarrow> real" where
  "preview_width scale_height geometry =
     (let width = of_int (max 1 (box_width geometry)); height = of_int (max 1 (box_height geometry))
      in if height > scale_height then width * (scale_height / height) else width)"

definition preview_height :: "real \<Rightarrow> wlr_box \<Rightarrow> real" where
  "preview_height scale_height geometry =
     (let height = of_int (max 1 (box_height geometry)) in if height > scale_height then scale_height else height)"

section \<open>The row height\<close>

text \<open>One pass over the windows: whether they need more than \<open>rows\<close> rows, and the rows counted.\<close>

fun count_rows :: "int \<Rightarrow> int \<Rightarrow> int \<Rightarrow> real list \<Rightarrow> int \<Rightarrow> real \<Rightarrow> bool \<times> int" where
  "count_rows screen_width spacing rows [] used_rows row_width = (False, used_rows)"
| "count_rows screen_width spacing rows (width # widths) used_rows row_width =
     (if row_width + (width + of_int spacing) > of_int screen_width
      then if used_rows + 1 > rows then (True, used_rows + 1)
           else count_rows screen_width spacing rows widths (used_rows + 1) (of_int spacing + width + of_int spacing)
      else count_rows screen_width spacing rows widths used_rows (row_width + (width + of_int spacing)))"

record row_fit =
  rf_scale_height :: real
  rf_rows :: int
  rf_used_rows :: int
  rf_overlap :: bool

definition fit_pass :: "wlr_box \<Rightarrow> int \<Rightarrow> wlr_box list \<Rightarrow> real \<Rightarrow> int \<Rightarrow> row_fit" where
  "fit_pass screen content_height entries scale_height rows =
     (let (overlap, used_rows) = count_rows (box_width screen) (spacing_x screen) rows
            (map (preview_width scale_height) entries) 1 (of_int (spacing_x screen));
          scale_height' = (if overlap then scale_height - 15 else scale_height);
          critical = of_int (content_height - (rows + 2) * spacing_y screen) / of_int (rows + 1)
      in \<lparr>rf_scale_height = scale_height',
          rf_rows = (if overlap \<and> scale_height' \<le> critical then rows + 1 else rows),
          rf_used_rows = used_rows, rf_overlap = overlap\<rparr>)"

partial_function (option) fit_rows :: "wlr_box \<Rightarrow> int \<Rightarrow> wlr_box list \<Rightarrow> real \<Rightarrow> int \<Rightarrow> row_fit option" where
  "fit_rows screen content_height entries scale_height rows =
     (let r = fit_pass screen content_height entries scale_height rows
      in if rf_overlap r \<and> rf_scale_height r > 32
         then fit_rows screen content_height entries (rf_scale_height r) (rf_rows r) else Some r)"

declare fit_rows.simps [code]

section \<open>Placement\<close>

definition row_break :: "int \<Rightarrow> int \<Rightarrow> int \<Rightarrow> real \<Rightarrow> nat \<Rightarrow> real \<Rightarrow> bool" where
  "row_break screen_width spacing used_rows width row used_width =
     (used_width + width + of_int spacing > of_int screen_width \<and> int row + 1 < used_rows)"

fun fill_rows :: "int \<Rightarrow> int \<Rightarrow> int \<Rightarrow> real list \<Rightarrow> nat \<Rightarrow> real list \<Rightarrow> real list" where
  "fill_rows screen_width spacing used_rows [] row row_widths = row_widths"
| "fill_rows screen_width spacing used_rows (width # widths) row row_widths =
     (let row' = (if row_break screen_width spacing used_rows width row (row_widths ! row) then row + 1 else row)
      in fill_rows screen_width spacing used_rows widths row'
           (row_widths[row' := row_widths ! row' + (width + of_int spacing)]))"

definition place_preview :: "real \<Rightarrow> real \<Rightarrow> real \<Rightarrow> wlr_box \<Rightarrow> wlr_box" where
  "place_preview scale_height x y entry =
     \<lparr>box_x = clround x, box_y = clround (y + (scale_height - preview_height scale_height entry) / 2),
      box_width = clround (preview_width scale_height entry), box_height = clround (preview_height scale_height entry)\<rparr>"

fun place_rows :: "wlr_box \<Rightarrow> real \<Rightarrow> int \<Rightarrow> real list \<Rightarrow> wlr_box list \<Rightarrow> nat \<Rightarrow> real \<Rightarrow> real \<Rightarrow> real \<Rightarrow> wlr_box list" where
  "place_rows screen scale_height used_rows row_widths [] row used_width x y = []"
| "place_rows screen scale_height used_rows row_widths (entry # entries) row used_width x y =
     (let width = preview_width scale_height entry;
          spacing = of_int (spacing_x screen);
          (row', used_width', x', y') =
            (if row_break (box_width screen) (spacing_x screen) used_rows width row used_width
             then (row + 1, spacing, (of_int (box_width screen) - row_widths ! (row + 1)) / 2 + spacing,
                   y + (scale_height + of_int (spacing_y screen)))
             else (row, used_width, x, y))
      in place_preview scale_height x' y' entry #
         place_rows screen scale_height used_rows row_widths entries row' (used_width' + (width + spacing))
           (x' + (width + spacing)) y')"

definition place_windows :: "wlr_box \<Rightarrow> int \<Rightarrow> wlr_box list \<Rightarrow> row_fit \<Rightarrow> wlr_box list" where
  "place_windows screen content_y entries r =
     (let content_height = box_height screen - content_y;
          scale_height = rf_scale_height r;
          used_rows = rf_used_rows r;
          spacing = of_int (spacing_x screen);
          row_widths = fill_rows (box_width screen) (spacing_x screen) used_rows
            (map (preview_width scale_height) entries) 0 (replicate (nat used_rows) spacing);
          y = of_int content_y + (of_int content_height - of_int ((used_rows - 1) * spacing_y screen) -
                of_int used_rows * scale_height) / 2
      in place_rows screen scale_height used_rows row_widths entries 0 spacing
           ((of_int (box_width screen) - row_widths ! 0) / 2 + spacing) y)"

text \<open>\<open>None\<close> stands for a loop that does not end.\<close>

definition CalculateWindowLayout :: "wlr_box \<Rightarrow> int \<Rightarrow> wlr_box list \<Rightarrow> wlr_box list option" where
  "CalculateWindowLayout screen window_area_y visible_entries =
     (if visible_entries = [] then Some []
      else map_option (place_windows screen window_area_y visible_entries)
             (fit_rows screen (box_height screen - window_area_y) visible_entries
               (of_int (box_height screen) * kFirstWindowScale) 1))"

end
