(* ===== verification/Multitasking_View.thy ===== *)
theory Multitasking_View
  imports Multitasking_Layout Overlays
begin

text \<open>
  The multitasking view (\<open>src/view/multitasking/multitasking.cc\<close>) together with the compositor it calls
  back: an operation maps the overview and the compositor to their new states.  The box of the screen and
  the success of the renderer are the environment, the clock of the animation an argument.  The scene nodes
  of the previews are pure output and not modelled, so \<open>RebuildPreviews\<close>, \<open>ClearPreviews\<close> and
  \<open>SurfaceUpdated\<close>, which only redraws, have no definition here.  \<open>Finish\<close>,
  \<open>SelectWorkspace\<close> and \<open>StepWindow\<close> are called by nothing in the source.  The scene nodes are taken to have been created.
\<close>

section \<open>State\<close>

datatype Control = CtlNone | CtlWindow | CtlWindowClose | CtlWindowTop | CtlWorkspace | CtlWorkspaceClose | CtlAddWorkspace

record MultitaskingLayout =
  ml_workspace_x :: int
  ml_workspace_y :: int
  ml_workspace_width :: int
  ml_workspace_height :: int
  ml_workspace_gap :: int
  ml_window_area_y :: int
  ml_add_x :: int
  ml_add_y :: int

text \<open>\<open>mt_shown\<close> is the state of the overlay tree, \<open>mt_timer\<close> that of the animation timer.\<close>

record Multitasking =
  mt_entries :: "overview_entry list"
  mt_visible :: "overview_entry list"
  mt_counts :: "nat list"
  mt_placements :: "wlr_box list"
  mt_from :: "wlr_box list"
  mt_to :: "wlr_box list"
  mt_layout :: MultitaskingLayout
  mt_screen :: wlr_box
  mt_selected_workspace :: int
  mt_selected_window :: int
  mt_hovered_workspace :: int
  mt_hovered_window :: int
  mt_pressed_workspace :: int
  mt_pressed_window :: int
  mt_dragged_workspace :: int
  mt_pointer_x :: real
  mt_pointer_y :: real
  mt_press_x :: real
  mt_press_y :: real
  mt_opacity :: real
  mt_hovered_control :: Control
  mt_pressed_control :: Control
  mt_active :: bool
  mt_closing :: bool
  mt_animating :: bool
  mt_dragging :: bool
  mt_pending_activation :: "nat option"
  mt_pending_close :: "nat option"
  mt_pending_workspace :: int
  mt_timer :: bool
  mt_shown :: bool

definition new_Multitasking :: Multitasking where
  "new_Multitasking = \<lparr>mt_entries = [], mt_visible = [], mt_counts = [], mt_placements = [], mt_from = [], mt_to = [],
     mt_layout = \<lparr>ml_workspace_x = 0, ml_workspace_y = 13, ml_workspace_width = 160, ml_workspace_height = 90,
       ml_workspace_gap = 27, ml_window_area_y = 116, ml_add_x = 0, ml_add_y = 0\<rparr>,
     mt_screen = zero_box, mt_selected_workspace = 0, mt_selected_window = -1, mt_hovered_workspace = -1,
     mt_hovered_window = -1, mt_pressed_workspace = -1, mt_pressed_window = -1, mt_dragged_workspace = -1,
     mt_pointer_x = 0, mt_pointer_y = 0, mt_press_x = 0, mt_press_y = 0, mt_opacity = 1,
     mt_hovered_control = CtlNone, mt_pressed_control = CtlNone, mt_active = False, mt_closing = False,
     mt_animating = False, mt_dragging = False, mt_pending_activation = None, mt_pending_close = None,
     mt_pending_workspace = -1, mt_timer = False, mt_shown = False\<rparr>"

record mt_env =
  me_screen :: wlr_box
  me_renders :: bool

abbreviation mt_IsActive :: "Multitasking \<Rightarrow> bool" where
  "mt_IsActive m \<equiv> mt_active m \<or> mt_closing m"

section \<open>Entries and placements\<close>

definition mt_Refresh :: "compositor \<Rightarrow> Multitasking \<Rightarrow> Multitasking" where
  "mt_Refresh c m =
     (let count = max 1 (workspace_count c);
          entries = filter (\<lambda>e. ov_surface e \<noteq> None \<and> 0 \<le> ov_workspace e \<and> ov_workspace e < count) (multitasking_entries c);
          selected = cclamp (mt_selected_workspace m) 0 (count - 1);
          visible = filter (\<lambda>e. ov_workspace e = selected) (rev entries);
          focused = index_of ov_active visible
      in m\<lparr>mt_entries := entries, mt_selected_workspace := selected,
           mt_counts := map (\<lambda>w. length (filter (\<lambda>e. ov_workspace e = int w) entries)) [0..<nat count],
           mt_visible := visible,
           mt_selected_window := (if focused = length visible then (if visible = [] then -1 else 0) else int focused),
           mt_hovered_window := -1\<rparr>)"

definition mt_layout_of :: "wlr_box \<Rightarrow> nat \<Rightarrow> MultitaskingLayout" where
  "mt_layout_of screen counts =
     (let workspace_count = max 1 (int counts);
          y = max 1 (clround (of_int (box_height screen) * (20 / 1080)));
          width = max 1 (clround (of_int (box_width screen) * (240 / 1920)));
          height = max 1 (clround (of_int (box_height screen) * (240 / 1920)));
          gap = max 1 (clround (of_int (box_width screen) * (40 / 1920)));
          total_width = workspace_count * width + (workspace_count - 1) * gap
      in \<lparr>ml_workspace_x = cdiv (box_width screen - total_width) 2, ml_workspace_y = y, ml_workspace_width = width,
          ml_workspace_height = height, ml_workspace_gap = gap, ml_window_area_y = y * 2 + height,
          ml_add_x = box_width screen - 104, ml_add_y = y + cdiv (height - 64) 2\<rparr>)"

definition mt_CalculateWindowLayout :: "Multitasking \<Rightarrow> Multitasking" where
  "mt_CalculateWindowLayout m =
     (case CalculateWindowLayout (mt_screen m) (ml_window_area_y (mt_layout m)) (map ov_geometry (mt_visible m)) of
        None \<Rightarrow> m
      | Some placements \<Rightarrow> m\<lparr>mt_placements := placements\<rparr>)"

text \<open>Where the windows are on the screen, as the animation starts and ends there.\<close>

definition window_boxes :: "Multitasking \<Rightarrow> wlr_box list" where
  "window_boxes m =
     map (\<lambda>e. \<lparr>box_x = box_x (ov_geometry e) - box_x (mt_screen m), box_y = box_y (ov_geometry e) - box_y (mt_screen m),
               box_width = max 1 (box_width (ov_geometry e)), box_height = max 1 (box_height (ov_geometry e))\<rparr>) (mt_visible m)"

section \<open>Showing and closing\<close>

definition mt_CompleteClose :: "Multitasking \<times> compositor \<Rightarrow> Multitasking \<times> compositor" where
  "mt_CompleteClose = (\<lambda>(m, c).
     (let c1 = SetMultitaskingSourcesHidden False c;
          c2 = (case mt_pending_close m of None \<Rightarrow> c1 | Some s \<Rightarrow> overview_close s c1);
          c3 = (case mt_pending_activation m of
                  Some s \<Rightarrow> multitasking_activate s c2
                | None \<Rightarrow> if mt_pending_workspace m \<ge> 0 then SwitchWorkspace (mt_pending_workspace m) c2 else c2)
      in (m\<lparr>mt_timer := False, mt_active := False, mt_closing := False, mt_animating := False, mt_dragging := False,
            mt_pending_activation := None, mt_pending_close := None, mt_pending_workspace := -1, mt_shown := False,
            mt_entries := [], mt_visible := []\<rparr>, c3)))"

definition mt_UpdateView :: "mt_env \<Rightarrow> Multitasking \<times> compositor \<Rightarrow> Multitasking \<times> compositor" where
  "mt_UpdateView e = (\<lambda>(m, c).
     if \<not> mt_IsActive m then (m\<lparr>mt_shown := False\<rparr>, c)
     else let m1 = m\<lparr>mt_screen := me_screen e\<rparr>
          in if box_width (me_screen e) \<le> 0 \<or> box_height (me_screen e) \<le> 0 \<or> \<not> me_renders e then mt_CompleteClose (m1, c)
             else let m2 = m1\<lparr>mt_layout := mt_layout_of (me_screen e) (length (mt_counts m1))\<rparr>;
                      m3 = (if \<not> mt_animating m2 \<and> \<not> mt_dragging m2 then mt_CalculateWindowLayout m2 else m2)
                  in (m3\<lparr>mt_shown := True\<rparr>, c))"

definition mt_StartAnimation :: "mt_env \<Rightarrow> bool \<Rightarrow> Multitasking \<times> compositor \<Rightarrow> Multitasking \<times> compositor" where
  "mt_StartAnimation e closing = (\<lambda>(m, c).
     if \<not> mt_active m \<or> (mt_closing m \<and> closing) then (m, c)
     else let m1 = m\<lparr>mt_closing := closing, mt_animating := True, mt_from := mt_placements m, mt_to := []\<rparr>;
              m2 = (if closing then m1\<lparr>mt_to := window_boxes m1\<rparr>
                    else let m' = mt_CalculateWindowLayout m1 in m'\<lparr>mt_to := mt_placements m', mt_placements := mt_from m'\<rparr>)
          in mt_UpdateView e (m2\<lparr>mt_timer := True\<rparr>, c))"

definition mt_Toggle :: "mt_env \<Rightarrow> Multitasking \<times> compositor \<Rightarrow> bool \<times> Multitasking \<times> compositor" where
  "mt_Toggle e = (\<lambda>(m, c).
     if mt_IsActive m then (True, if mt_closing m then (m, c) else mt_StartAnimation e True (m, c))
     else if workspace_count c \<le> 0 then (False, m, c)
     else let m1 = m\<lparr>mt_active := True, mt_closing := False, mt_pending_activation := None, mt_pending_close := None,
                     mt_pending_workspace := -1,
                     mt_selected_workspace := cclamp (current_workspace c) 0 (workspace_count c - 1),
                     mt_hovered_workspace := -1, mt_hovered_window := -1, mt_hovered_control := CtlNone\<rparr>;
              (m2, c2) = mt_UpdateView e (mt_Refresh c m1, c)
          in if \<not> mt_active m2 then (False, m2, c2)
             else let m3 = m2\<lparr>mt_to := mt_placements m2, mt_from := window_boxes m2\<rparr>
                  in (True, mt_StartAnimation e False
                              (m3\<lparr>mt_placements := mt_from m3, mt_opacity := 0\<rparr>, SetMultitaskingSourcesHidden True c2)))"

section \<open>The animation\<close>

definition OutQuint :: "real \<Rightarrow> real" where
  "OutQuint progress = (let remaining = 1 - cclamp progress 0 1 in 1 - remaining * remaining * remaining * remaining * remaining)"

definition mt_Interpolate :: "wlr_box \<Rightarrow> wlr_box \<Rightarrow> real \<Rightarrow> wlr_box" where
  "mt_Interpolate from to progress =
     (let mid = \<lambda>f. of_int (f from) + of_int (f to - f from) * progress
      in \<lparr>box_x = clround (mid box_x), box_y = clround (mid box_y),
          box_width = max 1 (clround (mid box_width)), box_height = max 1 (clround (mid box_height))\<rparr>)"

definition mt_UpdateAnimation :: "mt_env \<Rightarrow> nat \<Rightarrow> Multitasking \<times> compositor \<Rightarrow> Multitasking \<times> compositor" where
  "mt_UpdateAnimation e elapsed = (\<lambda>(m, c).
     if \<not> mt_animating m then (m, c)
     else let raw = of_nat elapsed / 300;
              m1 = m\<lparr>mt_placements := map2 (\<lambda>f t. mt_Interpolate f t (OutQuint raw)) (mt_from m) (mt_to m),
                     mt_opacity := (if mt_closing m then mt_opacity m else cclamp raw 0 1)\<rparr>
          in if raw \<ge> 1
             then let m2 = m1\<lparr>mt_timer := False, mt_animating := False, mt_placements := mt_to m1\<rparr>
                  in if mt_closing m2 then mt_CompleteClose (m2, c) else mt_UpdateView e (m2\<lparr>mt_opacity := 1\<rparr>, c)
             else mt_UpdateView e (m1, c))"

section \<open>Hit tests\<close>

definition WorkspaceX :: "Multitasking \<Rightarrow> int \<Rightarrow> int" where
  "WorkspaceX m index =
     (if mt_dragging m \<and> mt_dragged_workspace m = index
      then clround (mt_pointer_x m - of_int (ml_workspace_width (mt_layout m)) / 2)
      else ml_workspace_x (mt_layout m) + index * (ml_workspace_width (mt_layout m) + ml_workspace_gap (mt_layout m)))"

definition in_span :: "real \<Rightarrow> int \<Rightarrow> int \<Rightarrow> bool" where
  "in_span v lo hi = (of_int lo \<le> v \<and> v < of_int hi)"

definition placement_at :: "Multitasking \<Rightarrow> int \<Rightarrow> wlr_box option" where
  "placement_at m index =
     (if index < 0 \<or> index \<ge> int (length (mt_placements m)) then None else Some (mt_placements m ! nat index))"

definition PointerOnCloseButton :: "Multitasking \<Rightarrow> int \<Rightarrow> bool" where
  "PointerOnCloseButton m index =
     (case placement_at m index of None \<Rightarrow> False
      | Some p \<Rightarrow> in_span (mt_pointer_x m) (box_x p + box_width p - 25) (box_x p + box_width p + 23) \<and>
                 in_span (mt_pointer_y m) (box_y p - 17) (box_y p + 31))"

definition PointerOnTopButton :: "Multitasking \<Rightarrow> int \<Rightarrow> bool" where
  "PointerOnTopButton m index =
     (case placement_at m index of None \<Rightarrow> False
      | Some p \<Rightarrow> in_span (mt_pointer_x m) (box_x p - 22) (box_x p + 26) \<and>
                 in_span (mt_pointer_y m) (box_y p - 17) (box_y p + 31))"

definition PointerOnWorkspaceCloseButton :: "Multitasking \<Rightarrow> int \<Rightarrow> bool" where
  "PointerOnWorkspaceCloseButton m index =
     (if length (mt_counts m) \<le> 1 \<or> index < 0 \<or> index \<ge> int (length (mt_counts m)) then False
      else let x = WorkspaceX m index + ml_workspace_width (mt_layout m) - 30
           in in_span (mt_pointer_x m) x (x + 48) \<and>
              in_span (mt_pointer_y m) (ml_workspace_y (mt_layout m) - 13) (ml_workspace_y (mt_layout m) + 35))"

definition PointerOnAddButton :: "Multitasking \<Rightarrow> bool" where
  "PointerOnAddButton m =
     (length (mt_counts m) < 6 \<and> in_span (mt_pointer_x m) (ml_add_x (mt_layout m)) (ml_add_x (mt_layout m) + 64) \<and>
      in_span (mt_pointer_y m) (ml_add_y (mt_layout m)) (ml_add_y (mt_layout m) + 64))"

definition WorkspaceAt :: "Multitasking \<Rightarrow> real \<Rightarrow> real \<Rightarrow> int" where
  "WorkspaceAt m x y =
     (if \<not> in_span y (ml_workspace_y (mt_layout m)) (ml_workspace_y (mt_layout m) + ml_workspace_height (mt_layout m)) then -1
      else case find (\<lambda>i. in_span x (WorkspaceX m (int i)) (WorkspaceX m (int i) + ml_workspace_width (mt_layout m)))
                  [0..<length (mt_counts m)] of
             None \<Rightarrow> -1 | Some i \<Rightarrow> int i)"

definition WindowAt :: "Multitasking \<Rightarrow> real \<Rightarrow> real \<Rightarrow> int" where
  "WindowAt m x y =
     (case find (\<lambda>i. let p = mt_placements m ! i
                     in in_span x (box_x p) (box_x p + box_width p) \<and> in_span y (box_y p) (box_y p + box_height p))
             (rev [0..<length (mt_placements m)]) of
        None \<Rightarrow> -1 | Some i \<Rightarrow> int i)"

definition control_at :: "Multitasking \<Rightarrow> int \<Rightarrow> int \<Rightarrow> Control" where
  "control_at m window workspace =
     (if window \<ge> 0 then (if PointerOnCloseButton m window then CtlWindowClose
                          else if PointerOnTopButton m window then CtlWindowTop else CtlWindow)
      else if PointerOnAddButton m then CtlAddWorkspace
      else if workspace \<ge> 0 then (if PointerOnWorkspaceCloseButton m workspace then CtlWorkspaceClose else CtlWorkspace)
      else CtlNone)"

section \<open>Input\<close>

definition closing_symbol :: "keysym \<Rightarrow> bool" where
  "closing_symbol symbol = (symbol = 0x73 \<or> symbol = 0x53 \<or> symbol = XKB_KEY_Tab \<or> symbol = XKB_KEY_ISO_Left_Tab)"

definition mt_HandleKey :: "mt_env \<Rightarrow> keysym option \<Rightarrow> bool \<Rightarrow> bool \<Rightarrow> Multitasking \<times> compositor \<Rightarrow> bool \<times> Multitasking \<times> compositor" where
  "mt_HandleKey e symbol logo pressed = (\<lambda>(m, c).
     if \<not> mt_active m \<or> mt_closing m then (mt_IsActive m, m, c)
     else case symbol of
       None \<Rightarrow> (True, m, c)
     | Some symbol \<Rightarrow>
         if logo \<and> closing_symbol symbol then (False, m, c)
         else (True, if pressed \<and> (symbol = XKB_KEY_Escape \<or> closing_symbol symbol) then mt_StartAnimation e True (m, c)
                     else (m, c)))"

definition start_dragging :: "Multitasking \<Rightarrow> Multitasking" where
  "start_dragging m =
     (let dx = mt_pointer_x m - mt_press_x m; dy = mt_pointer_y m - mt_press_y m
      in if (mt_pressed_control m = CtlWindow \<or> mt_pressed_control m = CtlWorkspace) \<and> \<not> mt_dragging m \<and> dx * dx + dy * dy > 100
         then m\<lparr>mt_dragging := True\<rparr> else m)"

definition mt_HandleMotion :: "mt_env \<Rightarrow> real \<Rightarrow> real \<Rightarrow> Multitasking \<times> compositor \<Rightarrow> bool \<times> Multitasking \<times> compositor" where
  "mt_HandleMotion e layout_x layout_y = (\<lambda>(m, c).
     if \<not> mt_active m \<or> mt_closing m then (mt_IsActive m, m, c)
     else let m1 = start_dragging (m\<lparr>mt_pointer_x := layout_x - of_int (box_x (mt_screen m)),
                                      mt_pointer_y := layout_y - of_int (box_y (mt_screen m))\<rparr>)
          in case (if mt_dragging m1 \<and> mt_pressed_control m1 = CtlWindow then placement_at m1 (mt_pressed_window m1) else None) of
               Some p \<Rightarrow>
                 (True, mt_UpdateView e
                    (m1\<lparr>mt_placements := (mt_placements m1)[nat (mt_pressed_window m1) :=
                        p\<lparr>box_x := clround (mt_pointer_x m1 - of_int (box_width p) / 2),
                          box_y := clround (mt_pointer_y m1 - of_int (box_height p) / 2)\<rparr>]\<rparr>, c))
             | None \<Rightarrow>
                 if mt_dragging m1 \<and> mt_pressed_control m1 = CtlWorkspace
                 then (True, mt_UpdateView e (m1\<lparr>mt_dragged_workspace := mt_pressed_workspace m1\<rparr>, c))
                 else let workspace = WorkspaceAt m1 (mt_pointer_x m1) (mt_pointer_y m1);
                          window = WindowAt m1 (mt_pointer_x m1) (mt_pointer_y m1);
                          control = control_at m1 window workspace
                      in (True, if mt_hovered_workspace m1 \<noteq> workspace \<or> mt_hovered_window m1 \<noteq> window \<or> mt_hovered_control m1 \<noteq> control
                                then mt_UpdateView e (m1\<lparr>mt_hovered_workspace := workspace, mt_hovered_window := window,
                                       mt_hovered_control := control\<rparr>, c)
                                else (m1, c)))"

text \<open>The window under the press, if it is still there.\<close>

definition pressed_entry :: "Multitasking \<Rightarrow> overview_entry option" where
  "pressed_entry m =
     (if 0 \<le> mt_pressed_window m \<and> mt_pressed_window m < int (length (mt_visible m))
      then Some (mt_visible m ! nat (mt_pressed_window m)) else None)"

definition on_surface :: "(nat \<Rightarrow> compositor \<Rightarrow> compositor) \<Rightarrow> overview_entry \<Rightarrow> compositor \<Rightarrow> compositor" where
  "on_surface f entry c = (case ov_surface entry of None \<Rightarrow> c | Some s \<Rightarrow> f s c)"

definition drop_window :: "mt_env \<Rightarrow> overview_entry \<Rightarrow> Multitasking \<times> compositor \<Rightarrow> Multitasking \<times> compositor" where
  "drop_window e entry = (\<lambda>(m, c).
     (let workspace = WorkspaceAt m (mt_pointer_x m) (mt_pointer_y m);
          (m1, c1) = (if workspace \<ge> 0
                      then let c' = on_surface (\<lambda>s c. snd (overview_move s workspace c)) entry c in (mt_Refresh c' m, c')
                      else (m, c))
      in mt_UpdateView e (mt_CalculateWindowLayout (m1\<lparr>mt_dragging := False, mt_pressed_control := CtlNone\<rparr>), c1)))"

definition drop_workspace :: "mt_env \<Rightarrow> Multitasking \<times> compositor \<Rightarrow> Multitasking \<times> compositor" where
  "drop_workspace e = (\<lambda>(m, c).
     (let target = WorkspaceAt m (mt_pointer_x m) (mt_pointer_y m);
          (m1, c1) = (if target \<ge> 0 \<and> target \<noteq> mt_pressed_workspace m
                      then let c' = snd (ReorderWorkspace (mt_pressed_workspace m) target c)
                           in (mt_Refresh c' (m\<lparr>mt_selected_workspace := target\<rparr>), c')
                      else (m, c))
      in mt_UpdateView e (m1\<lparr>mt_dragging := False, mt_dragged_workspace := -1, mt_pressed_control := CtlNone\<rparr>, c1)))"

definition click :: "mt_env \<Rightarrow> Multitasking \<times> compositor \<Rightarrow> Multitasking \<times> compositor" where
  "click e = (\<lambda>(m, c).
     (case (mt_hovered_control m, pressed_entry m) of
        (CtlWindowClose, Some entry) \<Rightarrow> mt_StartAnimation e True (m\<lparr>mt_pending_close := ov_surface entry\<rparr>, c)
      | (CtlWindowTop, Some entry) \<Rightarrow>
          let c1 = on_surface overview_toggle_above entry c in mt_UpdateView e (mt_Refresh c1 m, c1)
      | (CtlWindow, Some entry) \<Rightarrow> mt_StartAnimation e True (m\<lparr>mt_pending_activation := ov_surface entry\<rparr>, c)
      | (CtlWorkspace, _) \<Rightarrow>
          if mt_pressed_workspace m \<ge> 0
          then mt_StartAnimation e True (m\<lparr>mt_pending_workspace := mt_pressed_workspace m\<rparr>, c) else (m, c)
      | (CtlWorkspaceClose, _) \<Rightarrow>
          if mt_pressed_workspace m \<ge> 0
          then let (removed, c1) = RemoveWorkspace (mt_pressed_workspace m) c
               in if removed
                  then mt_UpdateView e (mt_Refresh c1 (m\<lparr>mt_selected_workspace :=
                         cclamp (mt_selected_workspace m) 0 (max 0 (workspace_count c1 - 1))\<rparr>), c1)
                  else (m, c1)
          else (m, c)
      | (CtlAddWorkspace, _) \<Rightarrow>
          if workspace_count c < 6
          then let (added, c1) = AddWorkspace c in if added then mt_UpdateView e (mt_Refresh c1 m, c1) else (m, c1)
          else (m, c)
      | (CtlNone, _) \<Rightarrow> mt_StartAnimation e True (m, c)
      | _ \<Rightarrow> (m, c)))"

definition mt_HandleButton :: "mt_env \<Rightarrow> bool \<Rightarrow> bool \<Rightarrow> Multitasking \<times> compositor \<Rightarrow> bool \<times> Multitasking \<times> compositor" where
  "mt_HandleButton e left pressed = (\<lambda>(m, c).
     if \<not> mt_active m \<or> mt_closing m then (mt_IsActive m, m, c)
     else if \<not> left then (True, m, c)
     else if pressed
     then (True, m\<lparr>mt_pressed_control := mt_hovered_control m, mt_pressed_workspace := mt_hovered_workspace m,
            mt_pressed_window := mt_hovered_window m, mt_press_x := mt_pointer_x m, mt_press_y := mt_pointer_y m,
            mt_dragging := False\<rparr>, c)
     else case (if mt_dragging m \<and> mt_pressed_control m = CtlWindow then pressed_entry m else None) of
            Some entry \<Rightarrow> (True, drop_window e entry (m, c))
          | None \<Rightarrow>
              if mt_dragging m \<and> mt_pressed_control m = CtlWorkspace then (True, drop_workspace e (m, c))
              else let (m1, c1) = (if mt_hovered_control m = mt_pressed_control m then click e (m, c) else (m, c))
                   in (True, m1\<lparr>mt_pressed_control := CtlNone, mt_pressed_workspace := -1, mt_pressed_window := -1\<rparr>, c1))"

definition mt_SurfaceUnavailable :: "mt_env \<Rightarrow> nat option \<Rightarrow> Multitasking \<times> compositor \<Rightarrow> Multitasking \<times> compositor" where
  "mt_SurfaceUnavailable e surface = (\<lambda>(m, c).
     if \<not> mt_IsActive m \<or> surface = None then (m, c)
     else let m1 = (if mt_pending_activation m = surface then m\<lparr>mt_pending_activation := None\<rparr> else m);
              m2 = (if mt_pending_close m1 = surface then m1\<lparr>mt_pending_close := None\<rparr> else m1)
          in mt_UpdateView e (mt_Refresh c m2, c))"

definition mt_Cancel :: "mt_env \<Rightarrow> Multitasking \<times> compositor \<Rightarrow> Multitasking \<times> compositor" where
  "mt_Cancel e = (\<lambda>(m, c). if mt_active m \<and> \<not> mt_closing m then mt_StartAnimation e True (m, c) else (m, c))"

section \<open>Keyboard selection\<close>

definition mt_Finish :: "mt_env \<Rightarrow> bool \<Rightarrow> Multitasking \<times> compositor \<Rightarrow> Multitasking \<times> compositor" where
  "mt_Finish e activate_window = (\<lambda>(m, c).
     mt_StartAnimation e True
       (if activate_window \<and> 0 \<le> mt_selected_window m \<and> mt_selected_window m < int (length (mt_visible m))
        then m\<lparr>mt_pending_activation := ov_surface (mt_visible m ! nat (mt_selected_window m))\<rparr> else m, c))"

definition mt_SelectWorkspace :: "mt_env \<Rightarrow> int \<Rightarrow> Multitasking \<times> compositor \<Rightarrow> Multitasking \<times> compositor" where
  "mt_SelectWorkspace e workspace = (\<lambda>(m, c).
     if workspace < 0 \<or> workspace \<ge> int (length (mt_counts m)) \<or> workspace = mt_selected_workspace m then (m, c)
     else mt_UpdateView e (mt_Refresh c (m\<lparr>mt_selected_workspace := workspace\<rparr>), c))"

definition mt_StepWindow :: "mt_env \<Rightarrow> int \<Rightarrow> Multitasking \<times> compositor \<Rightarrow> Multitasking \<times> compositor" where
  "mt_StepWindow e delta = (\<lambda>(m, c).
     (let count = int (length (mt_visible m));
          next = max 0 (mt_selected_window m) + delta;
          selected = next - cdiv next count * count
      in if count \<le> 0 then (m, c)
         else mt_UpdateView e (m\<lparr>mt_selected_window := (if selected < 0 then selected + count else selected)\<rparr>, c)))"

end
