(* ===== verification/Multitasking_Laws.thy ===== *)
theory Multitasking_Laws
  imports Multitasking_View Desktop_Reachable
begin

text \<open>
  The multitasking view running beside the window manager: events of the view and events of the desktop in
  any order.  In every state reached the windows are hidden exactly while the view is up, and a view that
  closes hands the desktop back.
\<close>

section \<open>The callbacks and the hidden windows\<close>

lemma view_multitasking: "view c' = view c \<Longrightarrow> multitasking_sources_hidden c' = multitasking_sources_hidden c"
  by (drule arg_cong [of _ _ dv_multitasking]) (simp add: view_def)

lemma view_hidden: "dv_multitasking (view c) = b \<Longrightarrow> multitasking_sources_hidden c = b"
  by (simp add: view_def)

lemma hidden_switch: "multitasking_sources_hidden (SwitchWorkspace n c) = multitasking_sources_hidden c"
  by (rule view_hidden, unfold view_SwitchWorkspace) (simp add: view_switch_def refresh_windows_def reset_grab_def)

lemma hidden_set: "multitasking_sources_hidden (SetMultitaskingSourcesHidden b c) = b"
  by (rule view_hidden, unfold view_hide) (simp add: refresh_windows_def)

lemma hidden_move: "multitasking_sources_hidden (snd (MoveToplevelToWorkspace i n c)) = multitasking_sources_hidden c"
  by (rule view_hidden, unfold view_MoveToplevel) (simp add: view_move_def on_window_def split: option.splits)

lemma hidden_add: "multitasking_sources_hidden (snd (AddWorkspace c)) = multitasking_sources_hidden c"
  by (rule view_hidden, unfold view_AddWorkspace) simp

lemma hidden_remove: "multitasking_sources_hidden (snd (RemoveWorkspace n c)) = multitasking_sources_hidden c"
  by (rule view_hidden, unfold view_RemoveWorkspace) (simp add: view_remove_def refresh_windows_def reset_grab_def)

lemma hidden_reorder: "multitasking_sources_hidden (snd (ReorderWorkspace n m c)) = multitasking_sources_hidden c"
  by (rule view_hidden, unfold view_ReorderWorkspace) (simp add: view_reorder_def refresh_windows_def reset_grab_def)

lemma hidden_focus: "multitasking_sources_hidden (FocusToplevel w c) = multitasking_sources_hidden c"
  by (rule view_multitasking) (simp add: view_frame)

lemma hidden_activate: "multitasking_sources_hidden (multitasking_activate s c) = multitasking_sources_hidden c"
  by (simp add: multitasking_activate_def hidden_focus hidden_switch upd_tl_def split: option.splits)

lemma hidden_overview [simp]:
  "multitasking_sources_hidden (overview_close s c) = multitasking_sources_hidden c"
  "multitasking_sources_hidden (overview_toggle_above s c) = multitasking_sources_hidden c"
  by (rule view_multitasking, simp add: view_frame)+

lemma hidden_overview_move: "multitasking_sources_hidden (snd (overview_move s n c)) = multitasking_sources_hidden c"
  by (simp add: overview_move_def hidden_move split: option.splits)

lemmas hidden_calls = hidden_switch hidden_set hidden_move hidden_add hidden_remove hidden_reorder hidden_activate hidden_overview_move

lemmas reach = wm_step.Switch wm_step.Move wm_step.Add wm_step.Remove wm_step.Reorder wm_step.HideMultitasking
  wm_step.MultitaskingActivate wm_step.OverviewClose wm_step.OverviewToggle

lemma reach_calls:
  assumes "reachable c"
  shows "reachable (SwitchWorkspace n c)" "reachable (snd (AddWorkspace c))" "reachable (snd (RemoveWorkspace n c))"
    "reachable (snd (ReorderWorkspace n k c))" "reachable (SetMultitaskingSourcesHidden b c)"
    "reachable (multitasking_activate s c)" "reachable (overview_close s c)" "reachable (overview_toggle_above s c)"
    "reachable (snd (overview_move s n c))"
  using assms by (auto simp: overview_move_def intro: reachable.Step reach split: option.splits)

section \<open>The state of a run\<close>

text \<open>A closing view is still active and its animation runs; the timer runs exactly during an animation.\<close>

definition run_ok :: "Multitasking \<Rightarrow> bool" where
  "run_ok m = ((mt_closing m \<longrightarrow> mt_animating m) \<and> (mt_animating m \<longrightarrow> mt_active m) \<and> mt_timer m = mt_animating m)"

fun overview_ok :: "Multitasking \<times> compositor \<Rightarrow> bool" where
  "overview_ok (m, c) = (reachable c \<and> run_ok m \<and> multitasking_sources_hidden c = mt_IsActive m \<and> mt_shown m = mt_IsActive m)"

abbreviation flags :: "Multitasking \<Rightarrow> _" where
  "flags m \<equiv> (mt_active m, mt_closing m, mt_animating m, mt_timer m, mt_pending_activation m, mt_pending_close m,
     mt_pending_workspace m)"

lemma flags_layout [simp]:
  "mt_active (mt_CalculateWindowLayout m) = mt_active m" "mt_closing (mt_CalculateWindowLayout m) = mt_closing m"
  "mt_animating (mt_CalculateWindowLayout m) = mt_animating m" "mt_timer (mt_CalculateWindowLayout m) = mt_timer m"
  "mt_shown (mt_CalculateWindowLayout m) = mt_shown m" "mt_visible (mt_CalculateWindowLayout m) = mt_visible m"
  "mt_pending_activation (mt_CalculateWindowLayout m) = mt_pending_activation m"
  "mt_pending_close (mt_CalculateWindowLayout m) = mt_pending_close m"
  "mt_pending_workspace (mt_CalculateWindowLayout m) = mt_pending_workspace m"
  by (simp_all add: mt_CalculateWindowLayout_def split: option.splits)

lemma flags_refresh [simp]:
  "mt_active (mt_Refresh c m) = mt_active m" "mt_closing (mt_Refresh c m) = mt_closing m"
  "mt_animating (mt_Refresh c m) = mt_animating m" "mt_timer (mt_Refresh c m) = mt_timer m"
  "mt_shown (mt_Refresh c m) = mt_shown m" "mt_pending_activation (mt_Refresh c m) = mt_pending_activation m"
  "mt_pending_close (mt_Refresh c m) = mt_pending_close m" "mt_pending_workspace (mt_Refresh c m) = mt_pending_workspace m"
  by (simp_all add: mt_Refresh_def Let_def)

lemma mt_CompleteClose_closes:
  assumes "reachable c" "mt_CompleteClose (m, c) = (m', c')"
  shows "overview_ok (m', c') \<and> \<not> mt_IsActive m'"
  using assms by (auto simp: mt_CompleteClose_def Let_def run_ok_def hidden_calls reach_calls split: option.splits if_splits)

lemma mt_CompleteClose_ok: "reachable c \<Longrightarrow> overview_ok (mt_CompleteClose (m, c))"
  using mt_CompleteClose_closes [of c m] by (cases "mt_CompleteClose (m, c)") simp

lemma mt_UpdateView_cases:
  assumes "mt_IsActive m"
  obtains (closed) m1 where "mt_UpdateView e (m, c) = mt_CompleteClose (m1, c)"
    "box_width (me_screen e) \<le> 0 \<or> box_height (me_screen e) \<le> 0 \<or> \<not> me_renders e"
  | (shown) m1 where "mt_UpdateView e (m, c) = (m1, c)" "mt_shown m1" "flags m1 = flags m" "mt_visible m1 = mt_visible m"
proof (cases "box_width (me_screen e) \<le> 0 \<or> box_height (me_screen e) \<le> 0 \<or> \<not> me_renders e")
  case True
  with assms closed show thesis by (auto simp: mt_UpdateView_def Let_def)
next
  case False
  show thesis
    by (rule shown [of "fst (mt_UpdateView e (m, c))"]) (use assms False in \<open>simp_all add: mt_UpdateView_def Let_def\<close>)
qed

lemma mt_UpdateView_ok:
  assumes "reachable c" "run_ok m" "multitasking_sources_hidden c = mt_IsActive m"
  shows "overview_ok (mt_UpdateView e (m, c))"
proof (cases "mt_IsActive m")
  case True
  then show ?thesis
  proof (cases rule: mt_UpdateView_cases [of _ e c])
    case (closed m1)
    then show ?thesis using mt_CompleteClose_closes [OF assms(1), of m1] by (cases "mt_CompleteClose (m1, c)") auto
  next
    case (shown m1)
    then show ?thesis using assms True by (auto simp: run_ok_def)
  qed
next
  case False
  then show ?thesis using assms by (simp add: mt_UpdateView_def run_ok_def)
qed

lemma overview_ok_flags:
  "overview_ok (m, c) \<Longrightarrow> flags m' = flags m \<Longrightarrow> mt_shown m' = mt_shown m \<Longrightarrow> overview_ok (m', c)"
  by (simp add: run_ok_def)

lemma mt_StartAnimation_ok:
  assumes "overview_ok (m, c)"
  shows "overview_ok (mt_StartAnimation e closing (m, c))"
proof (cases "\<not> mt_active m \<or> mt_closing m \<and> closing")
  case True
  then show ?thesis using assms by (auto simp: mt_StartAnimation_def)
next
  case False
  then show ?thesis
    using assms by (auto simp: mt_StartAnimation_def Let_def run_ok_def simp del: overview_ok.simps
        intro!: mt_UpdateView_ok) simp_all
qed

lemma mt_Toggle_opens:
  assumes "\<not> mt_IsActive m" "0 < workspace_count c"
  obtains m1 where "flags m1 = (True, False, mt_animating m, mt_timer m, None, None, -1)"
    "mt_Toggle e (m, c) = (case mt_UpdateView e (m1, c) of (m2, c2) \<Rightarrow>
      if \<not> mt_active m2 then (False, m2, c2)
      else (True, mt_StartAnimation e False
              (m2\<lparr>mt_to := mt_placements m2, mt_from := window_boxes m2, mt_placements := window_boxes m2, mt_opacity := 0\<rparr>,
               SetMultitaskingSourcesHidden True c2)))"
proof (rule that [of "mt_Refresh c (m\<lparr>mt_active := True, mt_closing := False, mt_pending_activation := None,
     mt_pending_close := None, mt_pending_workspace := -1,
     mt_selected_workspace := cclamp (current_workspace c) 0 (workspace_count c - 1),
     mt_hovered_workspace := -1, mt_hovered_window := -1, mt_hovered_control := CtlNone\<rparr>)"])
qed (use assms in \<open>simp_all add: mt_Toggle_def Let_def split: prod.splits\<close>)

lemma mt_Toggle_ok:
  assumes "overview_ok (m, c)"
  shows "overview_ok (snd (mt_Toggle e (m, c)))"
proof (cases "mt_IsActive m \<or> workspace_count c \<le> 0")
  case True
  then show ?thesis
    using assms mt_StartAnimation_ok [OF assms, of e True] by (auto simp: mt_Toggle_def simp del: overview_ok.simps)
next
  case False
  then have "\<not> mt_IsActive m" "0 < workspace_count c" by auto
  then obtain m1 where flags: "flags m1 = (True, False, mt_animating m, mt_timer m, None, None, -1)"
    and toggle: "mt_Toggle e (m, c) = (case mt_UpdateView e (m1, c) of (m2, c2) \<Rightarrow>
      if \<not> mt_active m2 then (False, m2, c2)
      else (True, mt_StartAnimation e False
              (m2\<lparr>mt_to := mt_placements m2, mt_from := window_boxes m2, mt_placements := window_boxes m2, mt_opacity := 0\<rparr>,
               SetMultitaskingSourcesHidden True c2)))"
    by (rule mt_Toggle_opens [of m c e])
  have m1: "mt_active m1" "\<not> mt_closing m1" "\<not> mt_animating m1" "\<not> mt_timer m1"
    using assms False flags by (auto simp: run_ok_def)
  have c: "reachable c" using assms by simp
  from m1(1) have "mt_IsActive m1" by simp
  then show ?thesis
  proof (cases rule: mt_UpdateView_cases [of _ e c])
    case (closed m2)
    then show ?thesis
      using mt_CompleteClose_closes [OF c, of m2] by (cases "mt_CompleteClose (m2, c)") (simp add: toggle)
  next
    case (shown m2)
    then show ?thesis
      using m1 c by (auto simp: toggle run_ok_def hidden_calls reach_calls intro!: mt_StartAnimation_ok)
  qed
qed

lemma mt_UpdateAnimation_ok:
  assumes "overview_ok (m, c)"
  shows "overview_ok (mt_UpdateAnimation e elapsed (m, c))"
proof (cases "mt_animating m")
  case True
  with assms show ?thesis
    by (auto simp: mt_UpdateAnimation_def Let_def run_ok_def simp del: overview_ok.simps
        intro!: mt_UpdateView_ok mt_CompleteClose_ok) (simp_all add: run_ok_def)
next
  case False
  then show ?thesis using assms by (simp add: mt_UpdateAnimation_def)
qed

lemma mt_HandleKey_ok: "overview_ok (m, c) \<Longrightarrow> overview_ok (snd (mt_HandleKey e symbol logo pressed (m, c)))"
  by (simp add: mt_HandleKey_def mt_StartAnimation_ok split: option.splits del: overview_ok.simps)

lemma mt_Cancel_ok: "overview_ok (m, c) \<Longrightarrow> overview_ok (mt_Cancel e (m, c))"
  by (simp add: mt_Cancel_def mt_StartAnimation_ok del: overview_ok.simps)

lemma mt_update_ok:
  "overview_ok (m, c) \<Longrightarrow> flags m' = flags m \<Longrightarrow> overview_ok (mt_UpdateView e (m', c))"
  by (rule mt_UpdateView_ok) (auto simp: run_ok_def)

lemma flags_dragging [simp]: "flags (start_dragging m) = flags m" "mt_shown (start_dragging m) = mt_shown m"
  by (simp_all add: start_dragging_def Let_def)

lemma mt_HandleMotion_ok:
  assumes "overview_ok (m, c)"
  shows "overview_ok (snd (mt_HandleMotion e x y (m, c)))"
proof -
  define m1 where "m1 = start_dragging (m\<lparr>mt_pointer_x := x - of_int (box_x (mt_screen m)),
     mt_pointer_y := y - of_int (box_y (mt_screen m))\<rparr>)"
  have m1: "overview_ok (m1, c)"
    using assms by (rule overview_ok_flags) (simp_all only: m1_def flags_dragging, simp_all)
  have "overview_ok (mt_UpdateView e (m1\<lparr>mt_placements := ps\<rparr>, c))"
    "overview_ok (mt_UpdateView e (m1\<lparr>mt_dragged_workspace := w\<rparr>, c))"
    "overview_ok (mt_UpdateView e (m1\<lparr>mt_hovered_workspace := i, mt_hovered_window := j, mt_hovered_control := k\<rparr>, c))"
    for ps w i j k
    by (rule mt_update_ok [OF m1], simp)+
  then show ?thesis
    using assms m1 by (simp add: mt_HandleMotion_def Let_def flip: m1_def split: option.splits del: overview_ok.simps)
qed

lemma on_surface_ok:
  assumes "overview_ok (m, c)" "\<And>s c. reachable c \<Longrightarrow> reachable (f s c)"
    "\<And>s c. multitasking_sources_hidden (f s c) = multitasking_sources_hidden c"
  shows "overview_ok (m, on_surface f entry c)"
  using assms by (simp add: on_surface_def split: option.splits)

lemma overview_ok_refresh:
  "overview_ok (m, c) \<Longrightarrow> reachable c' \<Longrightarrow> multitasking_sources_hidden c' = multitasking_sources_hidden c \<Longrightarrow>
   flags m' = flags m \<Longrightarrow> overview_ok (mt_UpdateView e (mt_Refresh c' m', c'))"
  by (rule mt_UpdateView_ok) (auto simp: run_ok_def)

lemma drop_window_ok:
  assumes "overview_ok (m, c)"
  shows "overview_ok (drop_window e entry (m, c))"
proof -
  have "overview_ok (m, on_surface (\<lambda>s c. snd (overview_move s n c)) entry c)" for n
    using assms by (rule on_surface_ok) (simp_all add: reach_calls hidden_overview_move)
  then show ?thesis
    using assms by (auto simp: drop_window_def Let_def run_ok_def simp del: overview_ok.simps intro!: mt_UpdateView_ok)
      (auto simp: run_ok_def)
qed

lemma drop_workspace_ok:
  assumes "overview_ok (m, c)"
  shows "overview_ok (drop_workspace e (m, c))"
  using assms by (auto simp: drop_workspace_def Let_def simp del: overview_ok.simps intro!: mt_UpdateView_ok)
    (auto simp: run_ok_def reach_calls hidden_calls)

lemma click_ok:
  assumes "overview_ok (m, c)"
  shows "overview_ok (click e (m, c))"
proof -
  have start: "overview_ok (mt_StartAnimation e True (m\<lparr>mt_pending_close := s\<rparr>, c))"
    "overview_ok (mt_StartAnimation e True (m\<lparr>mt_pending_activation := s\<rparr>, c))"
    "overview_ok (mt_StartAnimation e True (m\<lparr>mt_pending_workspace := n\<rparr>, c))" for s n
    by (rule mt_StartAnimation_ok, use assms in \<open>simp add: run_ok_def\<close>)+
  have "overview_ok (m, on_surface overview_toggle_above entry c)" for entry
    using assms by (rule on_surface_ok) (simp_all add: reach_calls)
  then have above: "overview_ok (mt_UpdateView e (mt_Refresh (on_surface overview_toggle_above entry c) m,
      on_surface overview_toggle_above entry c))" for entry
    by (rule mt_update_ok) simp
  have removed: "overview_ok (m, c1)" "overview_ok (mt_UpdateView e (mt_Refresh c1 (m\<lparr>mt_selected_workspace := w\<rparr>), c1))"
    if "RemoveWorkspace n c = (b, c1)" for n b c1 w
    using assms that reach_calls(3) [of c n] hidden_remove [of n c] overview_ok_refresh [OF assms, of c1 "m\<lparr>mt_selected_workspace := w\<rparr>" e]
    by simp_all
  have added: "overview_ok (m, c1)" "overview_ok (mt_UpdateView e (mt_Refresh c1 m, c1))"
    if "AddWorkspace c = (b, c1)" for b c1
    using assms that reach_calls(2) [of c] hidden_add [of c] overview_ok_refresh [OF assms, of c1 m e] by simp_all
  show ?thesis
    using assms start above removed added mt_StartAnimation_ok [OF assms]
    by (simp add: click_def Let_def split: Control.splits option.splits prod.splits del: overview_ok.simps)
qed

lemma mt_HandleButton_ok:
  assumes "overview_ok (m, c)"
  shows "overview_ok (snd (mt_HandleButton e left pressed (m, c)))"
proof -
  have release: "overview_ok (m1\<lparr>mt_pressed_control := CtlNone, mt_pressed_workspace := -1, mt_pressed_window := -1\<rparr>, c1)"
    if "overview_ok (m1, c1)" for m1 c1
    using that by (rule overview_ok_flags) simp_all
  have press: "overview_ok (m\<lparr>mt_pressed_control := k, mt_pressed_workspace := w, mt_pressed_window := i,
      mt_press_x := x, mt_press_y := y, mt_dragging := False\<rparr>, c)" for k w i x y
    using assms by (rule overview_ok_flags) simp_all
  show ?thesis
    using assms drop_window_ok [OF assms] drop_workspace_ok [OF assms] click_ok [OF assms, of e] release press
    by (cases "click e (m, c)") (simp add: mt_HandleButton_def split: option.splits del: overview_ok.simps)
qed

lemma mt_SurfaceUnavailable_ok:
  assumes "overview_ok (m, c)"
  shows "overview_ok (mt_SurfaceUnavailable e s (m, c))"
  using assms by (auto simp: mt_SurfaceUnavailable_def Let_def simp del: overview_ok.simps intro!: mt_UpdateView_ok)
    (auto simp: run_ok_def)

section \<open>The view and the desktop together\<close>

datatype overview_event =
    EvToggle
  | EvKey "keysym option" bool bool
  | EvMotion real real
  | EvButton bool bool
  | EvTick nat
  | EvUnavailable "nat option"
  | EvCancel

fun overview_apply :: "mt_env \<Rightarrow> overview_event \<Rightarrow> Multitasking \<times> compositor \<Rightarrow> Multitasking \<times> compositor" where
  "overview_apply e EvToggle s = snd (mt_Toggle e s)"
| "overview_apply e (EvKey symbol logo pressed) s = snd (mt_HandleKey e symbol logo pressed s)"
| "overview_apply e (EvMotion x y) s = snd (mt_HandleMotion e x y s)"
| "overview_apply e (EvButton left pressed) s = snd (mt_HandleButton e left pressed s)"
| "overview_apply e (EvTick elapsed) s = mt_UpdateAnimation e elapsed s"
| "overview_apply e (EvUnavailable surface) s = mt_SurfaceUnavailable e surface s"
| "overview_apply e EvCancel s = mt_Cancel e s"

lemma overview_apply_ok: "overview_ok s \<Longrightarrow> overview_ok (overview_apply e ev s)"
  by (cases s; cases ev)
     (simp_all add: mt_Toggle_ok mt_HandleKey_ok mt_HandleMotion_ok mt_HandleButton_ok mt_UpdateAnimation_ok
       mt_SurfaceUnavailable_ok mt_Cancel_ok del: overview_ok.simps)

text \<open>An event of the view, with the screen and the renderer as they are then, or a step of the window manager.
  Only \<open>SetMultitaskingSourcesHidden\<close> writes the flag that hides the windows, and only the view calls it.\<close>

inductive overview_session :: "Multitasking \<times> compositor \<Rightarrow> bool" where
  Start: "overview_session (new_Multitasking, new_compositor present resize)"
| View: "overview_session s \<Longrightarrow> overview_session (overview_apply e ev s)"
| Desktop: "overview_session (m, c) \<Longrightarrow> wm_step c c' \<Longrightarrow>
    multitasking_sources_hidden c' = multitasking_sources_hidden c \<Longrightarrow> overview_session (m, c')"

lemma overview_session_ok: "overview_session s \<Longrightarrow> overview_ok s"
proof (induction rule: overview_session.induct)
  case (Start present resize)
  have "reachable (new_compositor present resize)" by (rule reachable.Start)
  moreover have "\<not> multitasking_sources_hidden (new_compositor present resize)" by (simp add: new_compositor_def)
  ultimately show ?case by (simp add: run_ok_def new_Multitasking_def)
next
  case (View s e ev)
  then show ?case by (simp add: overview_apply_ok)
next
  case (Desktop m c c')
  then show ?case by (auto intro: reachable.Step)
qed

section \<open>What is pending\<close>

text \<open>A choice is pending only while the view closes.\<close>

fun pend_ok :: "Multitasking \<times> compositor \<Rightarrow> bool" where
  "pend_ok (m, c) = (mt_closing m \<or> mt_pending_activation m = None \<and> mt_pending_close m = None \<and> mt_pending_workspace m = -1)"

lemma pend_CompleteClose: "pend_ok (mt_CompleteClose s)"
  by (cases s) (simp add: mt_CompleteClose_def Let_def)

lemma pend_UpdateView:
  assumes "pend_ok (m, c)"
  shows "pend_ok (mt_UpdateView e (m, c))"
proof (cases "mt_IsActive m")
  case True
  then show ?thesis
    by (cases rule: mt_UpdateView_cases [of _ e c]) (use assms pend_CompleteClose in auto)
next
  case False
  then show ?thesis using assms by (simp add: mt_UpdateView_def)
qed

lemma pend_StartAnimation: "mt_active m \<Longrightarrow> pend_ok (mt_StartAnimation e True (m, c))"
  by (auto simp: mt_StartAnimation_def Let_def simp del: pend_ok.simps intro!: pend_UpdateView) simp_all

lemma pend_open:
  "pend_ok (m, c) \<Longrightarrow> \<not> mt_closing m \<Longrightarrow> pend_ok (mt_StartAnimation e False (m, c'))"
  by (auto simp: mt_StartAnimation_def Let_def simp del: pend_ok.simps intro!: pend_UpdateView) simp_all

lemma pend_Toggle:
  assumes "pend_ok (m, c)" "overview_ok (m, c)"
  shows "pend_ok (snd (mt_Toggle e (m, c)))"
proof (cases "mt_IsActive m \<or> workspace_count c \<le> 0")
  case True
  then show ?thesis
    using assms pend_StartAnimation [of m e c] by (auto simp: mt_Toggle_def run_ok_def simp del: pend_ok.simps)
next
  case False
  then have "\<not> mt_IsActive m" "0 < workspace_count c" by auto
  then obtain m1 where flags: "flags m1 = (True, False, mt_animating m, mt_timer m, None, None, -1)"
    and toggle: "mt_Toggle e (m, c) = (case mt_UpdateView e (m1, c) of (m2, c2) \<Rightarrow>
      if \<not> mt_active m2 then (False, m2, c2)
      else (True, mt_StartAnimation e False
              (m2\<lparr>mt_to := mt_placements m2, mt_from := window_boxes m2, mt_placements := window_boxes m2, mt_opacity := 0\<rparr>,
               SetMultitaskingSourcesHidden True c2)))"
    by (rule mt_Toggle_opens [of m c e])
  from flags have "mt_IsActive m1" by simp
  then show ?thesis
  proof (cases rule: mt_UpdateView_cases [of _ e c])
    case (closed m2)
    then show ?thesis
      using pend_CompleteClose [of "(m2, c)"] by (cases "mt_CompleteClose (m2, c)") (auto simp: toggle mt_CompleteClose_def Let_def)
  next
    case (shown m2)
    then show ?thesis
      using flags by (auto simp: toggle simp del: pend_ok.simps intro!: pend_open) simp_all
  qed
qed

lemma pend_flags: "pend_ok (m, c) \<Longrightarrow> flags m' = flags m \<Longrightarrow> pend_ok (m', c')"
  by auto

lemma pend_update: "pend_ok (m, c) \<Longrightarrow> flags m' = flags m \<Longrightarrow> pend_ok (mt_UpdateView e (m', c'))"
  by (rule pend_UpdateView) auto

lemma pend_HandleMotion:
  assumes "pend_ok (m, c)"
  shows "pend_ok (snd (mt_HandleMotion e x y (m, c)))"
proof -
  define m1 where "m1 = start_dragging (m\<lparr>mt_pointer_x := x - of_int (box_x (mt_screen m)),
     mt_pointer_y := y - of_int (box_y (mt_screen m))\<rparr>)"
  have "flags m1 = flags m" by (simp only: m1_def flags_dragging) simp
  then have m1: "pend_ok (m1, c)" by (rule pend_flags [OF assms])
  have "pend_ok (mt_UpdateView e (m1\<lparr>mt_placements := ps\<rparr>, c))"
    "pend_ok (mt_UpdateView e (m1\<lparr>mt_dragged_workspace := w\<rparr>, c))"
    "pend_ok (mt_UpdateView e (m1\<lparr>mt_hovered_workspace := i, mt_hovered_window := j, mt_hovered_control := k\<rparr>, c))"
    for ps w i j k
    by (rule pend_update [OF m1], simp)+
  then show ?thesis
    using assms m1 by (simp add: mt_HandleMotion_def Let_def flip: m1_def split: option.splits del: pend_ok.simps)
qed

lemma pend_click: "pend_ok (m, c) \<Longrightarrow> mt_active m \<Longrightarrow> pend_ok (click e (m, c))"
  by (simp add: click_def Let_def pend_StartAnimation split: Control.splits option.splits prod.splits del: pend_ok.simps)
     (auto simp del: pend_ok.simps intro!: pend_StartAnimation elim: pend_update pend_flags)

lemma pend_HandleButton:
  assumes "pend_ok (m, c)" "mt_active m \<or> \<not> mt_closing m"
  shows "pend_ok (snd (mt_HandleButton e left pressed (m, c)))"
proof -
  have drop: "pend_ok (drop_window e entry (m, c))" for entry
    by (auto simp: drop_window_def Let_def simp del: pend_ok.simps intro!: pend_update [OF assms(1)])
  have workspace: "pend_ok (drop_workspace e (m, c))"
    by (auto simp: drop_workspace_def Let_def simp del: pend_ok.simps intro!: pend_update [OF assms(1)])
  show ?thesis
    using assms drop workspace pend_click [of m c e]
    by (cases "click e (m, c)") (auto simp: mt_HandleButton_def split: option.splits)
qed

lemma pend_apply:
  assumes "pend_ok s" "overview_ok s"
  shows "pend_ok (overview_apply e ev s)"
proof (cases s)
  case (Pair m c)
  have active: "mt_active m \<or> \<not> mt_closing m" using assms(2) by (auto simp: Pair run_ok_def)
  have key: "pend_ok (snd (mt_HandleKey e symbol logo pressed (m, c)))" for symbol logo pressed
    using assms(1) pend_StartAnimation [of m e c]
    by (simp add: Pair mt_HandleKey_def split: option.splits del: pend_ok.simps)
  have tick: "pend_ok (mt_UpdateAnimation e n (m, c))" for n
    using assms(1) unfolding Pair
    by (auto simp: mt_UpdateAnimation_def Let_def pend_CompleteClose simp del: pend_ok.simps
        intro!: pend_UpdateView) auto
  have gone: "pend_ok (mt_SurfaceUnavailable e x (m, c))" for x
    using assms(1) unfolding Pair
    by (auto simp: mt_SurfaceUnavailable_def Let_def simp del: pend_ok.simps intro!: pend_UpdateView) auto
  have "pend_ok (mt_Cancel e (m, c))"
    using assms(1) pend_StartAnimation [of m e c] by (simp add: Pair mt_Cancel_def del: pend_ok.simps)
  then show ?thesis
    using assms key tick gone pend_Toggle pend_HandleMotion pend_HandleButton [OF _ active]
    by (cases ev) (simp_all add: Pair del: pend_ok.simps overview_ok.simps)
qed

lemma overview_session_pend: "overview_session s \<Longrightarrow> pend_ok s"
proof (induction rule: overview_session.induct)
  case (View s e ev)
  then show ?case using overview_session_ok by (blast intro: pend_apply)
qed (simp_all add: new_Multitasking_def)

lemma closing_tick:
  assumes "overview_session (m, c)" "mt_closing m" "300 \<le> elapsed"
  obtains m1 where "mt_UpdateAnimation e elapsed (m, c) = mt_CompleteClose (m1, c)"
    "mt_pending_activation m1 = mt_pending_activation m" "mt_pending_close m1 = mt_pending_close m"
    "mt_pending_workspace m1 = mt_pending_workspace m"
proof -
  from overview_session_ok [OF assms(1)] assms(2) have "mt_animating m" by (simp add: run_ok_def)
  with assms(2,3) that show thesis by (auto simp: mt_UpdateAnimation_def Let_def)
qed

section \<open>Properties\<close>



section \<open>Witnesses\<close>

text \<open>One window on a screen: the view is opened, its animation ends, the pointer moves to the window and presses.\<close>

definition sample_mt_env :: mt_env where
  "sample_mt_env = \<lparr>me_screen = \<lparr>box_x = 0, box_y = 0, box_width = 1920, box_height = 1080\<rparr>, me_renders = True\<rparr>"

definition sample_overview :: "Multitasking \<times> compositor" where
  "sample_overview = fold (overview_apply sample_mt_env) [EvToggle, EvTick 300, EvMotion 960 600, EvButton True True]
     (new_Multitasking, sample_desktop)"

definition sample_entry :: overview_entry where
  "sample_entry = \<lparr>ov_surface = Some 1, ov_geometry = \<lparr>box_x = 0, box_y = 0, box_width = 300, box_height = 200\<rparr>,
     ov_workspace = 0, ov_active = False, ov_minimized = False, ov_kept_above = False\<rparr>"

lemma sample_not_hidden:
  "multitasking_sources_hidden bare_compositor = False" "multitasking_sources_hidden sample_desktop = False"
  by (simp add: bare_compositor_def new_compositor_def) code_simp

lemma hidden_new: "multitasking_sources_hidden (OnNewToplevel i h c) = multitasking_sources_hidden c"
  by (rule view_hidden, unfold view_OnNewToplevel) (simp add: view_append_def)

lemma sample_desktop_session: "overview_session (new_Multitasking, sample_desktop)"
proof -
  let ?c = "OnNewToplevel 0 (sample_client\<lparr>cl_surface := Some 1\<rparr>) bare_compositor"
  have fresh: "fresh 0 bare_compositor"
    by (simp add: fresh_def bare_compositor_def new_compositor_def)
  have "overview_session (new_Multitasking, bare_compositor)"
    unfolding bare_compositor_def by (rule overview_session.Start)
  then have c: "overview_session (new_Multitasking, ?c)"
    using wm_step.New [OF fresh] hidden_new by (rule overview_session.Desktop)
  obtain t where "find_tl ?c 0 = Some t" "tl_scene_tree t \<noteq> None"
    using fresh by (rule new_window_node)
  then have "wm_step ?c sample_desktop"
    unfolding sample_desktop_def open_window_def by (rule wm_step.Map)
  with c show ?thesis by (rule overview_session.Desktop) (simp only: hidden_new sample_not_hidden)
qed

lemma sample_overview_session: "overview_session sample_overview"
  unfolding sample_overview_def fold_simps
  by (rule overview_session.View, rule overview_session.View, rule overview_session.View, rule overview_session.View)
     (rule sample_desktop_session)

lemma sample_offered:
  "multitasking_entries sample_desktop = [sample_entry]" "workspace_count sample_desktop = 4" "current_workspace sample_desktop = 0"
  by code_simp+

lemma sample_overview_layout:
  "mt_layout_of (me_screen sample_mt_env) (Suc (Suc (Suc (Suc 0)))) = \<lparr>ml_workspace_x = 420, ml_workspace_y = 20, ml_workspace_width = 240,
     ml_workspace_height = 135, ml_workspace_gap = 40, ml_window_area_y = 175, ml_add_x = 1816, ml_add_y = 55\<rparr>"
  "CalculateWindowLayout (me_screen sample_mt_env) 175 [ov_geometry sample_entry] =
     Some [\<lparr>box_x = 810, box_y = 528, box_width = 300, box_height = 200\<rparr>]"
  by code_simp+

lemma sample_screen: "box_width (me_screen sample_mt_env) = 1920" "box_height (me_screen sample_mt_env) = 1080"
  "box_x (me_screen sample_mt_env) = 0" "box_y (me_screen sample_mt_env) = 0" "me_renders sample_mt_env"
  by (simp_all add: sample_mt_env_def)

lemma sample_entry_fields: "ov_surface sample_entry = Some 1" "ov_workspace sample_entry = 0" "ov_active sample_entry = False"
  by (simp_all add: sample_entry_def)

lemmas sample_steps = mt_Toggle_def mt_Refresh_def mt_UpdateView_def mt_StartAnimation_def mt_CalculateWindowLayout_def
  mt_UpdateAnimation_def mt_HandleMotion_def mt_HandleButton_def start_dragging_def window_boxes_def
  WorkspaceAt_def WindowAt_def control_at_def PointerOnCloseButton_def PointerOnTopButton_def placement_at_def in_span_def
  sample_offered sample_overview_layout sample_screen sample_entry_fields new_Multitasking_def cclamp_def Let_def upt_rec

lemma sample_overview_state:
  "(mt_active (fst sample_overview), mt_closing (fst sample_overview), mt_dragging (fst sample_overview),
    mt_pressed_control (fst sample_overview), mt_hovered_control (fst sample_overview),
    map_option ov_surface (pressed_entry (fst sample_overview))) = (True, False, False, CtlWindow, CtlWindow, Some (Some 1))"
  by (simp add: sample_overview_def pressed_entry_def sample_steps)



end
