(* ===== verification/Multitasking_Layout_Laws.thy ===== *)
theory Multitasking_Layout_Laws
  imports Multitasking_Layout
begin

text \<open>
  The layout of the multitasking view always comes to an end, places every window, keeps the previews
  apart and, when the windows fit into the rows, inside the window area.
\<close>

section \<open>The loop on the row height\<close>

lemma fit_pass_shrinks: "rf_overlap (fit_pass screen ch es sh rows) \<Longrightarrow> rf_scale_height (fit_pass screen ch es sh rows) = sh - 15"
  by (simp add: fit_pass_def Let_def split: prod.splits)

text \<open>The loop ends, and what its passes keep holds in the last one.\<close>

lemma fit_rows_result:
  assumes "Q sh rows"
    and keep: "\<And>sh rows. Q sh rows \<Longrightarrow> rf_overlap (fit_pass screen ch es sh rows) \<Longrightarrow> 32 < rf_scale_height (fit_pass screen ch es sh rows) \<Longrightarrow>
      Q (rf_scale_height (fit_pass screen ch es sh rows)) (rf_rows (fit_pass screen ch es sh rows))"
  obtains sh' rows' where "Q sh' rows'" "fit_rows screen ch es sh rows = Some (fit_pass screen ch es sh' rows')"
    "\<not> (rf_overlap (fit_pass screen ch es sh' rows') \<and> 32 < rf_scale_height (fit_pass screen ch es sh' rows'))"
proof -
  have "\<exists>sh' rows'. Q sh' rows' \<and> fit_rows screen ch es sh rows = Some (fit_pass screen ch es sh' rows') \<and>
      \<not> (rf_overlap (fit_pass screen ch es sh' rows') \<and> 32 < rf_scale_height (fit_pass screen ch es sh' rows'))"
    using assms(1)
  proof (induction "nat \<lceil>sh\<rceil>" arbitrary: sh rows rule: less_induct)
    case less
    let ?r = "fit_pass screen ch es sh rows"
    show ?case
    proof (cases "rf_overlap ?r \<and> 32 < rf_scale_height ?r")
      case True
      then have "rf_scale_height ?r = sh - 15" using fit_pass_shrinks by blast
      then have "nat \<lceil>rf_scale_height ?r\<rceil> < nat \<lceil>sh\<rceil>" using True by linarith
      from less.hyps [OF this keep [OF less.prems]] True
      show ?thesis by (subst fit_rows.simps) (simp add: Let_def)
    next
      case False
      then show ?thesis using less.prems by (subst fit_rows.simps) (auto simp: Let_def)
    qed
  qed
  then show ?thesis using that by blast
qed

lemma count_rows_used: "1 \<le> used \<Longrightarrow> 1 \<le> snd (count_rows W sp rows ws used rw)"
  by (induction W sp rows ws used rw rule: count_rows.induct) auto

lemma count_rows_fits: "count_rows W sp rows ws used rw = (False, n) \<Longrightarrow> used \<le> rows \<Longrightarrow> used \<le> n \<and> n \<le> rows"
  by (induction W sp rows ws used rw rule: count_rows.induct) (auto split: if_splits)

lemma fit_pass_used: "1 \<le> rf_used_rows (fit_pass screen ch es sh rows)"
  using count_rows_used [of 1 "box_width screen" "spacing_x screen" rows "map (preview_width sh) es" "of_int (spacing_x screen)"]
  by (auto simp: fit_pass_def Let_def split: prod.splits)

lemma length_place_rows: "length (place_rows screen sh used rws es row uw x y) = length es"
  by (induction es arbitrary: row uw x y) (simp_all add: Let_def split: prod.splits)

lemma layout_returns: "\<exists>r. fit_rows screen ch es sh rows = Some r"
  by (rule fit_rows_result [where Q = "\<lambda>_ _. True"]) auto

lemma fit_rows_height:
  assumes "fit_rows screen ch es sh rows = Some r"
  shows "min sh 32 - 15 \<le> rf_scale_height r"
proof -
  obtain sh' rows' where "min sh 32 \<le> sh'" "fit_rows screen ch es sh rows = Some (fit_pass screen ch es sh' rows')"
    by (rule fit_rows_result [where Q = "\<lambda>sh' _. min sh 32 \<le> sh'" and sh = sh and rows = rows]) auto
  then show ?thesis using assms by (auto simp: fit_pass_def Let_def split: prod.splits)
qed

section \<open>Previews do not overlap\<close>

lemma clround_sum: "a + b + 1 \<le> c \<Longrightarrow> clround a + clround b \<le> clround c"
proof -
  assume le: "a + b + 1 \<le> c"
  have half: "of_int (clround r) \<le> r + 1 / 2" for r :: real by (simp add: clround_def) linarith
  have "of_int (clround a + clround b) \<le> c" using half [of a] half [of b] le by simp
  then have "clround (of_int (clround a + clround b)) \<le> clround c" by (rule clround_mono)
  then show ?thesis by (simp only: clround_of_int)
qed

lemma spacing_ge [simp]: "1 \<le> spacing_x screen" "1 \<le> spacing_y screen"
  by (simp_all add: spacing_x_def spacing_y_def)

lemma spacing_real [simp]: "1 \<le> real_of_int (spacing_x screen)" "1 \<le> real_of_int (spacing_y screen)"
  "0 \<le> real_of_int (spacing_x screen)" "0 \<le> real_of_int (spacing_y screen)"
  using spacing_ge [of screen] by linarith+

lemma preview_width_nonneg: "0 \<le> sh \<Longrightarrow> 0 \<le> preview_width sh e"
  by (simp add: preview_width_def Let_def le_max_iff_disj)

lemma preview_width_le: "0 \<le> sh \<Longrightarrow> preview_width sh e \<le> of_int (max 1 (box_width e))"
proof -
  have "w * (sh / h) \<le> w" if "0 \<le> w" "0 \<le> sh" "sh < h" for w h :: real using that by (intro mult_left_le) auto
  then show "0 \<le> sh \<Longrightarrow> preview_width sh e \<le> of_int (max 1 (box_width e))"
    unfolding preview_width_def Let_def by (simp del: times_divide_eq_right)
qed

lemma preview_height_le: "preview_height sh e \<le> sh"
  by (simp add: preview_height_def Let_def)

lemma place_preview_below: "clround y \<le> box_y (place_preview sh x y e)"
  using preview_height_le [of sh e] by (auto simp: place_preview_def intro: clround_mono)

definition apart :: "wlr_box \<Rightarrow> wlr_box \<Rightarrow> bool" where
  "apart p q = (box_x p + box_width p \<le> box_x q \<or> box_y p + box_height p \<le> box_y q)"

text \<open>One window: it goes on in the same row or opens the next one.\<close>

lemma place_rows_Cons:
  obtains row' uw' x' y' where
    "place_rows screen sh used rws (e # es) row uw x y = place_preview sh x' y' e #
       place_rows screen sh used rws es row' (uw' + (preview_width sh e + of_int (spacing_x screen)))
         (x' + (preview_width sh e + of_int (spacing_x screen))) y'"
    "x' = x \<and> y' = y \<or> y' = y + (sh + of_int (spacing_y screen))"
proof (cases "row_break (box_width screen) (spacing_x screen) used (preview_width sh e) row uw")
  case True
  then show ?thesis
    by (intro that [of "(of_int (box_width screen) - rws ! (row + 1)) / 2 + of_int (spacing_x screen)"
          "y + (sh + of_int (spacing_y screen))" "row + 1" "of_int (spacing_x screen)"]) (simp_all add: Let_def)
next
  case False
  then show ?thesis by (intro that [of x y row uw]) (simp_all add: Let_def)
qed

text \<open>What follows lies to the right in the same row or in a later row.\<close>

lemma place_rows_beyond:
  assumes "0 \<le> sh" "q \<in> set (place_rows screen sh used rws es row uw x y)"
  shows "(clround x \<le> box_x q \<or> clround (y + sh + of_int (spacing_y screen)) \<le> box_y q) \<and> clround y \<le> box_y q"
  using assms(2)
proof (induction es arbitrary: row uw x y)
  case (Cons e es)
  let ?w = "preview_width sh e + of_int (spacing_x screen)"
  obtain row' uw' x' y' where eq: "place_rows screen sh used rws (e # es) row uw x y = place_preview sh x' y' e #
       place_rows screen sh used rws es row' (uw' + ?w) (x' + ?w) y'"
    and pos: "x' = x \<and> y' = y \<or> y' = y + (sh + of_int (spacing_y screen))"
    by (rule place_rows_Cons)
  have w: "clround x' \<le> clround (x' + ?w)"
    using preview_width_nonneg [OF assms(1), of e] spacing_real(3) [of screen] by (intro clround_mono) linarith
  have "(clround x' \<le> box_x q \<or> clround (y' + sh + of_int (spacing_y screen)) \<le> box_y q) \<and> clround y' \<le> box_y q"
  proof (cases "q = place_preview sh x' y' e")
    case True
    then show ?thesis using place_preview_below [of y' sh x' e] by (simp add: place_preview_def)
  next
    case False
    with Cons.prems have "q \<in> set (place_rows screen sh used rws es row' (uw' + ?w) (x' + ?w) y')" unfolding eq by simp
    from Cons.IH [OF this] w show ?thesis by auto
  qed
  moreover have "clround y \<le> clround (y + sh + of_int (spacing_y screen))"
    using assms(1) spacing_real(4) [of screen] by (intro clround_mono) linarith
  ultimately show ?case using pos by (auto simp: add.assoc)
qed simp

lemma preview_apart:
  assumes "clround (x + (preview_width sh e + of_int (spacing_x screen))) \<le> box_x q \<or>
      clround (y + sh + of_int (spacing_y screen)) \<le> box_y q"
  shows "apart (place_preview sh x y e) q"
proof -
  have "clround x + clround (preview_width sh e) \<le> clround (x + (preview_width sh e + of_int (spacing_x screen)))"
    by (rule clround_sum) simp
  moreover have "clround (y + (sh - preview_height sh e) / 2) + clround (preview_height sh e) \<le>
      clround (y + sh + of_int (spacing_y screen))"
    by (rule clround_sum) (use spacing_real(2) [of screen] preview_height_le [of sh e] in argo)
  ultimately show ?thesis using assms by (auto simp: apart_def place_preview_def)
qed

lemma place_rows_apart: "0 \<le> sh \<Longrightarrow> sorted_wrt apart (place_rows screen sh used rws es row uw x y)"
proof (induction es arbitrary: row uw x y)
  case (Cons e es)
  let ?w = "preview_width sh e + of_int (spacing_x screen)"
  obtain row' uw' x' y' where eq: "place_rows screen sh used rws (e # es) row uw x y = place_preview sh x' y' e #
       place_rows screen sh used rws es row' (uw' + ?w) (x' + ?w) y'"
    by (rule place_rows_Cons)
  have "apart (place_preview sh x' y' e) q" if "q \<in> set (place_rows screen sh used rws es row' (uw' + ?w) (x' + ?w) y')" for q
    using place_rows_beyond [OF Cons.prems that] by (intro preview_apart) blast
  then show ?case unfolding eq using Cons by simp
qed simp

section \<open>Previews are inside the window area\<close>

text \<open>Row and filled width after each window, as the loops go through them.\<close>

definition advance :: "int \<Rightarrow> int \<Rightarrow> int \<Rightarrow> nat \<Rightarrow> real \<Rightarrow> real \<Rightarrow> nat \<times> real" where
  "advance W sp L r u w = (if row_break W sp L w r u then (r + 1, of_int sp + (w + of_int sp)) else (r, u + (w + of_int sp)))"

fun track :: "int \<Rightarrow> int \<Rightarrow> int \<Rightarrow> real list \<Rightarrow> nat \<Rightarrow> real \<Rightarrow> (nat \<times> real) list" where
  "track W sp L [] r u = []"
| "track W sp L (w # ws) r u = (let (r', u') = advance W sp L r u w in (r', u') # track W sp L ws r' u')"

lemma count_rows_track:
  assumes "count_rows W sp rows ws (int r + 1) u = (False, L)" "int r + 1 \<le> rows"
    and "\<And>w. w \<in> set ws \<Longrightarrow> w + 2 * of_int sp \<le> of_int W" "(r', u') \<in> set (track W sp L ws r u)"
  shows "u' \<le> of_int W"
  using assms
proof (induction ws arbitrary: r u)
  case (Cons w ws)
  show ?case
  proof (cases "u + (w + of_int sp) > of_int W")
    case True
    then have c: "count_rows W sp rows ws (int (r + 1) + 1) (of_int sp + w + of_int sp) = (False, L)" "int (r + 1) + 1 \<le> rows"
      using Cons.prems(1,2) by (simp_all add: add.commute add.left_commute split: if_splits)
    from count_rows_fits [OF this] have "int (r + 1) + 1 \<le> L" by simp
    with True have a: "advance W sp L r u w = (r + 1, of_int sp + (w + of_int sp))"
      by (simp add: advance_def row_break_def add.assoc)
    have "of_int sp + (w + of_int sp) \<le> of_int W" using Cons.prems(3) [of w] by simp
    then show ?thesis using Cons.prems Cons.IH [of "r + 1" "of_int sp + (w + of_int sp)"] c by (auto simp: a add.assoc)
  next
    case False
    then have a: "advance W sp L r u w = (r, u + (w + of_int sp))" by (simp add: advance_def row_break_def add.assoc)
    then show ?thesis using Cons False by (auto simp: a)
  qed
qed simp

lemma advance_bound: "r < nat L \<Longrightarrow> advance W sp L r u w = (r', u') \<Longrightarrow> r \<le> r' \<and> r' \<le> r + 1 \<and> r' < nat L"
  by (auto simp: advance_def row_break_def split: if_splits)

lemma fill_rows_track:
  assumes "length rws = nat L" "r < nat L" "\<And>k. r < k \<Longrightarrow> k < nat L \<Longrightarrow> rws ! k = of_int sp"
    and "\<And>w. w \<in> set ws \<Longrightarrow> 0 \<le> w" "0 \<le> sp"
  shows "length (fill_rows W sp L ws r rws) = nat L \<and> rws ! r \<le> fill_rows W sp L ws r rws ! r \<and>
      (\<forall>k<r. fill_rows W sp L ws r rws ! k = rws ! k) \<and>
      (\<forall>(r', u')\<in>set (track W sp L ws r (rws ! r)). u' \<le> fill_rows W sp L ws r rws ! r') \<and>
      (\<forall>k<nat L. fill_rows W sp L ws r rws ! k = rws ! k \<or> (k, fill_rows W sp L ws r rws ! k) \<in> set (track W sp L ws r (rws ! r)))"
  using assms(1-4)
proof (induction ws arbitrary: r rws)
  case (Cons w ws)
  define r' where "r' = (if row_break W sp L w r (rws ! r) then r + 1 else r)"
  define rws' where "rws' = rws[r' := rws ! r' + (w + of_int sp)]"
  have F: "fill_rows W sp L (w # ws) r rws = fill_rows W sp L ws r' rws'" by (simp add: r'_def rws'_def Let_def)
  have r': "r' < nat L" "r \<le> r'" using Cons.prems(2) by (auto simp: r'_def row_break_def)
  have a: "advance W sp L r (rws ! r) w = (r', rws' ! r')"
    using Cons.prems(1-3) r' by (auto simp: advance_def r'_def rws'_def row_break_def)
  have w: "0 \<le> w" using Cons.prems(4) by simp
  have IH: "length (fill_rows W sp L ws r' rws') = nat L \<and> rws' ! r' \<le> fill_rows W sp L ws r' rws' ! r' \<and>
    (\<forall>k<r'. fill_rows W sp L ws r' rws' ! k = rws' ! k) \<and>
    (\<forall>(r'', u')\<in>set (track W sp L ws r' (rws' ! r')). u' \<le> fill_rows W sp L ws r' rws' ! r'') \<and>
    (\<forall>k<nat L. fill_rows W sp L ws r' rws' ! k = rws' ! k \<or> (k, fill_rows W sp L ws r' rws' ! k) \<in> set (track W sp L ws r' (rws' ! r')))"
    by (rule Cons.IH) (use Cons.prems r' in \<open>auto simp: rws'_def\<close>)
  have up: "rws ! r \<le> fill_rows W sp L ws r' rws' ! r"
  proof (cases "r' = r")
    case True
    have "rws ! r \<le> rws' ! r'" using w assms(5) r' Cons.prems(1) True by (simp add: rws'_def)
    then show ?thesis using IH True by auto
  next
    case False
    with r' IH show ?thesis by (auto simp: rws'_def)
  qed
  show ?case unfolding F using IH up r' Cons.prems(1)
    by (auto simp: a rws'_def nth_list_update split: if_splits)
qed simp

lemma place_rows_advance:
  fixes rws :: "real list" and y0 :: real
  assumes "advance (box_width screen) (spacing_x screen) L r u (preview_width sh e) = (r', u')"
  defines "X \<equiv> \<lambda>r u. (of_int (box_width screen) - rws ! r) / 2 + u"
    and "Y \<equiv> \<lambda>r. y0 + real r * (sh + of_int (spacing_y screen))"
    and "w \<equiv> preview_width sh e + of_int (spacing_x screen)"
  shows "place_rows screen sh L rws (e # es) r u (X r u) (Y r) =
      place_preview sh (X r' (u' - w)) (Y r') e # place_rows screen sh L rws es r' u' (X r' u') (Y r')"
    and "u' - w = u \<or> u' - w = of_int (spacing_x screen)"
  using assms(1) by (auto simp: advance_def X_def Y_def w_def Let_def algebra_simps split: if_splits)

lemma place_rows_inside:
  fixes screen :: wlr_box and rws :: "real list" and y0 sh :: real
  defines "X \<equiv> \<lambda>r u. (of_int (box_width screen) - rws ! r) / 2 + u"
    and "Y \<equiv> \<lambda>r. y0 + real r * (sh + of_int (spacing_y screen))"
  assumes "r < nat L" "of_int (spacing_x screen) \<le> u" "0 \<le> sh"
    and "\<And>k. k < nat L \<Longrightarrow> rws ! k \<le> of_int (box_width screen)"
    and "\<And>r' u'. (r', u') \<in> set (track (box_width screen) (spacing_x screen) L (map (preview_width sh) es) r u) \<Longrightarrow> u' \<le> rws ! r'"
    and "q \<in> set (place_rows screen sh L rws es r u (X r u) (Y r))"
  shows "0 \<le> box_x q \<and> box_x q + box_width q \<le> box_width screen \<and>
    (\<exists>k<nat L. clround (Y k) \<le> box_y q \<and> box_y q + box_height q \<le> clround (Y k + sh + 1))"
  using assms(3,4,7,8)
proof (induction es arbitrary: r u)
  case (Cons e es)
  obtain r' u' where a: "advance (box_width screen) (spacing_x screen) L r u (preview_width sh e) = (r', u')" by fastforce
  define v where "v = u' - (preview_width sh e + of_int (spacing_x screen))"
  have eq: "place_rows screen sh L rws (e # es) r u (X r u) (Y r) =
      place_preview sh (X r' v) (Y r') e # place_rows screen sh L rws es r' u' (X r' u') (Y r')"
    unfolding X_def Y_def v_def by (rule place_rows_advance(1) [OF a])
  have v: "of_int (spacing_x screen) \<le> v" using place_rows_advance(2) [OF a] Cons.prems(2) by (auto simp: v_def)
  have u': "u' \<le> rws ! r'" using Cons.prems(3) [of r' u'] by (simp add: a)
  have r': "r' < nat L" using advance_bound [OF Cons.prems(1) a] by simp
  have W: "rws ! r' \<le> of_int (box_width screen)" by (rule assms(6) [OF r'])
  show ?case
  proof (cases "q = place_preview sh (X r' v) (Y r') e")
    case True
    have "0 \<le> X r' v" using v W spacing_real(3) [of screen] by (simp add: X_def)
    then have "0 \<le> clround (X r' v)" using clround_mono [of 0 "X r' v"] by (simp add: clround_def)
    moreover have "clround (X r' v) + clround (preview_width sh e) \<le> clround (of_int (box_width screen))"
      by (rule clround_sum) (use u' W spacing_real(1) [of screen] in \<open>unfold X_def v_def, argo\<close>)
    moreover have "clround (Y r' + (sh - preview_height sh e) / 2) + clround (preview_height sh e) \<le> clround (Y r' + sh + 1)"
      by (rule clround_sum) (use preview_height_le [of sh e] in \<open>simp add: field_simps\<close>)
    ultimately show ?thesis using r' True place_preview_below [of "Y r'" sh "X r' v" e]
      by (auto simp: place_preview_def)
  next
    case False
    with Cons.prems(4) have "q \<in> set (place_rows screen sh L rws es r' u' (X r' u') (Y r'))" unfolding eq by simp
    moreover have "of_int (spacing_x screen) \<le> u'"
      using v preview_width_nonneg [OF assms(5), of e] spacing_real(3) [of screen] unfolding v_def by linarith
    ultimately show ?thesis using r' Cons.prems(3) by (intro Cons.IH) (auto simp: a)
  qed
qed simp

text \<open>With enough room for one row, every number of rows the loop tries has room in the window area.\<close>

lemma fit_rows_room:
  assumes "sh + 2 * of_int (spacing_y screen) \<le> of_int ch" "fit_rows screen ch es sh 1 = Some r" "32 < rf_scale_height r"
  shows "of_int (rf_used_rows r) * rf_scale_height r + of_int (rf_used_rows r + 1) * of_int (spacing_y screen) \<le> (of_int ch :: real)"
    and "\<exists>rows\<ge>1. count_rows (box_width screen) (spacing_x screen) rows (map (preview_width (rf_scale_height r)) es) 1
      (of_int (spacing_x screen)) = (False, rf_used_rows r)"
proof -
  let ?room = "\<lambda>sh rows. of_int rows * sh + of_int (rows + 1) * of_int (spacing_y screen) \<le> (of_int ch :: real)"
  obtain sh' rows' where Q: "?room sh' rows' \<and> 1 \<le> rows'" and r: "fit_rows screen ch es sh 1 = Some (fit_pass screen ch es sh' rows')"
    "\<not> (rf_overlap (fit_pass screen ch es sh' rows') \<and> 32 < rf_scale_height (fit_pass screen ch es sh' rows'))"
  proof (rule fit_rows_result [where Q = "\<lambda>sh rows. ?room sh rows \<and> 1 \<le> rows" and screen = screen and ch = ch and es = es and sh = sh and rows = 1])
    fix sh rows
    let ?r = "fit_pass screen ch es sh rows"
    assume "?room sh rows \<and> 1 \<le> rows" and o: "rf_overlap ?r"
    then have Q: "?room sh rows" "1 \<le> rows" by simp_all
    have s: "rf_scale_height ?r = sh - 15" by (rule fit_pass_shrinks [OF o])
    have rows: "rf_rows ?r = (if sh - 15 \<le> of_int (ch - (rows + 2) * spacing_y screen) / of_int (rows + 1) then rows + 1 else rows)"
      using o by (simp add: fit_pass_def Let_def split: prod.splits)
    have "?room (sh - 15) (rf_rows ?r)"
    proof (cases "sh - 15 \<le> of_int (ch - (rows + 2) * spacing_y screen) / of_int (rows + 1)")
      case True
      then have "(sh - 15) * of_int (rows + 1) \<le> of_int (ch - (rows + 2) * spacing_y screen)"
        using Q(2) by (subst (asm) pos_le_divide_eq) simp_all
      then show ?thesis using True by (simp add: rows algebra_simps)
    next
      case False
      have "of_int rows * (sh - 15) \<le> of_int rows * sh" using Q(2) by (intro mult_left_mono) auto
      with Q(1) have "?room (sh - 15) rows" by linarith
      then show ?thesis using False by (simp add: rows)
    qed
    then show "?room (rf_scale_height ?r) (rf_rows ?r) \<and> 1 \<le> rf_rows ?r" using Q(2) by (simp add: s rows)
  qed (use assms(1) in auto)
  then have o: "\<not> rf_overlap (fit_pass screen ch es sh' rows')" and req: "r = fit_pass screen ch es sh' rows'"
    using assms(2,3) by auto
  then have c: "count_rows (box_width screen) (spacing_x screen) rows' (map (preview_width sh') es) 1
      (of_int (spacing_x screen)) = (False, rf_used_rows r)" and h: "rf_scale_height r = sh'"
    by (auto simp: fit_pass_def Let_def split: prod.splits)
  then show "\<exists>rows\<ge>1. count_rows (box_width screen) (spacing_x screen) rows (map (preview_width (rf_scale_height r)) es) 1
      (of_int (spacing_x screen)) = (False, rf_used_rows r)" using Q by auto
  have "rf_used_rows r \<le> rows'" using count_rows_fits [OF c] Q by simp
  then have "real_of_int (rf_used_rows r) * (sh' + of_int (spacing_y screen)) \<le> of_int rows' * (sh' + of_int (spacing_y screen))"
    using assms(3) spacing_real(4) [of screen] h by (intro mult_right_mono) auto
  then show "of_int (rf_used_rows r) * rf_scale_height r + of_int (rf_used_rows r + 1) * of_int (spacing_y screen) \<le> (of_int ch :: real)"
    using Q by (simp add: h algebra_simps)
qed

lemma rows_in_area:
  assumes "0 \<le> sh" "k < nat L" "of_int L * sh + of_int (L + 1) * of_int (spacing_y screen) \<le> (of_int (box_height screen - area_y) :: real)"
    and y0: "y0 = of_int area_y + (of_int (box_height screen - area_y) - of_int (L - 1) * of_int (spacing_y screen) - of_int L * sh) / 2"
  shows "of_int area_y \<le> y0 + real k * (sh + of_int (spacing_y screen)) \<and>
    y0 + real k * (sh + of_int (spacing_y screen)) + sh + 1 \<le> of_int (box_height screen)"
proof -
  have "0 \<le> real k * (sh + of_int (spacing_y screen))" using assms(1) spacing_real(4) [of screen] by simp
  moreover have "real k * (sh + of_int (spacing_y screen)) \<le> of_int (L - 1) * (sh + of_int (spacing_y screen))"
    using assms(1,2) spacing_real(4) [of screen] by (intro mult_right_mono) auto
  moreover have "real_of_int (L + 1) * of_int (spacing_y screen) = of_int (L - 1) * of_int (spacing_y screen) + 2 * of_int (spacing_y screen)"
    by (simp add: algebra_simps)
  moreover have "real_of_int (L - 1) * (sh + of_int (spacing_y screen)) = of_int L * sh - sh + of_int (L - 1) * of_int (spacing_y screen)"
    by (simp add: algebra_simps)
  ultimately show ?thesis using assms(3) spacing_real(2) [of screen] unfolding y0 of_int_diff [of "box_height screen"] by argo
qed

lemma place_windows_inside:
  assumes r: "fit_rows screen (box_height screen - area_y) es sh0 1 = Some r" "32 < rf_scale_height r"
    and narrow: "\<And>e. e \<in> set es \<Longrightarrow> max 1 (box_width e) + 2 * spacing_x screen \<le> box_width screen"
    and room: "sh0 + 2 * of_int (spacing_y screen) \<le> of_int (box_height screen - area_y)"
    and q: "q \<in> set (place_windows screen area_y es r)"
  shows "0 \<le> box_x q \<and> box_x q + box_width q \<le> box_width screen \<and>
    area_y \<le> box_y q \<and> box_y q + box_height q \<le> box_height screen"
proof -
  define W where "W = box_width screen"
  define sp where "sp = spacing_x screen"
  define sh where "sh = rf_scale_height r"
  define L where "L = rf_used_rows r"
  define ws where "ws = map (preview_width sh) es"
  define rws where "rws = fill_rows W sp L ws 0 (replicate (nat L) (of_int sp))"
  define y0 where "y0 = of_int area_y + (of_int (box_height screen - area_y) - of_int ((L - 1) * spacing_y screen) - of_int L * sh) / 2"
  note room = fit_rows_room [OF room r, folded L_def sh_def]
  obtain rows where rows: "1 \<le> rows" "count_rows W sp rows ws (int 0 + 1) (of_int sp) = (False, L)"
    using room(2) by (auto simp: W_def sp_def ws_def)
  have L: "1 \<le> L" using count_rows_fits [OF rows(2)] rows(1) by simp
  have sh: "0 \<le> sh" using r(2) by (simp add: sh_def)
  have w: "w + 2 * of_int sp \<le> of_int W" if "w \<in> set ws" for w
  proof -
    from \<open>w \<in> set ws\<close> obtain e where e: "e \<in> set es" "w = preview_width sh e" by (auto simp: ws_def)
    have "w \<le> of_int (max 1 (box_width e))" using preview_width_le [OF sh] e(2) by simp
    moreover have "real_of_int (max 1 (box_width e) + 2 * sp) \<le> of_int W" using narrow [OF e(1)] by (simp only: W_def sp_def of_int_le_iff)
    ultimately show ?thesis by simp
  qed
  have fill: "length rws = nat L \<and> (\<forall>(r', u')\<in>set (track W sp L ws 0 (of_int sp)). u' \<le> rws ! r') \<and>
      (\<forall>k<nat L. rws ! k = of_int sp \<or> (k, rws ! k) \<in> set (track W sp L ws 0 (of_int sp)))"
  proof -
    have start: "replicate (nat L) (real_of_int sp) ! 0 = of_int sp" using L by simp
    have "0 \<le> w" if "w \<in> set ws" for w using that preview_width_nonneg [OF sh] by (auto simp: ws_def)
    then have "length rws = nat L \<and> replicate (nat L) (of_int sp) ! 0 \<le> rws ! 0 \<and> (\<forall>k<0. rws ! k = replicate (nat L) (of_int sp) ! k) \<and>
        (\<forall>(r', u')\<in>set (track W sp L ws 0 (replicate (nat L) (of_int sp) ! 0)). u' \<le> rws ! r') \<and>
        (\<forall>k<nat L. rws ! k = replicate (nat L) (of_int sp) ! k \<or> (k, rws ! k) \<in> set (track W sp L ws 0 (replicate (nat L) (of_int sp) ! 0)))"
      unfolding rws_def using L by (intro fill_rows_track) (auto simp: sp_def intro: order_trans [OF _ spacing_ge(1)])
    then show ?thesis unfolding start by (auto simp del: replicate.simps)
  qed
  have sp: "1 \<le> sp" by (simp add: sp_def)
  have "es \<noteq> []" using q by (auto simp: place_windows_def Let_def)
  then obtain e where "e \<in> set es" by (cases es) auto
  from narrow [OF this] sp have spW: "real_of_int sp \<le> of_int W" unfolding of_int_le_iff W_def sp_def by linarith
  have wide: "rws ! k \<le> of_int W" if "k < nat L" for k
    using fill that count_rows_track [OF rows(2) _ w] rows(1) spW by fastforce
  have y: "y0 = of_int area_y + (of_int (box_height screen - area_y) - of_int (L - 1) * of_int (spacing_y screen) - of_int L * sh) / 2"
    by (simp add: y0_def)
  define Y where "Y k = y0 + real k * (sh + of_int (spacing_y screen))" for k
  have "q \<in> set (place_rows screen sh L rws es 0 (of_int sp) ((of_int (box_width screen) - rws ! 0) / 2 + of_int sp) (Y 0))"
    using q by (simp add: place_windows_def Let_def sh_def [symmetric] L_def [symmetric] W_def sp_def rws_def ws_def Y_def y0_def)
  then have "0 \<le> box_x q \<and> box_x q + box_width q \<le> box_width screen \<and>
    (\<exists>k<nat L. clround (Y k) \<le> box_y q \<and> box_y q + box_height q \<le> clround (Y k + sh + 1))"
    unfolding Y_def sp_def using L sh wide fill by (intro place_rows_inside) (auto simp: W_def sp_def ws_def)
  moreover have "area_y \<le> clround (Y k)" "clround (Y k + sh + 1) \<le> box_height screen" if "k < nat L" for k
    using rows_in_area [OF sh that room(1) y] clround_mono [of "of_int area_y" "Y k"]
      clround_mono [of "Y k + sh + 1" "of_int (box_height screen)"] by (simp_all add: Y_def)
  ultimately show ?thesis by (meson order_trans)
qed

section \<open>Properties\<close>

text \<open>C16: the loop that shrinks the row height until the windows fit ends for every screen, window area
  and list of windows, and the layout then has one placement for each window.\<close>

theorem multitasking_layout_terminates:
  "\<exists>placements. CalculateWindowLayout screen window_area_y entries = Some placements \<and> length placements = length entries"
  using layout_returns [of screen "box_height screen - window_area_y" entries "of_int (box_height screen) * kFirstWindowScale" 1]
  by (auto simp: CalculateWindowLayout_def place_windows_def Let_def length_place_rows)

text \<open>C15: no two previews of the multitasking view overlap: of any two windows the later one lies to the
  right of or below the earlier one, in whole pixels, on every screen at least 23 pixels high.\<close>

theorem multitasking_previews_apart:
  assumes "CalculateWindowLayout screen window_area_y entries = Some placements" "23 \<le> box_height screen"
    and "i < j" "j < length placements"
  shows "box_x (placements ! i) + box_width (placements ! i) \<le> box_x (placements ! j) \<or>
    box_y (placements ! i) + box_height (placements ! i) \<le> box_y (placements ! j)"
proof -
  have ne: "entries \<noteq> []" using assms by (auto simp: CalculateWindowLayout_def)
  then obtain r where r: "fit_rows screen (box_height screen - window_area_y) entries
      (of_int (box_height screen) * kFirstWindowScale) 1 = Some r" "placements = place_windows screen window_area_y entries r"
    using assms(1) by (auto simp: CalculateWindowLayout_def)
  have "0 \<le> rf_scale_height r" using fit_rows_height [OF r(1)] assms(2) by (simp add: kFirstWindowScale_def min_def split: if_splits)
  then have "sorted_wrt apart placements" by (simp add: r(2) place_windows_def Let_def place_rows_apart)
  then have "apart (placements ! i) (placements ! j)" using assms(3,4) by (rule sorted_wrt_nth_less)
  then show ?thesis by (simp add: apart_def)
qed


definition sample_screen :: wlr_box where
  "sample_screen = \<lparr>box_x = 0, box_y = 0, box_width = 1920, box_height = 1080\<rparr>"

definition sample_windows :: "wlr_box list" where
  "sample_windows = [\<lparr>box_x = 0, box_y = 0, box_width = 1100, box_height = 800\<rparr>,
     \<lparr>box_x = 40, box_y = 60, box_width = 1100, box_height = 800\<rparr>]"

lemma sample_layout:
  "map_option rf_scale_height (fit_rows sample_screen (1080 - 116) sample_windows (of_int 1080 * kFirstWindowScale) 1) = Some 675"
  "map_option (map (\<lambda>q. (box_x q, box_y q, box_width q, box_height q))) (CalculateWindowLayout sample_screen 116 sample_windows) =
     Some [(22, 261, 928, 675), (970, 261, 928, 675)]"
  by code_simp+

theorem multitasking_previews_apart_witness:
  "\<exists>placements. CalculateWindowLayout sample_screen 116 sample_windows = Some placements \<and> length placements = 2 \<and>
     (box_x (placements ! 0) + box_width (placements ! 0) \<le> box_x (placements ! 1) \<or>
      box_y (placements ! 0) + box_height (placements ! 0) \<le> box_y (placements ! 1))"
proof -
  obtain placements where p: "CalculateWindowLayout sample_screen 116 sample_windows = Some placements"
    "map (\<lambda>q. (box_x q, box_y q, box_width q, box_height q)) placements = [(22, 261, 928, 675), (970, 261, 928, 675)]"
    using sample_layout(2) by auto
  have "length placements = 2" using arg_cong [OF p(2), of length] by simp
  with multitasking_previews_apart [OF p(1), of 0 1] p(1) show ?thesis by (simp add: sample_screen_def)
qed


end
