(* ===== verification/App_Switcher_Laws.thy ===== *)
theory App_Switcher_Laws
  imports App_Switcher "HOL-Library.Multiset"
begin

text \<open>
  The switcher offers the windows in the order of their last activation, its selection is always one
  of them, and holding Alt while pressing Tab \<open>k\<close> times activates the window \<open>k\<close> places behind the
  focused one.
\<close>

section \<open>Entries in the order of the focus history\<close>

lemma index_of_le: "index_of P xs \<le> length xs"
  by (induction xs) auto

lemma index_of_less_iff: "index_of P xs < length xs \<longleftrightarrow> (\<exists>x\<in>set xs. P x)"
  by (induction xs) auto

lemma index_of_eq_iff: "index_of P xs = length xs \<longleftrightarrow> (\<forall>x\<in>set xs. \<not> P x)"
  by (induction xs) auto

lemma nth_index_of: "index_of P xs < length xs \<Longrightarrow> P (xs ! index_of P xs)"
  by (induction xs) (auto split: if_splits)

lemma index_of_nth:
  "distinct (map f xs) \<Longrightarrow> i < length xs \<Longrightarrow> index_of (\<lambda>x. f x = f (xs ! i)) xs = i"
proof (induction xs arbitrary: i)
  case (Cons x xs)
  show ?case
  proof (cases i)
    case (Suc j)
    then have "f x \<noteq> f (xs ! j)" using Cons.prems by (metis (no_types, lifting) distinct.simps(2) image_eqI length_Cons less_Suc_eq_le list.set_map list.simps(9) nat_neq_iff not_less_eq nth_mem)
    then show ?thesis using Cons Suc by simp
  qed simp
qed simp

lemma without_index: "i < length xs \<Longrightarrow> mset (take i xs @ drop (Suc i) xs) + {#xs ! i#} = mset xs"
  by (metis (no_types, lifting) add.commute add_mset_add_single append_Cons id_take_nth_drop mset.simps(2) mset_append union_mset_add_mset_right)

lemma mset_by_history: "mset (by_history history available) = mset available"
proof (induction history available rule: by_history.induct)
  case (2 surface history available)
  define i where "i = index_of (\<lambda>item. en_surface item = Some surface) available"
  show ?case
  proof (cases "i = length available")
    case False
    then have "i < length available" using index_of_le [of _ available] by (simp add: i_def le_neq_implies_less)
    then show ?thesis using 2 False without_index [of i available] by (simp add: i_def [symmetric] Let_def)
  qed (use 2 in \<open>simp add: i_def [symmetric] Let_def\<close>)
qed simp

lemma remove_index:
  assumes "distinct xs" "i < length xs"
  shows "take i xs @ drop (Suc i) xs = filter (\<lambda>y. y \<noteq> xs ! i) xs"
proof -
  have xs: "xs = take i xs @ xs ! i # drop (Suc i) xs" using assms(2) by (rule id_take_nth_drop)
  have "xs ! i \<notin> set (take i xs)" "xs ! i \<notin> set (drop (Suc i) xs)"
    using assms(1) by (subst (asm) xs, simp)+
  then have "filter (\<lambda>y. y \<noteq> xs ! i) (take i xs) = take i xs" "filter (\<lambda>y. y \<noteq> xs ! i) (drop (Suc i) xs) = drop (Suc i) xs"
    by (auto simp: filter_id_conv)
  then show ?thesis by (subst (4) xs) simp
qed

text \<open>With one entry per surface: the surfaces of the history first, in its order, then the others in
  the order in which they were offered.\<close>

lemma by_history_order:
  assumes "distinct (map en_surface available)" "distinct history"
  shows "map en_surface (by_history history available) =
    map Some (filter (\<lambda>x. Some x \<in> en_surface ` set available) history) @
    filter (\<lambda>y. y \<notin> Some ` set history) (map en_surface available)"
  using assms
proof (induction history available rule: by_history.induct)
  case (2 x history available)
  define i where "i = index_of (\<lambda>e :: Entry. en_surface e = Some x) available"
  show ?case
  proof (cases "i = length available")
    case True
    then have e: "\<forall>e\<in>set available. en_surface e \<noteq> Some x" by (simp add: i_def index_of_eq_iff)
    then have n: "Some x \<notin> en_surface ` set available" by (metis imageE)
    from e have "filter (\<lambda>y. y \<notin> Some ` set (x # history)) (map en_surface available) =
        filter (\<lambda>y. y \<notin> Some ` set history) (map en_surface available)"
      by (intro filter_cong) auto
    then show ?thesis using 2 True n by (simp add: i_def [symmetric] Let_def)
  next
    case False
    then have i: "i < length available" using index_of_le [of _ available] by (simp add: i_def le_neq_implies_less)
    define rest where "rest = take i available @ drop (Suc i) available"
    have x: "en_surface (available ! i) = Some x" using nth_index_of i by (fastforce simp: i_def)
    have "map en_surface rest = take i (map en_surface available) @ drop (Suc i) (map en_surface available)"
      by (simp add: rest_def take_map drop_map)
    also have "\<dots> = filter (\<lambda>y. y \<noteq> Some x) (map en_surface available)"
      using remove_index [OF "2.prems"(1), of i] i x by simp
    finally have rest: "map en_surface rest = filter (\<lambda>y. y \<noteq> Some x) (map en_surface available)" .
    have IH: "map en_surface (by_history history rest) =
        map Some (filter (\<lambda>x. Some x \<in> en_surface ` set rest) history) @ filter (\<lambda>y. y \<notin> Some ` set history) (map en_surface rest)"
      using "2.IH"(2) [OF i_def] False "2.prems" rest by (simp add: rest_def [symmetric])
    have "en_surface ` set rest = en_surface ` set available - {Some x}"
      using arg_cong [OF rest, of set] by auto
    then have "filter (\<lambda>x. Some x \<in> en_surface ` set rest) history = filter (\<lambda>x. Some x \<in> en_surface ` set available) history"
      using "2.prems"(2) by (intro filter_cong) auto
    moreover have "filter (\<lambda>y. y \<notin> Some ` set history) (map en_surface rest) = filter (\<lambda>y. y \<notin> Some ` set (x # history)) (map en_surface available)"
      unfolding rest filter_filter by (intro filter_cong) auto
    moreover have "Some x \<in> en_surface ` set available" using x i by (metis image_eqI nth_mem)
    ultimately show ?thesis using False IH x by (simp add: i_def [symmetric] rest_def [symmetric] Let_def)
  qed
qed (simp add: filter_id_conv)

section \<open>The selection\<close>

text \<open>While the switcher is active its selection is one of at least one entry, all of them with a
  surface; panel and blur are there only while it is active, and the history has no repetitions.\<close>

definition switcher_ok :: "AppSwitcher \<Rightarrow> bool" where
  "switcher_ok s = (distinct (as_focus_history s) \<and>
     (as_active s \<longrightarrow> 0 \<le> as_current_index s \<and> as_current_index s < int (length (as_entries s)) \<and>
        list_all (\<lambda>e. en_surface e \<noteq> None) (as_entries s)) \<and>
     (\<not> as_active s \<longrightarrow> as_panel s = None \<and> \<not> as_blur s) \<and>
     (\<forall>p. as_panel s = Some p \<longrightarrow> sp_entries p = as_entries s \<and> sp_index p = as_current_index s))"

datatype switcher_op =
    OpCycle wlr_box "Entry list" bool
  | OpKey "keysym option" bool
  | OpActivated "nat option"
  | OpUnavailable wlr_box "nat option"
  | OpCancel
  | OpSample bool

fun switcher_apply :: "(int \<Rightarrow> int \<Rightarrow> bool) \<Rightarrow> switcher_op \<Rightarrow> AppSwitcher \<Rightarrow> AppSwitcher" where
  "switcher_apply renders (OpCycle screen provided reverse) s = snd (switcher_Cycle renders screen provided reverse s)"
| "switcher_apply renders (OpKey symbol released) s = snd (switcher_HandleKey symbol released s)"
| "switcher_apply renders (OpActivated surface) s = switcher_SurfaceActivated surface s"
| "switcher_apply renders (OpUnavailable screen surface) s = switcher_SurfaceUnavailable renders screen surface s"
| "switcher_apply renders OpCancel s = switcher_Cancel s"
| "switcher_apply renders (OpSample registers) s = OnBlurNodeSample registers s"

lemma switcher_Finish_ok: "distinct (as_focus_history s) \<Longrightarrow> switcher_ok (switcher_Finish activate s)"
  by (auto simp: switcher_Finish_def hide_panel_def ClearRegisteredBlur_def switcher_ok_def Let_def split: option.splits)

lemma panel_shows: "sp_entries (panel_layout screen entries index) = entries" "sp_index (panel_layout screen entries index) = index"
  by (simp_all only: panel_layout_def Let_def switcher_panel.select_convs)

lemma switcher_UpdateView_ok:
  assumes "distinct (as_focus_history s)" "as_active s" "0 \<le> as_current_index s" "as_current_index s < int (length (as_entries s))"
    and "list_all (\<lambda>e. en_surface e \<noteq> None) (as_entries s)"
  shows "switcher_ok (switcher_UpdateView renders screen s)"
  using assms
  by (auto simp: switcher_UpdateView_def hide_panel_def EnsureBlurBuffer_def ClearRegisteredBlur_def switcher_ok_def panel_shows Let_def)

lemma by_history_surfaces:
  "list_all (\<lambda>e. en_surface e \<noteq> None) (by_history history (filter (\<lambda>e. en_surface e \<noteq> None) provided))"
  using arg_cong [OF mset_by_history [of history "filter (\<lambda>e. en_surface e \<noteq> None) provided"], of set_mset]
  by (simp add: list_all_iff)

lemma switcher_Cycle_ok:
  assumes "switcher_ok s"
  shows "switcher_ok (snd (switcher_Cycle renders screen provided reverse s))"
proof -
  define s1 where "s1 = RefreshEntries provided (if as_active s then selected_surface s else None) s"
  have d: "distinct (as_focus_history s1)" using assms by (simp add: s1_def RefreshEntries_def Let_def switcher_ok_def)
  show ?thesis
  proof (cases "length (as_entries s1) < 2")
    case True
    have "switcher_ok s1" if "\<not> as_active s1"
      using that assms by (simp add: s1_def RefreshEntries_def Let_def switcher_ok_def)
    then show ?thesis using True switcher_Finish_ok [OF d] by (simp add: switcher_Cycle_def s1_def [symmetric] Let_def)
  next
    case False
    have "list_all (\<lambda>e. en_surface e \<noteq> None) (as_entries s1)"
      unfolding s1_def RefreshEntries_def Let_def using by_history_surfaces by simp
    then have "switcher_ok (switcher_UpdateView renders screen (switcher_Step reverse (s1\<lparr>as_active := True\<rparr>)))"
      using False d by (intro switcher_UpdateView_ok) (auto simp: switcher_Step_def Let_def)
    then show ?thesis using False by (simp add: switcher_Cycle_def s1_def [symmetric] Let_def)
  qed
qed

lemma switcher_SurfaceUnavailable_ok:
  assumes "switcher_ok s"
  shows "switcher_ok (switcher_SurfaceUnavailable renders screen surface s)"
proof (cases surface)
  case (Some x)
  define s1 where "s1 = s\<lparr>as_focus_history := filter (\<lambda>y. y \<noteq> x) (as_focus_history s)\<rparr>"
  define entries where "entries = filter (\<lambda>e. en_surface e \<noteq> Some x) (as_entries s1)"
  define current where "current = index_of (\<lambda>e. en_surface e = selected_surface s1) entries"
  have ok: "switcher_ok s1" using assms by (auto simp: s1_def switcher_ok_def)
  show ?thesis
  proof (cases "as_active s1 \<and> entries \<noteq> []")
    case True
    define index where "index = (if current = length entries then min (as_current_index s1) (int (length entries) - 1) else int current)"
    have "0 \<le> index \<and> index < int (length entries)"
      using ok True index_of_le [of _ entries] by (auto simp: index_def current_def switcher_ok_def le_neq_implies_less)
    moreover have "list_all (\<lambda>e. en_surface e \<noteq> None) entries" using ok True by (auto simp: entries_def switcher_ok_def list_all_iff)
    ultimately have "switcher_ok (switcher_UpdateView renders screen (s1\<lparr>as_entries := entries, as_current_index := index\<rparr>))"
      using ok True by (intro switcher_UpdateView_ok) (auto simp: switcher_ok_def)
    then show ?thesis using True
      by (cases "current = length entries")
        (simp_all add: switcher_SurfaceUnavailable_def Some s1_def [symmetric] entries_def [symmetric] current_def [symmetric] index_def Let_def)
  next
    case False
    have "switcher_ok (switcher_Finish False (s1\<lparr>as_entries := entries\<rparr>))" using ok by (intro switcher_Finish_ok) (simp add: switcher_ok_def)
    then show ?thesis using False ok
      by (auto simp: switcher_SurfaceUnavailable_def Some s1_def [symmetric] entries_def [symmetric] Let_def)
  qed
qed (use assms in \<open>simp add: switcher_SurfaceUnavailable_def\<close>)

lemma switcher_SurfaceActivated_ok: "switcher_ok s \<Longrightarrow> switcher_ok (switcher_SurfaceActivated surface s)"
  unfolding switcher_ok_def switcher_SurfaceActivated_def by (cases surface) simp_all

lemma switcher_HandleKey_ok: "switcher_ok s \<Longrightarrow> switcher_ok (snd (switcher_HandleKey symbol released s))"
proof -
  assume ok: "switcher_ok s"
  then have "switcher_ok (switcher_Finish b s)" for b by (intro switcher_Finish_ok) (simp add: switcher_ok_def)
  with ok show ?thesis by (simp add: switcher_HandleKey_def split: option.splits)
qed

lemma switcher_apply_ok:
  assumes "switcher_ok s"
  shows "switcher_ok (switcher_apply renders e s)"
proof (cases e)
  case OpCancel
  have "switcher_ok (switcher_Finish b s)" for b using assms by (intro switcher_Finish_ok) (simp add: switcher_ok_def)
  then show ?thesis using assms by (simp add: OpCancel switcher_Cancel_def)
next
  case (OpSample registers)
  then show ?thesis using assms by (simp add: OnBlurNodeSample_def switcher_ok_def)
qed (use assms in \<open>simp_all add: switcher_Cycle_ok switcher_HandleKey_ok switcher_SurfaceActivated_ok switcher_SurfaceUnavailable_ok\<close>)

lemma fold_switcher_ok: "switcher_ok s \<Longrightarrow> switcher_ok (fold (switcher_apply renders) es s)"
  by (induction es arbitrary: s) (simp_all add: switcher_apply_ok)

lemma switcher_ok_new: "switcher_ok new_AppSwitcher"
  by (simp add: switcher_ok_def new_AppSwitcher_def)

section \<open>Cycling\<close>

definition offered :: "Entry list \<Rightarrow> Entry list" where
  "offered provided = filter (\<lambda>e. en_surface e \<noteq> None) provided"

text \<open>The surfaces on offer: those of the focus history in its order, then the others as they come.\<close>

definition mru_order :: "nat list \<Rightarrow> Entry list \<Rightarrow> nat list" where
  "mru_order history available = filter (\<lambda>x. Some x \<in> en_surface ` set available) history @
     map (\<lambda>e. the (en_surface e)) (filter (\<lambda>e. en_surface e \<notin> Some ` set history) available)"

lemma mru_order_entries:
  assumes "distinct (map en_surface (offered provided))" "distinct history"
  shows "map en_surface (by_history history (offered provided)) = map Some (mru_order history (offered provided))"
proof -
  have "map Some (map (\<lambda>e. the (en_surface e)) (filter P (offered provided))) = map en_surface (filter P (offered provided))" for P
    by (auto simp: offered_def)
  then show ?thesis using by_history_order [OF assms] by (simp add: mru_order_def filter_map comp_def)
qed

lemma length_by_history [simp]: "length (by_history history available) = length available"
  using mset_by_history by (rule mset_eq_length)

lemma distinct_by_history:
  "distinct (map en_surface available) \<Longrightarrow> distinct (map en_surface (by_history history available))"
  by (metis mset_by_history mset_eq_imp_distinct_iff mset_map)

text \<open>The state in the middle of a cycle through the entries \<open>es\<close>.\<close>

definition cycling :: "nat list \<Rightarrow> nat list \<Rightarrow> Entry list \<Rightarrow> nat \<Rightarrow> AppSwitcher \<Rightarrow> bool" where
  "cycling history activated es i s = (as_active s \<and> as_focus_history s = history \<and> as_activated s = activated \<and>
     as_entries s = es \<and> as_current_index s = int i \<and> i < length es)"

lemma switcher_UpdateView_keeps [simp]:
  "as_active (switcher_UpdateView renders screen s) = as_active s"
  "as_focus_history (switcher_UpdateView renders screen s) = as_focus_history s"
  "as_activated (switcher_UpdateView renders screen s) = as_activated s"
  "as_entries (switcher_UpdateView renders screen s) = as_entries s"
  "as_current_index (switcher_UpdateView renders screen s) = as_current_index s"
  by (simp_all add: switcher_UpdateView_def hide_panel_def EnsureBlurBuffer_def ClearRegisteredBlur_def Let_def)

lemma switcher_Cycle_from:
  fixes s :: AppSwitcher and provided :: "Entry list"
  defines "s1 \<equiv> RefreshEntries provided (if as_active s then selected_surface s else None) s"
  assumes "as_entries s1 = es" "as_current_index s1 = int i" "i < length es" "2 \<le> length es"
    and "as_focus_history s1 = history" "as_activated s1 = activated"
  shows "cycling history activated es (Suc i mod length es) (snd (switcher_Cycle renders screen provided False s))"
proof -
  have "(int i + 1) mod int (length es) = int (Suc i mod length es)" by (simp add: zmod_int add.commute)
  moreover have "Suc i mod length es < length es" by (rule mod_less_divisor) (use assms(5) in linarith)
  moreover have "es \<noteq> []" using assms(5) by auto
  ultimately show ?thesis using assms
    by (simp add: switcher_Cycle_def s1_def [symmetric] Let_def cycling_def switcher_Step_def not_less [symmetric])
qed

lemma RefreshEntries_offered:
  "RefreshEntries provided preferred s = s\<lparr>as_entries := by_history (as_focus_history s) (offered provided),
     as_current_index := (let es = by_history (as_focus_history s) (offered provided); i = index_of (\<lambda>e. en_surface e = preferred) es
       in if i < length es then int i else if index_of en_active es = length es then 0 else int (index_of en_active es))\<rparr>"
  unfolding RefreshEntries_def Let_def offered_def by (rule refl)

lemma cycling_step:
  assumes "cycling history activated es i s" "es = by_history history (offered provided)"
    and "distinct (map en_surface (offered provided))" "2 \<le> length es"
  shows "cycling history activated es (Suc i mod length es) (snd (switcher_Cycle renders screen provided False s))"
proof -
  have i: "i < length es" "as_current_index s = int i" "as_entries s = es" "as_active s" using assms(1) by (simp_all add: cycling_def)
  have sel: "selected_surface s = en_surface (es ! i)" using i by (simp add: selected_surface_def)
  have ix: "index_of (\<lambda>e. en_surface e = en_surface (es ! i)) es = i"
    using i(1) distinct_by_history [OF assms(3), of history] assms(2) by (intro index_of_nth) auto
  show ?thesis
    by (rule switcher_Cycle_from [where s = s and i = i and provided = provided])
      (use assms i sel ix in \<open>auto simp: RefreshEntries_offered cycling_def\<close>)
qed

lemma cycling_first:
  assumes "\<not> as_active s" "es = by_history (as_focus_history s) (offered provided)" "2 \<le> length es" "en_active (es ! 0)"
  shows "cycling (as_focus_history s) (as_activated s) es (1 mod length es) (snd (switcher_Cycle renders screen provided False s))"
proof -
  have "list_all (\<lambda>e. en_surface e \<noteq> None) es"
    using by_history_surfaces [of "as_focus_history s" provided] by (simp add: assms(2) offered_def)
  then have none: "index_of (\<lambda>e. en_surface e = None) es = length es" by (simp add: index_of_eq_iff list_all_iff)
  have first: "index_of en_active es = 0" using assms(3,4) by (cases es) simp_all
  show ?thesis unfolding One_nat_def
    by (rule switcher_Cycle_from [where s = s and i = 0 and provided = provided])
      (use assms none first in \<open>auto simp: RefreshEntries_offered\<close>)
qed

lemma cycling_run:
  assumes "\<not> as_active s" "es = by_history (as_focus_history s) (offered provided)" "2 \<le> length es" "en_active (es ! 0)"
    and "distinct (map en_surface (offered provided))"
  shows "cycling (as_focus_history s) (as_activated s) es (Suc k mod length es)
    (((\<lambda>s. snd (switcher_Cycle renders screen provided False s)) ^^ Suc k) s)"
proof (induction k)
  case 0
  then show ?case using cycling_first [OF assms(1-4)] by simp
next
  case (Suc k)
  from cycling_step [OF Suc.IH assms(2,5,3)] show ?case by (simp add: mod_Suc_eq)
qed

section \<open>The panel fits\<close>

lemma cdiv_up:
  assumes "0 < b" "0 < a"
  shows "a \<le> cdiv (a + b - 1) b * b \<and> (cdiv (a + b - 1) b - 1) * b < a \<and> 1 \<le> cdiv (a + b - 1) b"
proof -
  define q where "q = (a + b - 1) div b"
  have m: "q * b + (a + b - 1) mod b = a + b - 1" by (simp add: q_def)
  have r: "0 \<le> (a + b - 1) mod b" "(a + b - 1) mod b < b" using assms(1) by simp_all
  have "0 < q" using assms by (simp add: q_def pos_imp_zdiv_pos_iff)
  moreover have "cdiv (a + b - 1) b = q" using assms by (simp add: cdiv_def q_def)
  ultimately show ?thesis using m r by (simp add: algebra_simps)
qed

lemma two_rows:
  fixes amount columns :: int
  assumes "1 \<le> amount" "1 \<le> columns" "amount \<le> columns * 2"
  shows "cdiv (amount + columns - 1) columns \<le> 2"
proof -
  have "(cdiv (amount + columns - 1) columns - 1) * columns < 2 * columns"
    using cdiv_up [of columns amount] assms by linarith
  then have "cdiv (amount + columns - 1) columns - 1 < 2" using assms(2) by (subst (asm) mult_less_cancel_right) auto
  then show ?thesis by simp
qed

lemma panel_columns_two: "1 \<le> amount \<Longrightarrow> 1 \<le> panel_columns cw amount \<and> amount \<le> panel_columns cw amount * 2"
  using cdiv_up [of 2 amount] by (auto simp: panel_columns_def Let_def min_def max_def)

lemma centred_inside:
  assumes "0 < W" "0 < v"
  shows "x \<le> x + cdiv (W - min W v) 2 \<and> x + cdiv (W - min W v) 2 + min W v \<le> x + W \<and> 0 < min W v"
  using cdiv_half_bounds [of "W - min W v"] assms by auto

section \<open>Properties\<close>

text \<open>C18: in every run of the switcher its selection is one of the entries, all of which have a surface,
  while it is active; panel and blur are there only then, the panel shows the current entries and
  selection, and the focus history has no repetitions.\<close>

theorem switcher_selection_valid:
  fixes es :: "switcher_op list" and renders :: "int \<Rightarrow> int \<Rightarrow> bool"
  defines "s \<equiv> fold (switcher_apply renders) es new_AppSwitcher"
  shows "distinct (as_focus_history s) \<and>
     (as_active s \<longrightarrow> 0 \<le> as_current_index s \<and> as_current_index s < int (length (as_entries s)) \<and>
        list_all (\<lambda>e. en_surface e \<noteq> None) (as_entries s)) \<and>
     (\<not> as_active s \<longrightarrow> as_panel s = None \<and> \<not> as_blur s) \<and>
     (\<forall>p. as_panel s = Some p \<longrightarrow> sp_entries p = as_entries s \<and> sp_index p = as_current_index s)"
  using fold_switcher_ok [OF switcher_ok_new, of renders es] unfolding s_def switcher_ok_def .

text \<open>C14: holding Alt, pressing Tab \<open>k\<close> times and releasing Alt activates exactly one window: the one
  \<open>k\<close> places behind the focused one in the order of last use, counted around the list of the windows
  on offer.  The focused window is on offer and the most recent in the focus history, and the windows have
  different surfaces.\<close>

theorem alt_tab_activates:
  fixes renders :: "int \<Rightarrow> int \<Rightarrow> bool" and screen :: wlr_box
  assumes "\<not> as_active s" "as_focus_history s = x # history" "distinct (x # history)"
    and "distinct (map en_surface (offered provided))" "2 \<le> length (offered provided)" "0 < k"
    and "e \<in> set provided" "en_surface e = Some x" "en_active e"
  defines "s' \<equiv> ((\<lambda>s. snd (switcher_Cycle renders screen provided False s)) ^^ k) s"
  shows "as_activated (snd (switcher_HandleKey (Some XKB_KEY_Alt_L) True s')) =
    as_activated s @ [mru_order (as_focus_history s) (offered provided) ! (k mod length (offered provided))]"
proof -
  define es where "es = by_history (as_focus_history s) (offered provided)"
  define order where "order = mru_order (as_focus_history s) (offered provided)"
  have len: "length es = length (offered provided)" by (simp add: es_def)
  have order: "map en_surface es = map Some order"
    unfolding es_def order_def by (rule mru_order_entries) (use assms in simp_all)
  have e: "e \<in> set (offered provided)" using assms(7,8) by (simp add: offered_def)
  have "order ! 0 = x" using e assms(2,8) by (force simp: order_def mru_order_def)
  moreover have "0 < length es" using assms(5) len by linarith
  ultimately have first: "en_surface (es ! 0) = Some x"
    using order by (metis length_map nth_map)
  have "set es = set (offered provided)" using mset_by_history by (metis es_def mset_eq_setD)
  then have "es ! 0 = e"
    using first e assms(4,8) \<open>0 < length es\<close> by (metis (no_types, lifting) distinct_map inj_onD nth_mem)
  then have act: "en_active (es ! 0)" and two: "2 \<le> length es" using assms(5,9) len by simp_all
  have k: "Suc (k - 1) = k" using assms(6) by simp
  from cycling_run [OF assms(1) es_def two act assms(4), of "k - 1" renders screen]
  have "cycling (as_focus_history s) (as_activated s) es (k mod length es) s'" unfolding k s'_def .
  moreover have "en_surface (es ! (k mod length es)) = Some (order ! (k mod length es))"
    using order \<open>0 < length es\<close> by (metis length_map mod_less_divisor nth_map)
  ultimately show ?thesis
    by (simp add: switcher_HandleKey_def switcher_Finish_def selected_surface_def cycling_def hide_panel_def ClearRegisteredBlur_def
        XKB_KEY_Tab_def XKB_KEY_ISO_Left_Tab_def
        len order_def [symmetric] Let_def)
qed

text \<open>on a screen that is not empty the panel of the switcher lies on the screen and has at most two
  rows, with a cell for every entry.\<close>

lemma switcher_panel_fits:
  fixes index :: int
  assumes "0 < box_width screen" "0 < box_height screen" "entries \<noteq> []"
  defines "p \<equiv> panel_layout screen entries index"
  shows "box_x screen \<le> box_x (sp_box p) \<and> box_x (sp_box p) + box_width (sp_box p) \<le> box_x screen + box_width screen \<and>
    box_y screen \<le> box_y (sp_box p) \<and> box_y (sp_box p) + box_height (sp_box p) \<le> box_y screen + box_height screen \<and>
    1 \<le> sp_columns p \<and> sp_rows p \<le> 2 \<and> int (length entries) \<le> sp_columns p * sp_rows p \<and> 48 \<le> sp_cell p"
proof -
  define cw where "cw = max 1 (max kMinimumItemBox (box_width screen - 2 * 70) - 2 * kBoxMargin)"
  define amount where "amount = int (length entries)"
  define columns where "columns = panel_columns cw amount"
  define cell where "cell = (if columns * (kMinimumItemBox + 20) \<le> cw then kMinimumItemBox + 20 else max 48 (cdiv cw columns))"
  define rows where "rows = cdiv (amount + columns - 1) columns"
  have p: "p = \<lparr>sp_box = \<lparr>box_x = box_x screen + cdiv (box_width screen - min (box_width screen) (columns * cell + 2 * kBoxMargin)) 2,
        box_y = box_y screen + cdiv (box_height screen - min (box_height screen) (rows * cell + 2 * kBoxMargin)) 2,
        box_width = min (box_width screen) (columns * cell + 2 * kBoxMargin), box_height = min (box_height screen) (rows * cell + 2 * kBoxMargin)\<rparr>,
      sp_cell = cell, sp_columns = columns, sp_rows = rows, sp_entries = entries, sp_index = index\<rparr>"
    unfolding p_def panel_layout_def Let_def rows_def cell_def columns_def amount_def cw_def by (rule refl)
  have amount: "1 \<le> amount" using assms(3) by (simp add: amount_def Suc_leI)
  have columns: "1 \<le> columns" "amount \<le> columns * 2" using panel_columns_two [OF amount] by (auto simp: columns_def)
  have rows: "1 \<le> rows" "rows \<le> 2" "amount \<le> columns * rows"
    using cdiv_up [of columns amount] two_rows [OF amount columns] columns amount by (auto simp: rows_def mult.commute)
  have cell: "48 \<le> cell" by (simp add: cell_def)
  have "0 < columns * cell + 2 * kBoxMargin" "0 < rows * cell + 2 * kBoxMargin"
    using columns(1) rows(1) cell by (auto intro!: add_pos_pos mult_pos_pos)
  from centred_inside [OF assms(1) this(1), of "box_x screen"] centred_inside [OF assms(2) this(2), of "box_y screen"]
  show ?thesis using columns(1) rows cell unfolding p amount_def by simp
qed

definition sample_offer :: "Entry list" where
  "sample_offer = map (\<lambda>x. \<lparr>en_surface = Some x, en_active = (x = 6), en_minimized = False\<rparr>) [4, 5, 6, 7]"

definition sample_display :: wlr_box where
  "sample_display = \<lparr>box_x = 0, box_y = 0, box_width = 800, box_height = 600\<rparr>"

definition sample_switcher :: AppSwitcher where
  "sample_switcher = fold (switcher_apply (\<lambda>_ _. True)) [OpActivated (Some 5), OpActivated (Some 4), OpActivated (Some 6)] new_AppSwitcher"

theorem switcher_selection_valid_witness:
  "as_active (fold (switcher_apply (\<lambda>_ _. True)) [OpActivated (Some 6), OpCycle sample_display sample_offer False] new_AppSwitcher) \<and>
   0 \<le> as_current_index (fold (switcher_apply (\<lambda>_ _. True)) [OpActivated (Some 6), OpCycle sample_display sample_offer False] new_AppSwitcher)"
proof
  show a: "as_active (fold (switcher_apply (\<lambda>_ _. True)) [OpActivated (Some 6), OpCycle sample_display sample_offer False] new_AppSwitcher)"
    by code_simp
  show "0 \<le> as_current_index (fold (switcher_apply (\<lambda>_ _. True)) [OpActivated (Some 6), OpCycle sample_display sample_offer False] new_AppSwitcher)"
    using switcher_selection_valid [of "\<lambda>_ _. True" "[OpActivated (Some 6), OpCycle sample_display sample_offer False]"] a by blast
qed

text \<open>Focused is 6, then come 4 and 5 and last 7, which was never focused: Tab twice activates 5.\<close>

lemma sample_switcher_state:
  "as_focus_history sample_switcher = [6, 4, 5]" "as_active sample_switcher = False" "as_activated sample_switcher = []"
  "mru_order [6, 4, 5] (offered sample_offer) = [6, 4, 5, 7]" "map en_surface (offered sample_offer) = [Some 4, Some 5, Some 6, Some 7]"
  by code_simp+

theorem alt_tab_activates_witness:
  "as_activated (snd (switcher_HandleKey (Some XKB_KEY_Alt_L) True
     (((\<lambda>s. snd (switcher_Cycle (\<lambda>_ _. True) sample_display sample_offer False s)) ^^ 2) sample_switcher))) = [5]"
proof -
  have "length (offered sample_offer) = 4" using arg_cong [OF sample_switcher_state(5), of length] by simp
  moreover have "\<lparr>en_surface = Some 6, en_active = True, en_minimized = False\<rparr> \<in> set sample_offer"
    by (simp add: sample_offer_def)
  ultimately show ?thesis
    using alt_tab_activates [of sample_switcher 6 "[4, 5]" sample_offer 2
        "\<lparr>en_surface = Some 6, en_active = True, en_minimized = False\<rparr>" "\<lambda>_ _. True" sample_display]
    by (simp add: sample_switcher_state)
qed

end
