(* ===== verification/Spec2Isabelle.thy ===== *)
theory Spec2Isabelle
  imports Default_Bindings Geometry_Laws Keyboard_Input Outputs Xdg_Decoration Desktop_Invariant
    Divergences Restore_Laws Input_Laws Output_Laws Input_Method_Safety Shake_Cursor_Laws
    Multitasking_Laws Multitasking_Layout_Laws App_Switcher_Laws
begin

text \<open>Skeleton.\<close>

end
